(* ===== verification/Prelude.thy ===== *)
theory Prelude
  imports Main "HOL-Library.Finite_Map" "HOL-Library.Char_ord" "HOL-Library.List_Lexorder"
begin

text \<open>
  Shared vocabulary of the development: the sentinel errors of
  \<^verbatim>\<open>src/internal/core/errors.go\<close>, Go maps as finite maps, loops over slices and maps
  with an early return, and the lemmas about them that the component proofs use.

  Conventions.  A Go function that returns only an \<^verbatim>\<open>error\<close> is a function into
  \<open>error option\<close> (\<open>None\<close> is \<^verbatim>\<open>nil\<close>); one that returns a value and an error is a function
  into \<open>error + 'a\<close> (\<open>Inl\<close> is the error).  \<^verbatim>\<open>fmt.Errorf\<close> with \<^verbatim>\<open>%w\<close> is identified with
  the sentinel it wraps: message texts are not modelled.  A \<^verbatim>\<open>map[string]T\<close> is a
  finite map \<open>(string, 'v) fmap\<close>; Go leaves the iteration order of a map open, and a
  loop that carries state over a map is modelled on the key-sorted entry list.
\<close>

named_theorems go_simps "evaluation rules for the Go library functions"
named_theorems guards "when a chain of early returns succeeds"

datatype error =
    ErrNotFound | ErrAlreadyExists | ErrInvalidArgument | ErrUnsupported | ErrUnsafeShrink
  | ErrRuntimeUnavailable | ErrStorageUnavailable | ErrStorageBusy | ErrWorkspaceBusy
  | ErrPolicyDenied | ErrApprovalDenied | ErrAuditIncomplete | ErrIncompatibleState
  | ErrRecoveryRequired | ErrCapabilityStale | ErrSourceGenerationStale
  | ContextCanceled | ContextDeadlineExceeded \<comment> \<open>of Go's \<^verbatim>\<open>context\<close> package\<close>
  | ErrOther string

type_synonym 'v gomap = "(string, 'v) fmap"

subsection \<open>Early returns\<close>

text \<open>
  A chain of checks returns a value exactly when every check passes.  With these rules a
  successful call simplifies to the conjunction of its guards, without a case split per
  check.
\<close>

lemma guard_if [guards]: "(if b then Inl e else x) = Inr y \<longleftrightarrow> \<not> b \<and> x = Inr y"
  by simp

lemma guard_lookup [guards]:
  "(case v of None \<Rightarrow> Inl e | Some x \<Rightarrow> f x) = Inr y \<longleftrightarrow> (\<exists>x. v = Some x \<and> f x = Inr y)"
  by (cases v) simp_all

lemma guard_error [guards]:
  "(case v of None \<Rightarrow> x | Some e \<Rightarrow> Inl (g e)) = Inr y \<longleftrightarrow> v = None \<and> x = Inr y"
  by (cases v) simp_all

lemma guard_result [guards]:
  "(case s of Inl e \<Rightarrow> Inl (g e) | Inr x \<Rightarrow> f x) = Inr y \<longleftrightarrow> (\<exists>x. s = Inr x \<and> f x = Inr y)"
  by (cases s) simp_all

lemma guard_none_if [guards]: "(if b then Some e else x) = None \<longleftrightarrow> \<not> b \<and> x = None"
  by simp

lemma guard_none_error [guards]:
  "(case v of None \<Rightarrow> x | Some e \<Rightarrow> Some (g e)) = None \<longleftrightarrow> v = None \<and> x = None"
  by (cases v) simp_all

lemma guard_none_result [guards]:
  "(case s of Inl e \<Rightarrow> Some (g e) | Inr x \<Rightarrow> f x) = None \<longleftrightarrow> (\<exists>x. s = Inr x \<and> f x = None)"
  by (cases s) simp_all

subsection \<open>Loops with an early return\<close>

fun forE :: "('s \<Rightarrow> 'a \<Rightarrow> error + 's) \<Rightarrow> 's \<Rightarrow> 'a list \<Rightarrow> error + 's" where
  "forE f s [] = Inr s"
| "forE f s (x # xs) = (case f s x of Inl e \<Rightarrow> Inl e | Inr s' \<Rightarrow> forE f s' xs)"

lemma forE_append:
  "forE f s (xs @ ys) = (case forE f s xs of Inl e \<Rightarrow> Inl e | Inr s' \<Rightarrow> forE f s' ys)"
  by (induction xs arbitrary: s) (auto split: sum.splits)

text \<open>An invariant of the body is an invariant of the loop.\<close>

lemma forE_invariant:
  assumes "forE f s xs = Inr t" and "I s"
    and "\<And>s x s'. x \<in> set xs \<Longrightarrow> I s \<Longrightarrow> f s x = Inr s' \<Longrightarrow> I s'"
  shows "I t"
  using assms
proof (induction xs arbitrary: s)
  case (Cons x xs)
  then obtain s' where "f s x = Inr s'" and rest: "forE f s' xs = Inr t"
    by (auto split: sum.splits)
  with Cons.prems(2,3) have "I s'" by (meson list.set_intros(1))
  with rest Cons.IH Cons.prems(3) show ?case by (meson list.set_intros(2))
qed simp

text \<open>
  The duplicate check that several validators share: a loop that adds the keys of its
  items to a set and fails on one it has seen succeeds exactly when the items pass
  their own check and the keys are distinct.
\<close>

lemma forE_seen_iff:
  "(\<exists>t. forE (\<lambda>seen x. if P x \<and> k x \<notin> seen then Inr (insert (k x) seen) else Inl e) S xs = Inr t)
   \<longleftrightarrow> (\<forall>x\<in>set xs. P x \<and> k x \<notin> S) \<and> distinct (map k xs)"
proof (induction xs arbitrary: S)
  case (Cons x xs)
  show ?case
    by (cases "P x \<and> k x \<notin> S") (use Cons.IH [of "insert (k x) S"] in \<open>auto simp: image_iff\<close>)
qed simp

subsection \<open>Go maps\<close>

definition fmex :: "('k \<Rightarrow> 'v \<Rightarrow> bool) \<Rightarrow> ('k, 'v) fmap \<Rightarrow> bool" where
  "fmex P m \<longleftrightarrow> \<not> fmpred (\<lambda>k v. \<not> P k v) m"

abbreviation present :: "('k, 'v) fmap \<Rightarrow> 'k \<Rightarrow> bool" where
  "present m k \<equiv> fmlookup m k \<noteq> None"

definition getd :: "'v \<Rightarrow> ('k, 'v) fmap \<Rightarrow> 'k \<Rightarrow> 'v" where
  "getd z m k = (case fmlookup m k of None \<Rightarrow> z | Some v \<Rightarrow> v)"

lemma fmex_iff: "fmex P m \<longleftrightarrow> (\<exists>k v. fmlookup m k = Some v \<and> P k v)"
  by (auto simp: fmex_def fmpred_iff)

lemma fmexI: "fmlookup m k = Some v \<Longrightarrow> P k v \<Longrightarrow> fmex P m"
  by (auto simp: fmex_iff)

lemma fmex_notD: "\<not> fmex P m \<Longrightarrow> fmlookup m k = Some v \<Longrightarrow> \<not> P k v"
  by (auto simp: fmex_iff)

lemma getd_Some [simp]: "fmlookup m k = Some v \<Longrightarrow> getd z m k = v"
  by (simp add: getd_def)

lemma getd_None [simp]: "fmlookup m k = None \<Longrightarrow> getd z m k = z"
  by (simp add: getd_def)

lemma fmpred_fmupd_iff: "fmpred P (fmupd k v m) \<longleftrightarrow> P k v \<and> fmpred P (fmdrop k m)"
  by (auto simp: fmpred_iff split: if_splits)

lemma fmex_fmupd_iff: "fmex P (fmupd k v m) \<longleftrightarrow> P k v \<or> fmex P (fmdrop k m)"
  by (auto simp: fmex_iff split: if_splits)

lemma fmex_empty [simp]: "\<not> fmex P fmempty"
  by (simp add: fmex_iff)

lemmas fmap_eval = fmpred_fmupd_iff fmex_fmupd_iff fmdrop_fmupd getd_def

lemma sorted_list_of_fmap_set: "(k, v) \<in> set (sorted_list_of_fmap m) \<longleftrightarrow> fmlookup m k = Some v"
  by (auto simp: sorted_list_of_fmap_def fmlookup_dom_iff)

lemma sorted_list_of_fmap_keys: "map fst (sorted_list_of_fmap m) = sorted_list_of_fset (fmdom m)"
  by (simp add: sorted_list_of_fmap_def comp_def)

lemma distinct_sorted_list_of_fmap: "distinct (map fst (sorted_list_of_fmap m))"
  by (simp add: sorted_list_of_fmap_keys sorted_list_of_fset.rep_eq)

lemma sorted_list_of_fmap_empty [simp]: "sorted_list_of_fmap fmempty = []"
  by (simp add: sorted_list_of_fmap_def sorted_list_of_fset.rep_eq)

lemma sorted_list_of_fmap_single [simp]: "sorted_list_of_fmap (fmupd k v fmempty) = [(k, v)]"
  by (simp add: sorted_list_of_fmap_def sorted_list_of_fset.rep_eq)

end
