(* ===== verification/GoText.thy ===== *)
theory GoText
  imports Prelude
begin

text \<open>
  The parts of Go's \<^verbatim>\<open>unicode/utf8\<close>, \<^verbatim>\<open>unicode\<close>, \<^verbatim>\<open>strings\<close>, \<^verbatim>\<open>path\<close>, \<^verbatim>\<open>regexp\<close> and
  \<^verbatim>\<open>encoding/hex\<close> packages that the modelled code calls.  A Go string is a sequence of
  bytes, here a \<open>char list\<close>; \<open>length\<close> is Go's \<^verbatim>\<open>len\<close>.  Anchored regular expressions of
  the sources are bool-valued functions built from character classes.
\<close>

subsection \<open>UTF-8\<close>

definition cont :: "nat \<Rightarrow> bool" where
  "cont b \<longleftrightarrow> 128 \<le> b \<and> b \<le> 191"

text \<open>
  The accepted multi-byte sequences (Go's \<^verbatim>\<open>first\<close> and \<^verbatim>\<open>acceptRanges\<close> tables): the rune
  and the number of continuation bytes.
\<close>

fun utf8_tail :: "nat \<Rightarrow> nat list \<Rightarrow> (nat \<times> nat) option" where
  "utf8_tail b0 bs =
     (if 194 \<le> b0 \<and> b0 \<le> 223 then
        (case bs of b1 # _ \<Rightarrow>
           if cont b1 then Some ((b0 - 192) * 64 + (b1 - 128), 1) else None
         | _ \<Rightarrow> None)
      else if 224 \<le> b0 \<and> b0 \<le> 239 then
        (case bs of b1 # b2 # _ \<Rightarrow>
           if cont b1 \<and> cont b2 \<and> (b0 = 224 \<longrightarrow> 160 \<le> b1) \<and> (b0 = 237 \<longrightarrow> b1 \<le> 159)
           then Some ((b0 - 224) * 4096 + (b1 - 128) * 64 + (b2 - 128), 2) else None
         | _ \<Rightarrow> None)
      else if 240 \<le> b0 \<and> b0 \<le> 244 then
        (case bs of b1 # b2 # b3 # _ \<Rightarrow>
           if cont b1 \<and> cont b2 \<and> cont b3 \<and> (b0 = 240 \<longrightarrow> 144 \<le> b1) \<and> (b0 = 244 \<longrightarrow> b1 \<le> 143)
           then Some ((b0 - 240) * 262144 + (b1 - 128) * 4096 + (b2 - 128) * 64 + (b3 - 128), 3)
           else None
         | _ \<Rightarrow> None)
      else None)"

declare utf8_tail.simps [simp del]

text \<open>
  A string as its encoded runes: \<open>(Some r, bytes)\<close> for a valid encoding of \<open>r\<close>,
  \<open>(None, [b])\<close> for a byte that starts no valid encoding.
\<close>

fun utf8_segments :: "string \<Rightarrow> (nat option \<times> string) list" where
  "utf8_segments [] = []"
| "utf8_segments (c # cs) =
     (if of_char c < (128 :: nat) then (Some (of_char c), [c]) # utf8_segments cs
      else case utf8_tail (of_char c) (map of_char cs) of
             None \<Rightarrow> (None, [c]) # utf8_segments cs
           | Some (r, n) \<Rightarrow> (Some r, c # take n cs) # utf8_segments (drop n cs))"

definition ValidString :: "string \<Rightarrow> bool" where
  "ValidString s \<longleftrightarrow> list_all (\<lambda>(r, _). r \<noteq> None) (utf8_segments s)"

text \<open>The runes \<^verbatim>\<open>for _, r := range s\<close> visits: U+FFFD for an invalid byte.\<close>

definition runes :: "string \<Rightarrow> nat list" where
  "runes s = map (\<lambda>(r, _). case r of None \<Rightarrow> 65533 | Some r \<Rightarrow> r) (utf8_segments s)"

definition IsControl :: "nat \<Rightarrow> bool" where
  "IsControl r \<longleftrightarrow> r \<le> 31 \<or> (127 \<le> r \<and> r \<le> 159)"

definition IsSpace :: "nat \<Rightarrow> bool" where
  "IsSpace r \<longleftrightarrow> (9 \<le> r \<and> r \<le> 13) \<or> r = 32 \<or> r = 133 \<or> r = 160 \<or> r = 5760
     \<or> (8192 \<le> r \<and> r \<le> 8202) \<or> r = 8232 \<or> r = 8233 \<or> r = 8239 \<or> r = 8287 \<or> r = 12288"

definition has_control :: "string \<Rightarrow> bool" where
  "has_control s \<longleftrightarrow> list_ex IsControl (runes s)"

definition space_segment :: "nat option \<times> string \<Rightarrow> bool" where
  "space_segment p = (case fst p of None \<Rightarrow> False | Some r \<Rightarrow> IsSpace r)"

definition TrimSpace :: "string \<Rightarrow> string" where
  "TrimSpace s =
     concat (map snd (rev (dropWhile space_segment (rev (dropWhile space_segment (utf8_segments s))))))"

lemma utf8_segments_concat: "concat (map snd (utf8_segments s)) = s"
  by (induction s rule: utf8_segments.induct) (auto split: option.splits)

definition ascii_char :: "char \<Rightarrow> bool" where
  "ascii_char c \<longleftrightarrow> of_char c < (128 :: nat)"

lemma utf8_segments_ascii:
  "list_all ascii_char s \<Longrightarrow> utf8_segments s = map (\<lambda>c. (Some (of_char c), [c])) s"
  by (induction s) (auto simp: ascii_char_def)

lemma ValidString_ascii: "list_all ascii_char s \<Longrightarrow> ValidString s"
  by (simp add: ValidString_def utf8_segments_ascii list_all_iff)

lemma runes_ascii: "list_all ascii_char s \<Longrightarrow> runes s = map of_char s"
  by (simp add: runes_def utf8_segments_ascii)

text \<open>A string with no space at either end is its own trimming.\<close>

lemma dropWhile_id: "(\<forall>x xs'. xs = x # xs' \<longrightarrow> \<not> P x) \<Longrightarrow> dropWhile P xs = xs"
  by (cases xs) auto

lemma TrimSpace_id:
  assumes "\<And>x xs. utf8_segments s = x # xs \<Longrightarrow> \<not> space_segment x"
    and "\<And>x xs. utf8_segments s = xs @ [x] \<Longrightarrow> \<not> space_segment x"
  shows "TrimSpace s = s"
proof -
  have "dropWhile space_segment (utf8_segments s) = utf8_segments s"
    using assms(1) by (intro dropWhile_id) auto
  moreover have "dropWhile space_segment (rev (utf8_segments s)) = rev (utf8_segments s)"
    using assms(2) by (intro dropWhile_id) (metis rev_eq_Cons_iff rev_rev_ident rev_swap)
  ultimately show ?thesis by (simp add: TrimSpace_def utf8_segments_concat)
qed

subsection \<open>Prefixes and character sets\<close>

definition HasPrefix :: "string \<Rightarrow> string \<Rightarrow> bool" where
  "HasPrefix s p \<longleftrightarrow> take (length p) s = p"

definition TrimPrefix :: "string \<Rightarrow> string \<Rightarrow> string" where
  "TrimPrefix s p = (if HasPrefix s p then drop (length p) s else s)"

definition ContainsAny :: "string \<Rightarrow> string \<Rightarrow> bool" where
  \<comment> \<open>used with sets of ASCII characters only, where runes and bytes agree\<close>
  "ContainsAny s chars \<longleftrightarrow> list_ex (\<lambda>c. c \<in> set chars) s"

lemma HasPrefix_append [simp]: "HasPrefix (p @ s) p"
  by (simp add: HasPrefix_def)

lemma TrimPrefix_append [simp]: "TrimPrefix (p @ s) p = s"
  by (simp add: TrimPrefix_def)

lemma HasPrefix_iff: "HasPrefix s p \<longleftrightarrow> (\<exists>t. s = p @ t)"
  by (metis HasPrefix_append HasPrefix_def append_take_drop_id)

definition crlf0 :: string where
  "crlf0 = [CHR 0x0D, CHR 0x0A, CHR 0x00]"

subsection \<open>Character classes of the regular expressions\<close>

definition in_range :: "char \<Rightarrow> char \<Rightarrow> char \<Rightarrow> bool" where
  "in_range lo hi c \<longleftrightarrow> (of_char lo :: nat) \<le> of_char c \<and> of_char c \<le> (of_char hi :: nat)"

definition lower :: "char \<Rightarrow> bool" where "lower c \<longleftrightarrow> in_range CHR ''a'' CHR ''z'' c"
definition digit :: "char \<Rightarrow> bool" where "digit c \<longleftrightarrow> in_range CHR ''0'' CHR ''9'' c"
definition hexdigit :: "char \<Rightarrow> bool" where
  "hexdigit c \<longleftrightarrow> in_range CHR ''a'' CHR ''f'' c \<or> digit c"
definition alnum :: "char \<Rightarrow> bool" where "alnum c \<longleftrightarrow> lower c \<or> digit c"
definition alnumdash :: "char \<Rightarrow> bool" where "alnumdash c \<longleftrightarrow> alnum c \<or> c = CHR ''-''"

lemmas char_class_defs [go_simps] =
  in_range_def lower_def digit_def hexdigit_def alnum_def alnumdash_def

text \<open>\<^verbatim>\<open>^[a-f0-9]{n}$\<close>\<close>

definition hexn :: "nat \<Rightarrow> string \<Rightarrow> bool" where
  "hexn n s \<longleftrightarrow> length s = n \<and> list_all hexdigit s"

text \<open>\<^verbatim>\<open>^F R{0,n}$\<close> for a first class F and a class R\<close>

fun ident :: "(char \<Rightarrow> bool) \<Rightarrow> (char \<Rightarrow> bool) \<Rightarrow> nat \<Rightarrow> string \<Rightarrow> bool" where
  "ident F R n [] \<longleftrightarrow> False"
| "ident F R n (c # cs) \<longleftrightarrow> F c \<and> list_all R cs \<and> length cs \<le> n"

text \<open>\<^verbatim>\<open>^[a-z0-9](?:[a-z0-9-]{0,n}[a-z0-9])?$\<close>\<close>

definition dns_label :: "nat \<Rightarrow> string \<Rightarrow> bool" where
  "dns_label n s \<longleftrightarrow> s \<noteq> [] \<and> length s \<le> n + 2 \<and> alnum (hd s) \<and> alnum (last s)
     \<and> list_all alnumdash s"

lemma hexn_nonempty: "hexn (Suc n) s \<Longrightarrow> s \<noteq> []"
  by (auto simp: hexn_def)

subsection \<open>Hexadecimal encoding\<close>

definition hex_digit :: "nat \<Rightarrow> char" where
  "hex_digit n = ''0123456789abcdef'' ! (n mod 16)"

fun EncodeToString :: "char list \<Rightarrow> string" where
  "EncodeToString [] = []"
| "EncodeToString (b # bs) =
     hex_digit (of_char b div 16) # hex_digit (of_char b mod 16) # EncodeToString bs"

lemma hexdigit_hex_digit: "hexdigit (hex_digit n)"
proof -
  have "list_all hexdigit ''0123456789abcdef''"
    by (simp add: go_simps)
  then have "\<forall>i < 16. hexdigit (''0123456789abcdef'' ! i)"
    by (simp only: list_all_length) simp
  then show ?thesis by (simp add: hex_digit_def)
qed

lemma EncodeToString_hexn: "hexn (2 * length bs) (EncodeToString bs)"
  by (induction bs) (auto simp: hexn_def hexdigit_hex_digit)

lemma hex_digit_inj:
  assumes "hex_digit m = hex_digit n" and "m < 16" and "n < 16"
  shows "m = n"
proof -
  have "distinct ''0123456789abcdef''" by simp
  then show ?thesis
    using assms by (simp add: hex_digit_def nth_eq_iff_index_eq)
qed

lemma EncodeToString_inj: "EncodeToString xs = EncodeToString ys \<Longrightarrow> xs = ys"
proof (induction xs arbitrary: ys)
  case Nil
  then show ?case by (cases ys) auto
next
  case (Cons x xs)
  then obtain y ys' where ys: "ys = y # ys'" by (cases ys) auto
  have "of_char x < (256::nat)" "of_char y < (256::nat)" by simp_all
  then have "of_char x div 16 < (16::nat)" "of_char y div 16 < (16::nat)"
    by (auto intro: less_mult_imp_div_less)
  with Cons.prems ys have
    "of_char x div 16 = (of_char y div 16 :: nat)" "of_char x mod 16 = (of_char y mod 16 :: nat)"
    by (auto intro: hex_digit_inj)
  then have "of_char x = (of_char y :: nat)" by (metis div_mult_mod_eq)
  with Cons ys show ?case by simp
qed

subsection \<open>Slash-separated paths\<close>

text \<open>
  \<^verbatim>\<open>path.Clean\<close>: split at slashes, drop empty and \<^verbatim>\<open>.\<close> elements, let \<^verbatim>\<open>..\<close> cancel the
  element before it (at the root it vanishes, in a relative path it stays), and join.
  The stack holds the cleaned elements in reverse.
\<close>

fun split_slash :: "string \<Rightarrow> string list" where
  "split_slash [] = [[]]"
| "split_slash (c # cs) =
     (if c = CHR ''/'' then [] # split_slash cs
      else case split_slash cs of [] \<Rightarrow> [[c]] | w # ws \<Rightarrow> (c # w) # ws)"

fun clean_elems :: "bool \<Rightarrow> string list \<Rightarrow> string list \<Rightarrow> string list" where
  "clean_elems rooted stack [] = rev stack"
| "clean_elems rooted stack (w # ws) =
     (if w = [] \<or> w = ''.'' then clean_elems rooted stack ws
      else if w = ''..'' then
        (case stack of
           [] \<Rightarrow> if rooted then clean_elems rooted [] ws else clean_elems rooted [''..''] ws
         | t # ts \<Rightarrow> if t = ''..'' then clean_elems rooted (''..'' # stack) ws
                     else clean_elems rooted ts ws)
      else clean_elems rooted (w # stack) ws)"

fun join_slash :: "string list \<Rightarrow> string" where
  "join_slash [] = []"
| "join_slash [w] = w"
| "join_slash (w # v # ws) = w @ CHR ''/'' # join_slash (v # ws)"

definition path_Clean :: "string \<Rightarrow> string" where
  "path_Clean p =
     (if p = [] then ''.''
      else let rooted = HasPrefix p ''/'';
               body = join_slash (clean_elems rooted [] (split_slash p))
           in if rooted then CHR ''/'' # body else if body = [] then ''.'' else body)"

end
