(* ===== verification/Core.thy ===== *)
theory Core
  imports GoText "HOL-Library.Word"
begin

text \<open>
  The data model and the pure validators of \<^verbatim>\<open>src/internal/core\<close>.  Structs are records
  (a field prefix keeps the names apart), typed string constants are string literals
  (a decoded catalog can hold any string there), \<^verbatim>\<open>uint64\<close> is \<open>64 word\<close>, a pointer to a
  value is an option.  A \<^verbatim>\<open>time.Time\<close> is an instant and a location: \<^verbatim>\<open>IsZero\<close> and
  \<^verbatim>\<open>Equal\<close> read the instant only, \<^verbatim>\<open>==\<close> and \<^verbatim>\<open>reflect.DeepEqual\<close> compare both.  A nil and an
  empty slice are identified, as the catalog's \<^verbatim>\<open>omitempty\<close> encoding does.
\<close>

type_synonym u64 = "64 word"

record GoTime =
  instant :: int
  location :: nat

definition IsZero :: "GoTime \<Rightarrow> bool" where
  "IsZero t \<longleftrightarrow> instant t = 0"

definition TimeEqual :: "GoTime \<Rightarrow> GoTime \<Rightarrow> bool" where
  "TimeEqual a b \<longleftrightarrow> instant a = instant b"

definition zero_time :: GoTime where
  "zero_time = \<lparr>instant = 0, location = 0\<rparr>"

subsection \<open>Errors as trees (\<^verbatim>\<open>environment_cleanup.go\<close>)\<close>

text \<open>
  An error value as \<^verbatim>\<open>errors.Unwrap\<close> sees it: a sentinel, an error with one wrapped cause
  (which may be nil), a joined error with its causes, or an error with no cause.
\<close>

datatype goerr =
    Sentinel error
  | Wrap "goerr option"
  | Joined "goerr list"
  | Opaque string

text \<open>\<^verbatim>\<open>errors.Is\<close>, and \<^verbatim>\<open>errors.Join\<close>, which drops nil errors and is nil when none is left.\<close>

fun errors_Is :: "goerr \<Rightarrow> error \<Rightarrow> bool" where
  "errors_Is (Sentinel e) t = (e = t)"
| "errors_Is (Wrap None) t = False"
| "errors_Is (Wrap (Some e)) t = errors_Is e t"
| "errors_Is (Joined es) t = (\<exists>e\<in>set es. errors_Is e t)"
| "errors_Is (Opaque m) t = False"

definition errors_Join :: "goerr option list \<Rightarrow> goerr option" where
  "errors_Join errs = (case List.map_filter id errs of [] \<Rightarrow> None | es \<Rightarrow> Some (Joined es))"

fun onlyEnvironmentNotFound :: "goerr \<Rightarrow> bool" where
  "onlyEnvironmentNotFound (Sentinel e) = (e = ErrNotFound)"
| "onlyEnvironmentNotFound (Joined causes) =
     (causes \<noteq> [] \<and> (\<forall>c\<in>set causes. onlyEnvironmentNotFound c))"
| "onlyEnvironmentNotFound (Wrap None) = False"
| "onlyEnvironmentNotFound (Wrap (Some e)) = onlyEnvironmentNotFound e"
| "onlyEnvironmentNotFound (Opaque m) = False"

definition EnvironmentDeletionComplete :: "goerr option \<Rightarrow> bool" where
  "EnvironmentDeletionComplete err = (case err of None \<Rightarrow> True | Some e \<Rightarrow> onlyEnvironmentNotFound e)"

subsection \<open>Resource limits (\<^verbatim>\<open>resources.go\<close>)\<close>

record ResourceLimit =
  rl_Mode :: string
  rl_Value :: u64

record ResourceBudget =
  rb_CPU :: ResourceLimit
  rb_MemoryBytes :: ResourceLimit
  rb_PIDs :: ResourceLimit
  rb_RootBytes :: ResourceLimit

definition MaxCPUResourceValue :: u64 where "MaxCPUResourceValue = 4096"
definition MaxMemoryResourceBytes :: u64 where "MaxMemoryResourceBytes = 2 ^ 60"
definition MaxPIDResourceValue :: u64 where "MaxPIDResourceValue = 2 ^ 31 - 1"
definition MaxRootDiskResourceBytes :: u64 where "MaxRootDiskResourceBytes = 2 ^ 60"

definition UnlimitedResourceBudget :: ResourceBudget where
  "UnlimitedResourceBudget =
     (let unlimited = \<lparr>rl_Mode = ''unlimited'', rl_Value = 0\<rparr>
      in \<lparr>rb_CPU = unlimited, rb_MemoryBytes = unlimited, rb_PIDs = unlimited,
          rb_RootBytes = unlimited\<rparr>)"

definition resolveResourceLimit :: "ResourceLimit \<Rightarrow> u64 \<Rightarrow> error + ResourceLimit" where
  "resolveResourceLimit input max_value =
     (if rl_Mode input = [] then
        (if rl_Value input \<noteq> 0 then Inl ErrInvalidArgument
         else Inr \<lparr>rl_Mode = ''unlimited'', rl_Value = 0\<rparr>)
      else if rl_Mode input = ''unlimited'' then
        (if rl_Value input \<noteq> 0 then Inl ErrInvalidArgument else Inr input)
      else if rl_Mode input = ''finite'' then
        (if rl_Value input = 0 \<or> max_value < rl_Value input then Inl ErrInvalidArgument
         else Inr input)
      else Inl ErrInvalidArgument)"

definition ResolveResourceBudget :: "ResourceBudget \<Rightarrow> error + ResourceBudget" where
  "ResolveResourceBudget input =
     (case resolveResourceLimit (rb_CPU input) MaxCPUResourceValue of Inl e \<Rightarrow> Inl e | Inr cpu \<Rightarrow>
      case resolveResourceLimit (rb_MemoryBytes input) MaxMemoryResourceBytes of Inl e \<Rightarrow> Inl e | Inr memory \<Rightarrow>
      case resolveResourceLimit (rb_PIDs input) MaxPIDResourceValue of Inl e \<Rightarrow> Inl e | Inr pids \<Rightarrow>
      case resolveResourceLimit (rb_RootBytes input) MaxRootDiskResourceBytes of Inl e \<Rightarrow> Inl e | Inr root \<Rightarrow>
      Inr \<lparr>rb_CPU = cpu, rb_MemoryBytes = memory, rb_PIDs = pids, rb_RootBytes = root\<rparr>)"

definition ResourceBudgetHasFinite :: "ResourceBudget \<Rightarrow> bool" where
  "ResourceBudgetHasFinite b \<longleftrightarrow>
     rl_Mode (rb_CPU b) = ''finite'' \<or> rl_Mode (rb_MemoryBytes b) = ''finite'' \<or>
     rl_Mode (rb_PIDs b) = ''finite'' \<or> rl_Mode (rb_RootBytes b) = ''finite''"

subsection \<open>Persistent resources and generations\<close>

record PersistentResourceRef =
  ref_ID :: string
  ref_Owner :: string

definition no_ref :: PersistentResourceRef where
  "no_ref = \<lparr>ref_ID = [], ref_Owner = []\<rparr>"

record ResourceGeneration =
  g_Name :: string
  g_Kind :: string
  g_Compatibility :: string
  g_Epoch :: string
  g_Number :: u64
  g_Current :: PersistentResourceRef

definition no_generation :: ResourceGeneration where
  "no_generation = \<lparr>g_Name = [], g_Kind = [], g_Compatibility = [], g_Epoch = [], g_Number = 0,
     g_Current = no_ref\<rparr>"

record PersistentResource =
  pr_ImportPending :: bool
  pr_PublicationOrigin :: ResourceGeneration
  pr_Producer :: PersistentResourceRef
  pr_EnvironmentInstance :: string
  pr_RestoreSource :: string
  pr_SourceOnly :: bool
  pr_WorkspaceID :: string
  pr_ID :: string
  pr_Owner :: string
  pr_Kind :: string
  pr_NativeRef :: string
  pr_State :: string
  pr_CreatedAt :: GoTime
  pr_CopySource :: PersistentResourceRef
  pr_CopyCompleted :: bool
  pr_CopyOperation :: string
  pr_CopyCleanup :: bool

definition no_resource :: PersistentResource where
  "no_resource = \<lparr>pr_ImportPending = False, pr_PublicationOrigin = no_generation,
     pr_Producer = no_ref, pr_EnvironmentInstance = [], pr_RestoreSource = [],
     pr_SourceOnly = False, pr_WorkspaceID = [], pr_ID = [], pr_Owner = [], pr_Kind = [],
     pr_NativeRef = [], pr_State = [], pr_CreatedAt = zero_time, pr_CopySource = no_ref,
     pr_CopyCompleted = False, pr_CopyOperation = [], pr_CopyCleanup = False\<rparr>"

definition Ref :: "PersistentResource \<Rightarrow> PersistentResourceRef" where
  "Ref r = \<lparr>ref_ID = pr_ID r, ref_Owner = pr_Owner r\<rparr>"

text \<open>\<^verbatim>\<open>^[a-z][a-z0-9-]{0,23}:[a-z0-9][a-z0-9-]{0,39}$\<close>\<close>

definition persistentIDPattern :: "string \<Rightarrow> bool" where
  "persistentIDPattern s =
     (ident lower alnumdash 23 (takeWhile (\<lambda>c. c \<noteq> CHR '':'') s) \<and>
      (case dropWhile (\<lambda>c. c \<noteq> CHR '':'') s of
         [] \<Rightarrow> False
       | _ # rest \<Rightarrow> ident alnum alnumdash 39 rest))"

definition persistentOwnerPattern :: "string \<Rightarrow> bool" where
  "persistentOwnerPattern = hexn 32"

definition ValidPersistentResourceRef :: "PersistentResourceRef \<Rightarrow> bool" where
  "ValidPersistentResourceRef r \<longleftrightarrow> persistentIDPattern (ref_ID r) \<and> persistentOwnerPattern (ref_Owner r)"

definition resourceSourceName :: "string \<Rightarrow> bool" where
  "resourceSourceName = ident lower alnumdash 39"

definition resourceKind :: "string \<Rightarrow> bool" where
  "resourceKind = ident lower alnumdash 63"

definition compatibilityDigest :: "string \<Rightarrow> bool" where
  "compatibilityDigest = hexn 64"

definition ValidResourceGenerationSpec :: "string \<Rightarrow> string \<Rightarrow> string \<Rightarrow> bool" where
  "ValidResourceGenerationSpec name kind compatibility \<longleftrightarrow>
     resourceSourceName name \<and> resourceKind kind \<and> compatibilityDigest compatibility"

definition ValidGenerationResource :: "PersistentResourceRef \<Rightarrow> bool" where
  "ValidGenerationResource ref \<longleftrightarrow>
     ValidPersistentResourceRef ref \<and> HasPrefix (ref_ID ref) ''generation:'' \<and>
     persistentOwnerPattern (TrimPrefix (ref_ID ref) ''generation:'')"

definition ValidResourceGeneration :: "ResourceGeneration \<Rightarrow> bool" where
  "ValidResourceGeneration g =
     (if \<not> ValidResourceGenerationSpec (g_Name g) (g_Kind g) (g_Compatibility g)
         \<or> \<not> persistentOwnerPattern (g_Epoch g) then False
      else if g_Number g = 0 then g_Current g = no_ref
      else ValidGenerationResource (g_Current g))"

subsection \<open>Environment attachments (\<^verbatim>\<open>environment_resource.go\<close>)\<close>

record EnvironmentAttachment =
  a_Key :: string
  a_Target :: string
  a_Resource :: PersistentResourceRef
  a_Origin :: ResourceGeneration

record EnvironmentResourcePlan =
  plan_Attachment :: EnvironmentAttachment
  plan_Resource :: PersistentResource

definition MaxEnvironmentAttachments :: nat where
  "MaxEnvironmentAttachments = 32"

definition ValidEnvironmentDataPath :: "string \<Rightarrow> bool" where
  "ValidEnvironmentDataPath target \<longleftrightarrow>
     length target \<le> 1024 \<and> ValidString target \<and> HasPrefix target ''/'' \<and> target \<noteq> ''/'' \<and>
     path_Clean target = target \<and> \<not> has_control target"

definition ValidEnvironmentResourceRef :: "PersistentResourceRef \<Rightarrow> bool" where
  "ValidEnvironmentResourceRef ref \<longleftrightarrow>
     ValidPersistentResourceRef ref \<and> HasPrefix (ref_ID ref) ''env-data:'' \<and>
     persistentOwnerPattern (TrimPrefix (ref_ID ref) ''env-data:'')"

text \<open>Two targets clash when they are equal or one lies below the other.\<close>

definition target_clash :: "string \<Rightarrow> string \<Rightarrow> bool" where
  "target_clash before a \<longleftrightarrow>
     before = a \<or> HasPrefix before (a @ ''/'') \<or> HasPrefix a (before @ ''/'')"

fun attachments_loop ::
  "string \<Rightarrow> string list \<Rightarrow> EnvironmentAttachment list \<Rightarrow> EnvironmentAttachment list \<Rightarrow> bool" where
  "attachments_loop previous refs before [] = True"
| "attachments_loop previous refs before (a # as) =
     (if \<not> resourceSourceName (a_Key a) \<or> a_Key a \<le> previous
         \<or> \<not> ValidEnvironmentResourceRef (a_Resource a) \<or> ref_ID (a_Resource a) \<in> set refs
         \<or> \<not> ValidResourceGeneration (a_Origin a) then False
      else if \<not> ValidEnvironmentDataPath (a_Target a) then False
      else if (\<exists>b\<in>set before. target_clash (a_Target b) (a_Target a)) then False
      else attachments_loop (a_Key a) (ref_ID (a_Resource a) # refs) (before @ [a]) as)"

definition ValidEnvironmentAttachments :: "EnvironmentAttachment list \<Rightarrow> bool" where
  "ValidEnvironmentAttachments attachments =
     (if length attachments > MaxEnvironmentAttachments then False
      else attachments_loop [] [] [] attachments)"

subsection \<open>Names and identities\<close>

definition ValidEnvironmentInstanceID :: "string \<Rightarrow> bool" where
  "ValidEnvironmentInstanceID s \<longleftrightarrow> HasPrefix s ''env-'' \<and> hexn 32 (drop 4 s)"

text \<open>\<open>nonce\<close> is the 16 bytes \<^verbatim>\<open>rand.Read\<close> filled.\<close>

definition NewEnvironmentInstanceID :: "char list \<Rightarrow> string" where
  "NewEnvironmentInstanceID nonce = ''env-'' @ EncodeToString nonce"

definition ValidateEnvironmentName :: "string \<Rightarrow> error option" where
  "ValidateEnvironmentName name = (if \<not> dns_label 55 name then Some ErrInvalidArgument else None)"

record Workspace =
  w_ID :: string
  w_Path :: string

definition temporaryWorkspacePath :: "string \<Rightarrow> bool" where
  "temporaryWorkspacePath s \<longleftrightarrow> HasPrefix s ''temporary:'' \<and> hexn 32 (drop 10 s)"

definition NewTemporaryWorkspace :: "char list \<Rightarrow> Workspace" where
  "NewTemporaryWorkspace nonce =
     (let path = ''temporary:'' @ EncodeToString nonce
      in \<lparr>w_ID = ''workspace:'' @ path, w_Path = path\<rparr>)"

definition ValidTemporaryWorkspace :: "Workspace \<Rightarrow> bool" where
  "ValidTemporaryWorkspace work \<longleftrightarrow>
     temporaryWorkspacePath (w_Path work) \<and> w_ID work = ''workspace:'' @ w_Path work"

definition DNSMode_Effective :: "string \<Rightarrow> string" where
  "DNSMode_Effective m = (if m = [] then ''host'' else m)"

definition DNSMode_Valid :: "string \<Rightarrow> bool" where
  "DNSMode_Valid m \<longleftrightarrow> DNSMode_Effective m \<in> {''host'', ''backend'', ''disabled''}"

subsection \<open>Workspaces, leases, Environments (\<^verbatim>\<open>workspace.go\<close>)\<close>

record BaseRef =
  b_Name :: string
  b_Revision :: string

record WorkspaceLease =
  l_Attachments :: "EnvironmentAttachment list"
  l_RuntimeAbsent :: bool
  l_Ephemeral :: bool
  l_SnapshotSource :: string
  l_InstanceID :: string
  l_PersistentResource :: PersistentResourceRef
  l_WorkspaceID :: string
  l_SourcePath :: string
  l_EnvironmentID :: string
  l_AccessMode :: string
  l_Owner :: string
  l_RuntimeRef :: string
  l_State :: string
  l_AcquiredAt :: GoTime

record EphemeralRun =
  run_InstanceID :: string
  run_TemporaryWorkspace :: "Workspace option"
  run_EnvironmentID :: string
  run_State :: string
  run_CreatedAt :: GoTime

record Environment =
  e_OwnedWorkspace :: bool
  e_Volume :: string
  e_DNSMode :: string
  e_Attachments :: "EnvironmentAttachment list"
  e_PersistentResource :: PersistentResourceRef
  e_Name :: string
  e_Workspace :: Workspace
  e_AccessMode :: string
  e_Base :: "BaseRef option"
  e_Resources :: ResourceBudget
  e_RuntimeRef :: string
  e_CreatedAt :: GoTime

definition no_workspace :: Workspace where
  "no_workspace = \<lparr>w_ID = [], w_Path = []\<rparr>"

definition no_lease :: WorkspaceLease where
  "no_lease = \<lparr>l_Attachments = [], l_RuntimeAbsent = False, l_Ephemeral = False,
     l_SnapshotSource = [], l_InstanceID = [], l_PersistentResource = no_ref, l_WorkspaceID = [],
     l_SourcePath = [], l_EnvironmentID = [], l_AccessMode = [], l_Owner = [], l_RuntimeRef = [],
     l_State = [], l_AcquiredAt = zero_time\<rparr>"

definition no_limit :: ResourceLimit where
  "no_limit = \<lparr>rl_Mode = [], rl_Value = 0\<rparr>"

definition no_environment :: Environment where
  "no_environment = \<lparr>e_OwnedWorkspace = False, e_Volume = [], e_DNSMode = [], e_Attachments = [],
     e_PersistentResource = no_ref, e_Name = [], e_Workspace = no_workspace, e_AccessMode = [],
     e_Base = None, e_Resources = \<lparr>rb_CPU = no_limit, rb_MemoryBytes = no_limit,
     rb_PIDs = no_limit, rb_RootBytes = no_limit\<rparr>, e_RuntimeRef = [], e_CreatedAt = zero_time\<rparr>"

definition MatchesEnvironment :: "WorkspaceLease \<Rightarrow> Environment \<Rightarrow> bool" where
  "MatchesEnvironment lease environment \<longleftrightarrow>
     l_State lease = ''active'' \<and> \<not> l_RuntimeAbsent lease \<and> e_Name environment \<noteq> [] \<and>
     l_Attachments lease = e_Attachments environment \<and>
     l_EnvironmentID lease = e_Name environment \<and> l_RuntimeRef lease \<noteq> [] \<and>
     l_RuntimeRef lease = e_RuntimeRef environment \<and>
     l_WorkspaceID lease = w_ID (e_Workspace environment) \<and>
     l_SourcePath lease = w_Path (e_Workspace environment) \<and>
     l_AccessMode lease = e_AccessMode environment \<and>
     l_PersistentResource lease = e_PersistentResource environment"

definition Environment_Equal :: "Environment \<Rightarrow> Environment \<Rightarrow> bool" where
  "Environment_Equal e other \<longleftrightarrow>
     e_Attachments e = e_Attachments other \<and>
     e\<lparr>e_Attachments := []\<rparr> = other\<lparr>e_Attachments := []\<rparr>"

definition Lease_Equal :: "WorkspaceLease \<Rightarrow> WorkspaceLease \<Rightarrow> bool" where
  "Lease_Equal lease other \<longleftrightarrow>
     l_Attachments lease = l_Attachments other \<and>
     lease\<lparr>l_Attachments := []\<rparr> = other\<lparr>l_Attachments := []\<rparr>"

subsection \<open>Snapshots, restores and Base assets\<close>

record SnapshotSource =
  src_Environment :: Environment
  src_InstanceID :: string

record SnapshotComponent =
  c_Binding :: string
  c_Role :: string
  c_NativeRef :: string
  c_Owner :: string
  c_State :: string

record Snapshot =
  s_Image :: "BaseRef option"
  s_CreatedAt :: GoTime
  s_ID :: string
  s_Source :: SnapshotSource
  s_State :: string
  s_Components :: "SnapshotComponent list"

record SnapshotRestore =
  r_ID :: string
  r_Saved :: Snapshot
  r_Before :: Snapshot
  r_Current :: SnapshotSource
  r_State :: string
  r_Components :: "SnapshotComponent list"

record BaseAsset =
  ba_ID :: string
  ba_Base :: BaseRef
  ba_Provider :: string
  ba_Scope :: string
  ba_Owner :: string
  ba_NativeRef :: string
  ba_Binding :: string
  ba_State :: string

definition no_snapshot :: Snapshot where
  "no_snapshot = \<lparr>s_Image = None, s_CreatedAt = zero_time, s_ID = [],
     s_Source = \<lparr>src_Environment = no_environment, src_InstanceID = []\<rparr>, s_State = [],
     s_Components = []\<rparr>"

subsection \<open>Process requests (\<^verbatim>\<open>process.go\<close>)\<close>

record ProcessRequest =
  p_WorkingDirectory :: string
  p_Argv :: "string list"
  p_TTY :: bool

definition ValidateProcessRequest :: "ProcessRequest \<Rightarrow> error option" where
  "ValidateProcessRequest request =
     (if p_Argv request = [] \<or> length (p_Argv request) > 256 \<or> hd (p_Argv request) = []
      then Some ErrInvalidArgument
      else case forE (\<lambda>size argument.
             let size' = size + length argument
             in if size' > 32 * 1024 \<or> CHR 0x00 \<in> set argument then Inl ErrInvalidArgument
                else Inr size') 0 (p_Argv request) of
        Inl e \<Rightarrow> Some e
      | Inr _ \<Rightarrow>
          if p_WorkingDirectory request \<noteq> [] \<and>
             (\<not> HasPrefix (p_WorkingDirectory request) ''/'' \<or>
              ContainsAny (p_WorkingDirectory request) crlf0)
          then Some ErrInvalidArgument else None)"


section \<open>Properties of the core model\<close>

subsection \<open>Equality helpers\<close>

lemma Lease_Equal_iff [simp]: "Lease_Equal a b \<longleftrightarrow> a = b"
  by (cases a; cases b) (auto simp: Lease_Equal_def)

lemma Environment_Equal_iff [simp]: "Environment_Equal a b \<longleftrightarrow> a = b"
  by (cases a; cases b) (auto simp: Environment_Equal_def)

lemma Ref_simps [simp]: "ref_ID (Ref r) = pr_ID r" "ref_Owner (Ref r) = pr_Owner r"
  by (simp_all add: Ref_def)

lemma Ref_eq_iff: "Ref r = Ref r' \<longleftrightarrow> pr_ID r = pr_ID r' \<and> pr_Owner r = pr_Owner r'"
  by (simp add: Ref_def)

lemma not_ValidPersistentResourceRef_no_ref [simp]: "\<not> ValidPersistentResourceRef no_ref"
  by (simp add: ValidPersistentResourceRef_def no_ref_def persistentIDPattern_def)

lemma persistentIDPattern_nonempty: "persistentIDPattern s \<Longrightarrow> s \<noteq> []"
  by (auto simp: persistentIDPattern_def)

lemma ValidPersistentResourceRef_ID: "ValidPersistentResourceRef r \<Longrightarrow> ref_ID r \<noteq> []"
  by (auto simp: ValidPersistentResourceRef_def dest: persistentIDPattern_nonempty)

lemma ValidEnvironmentInstanceID_nonempty: "ValidEnvironmentInstanceID s \<Longrightarrow> s \<noteq> []"
  by (auto simp: ValidEnvironmentInstanceID_def HasPrefix_def)

lemma ValidEnvironmentResourceRef_valid:
  "ValidEnvironmentResourceRef r \<Longrightarrow> ValidPersistentResourceRef r"
  by (simp add: ValidEnvironmentResourceRef_def)

lemma ValidGenerationResource_valid:
  "ValidGenerationResource r \<Longrightarrow> ValidPersistentResourceRef r"
  by (simp add: ValidGenerationResource_def)

lemma env_data_not_generation:
  "ValidEnvironmentResourceRef r \<Longrightarrow> \<not> ValidGenerationResource r"
  by (auto simp: ValidEnvironmentResourceRef_def ValidGenerationResource_def HasPrefix_iff)

subsection \<open>Deletion is complete only when every cause is absence\<close>

fun leaves :: "goerr \<Rightarrow> error option list" where
  "leaves (Sentinel e) = [Some e]"
| "leaves (Wrap None) = [None]"
| "leaves (Wrap (Some e)) = leaves e"
| "leaves (Joined []) = [None]"
| "leaves (Joined (c # cs)) = concat (map leaves (c # cs))"
| "leaves (Opaque m) = [None]"

lemma leaves_nonempty: "leaves e \<noteq> []"
proof (induction e rule: leaves.induct)
  case (5 c cs)
  then have "leaves c \<noteq> []" by simp
  then show ?case by simp
qed auto

lemma onlyEnvironmentNotFound_leaves:
  "onlyEnvironmentNotFound e \<longleftrightarrow> set (leaves e) = {Some ErrNotFound}"
proof -
  have "onlyEnvironmentNotFound e \<longleftrightarrow> (\<forall>l\<in>set (leaves e). l = Some ErrNotFound)"
    by (induction e rule: leaves.induct) auto
  moreover have "leaves e \<noteq> []" by (rule leaves_nonempty)
  ultimately show ?thesis by (cases "leaves e") auto
qed

subsection \<open>Resource budgets\<close>

lemma resolveResourceLimit_cases:
  assumes "resolveResourceLimit i m = Inr l"
  shows "(rl_Mode l = ''unlimited'' \<and> rl_Value l = 0) \<or>
         (rl_Mode l = ''finite'' \<and> l = i \<and> 0 < rl_Value l \<and> rl_Value l \<le> m)"
  using assms
  by (auto simp: resolveResourceLimit_def word_gt_0 not_less split: if_splits)

lemma resolveResourceLimit_idem:
  "resolveResourceLimit i m = Inr l \<Longrightarrow> resolveResourceLimit l m = Inr l"
  by (auto simp: resolveResourceLimit_def split: if_splits)

lemma ResolveResourceBudget_parts:
  "ResolveResourceBudget i = Inr b \<longleftrightarrow>
     resolveResourceLimit (rb_CPU i) MaxCPUResourceValue = Inr (rb_CPU b) \<and>
     resolveResourceLimit (rb_MemoryBytes i) MaxMemoryResourceBytes = Inr (rb_MemoryBytes b) \<and>
     resolveResourceLimit (rb_PIDs i) MaxPIDResourceValue = Inr (rb_PIDs b) \<and>
     resolveResourceLimit (rb_RootBytes i) MaxRootDiskResourceBytes = Inr (rb_RootBytes b)"
  by (cases b) (auto simp: ResolveResourceBudget_def split: sum.splits)

subsection \<open>Attachments\<close>

definition attachment_ok :: "EnvironmentAttachment \<Rightarrow> bool" where
  "attachment_ok a \<longleftrightarrow> resourceSourceName (a_Key a) \<and> ValidEnvironmentResourceRef (a_Resource a)
     \<and> ValidResourceGeneration (a_Origin a) \<and> ValidEnvironmentDataPath (a_Target a)"

lemma target_clash_sym: "target_clash a b \<longleftrightarrow> target_clash b a"
  by (auto simp: target_clash_def)

lemma attachments_loop_Cons:
  "attachments_loop prev refs before (a # as) \<longleftrightarrow>
     attachment_ok a \<and> prev < a_Key a \<and> ref_ID (a_Resource a) \<notin> set refs \<and>
     (\<forall>b\<in>set before. \<not> target_clash (a_Target b) (a_Target a)) \<and>
     attachments_loop (a_Key a) (ref_ID (a_Resource a) # refs) (before @ [a]) as"
  by (auto simp: attachment_ok_def not_le)

lemma attachments_loop_iff:
  "attachments_loop prev refs before as \<longleftrightarrow>
     (\<forall>a\<in>set as. attachment_ok a) \<and>
     sorted_wrt (<) (map a_Key as) \<and> (\<forall>a\<in>set as. prev < a_Key a) \<and>
     distinct (map (\<lambda>a. ref_ID (a_Resource a)) as) \<and>
     (\<forall>a\<in>set as. ref_ID (a_Resource a) \<notin> set refs) \<and>
     sorted_wrt (\<lambda>a b. \<not> target_clash (a_Target a) (a_Target b)) as \<and>
     (\<forall>a\<in>set as. \<forall>b\<in>set before. \<not> target_clash (a_Target b) (a_Target a))"
proof (induction as arbitrary: prev refs before)
  case (Cons a as)
  show ?case
    unfolding attachments_loop_Cons Cons.IH
    by (auto simp: image_iff intro: less_trans)
qed simp

declare attachments_loop.simps(2) [simp del]

lemma ValidEnvironmentAttachments_Nil [simp]: "ValidEnvironmentAttachments []"
  by (simp add: ValidEnvironmentAttachments_def)

lemma ValidEnvironmentAttachments_memD:
  "ValidEnvironmentAttachments as \<Longrightarrow> a \<in> set as \<Longrightarrow> attachment_ok a"
  by (simp add: ValidEnvironmentAttachments_def attachments_loop_iff split: if_splits)

lemma ValidEnvironmentAttachments_distinct:
  "ValidEnvironmentAttachments as \<Longrightarrow> distinct (map (\<lambda>a. ref_ID (a_Resource a)) as)"
  by (simp add: ValidEnvironmentAttachments_def attachments_loop_iff split: if_splits)

subsection \<open>Cleaned absolute paths have no dot elements\<close>

lemma clean_elems_rooted:
  assumes "\<forall>w\<in>set stack. w \<notin> {[], ''.'', ''..''}" and "w \<in> set (clean_elems True stack ws)"
  shows "w \<notin> {[], ''.'', ''..''}"
  using assms
proof (induction "True" stack ws rule: clean_elems.induct)
  case (2 stack w' ws)
  then show ?case by (cases stack) (auto split: if_splits)
qed simp

lemma split_slash_nonempty: "split_slash s \<noteq> []"
  by (induction s) (auto split: list.splits)

lemma split_slash_no_slash: "w \<in> set (split_slash s) \<Longrightarrow> CHR ''/'' \<notin> set w"
  by (induction s arbitrary: w) (auto split: list.splits if_splits)

lemma clean_elems_subset: "set (clean_elems r stack ws) \<subseteq> set stack \<union> set ws \<union> {''..''}"
proof (induction r stack ws rule: clean_elems.induct)
  case (2 r stack w ws)
  then show ?case by (cases stack) (auto split: if_splits)
qed auto

lemma split_slash_word: "CHR ''/'' \<notin> set w \<Longrightarrow> split_slash w = [w]"
  by (induction w) auto

lemma split_slash_word_slash:
  "CHR ''/'' \<notin> set w \<Longrightarrow> split_slash (w @ CHR ''/'' # s) = w # split_slash s"
  by (induction w) auto

lemma split_join_slash:
  "ws \<noteq> [] \<Longrightarrow> \<forall>w\<in>set ws. CHR ''/'' \<notin> set w \<Longrightarrow> split_slash (join_slash ws) = ws"
  by (induction ws rule: join_slash.induct) (auto simp: split_slash_word split_slash_word_slash)

lemma ValidEnvironmentDataPath_elems:
  assumes "ValidEnvironmentDataPath t"
  shows "\<exists>es. es \<noteq> [] \<and> split_slash t = [] # es \<and> (\<forall>e\<in>set es. e \<notin> {[], ''.'', ''..''})"
proof -
  let ?es = "clean_elems True [] (split_slash t)"
  from assms have t: "t = CHR ''/'' # join_slash ?es" and ne: "t \<noteq> ''/''"
    by (auto simp: ValidEnvironmentDataPath_def path_Clean_def Let_def split: if_splits)
  have noslash: "\<forall>w\<in>set ?es. CHR ''/'' \<notin> set w"
    using clean_elems_subset [of True "[]" "split_slash t"] split_slash_no_slash [of _ t] by fastforce
  have "?es \<noteq> []"
  proof
    assume "?es = []"
    then have "t = ''/''" by (subst t) simp
    with ne show False ..
  qed
  moreover have "split_slash t = [] # ?es"
    by (subst t) (simp add: split_join_slash \<open>?es \<noteq> []\<close> noslash)
  moreover have "\<forall>e\<in>set ?es. e \<notin> {[], ''.'', ''..''}"
    using clean_elems_rooted [of "[]"] by auto
  ultimately show ?thesis by blast
qed

subsection \<open>Process requests\<close>

lemma forE_size_iff:
  "(\<exists>t. forE (\<lambda>size x. let size' = size + length x
       in if size' > n \<or> c \<in> set x then Inl e else Inr size') s xs = Inr t)
   \<longleftrightarrow> (xs \<noteq> [] \<longrightarrow> s + sum_list (map length xs) \<le> n) \<and> (\<forall>x\<in>set xs. c \<notin> set x)"
proof (induction xs arbitrary: s)
  case (Cons x xs)
  show ?case
  proof (cases "s + length x > n \<or> c \<in> set x")
    case False
    then show ?thesis
      using Cons.IH [of "s + length x"] by (cases xs) (auto simp: add.assoc)
  qed auto
qed simp

end
