(* ===== verification/Catalog.thy ===== *)
theory Catalog
  imports Core
begin

text \<open>
  The Environment catalog of \<^verbatim>\<open>src/internal/state\<close>: the decoded file
  (\<^verbatim>\<open>environmentFileState\<close>), the predicates the operations share, the validators that run
  on every read and write, and the migration that normalises a decoded file.

  Every validator of the sources returns \<^verbatim>\<open>ErrIncompatibleState\<close> from each of its checks,
  so a stateless loop over a map is \<open>fmpred\<close> of the negated conditions; the loops that
  carry a \<^verbatim>\<open>held\<close> or \<^verbatim>\<open>seen\<close> map are \<open>forE\<close> loops over the key-sorted entries.
\<close>

record snapshotWorkspaceCopy =
  wc_SnapshotID :: string
  wc_Owner :: string

record environmentFileState =
  OwnedWorkspaceCleanup :: "Workspace gomap"
  DefaultImage :: string
  LastOpened :: string
  ResourceGenerations :: "ResourceGeneration gomap"
  WorkspaceCopies :: "snapshotWorkspaceCopy gomap"
  Restores :: "SnapshotRestore gomap"
  BaseAssets :: "BaseAsset gomap"
  Snapshots :: "Snapshot gomap"
  PersistentResources :: "PersistentResource gomap"
  Version :: int
  Environments :: "Environment gomap"
  Leases :: "WorkspaceLease gomap"
  EphemeralRuns :: "EphemeralRun gomap"

definition environmentStateVersion :: int where "environmentStateVersion = 17"
definition previousEnvironmentStateVersion :: int where "previousEnvironmentStateVersion = 2"

definition newEnvironmentFileState :: environmentFileState where
  "newEnvironmentFileState = \<lparr>OwnedWorkspaceCleanup = fmempty, DefaultImage = [], LastOpened = [],
     ResourceGenerations = fmempty, WorkspaceCopies = fmempty, Restores = fmempty,
     BaseAssets = fmempty, Snapshots = fmempty, PersistentResources = fmempty,
     Version = environmentStateVersion, Environments = fmempty, Leases = fmempty,
     EphemeralRuns = fmempty\<rparr>"

subsection \<open>Shared predicates\<close>

definition leaseHasResource :: "WorkspaceLease \<Rightarrow> string \<Rightarrow> bool" where
  "leaseHasResource lease i =
     (if ref_ID (l_PersistentResource lease) = i then True
      else list_ex (\<lambda>a. ref_ID (a_Resource a) = i) (l_Attachments lease))"

definition snapshotBusy :: "environmentFileState \<Rightarrow> string \<Rightarrow> bool" where
  "snapshotBusy d name =
     (if fmex (\<lambda>_ op. e_Name (src_Environment (r_Current op)) = name) (Restores d) then True
      else fmex (\<lambda>_ s. e_Name (src_Environment (s_Source s)) = name \<and> s_State s \<noteq> ''ready'') (Snapshots d))"

definition persistentCopyReserved :: "environmentFileState \<Rightarrow> string \<Rightarrow> bool" where
  "persistentCopyReserved d i = fmex (\<lambda>_ r. ref_ID (pr_CopySource r) = i) (PersistentResources d)"

definition environmentResourcesBusy :: "environmentFileState \<Rightarrow> string \<Rightarrow> bool" where
  "environmentResourcesBusy d name =
     list_ex (\<lambda>area.
        pr_State (getd no_resource (PersistentResources d) (ref_ID (a_Resource area))) = ''clearing''
        \<or> persistentCopyReserved d (ref_ID (a_Resource area)))
       (l_Attachments (getd no_lease (Leases d) name))"

definition restoreUsesSnapshot :: "environmentFileState \<Rightarrow> string \<Rightarrow> bool" where
  "restoreUsesSnapshot d i =
     fmex (\<lambda>_ op. s_ID (r_Saved op) = i \<or> s_ID (r_Before op) = i) (Restores d)"

definition generationReferences :: "environmentFileState \<Rightarrow> string \<Rightarrow> bool" where
  "generationReferences d i = fmex (\<lambda>_ source. ref_ID (g_Current source) = i) (ResourceGenerations d)"

definition validCacheCopyReceipt :: "PersistentResource \<Rightarrow> bool" where
  "validCacheCopyReceipt r \<longleftrightarrow>
     ValidGenerationResource (Ref r) \<and> pr_SourceOnly r \<and> pr_EnvironmentInstance r = [] \<and>
     pr_WorkspaceID r = [] \<and> pr_RestoreSource r = [] \<and>
     ValidResourceGeneration (pr_PublicationOrigin r) \<and> pr_Kind r = ''build-cache'' \<and>
     g_Kind (pr_PublicationOrigin r) = pr_Kind r \<and> ValidEnvironmentResourceRef (pr_Producer r) \<and>
     pr_CopySource r = pr_Producer r \<and> pr_CopyOperation r \<noteq> [] \<and>
     length (pr_CopyOperation r) \<le> 256 \<and>
     (pr_State r = ''creating'' \<or> (pr_State r = ''deleting'' \<and> pr_CopyCleanup r))"

definition environmentGenerationCopy ::
  "environmentFileState \<Rightarrow> PersistentResource \<Rightarrow> PersistentResource \<Rightarrow> WorkspaceLease \<Rightarrow> bool" where
  "environmentGenerationCopy d source target lease =
     (if \<not> ValidEnvironmentInstanceID (pr_EnvironmentInstance source)
         \<or> \<not> ValidEnvironmentResourceRef (Ref source) \<or> pr_SourceOnly source
         \<or> pr_WorkspaceID source \<noteq> [] \<or> pr_State source \<noteq> ''ready''
         \<or> pr_EnvironmentInstance source \<noteq> l_InstanceID lease \<or> l_State lease \<noteq> ''active''
         \<or> l_RuntimeAbsent lease
         \<or> \<not> MatchesEnvironment lease (getd no_environment (Environments d) (l_EnvironmentID lease))
      then False
      else if \<not> ValidGenerationResource (Ref target) \<or> \<not> pr_SourceOnly target
         \<or> pr_EnvironmentInstance target \<noteq> [] \<or> pr_WorkspaceID target \<noteq> []
         \<or> pr_RestoreSource target \<noteq> []
         \<or> (pr_State target \<noteq> ''creating'' \<and> (pr_State target \<noteq> ''deleting'' \<or> \<not> pr_CopyCleanup target))
         \<or> pr_CopySource target \<noteq> Ref source \<or> pr_Kind target \<noteq> pr_Kind source
      then False
      else list_ex (\<lambda>area. a_Resource area = Ref source \<and> g_Kind (a_Origin area) = pr_Kind source
             \<and> pr_PublicationOrigin target = a_Origin area \<and> pr_Producer target = Ref source)
           (l_Attachments lease))"

definition environmentResourceLease ::
  "environmentFileState \<Rightarrow> PersistentResource \<Rightarrow> WorkspaceLease option" where
  "environmentResourceLease d resource =
     (if pr_EnvironmentInstance resource = [] then None
      else map_option snd (find (\<lambda>(_, lease). l_InstanceID lease = pr_EnvironmentInstance resource
             \<and> list_ex (\<lambda>a. a_Resource a = Ref resource) (l_Attachments lease))
           (sorted_list_of_fmap (Leases d))))"

definition matchesSavedEnvironmentResource ::
  "environmentFileState \<Rightarrow> WorkspaceLease \<Rightarrow> EnvironmentAttachment \<Rightarrow> PersistentResource \<Rightarrow> bool" where
  "matchesSavedEnvironmentResource d lease a r =
     (case fmlookup (Snapshots d) (pr_RestoreSource r) of
        None \<Rightarrow> False
      | Some saved \<Rightarrow>
          if s_State saved \<noteq> ''ready'' \<or> pr_RestoreSource r \<noteq> l_SnapshotSource lease
             \<or> pr_CopySource r \<noteq> no_ref \<or> pr_CopyCompleted r then False
          else list_ex (\<lambda>source. a_Key source = a_Key a \<and> a_Target source = a_Target a
                 \<and> a_Origin source = a_Origin a \<and> a_Resource source \<noteq> a_Resource a
                 \<and> ref_Owner (a_Resource source) \<noteq> pr_Owner r)
               (e_Attachments (src_Environment (s_Source saved))))"

definition validSavedEnvironmentLease :: "environmentFileState \<Rightarrow> WorkspaceLease \<Rightarrow> bool" where
  "validSavedEnvironmentLease d lease =
     (case fmlookup (Snapshots d) (l_SnapshotSource lease) of
        None \<Rightarrow> False
      | Some saved \<Rightarrow>
          let originals = e_Attachments (src_Environment (s_Source saved)) in
          if s_State saved \<noteq> ''ready'' \<or> l_InstanceID lease = src_InstanceID (s_Source saved)
             \<or> length (l_Attachments lease) \<noteq> length originals
             \<or> (l_State lease \<noteq> ''acquiring'' \<and> l_State lease \<noteq> ''cleanup-required'')
          then False
          else list_all2 (\<lambda>a original. \<not> (a_Key original \<noteq> a_Key a \<or> a_Target original \<noteq> a_Target a
                 \<or> a_Origin original \<noteq> a_Origin a \<or> a_Resource original = a_Resource a
                 \<or> ref_Owner (a_Resource original) = ref_Owner (a_Resource a)))
               (l_Attachments lease) originals)"

subsection \<open>Ephemeral runs\<close>

definition validateEphemeralRun :: "EphemeralRun \<Rightarrow> error option" where
  "validateEphemeralRun run =
     (if \<not> ValidEnvironmentInstanceID (run_InstanceID run) then Some ErrInvalidArgument
      else if (case run_TemporaryWorkspace run of None \<Rightarrow> False | Some w \<Rightarrow> \<not> ValidTemporaryWorkspace w)
      then Some ErrInvalidArgument
      else if run_EnvironmentID run = [] \<or> IsZero (run_CreatedAt run) then Some ErrInvalidArgument
      else if run_State run \<in> {''creating'', ''active'', ''cleanup-required''} then None
      else Some ErrInvalidArgument)"

text \<open>One iteration over \<^verbatim>\<open>data.EphemeralRuns\<close> apart from its \<^verbatim>\<open>seen\<close> map.\<close>

definition ephemeral_run_ok :: "environmentFileState \<Rightarrow> string \<times> EphemeralRun \<Rightarrow> bool" where
  "ephemeral_run_ok d = (\<lambda>(name, run).
     \<not> (name \<noteq> run_EnvironmentID run \<or> validateEphemeralRun run \<noteq> None) \<and>
     (case fmlookup (Leases d) name of
        None \<Rightarrow> True
      | Some lease \<Rightarrow>
          \<not> (\<not> l_Ephemeral lease \<or> l_InstanceID lease \<noteq> run_InstanceID run) \<and>
          (case run_TemporaryWorkspace run of
             None \<Rightarrow> True
           | Some w \<Rightarrow> \<not> (l_WorkspaceID lease \<noteq> w_ID w \<or> l_SourcePath lease \<noteq> w_Path w))))"

definition validateEphemeralIdentities :: "environmentFileState \<Rightarrow> error option" where
  "validateEphemeralIdentities d =
     (case forE (\<lambda>seen p. if ephemeral_run_ok d p \<and> run_InstanceID (snd p) \<notin> seen
                          then Inr (insert (run_InstanceID (snd p)) seen)
                          else Inl ErrIncompatibleState)
             {} (sorted_list_of_fmap (EphemeralRuns d)) of
        Inl e \<Rightarrow> Some e
      | Inr _ \<Rightarrow>
          if fmpred (\<lambda>name lease. l_Ephemeral lease \<longrightarrow>
               (case fmlookup (EphemeralRuns d) name of
                  None \<Rightarrow> False
                | Some run \<Rightarrow> ValidEnvironmentInstanceID (l_InstanceID lease)
                    \<and> run_InstanceID run = l_InstanceID lease)) (Leases d)
          then None else Some ErrIncompatibleState)"

subsection \<open>Owned Workspace cleanup\<close>

definition owned_cleanup_ok :: "environmentFileState \<Rightarrow> string \<times> Workspace \<Rightarrow> bool" where
  "owned_cleanup_ok d = (\<lambda>(name, work).
     \<not> (ValidateEnvironmentName name \<noteq> None \<or> \<not> HasPrefix (w_ID work) ''workspace:managed:''
        \<or> \<not> HasPrefix (w_Path work) ''managed:'') \<and>
     \<not> present (Environments d) name \<and> \<not> present (Leases d) name \<and>
     fmpred (\<lambda>_ lease. \<not> (l_WorkspaceID lease = w_ID work \<or> l_SourcePath lease = w_Path work)) (Leases d))"

definition validateOwnedWorkspaceCleanup :: "environmentFileState \<Rightarrow> error option" where
  "validateOwnedWorkspaceCleanup d =
     (case forE (\<lambda>seen p. if owned_cleanup_ok d p \<and> w_ID (snd p) \<notin> seen
                          then Inr (insert (w_ID (snd p)) seen)
                          else Inl ErrIncompatibleState)
             {} (sorted_list_of_fmap (OwnedWorkspaceCleanup d)) of
        Inl e \<Rightarrow> Some e | Inr _ \<Rightarrow> None)"


subsection \<open>Disposable Environment resources (\<^verbatim>\<open>validateEnvironmentResources\<close>)\<close>

definition env_attachment_resource_ok ::
  "environmentFileState \<Rightarrow> WorkspaceLease \<Rightarrow> EnvironmentAttachment \<Rightarrow> PersistentResource \<Rightarrow> bool" where
  "env_attachment_resource_ok d lease a r \<longleftrightarrow>
     \<not> (Ref r \<noteq> a_Resource a \<or> pr_EnvironmentInstance r \<noteq> l_InstanceID lease
        \<or> pr_Kind r \<noteq> g_Kind (a_Origin a)) \<and>
     \<not> ((pr_State r = ''planned'' \<or> pr_State r = ''creating'') \<and> pr_RestoreSource r = []
        \<and> pr_CopySource r \<noteq> g_Current (a_Origin a)) \<and>
     \<not> ((pr_State r = ''planned'' \<and> pr_CopyCompleted r)
        \<or> (pr_State r = ''created'' \<and> pr_RestoreSource r = [] \<and> g_Current (a_Origin a) \<noteq> no_ref)) \<and>
     \<not> (pr_RestoreSource r \<noteq> [] \<and> \<not> matchesSavedEnvironmentResource d lease a r) \<and>
     \<not> (l_State lease = ''active'' \<and> pr_State r \<noteq> ''ready'' \<and> pr_State r \<noteq> ''clearing'') \<and>
     \<not> (pr_State r = ''clearing'' \<and> (l_State lease \<noteq> ''active'' \<or> l_RuntimeAbsent lease
        \<or> pr_CopySource r \<noteq> no_ref \<or> pr_CopyCompleted r \<or> pr_ImportPending r
        \<or> pr_RestoreSource r \<noteq> [])) \<and>
     \<not> (pr_State r = ''deleting'' \<and> \<not> l_RuntimeAbsent lease)"

definition env_attachment_step ::
  "environmentFileState \<Rightarrow> WorkspaceLease \<Rightarrow> string gomap \<Rightarrow> EnvironmentAttachment \<Rightarrow> error + string gomap" where
  "env_attachment_step d lease held a =
     (let i = ref_ID (a_Resource a) in
      if \<not> ValidEnvironmentResourceRef (a_Resource a) \<or> getd [] held i \<noteq> []
         \<or> ref_ID (l_PersistentResource lease) = i then Inl ErrIncompatibleState
      else let held' = fmupd i (l_InstanceID lease) held in
        (case fmlookup (PersistentResources d) i of
           None \<Rightarrow> if l_RuntimeAbsent lease then Inr held' else Inl ErrIncompatibleState
         | Some r \<Rightarrow> if env_attachment_resource_ok d lease a r then Inr held'
                     else Inl ErrIncompatibleState))"

definition env_lease_ok :: "environmentFileState \<Rightarrow> string \<Rightarrow> WorkspaceLease \<Rightarrow> bool" where
  "env_lease_ok d name lease \<longleftrightarrow>
     \<not> (Version d < 16 \<or> Version d > environmentStateVersion \<or> name \<noteq> l_EnvironmentID lease
        \<or> \<not> ValidEnvironmentInstanceID (l_InstanceID lease)
        \<or> \<not> ValidEnvironmentAttachments (l_Attachments lease)) \<and>
     \<not> (l_State lease \<noteq> ''acquiring'' \<and> l_State lease \<noteq> ''active'' \<and> l_State lease \<noteq> ''cleanup-required'') \<and>
     \<not> (l_RuntimeAbsent lease \<and> (l_Attachments lease = [] \<or> l_State lease \<noteq> ''cleanup-required'')) \<and>
     \<not> (l_SnapshotSource lease \<noteq> [] \<and> \<not> validSavedEnvironmentLease d lease) \<and>
     \<not> (l_WorkspaceID lease = [] \<or> l_SourcePath lease = [] \<or> l_Owner lease = []
        \<or> IsZero (l_AcquiredAt lease) \<or> (l_AccessMode lease \<noteq> ''ro'' \<and> l_AccessMode lease \<noteq> ''rw'')) \<and>
     fmpred (\<lambda>otherName other. \<not> (otherName \<noteq> name \<and> l_InstanceID other = l_InstanceID lease)) (Leases d) \<and>
     (l_State lease = ''active'' \<longrightarrow>
        (case fmlookup (Environments d) name of None \<Rightarrow> False | Some env \<Rightarrow> MatchesEnvironment lease env))"

definition env_lease_step ::
  "environmentFileState \<Rightarrow> string gomap \<Rightarrow> string \<times> WorkspaceLease \<Rightarrow> error + string gomap" where
  "env_lease_step d held = (\<lambda>(name, lease).
     if l_Attachments lease = [] \<and> \<not> l_RuntimeAbsent lease then Inr held
     else if \<not> env_lease_ok d name lease then Inl ErrIncompatibleState
     else forE (env_attachment_step d lease) held (l_Attachments lease))"

definition env_attachments_published :: "environmentFileState \<Rightarrow> string \<Rightarrow> Environment \<Rightarrow> bool" where
  "env_attachments_published d name env =
     (let lease = getd no_lease (Leases d) name in
      if e_Attachments env = [] \<and> l_Attachments lease = [] then True
      else \<not> (Version d < 16 \<or> \<not> present (Leases d) name \<or> l_State lease = ''acquiring''
        \<or> \<not> MatchesEnvironment (lease\<lparr>l_State := ''active'', l_RuntimeAbsent := False\<rparr>) env
        \<or> e_Attachments env \<noteq> l_Attachments lease))"

definition env_resource_held ::
  "environmentFileState \<Rightarrow> string gomap \<Rightarrow> string \<Rightarrow> PersistentResource \<Rightarrow> bool" where
  "env_resource_held d held i r =
     (if pr_EnvironmentInstance r = [] then \<not> HasPrefix i ''env-data:''
      else \<not> (Version d < 16 \<or> Version d > environmentStateVersion
        \<or> \<not> ValidEnvironmentInstanceID (pr_EnvironmentInstance r)
        \<or> \<not> ValidEnvironmentResourceRef (Ref r) \<or> getd [] held i \<noteq> pr_EnvironmentInstance r
        \<or> pr_SourceOnly r \<or> pr_WorkspaceID r \<noteq> []) \<and>
      fmpred (\<lambda>otherID other. \<not> (i \<noteq> otherID \<and>
        (pr_Owner r = pr_Owner other \<or> pr_NativeRef r = pr_NativeRef other))) (PersistentResources d))"

definition validateEnvironmentResources :: "environmentFileState \<Rightarrow> error option" where
  "validateEnvironmentResources d =
     (if \<not> fmpred (\<lambda>_ environment. DNSMode_Valid (e_DNSMode environment)) (Environments d)
      then Some ErrIncompatibleState
      else if \<not> fmpred (\<lambda>_ saved. DNSMode_Valid (e_DNSMode (src_Environment (s_Source saved)))) (Snapshots d)
      then Some ErrIncompatibleState
      else case forE (env_lease_step d) fmempty (sorted_list_of_fmap (Leases d)) of
        Inl e \<Rightarrow> Some e
      | Inr held \<Rightarrow>
          if \<not> fmpred (env_attachments_published d) (Environments d) then Some ErrIncompatibleState
          else if \<not> fmpred (env_resource_held d held) (PersistentResources d)
          then Some ErrIncompatibleState
          else None)"

subsection \<open>Persistent resources (\<^verbatim>\<open>validatePersistentResourceState\<close>)\<close>

definition resourceMaintenanceLease :: "environmentFileState \<Rightarrow> WorkspaceLease \<Rightarrow> bool" where
  "resourceMaintenanceLease d lease =
     (let work = \<lparr>w_ID = l_WorkspaceID lease, w_Path = l_SourcePath lease\<rparr> in
      if l_AccessMode lease \<noteq> ''rw'' \<or> \<not> ValidTemporaryWorkspace work then False
      else case fmlookup (EphemeralRuns d) (l_EnvironmentID lease) of
        None \<Rightarrow> False
      | Some run \<Rightarrow> validateEphemeralRun run = None \<and> run_EnvironmentID run = l_EnvironmentID lease
          \<and> run_TemporaryWorkspace run = Some work)"

definition persistent_record_ok :: "string \<Rightarrow> PersistentResource \<Rightarrow> bool" where
  "persistent_record_ok i r \<longleftrightarrow>
     \<not> (pr_ImportPending r \<and> (pr_EnvironmentInstance r = [] \<or> \<not> ValidEnvironmentResourceRef (Ref r)
        \<or> pr_SourceOnly r \<or> pr_WorkspaceID r \<noteq> [] \<or> pr_RestoreSource r \<noteq> []
        \<or> pr_CopySource r \<noteq> no_ref \<or> pr_CopyCompleted r \<or> pr_State r = ''ready'')) \<and>
     \<not> ((pr_SourceOnly r \<and> pr_WorkspaceID r \<noteq> []) \<or> i \<noteq> pr_ID r
        \<or> \<not> ValidPersistentResourceRef (Ref r) \<or> pr_Kind r = [] \<or> pr_NativeRef r = []
        \<or> IsZero (pr_CreatedAt r)
        \<or> (pr_State r \<noteq> ''creating'' \<and> pr_State r \<noteq> ''created'' \<and> pr_State r \<noteq> ''ready''
           \<and> pr_State r \<noteq> ''deleting''
           \<and> ((pr_State r \<noteq> ''planned'' \<and> pr_State r \<noteq> ''clearing'') \<or> pr_EnvironmentInstance r = [])))"

definition persistent_copy_ok :: "environmentFileState \<Rightarrow> PersistentResource \<Rightarrow> bool" where
  "persistent_copy_ok d r =
     (if pr_CopySource r = no_ref then \<not> pr_CopyCompleted r
      else case fmlookup (PersistentResources d) (ref_ID (pr_CopySource r)) of
        None \<Rightarrow> False
      | Some source \<Rightarrow>
          \<not> ((pr_State r \<noteq> ''creating'' \<and> (pr_State r \<noteq> ''deleting'' \<or> \<not> pr_CopyCleanup r)
              \<and> (pr_State r \<noteq> ''planned'' \<or> pr_EnvironmentInstance r = []))
             \<or> pr_State source \<noteq> ''ready'' \<or> Ref source \<noteq> pr_CopySource r
             \<or> pr_Kind source \<noteq> pr_Kind r \<or> pr_ID source = pr_ID r \<or> pr_Owner source = pr_Owner r
             \<or> pr_NativeRef source = pr_NativeRef r) \<and>
          fmpred (\<lambda>_ lease. \<not> (leaseHasResource lease (pr_ID source)
             \<and> \<not> environmentGenerationCopy d source r lease)) (Leases d))"

definition persistent_progress_ok :: "environmentFileState \<Rightarrow> PersistentResource \<Rightarrow> bool" where
  "persistent_progress_ok d r \<longleftrightarrow>
     \<not> ((pr_State r = ''created'' \<or> pr_RestoreSource r \<noteq> []) \<and> Version d \<noteq> 11 \<and> Version d \<noteq> 12
        \<and> (Version d < 13 \<or> Version d > environmentStateVersion)) \<and>
     \<not> (pr_State r = ''created'' \<and> ((pr_RestoreSource r = [] \<and> pr_EnvironmentInstance r = [])
        \<or> pr_SourceOnly r \<or> pr_CopySource r \<noteq> no_ref)) \<and>
     (pr_RestoreSource r \<noteq> [] \<longrightarrow>
        (case fmlookup (Snapshots d) (pr_RestoreSource r) of
           None \<Rightarrow> False
         | Some saved \<Rightarrow> \<not> (s_State saved \<noteq> ''ready'' \<or> pr_State r = ''ready'' \<or> pr_SourceOnly r
             \<or> pr_CopySource r \<noteq> no_ref))) \<and>
     \<not> ((pr_CopyOperation r \<noteq> [] \<or> pr_CopyCleanup r)
        \<and> (\<not> validCacheCopyReceipt r \<or> (pr_CopyCleanup r \<and> pr_CopyCompleted r))) \<and>
     persistent_copy_ok d r"

definition persistent_lease_ok :: "environmentFileState \<Rightarrow> WorkspaceLease \<Rightarrow> bool" where
  "persistent_lease_ok d lease =
     (let ref = l_PersistentResource lease in
      case fmlookup (PersistentResources d) (ref_ID ref) of
        None \<Rightarrow> False
      | Some resource \<Rightarrow>
          \<not> (Ref resource \<noteq> ref \<or> pr_State resource \<noteq> ''ready'' \<or> pr_SourceOnly resource
             \<or> pr_EnvironmentInstance resource \<noteq> []
             \<or> (pr_WorkspaceID resource \<noteq> [] \<and> pr_WorkspaceID resource \<noteq> l_WorkspaceID lease
                \<and> \<not> resourceMaintenanceLease d lease)))"

definition validatePersistentResourceState :: "environmentFileState \<Rightarrow> error option" where
  "validatePersistentResourceState d =
     (if \<not> fmpred persistent_record_ok (PersistentResources d) then Some ErrIncompatibleState
      else if \<not> fmpred (\<lambda>_. persistent_progress_ok d) (PersistentResources d)
      then Some ErrIncompatibleState
      else case forE (\<lambda>held p. if persistent_lease_ok d (snd p)
                                  \<and> ref_ID (l_PersistentResource (snd p)) \<notin> held
                               then Inr (insert (ref_ID (l_PersistentResource (snd p))) held)
                               else Inl ErrIncompatibleState)
             {} (filter (\<lambda>p. l_PersistentResource (snd p) \<noteq> no_ref) (sorted_list_of_fmap (Leases d))) of
        Inl e \<Rightarrow> Some e
      | Inr _ \<Rightarrow>
          if \<not> fmpred (\<lambda>name environment. e_PersistentResource environment \<noteq> no_ref \<longrightarrow>
                 (case fmlookup (Leases d) name of
                    None \<Rightarrow> False
                  | Some lease \<Rightarrow> l_PersistentResource lease = e_PersistentResource environment))
               (Environments d)
          then Some ErrIncompatibleState else None)"

subsection \<open>Resource generations\<close>

definition publication_receipt_ok :: "PersistentResource \<Rightarrow> bool" where
  "publication_receipt_ok r \<longleftrightarrow>
     (pr_PublicationOrigin r \<noteq> no_generation \<or> pr_Producer r \<noteq> no_ref \<longrightarrow>
      \<not> (\<not> ValidResourceGeneration (pr_PublicationOrigin r) \<or> \<not> ValidEnvironmentResourceRef (pr_Producer r)
         \<or> \<not> ValidGenerationResource (Ref r) \<or> \<not> pr_SourceOnly r \<or> pr_EnvironmentInstance r \<noteq> []
         \<or> pr_WorkspaceID r \<noteq> [] \<or> pr_Kind r \<noteq> g_Kind (pr_PublicationOrigin r)
         \<or> pr_RestoreSource r \<noteq> []
         \<or> (pr_CopySource r \<noteq> no_ref \<and> pr_CopySource r \<noteq> pr_Producer r)))"

definition generation_current_ok :: "environmentFileState \<Rightarrow> ResourceGeneration \<Rightarrow> bool" where
  "generation_current_ok d source =
     (case fmlookup (PersistentResources d) (ref_ID (g_Current source)) of
        None \<Rightarrow> False
      | Some resource \<Rightarrow> \<not> (Ref resource \<noteq> g_Current source \<or> pr_State resource \<noteq> ''ready''
          \<or> \<not> pr_SourceOnly resource \<or> pr_Kind resource \<noteq> g_Kind source))"

text \<open>
  The \<^verbatim>\<open>held\<close> map is keyed by the ID of the resource found under \<^verbatim>\<open>source.Current.ID\<close>; the
  check before it makes the two IDs equal.
\<close>

definition generation_step ::
  "environmentFileState \<Rightarrow> string set \<Rightarrow> string \<times> ResourceGeneration \<Rightarrow> error + string set" where
  "generation_step d held = (\<lambda>(name, source).
     if name \<noteq> g_Name source \<or> \<not> ValidResourceGeneration source then Inl ErrIncompatibleState
     else if g_Number source = 0 then Inr held
     else if \<not> generation_current_ok d source \<or> ref_ID (g_Current source) \<in> held
     then Inl ErrIncompatibleState
     else Inr (insert (ref_ID (g_Current source)) held))"

definition validateResourceGenerations :: "environmentFileState \<Rightarrow> error option" where
  "validateResourceGenerations d =
     (if \<not> fmpred (\<lambda>_. publication_receipt_ok) (PersistentResources d) then Some ErrIncompatibleState
      else if ResourceGenerations d \<noteq> fmempty \<and> (Version d < 15 \<or> Version d > environmentStateVersion)
      then Some ErrIncompatibleState
      else case forE (generation_step d) {} (sorted_list_of_fmap (ResourceGenerations d)) of
        Inl e \<Rightarrow> Some e | Inr _ \<Rightarrow> None)"


subsection \<open>Snapshots, restores, Base assets\<close>

definition snapshotIDPattern :: "string \<Rightarrow> bool" where
  "snapshotIDPattern = dns_label 39"

definition snapshotImageRevisionPattern :: "string \<Rightarrow> bool" where
  "snapshotImageRevisionPattern s \<longleftrightarrow> HasPrefix s ''sha256:'' \<and> hexn 64 (drop 7 s)"

definition snapshotOwnerPattern :: "string \<Rightarrow> bool" where
  "snapshotOwnerPattern = hexn 32"

text \<open>What the loop over the components of a snapshot has seen.\<close>

record snapshot_scan =
  sc_refs :: "string set"
  sc_roles :: "string set"
  sc_expectedData :: "string set"
  sc_root :: nat
  sc_work :: nat
  sc_oci :: nat
  sc_base :: nat

definition snapshot_role :: "string \<Rightarrow> snapshot_scan \<Rightarrow> error + snapshot_scan" where
  "snapshot_role role scan =
     (if role = ''image'' then Inr scan
      else if role = ''base'' then Inr (scan\<lparr>sc_base := sc_base scan + 1\<rparr>)
      else if role = ''rootfs'' then Inr (scan\<lparr>sc_root := sc_root scan + 1\<rparr>)
      else if role = ''oci'' then Inr (scan\<lparr>sc_oci := sc_oci scan + 1\<rparr>)
      else if role \<in> sc_expectedData scan
      then Inr (scan\<lparr>sc_expectedData := sc_expectedData scan - {role}\<rparr>)
      else if HasPrefix role ''workspace:'' \<and> length role > 10
      then Inr (scan\<lparr>sc_work := sc_work scan + 1\<rparr>)
      else Inl ErrInvalidArgument)"

definition snapshot_component_step ::
  "Snapshot \<Rightarrow> snapshot_scan \<Rightarrow> SnapshotComponent \<Rightarrow> error + snapshot_scan" where
  "snapshot_component_step s scan c =
     (if length (c_Binding c) > 16384 \<or> \<not> ValidString (c_Binding c) \<or> c_NativeRef c = []
         \<or> length (c_NativeRef c) > 1024 \<or> length (c_Role c) > 1024
         \<or> \<not> snapshotOwnerPattern (c_Owner c) \<or> c_NativeRef c \<in> sc_refs scan
         \<or> c_Role c \<in> sc_roles scan
      then Inl ErrInvalidArgument
      else if has_control (c_NativeRef c @ c_Role c) then Inl ErrInvalidArgument
      else case snapshot_role (c_Role c) (scan\<lparr>sc_refs := insert (c_NativeRef c) (sc_refs scan),
                                            sc_roles := insert (c_Role c) (sc_roles scan)\<rparr>) of
        Inl e \<Rightarrow> Inl e
      | Inr scan' \<Rightarrow>
          if c_State c \<noteq> ''planned'' \<and> c_State c \<noteq> ''created'' \<and> c_State c \<noteq> ''verified''
             \<and> c_State c \<noteq> ''absent'' then Inl ErrInvalidArgument
          else if s_State s = ''ready'' \<and> c_State c \<noteq> ''verified'' then Inl ErrInvalidArgument
          else if c_State c = ''absent'' \<and> s_State s \<noteq> ''deleting'' then Inl ErrInvalidArgument
          else Inr scan')"

definition snapshot_scan_start :: "Snapshot \<Rightarrow> snapshot_scan" where
  "snapshot_scan_start s = \<lparr>sc_refs = {}, sc_roles = {},
     sc_expectedData = set (map (\<lambda>a. ''data:'' @ a_Key a) (e_Attachments (src_Environment (s_Source s)))),
     sc_root = 0, sc_work = 0, sc_oci = 0, sc_base = 0\<rparr>"

definition snapshot_scan_accepts :: "Snapshot \<Rightarrow> snapshot_scan \<Rightarrow> bool" where
  "snapshot_scan_accepts s scan \<longleftrightarrow>
     (let env = src_Environment (s_Source s); hasOCI = (e_PersistentResource env \<noteq> no_ref) in
      \<not> (sc_expectedData scan \<noteq> {} \<or> sc_root scan \<noteq> 1 \<or> sc_work scan = 0 \<or> sc_base scan > 1
         \<or> (sc_base scan \<noteq> 0 \<and> (case e_Base env of None \<Rightarrow> True
              | Some b \<Rightarrow> b_Name b = [] \<or> b_Revision b = []))) \<and>
      (case s_Image s of None \<Rightarrow> True
       | Some img \<Rightarrow> \<not> (''image'' \<notin> sc_roles scan \<or> b_Name img \<noteq> s_ID s
           \<or> \<not> snapshotImageRevisionPattern (b_Revision img))) \<and>
      \<not> (''image'' \<in> sc_roles scan \<and> s_State s = ''ready'' \<and> s_Image s = None) \<and>
      \<not> ((hasOCI \<and> (sc_oci scan \<noteq> 1 \<or> \<not> ValidPersistentResourceRef (e_PersistentResource env)))
         \<or> (\<not> hasOCI \<and> sc_oci scan \<noteq> 0)))"

definition validateSnapshot :: "Snapshot \<Rightarrow> error option" where
  "validateSnapshot s =
     (let env = src_Environment (s_Source s) in
      if \<not> ValidEnvironmentAttachments (e_Attachments env) then Some ErrInvalidArgument
      else if \<not> snapshotIDPattern (s_ID s) \<or> \<not> ValidEnvironmentInstanceID (src_InstanceID (s_Source s))
         \<or> e_Name env = [] \<or> e_RuntimeRef env = [] \<or> w_ID (e_Workspace env) = []
         \<or> \<not> HasPrefix (w_Path (e_Workspace env)) ''managed:'' \<or> length (s_Components s) < 2
         \<or> length (s_Components s) > 256 + MaxEnvironmentAttachments then Some ErrInvalidArgument
      else if s_State s \<noteq> ''capturing'' \<and> s_State s \<noteq> ''ready'' \<and> s_State s \<noteq> ''recovery-required''
         \<and> s_State s \<noteq> ''deleting'' then Some ErrInvalidArgument
      else case forE (snapshot_component_step s) (snapshot_scan_start s) (s_Components s) of
        Inl e \<Rightarrow> Some e
      | Inr scan \<Rightarrow> if snapshot_scan_accepts s scan then None else Some ErrInvalidArgument)"

definition restoreIDPattern :: "string \<Rightarrow> bool" where
  "restoreIDPattern s \<longleftrightarrow> HasPrefix s ''restore-'' \<and> hexn 32 (drop 8 s)"

definition restore_shape :: "SnapshotRestore \<Rightarrow> Snapshot" where
  "restore_shape op = no_snapshot\<lparr>s_ID := ''snap-'' @ TrimPrefix (r_ID op) ''restore-'',
     s_Source := s_Source (r_Saved op), s_Components := r_Components op,
     s_State := (if r_State op = ''deleting'' then ''deleting''
                 else if r_State op = ''prepared'' then ''ready'' else ''capturing'')\<rparr>"

definition validateRestore :: "SnapshotRestore \<Rightarrow> error option" where
  "validateRestore op =
     (if \<not> restoreIDPattern (r_ID op) \<or> validateSnapshot (r_Saved op) \<noteq> None \<or> s_State (r_Saved op) \<noteq> ''ready''
      then Some ErrInvalidArgument
      else if \<not> ValidEnvironmentInstanceID (src_InstanceID (r_Current op))
         \<or> e_Name (src_Environment (r_Current op)) = []
         \<or> w_ID (e_Workspace (src_Environment (r_Current op))) = [] then Some ErrInvalidArgument
      else if s_ID (r_Before op) = [] \<and> r_Before op \<noteq> no_snapshot then Some ErrInvalidArgument
      else if s_ID (r_Before op) \<noteq> [] \<and> (validateSnapshot (r_Before op) \<noteq> None
         \<or> s_State (r_Before op) \<noteq> ''ready'' \<or> s_ID (r_Before op) = s_ID (r_Saved op)
         \<or> s_Source (r_Before op) \<noteq> r_Current op) then Some ErrInvalidArgument
      else if r_State op \<notin> {''preparing'', ''prepared'', ''recovery-required'', ''deleting''}
      then Some ErrInvalidArgument
      else if validateSnapshot (restore_shape op) \<noteq> None then Some ErrInvalidArgument
      else
        let sources = s_Components (r_Saved op) @ s_Components (r_Before op);
            refs = set (map c_NativeRef sources);
            owners = set (map c_Owner sources);
            roles = set (map c_Role (filter (\<lambda>c. c_Role c \<noteq> ''base'' \<or> s_ID (r_Before op) \<noteq> [])
                      (s_Components (r_Saved op))))
        in if list_ex (\<lambda>c. c_Binding c = []) sources then Some ErrUnsupported
        else if length (r_Components op) \<noteq> card roles then Some ErrInvalidArgument
        else case forE (\<lambda>owners c.
               if c_Role c \<notin> roles \<or> c_Binding c = [] \<or> c_NativeRef c \<in> refs \<or> c_Owner c \<in> owners
               then Inl ErrInvalidArgument else Inr (insert (c_Owner c) owners))
             owners (r_Components op) of
          Inl e \<Rightarrow> Some e | Inr _ \<Rightarrow> None)"

definition baseAssetOwnerPattern :: "string \<Rightarrow> bool" where
  "baseAssetOwnerPattern = hexn 32"

definition base_asset_text_ok :: "string \<Rightarrow> bool" where
  "base_asset_text_ok v \<longleftrightarrow>
     \<not> (v = [] \<or> length v > 1024 \<or> \<not> ValidString v \<or> TrimSpace v \<noteq> v) \<and> \<not> has_control v"

definition validateBaseAsset :: "BaseAsset \<Rightarrow> error option" where
  "validateBaseAsset a =
     (if \<not> HasPrefix (ba_ID a) ''base-'' \<or> \<not> baseAssetOwnerPattern (TrimPrefix (ba_ID a) ''base-'')
         \<or> \<not> baseAssetOwnerPattern (ba_Owner a) then Some ErrInvalidArgument
      else if \<not> list_all base_asset_text_ok
           [b_Name (ba_Base a), b_Revision (ba_Base a), ba_Provider a, ba_Scope a, ba_NativeRef a]
      then Some ErrInvalidArgument
      else if ba_Binding a = [] \<or> length (ba_Binding a) > 16384 \<or> \<not> ValidString (ba_Binding a)
      then Some ErrInvalidArgument
      else if ba_State a \<noteq> ''planned'' \<and> ba_State a \<noteq> ''created'' \<and> ba_State a \<noteq> ''ready''
      then Some ErrInvalidArgument
      else None)"

definition snapshotWorkspaceID :: "string \<Rightarrow> bool" where
  "snapshotWorkspaceID = ident alnum alnumdash 47"

definition validSnapshotWorkspaceCopy :: "string \<Rightarrow> snapshotWorkspaceCopy \<Rightarrow> bool" where
  "validSnapshotWorkspaceCopy i copy \<longleftrightarrow>
     snapshotWorkspaceID i \<and> snapshotIDPattern (wc_SnapshotID copy) \<and>
     ValidPersistentResourceRef \<lparr>ref_ID = ''oci:check'', ref_Owner = wc_Owner copy\<rparr>"

subsection \<open>Environment records\<close>

definition validateEnvironmentCreateCommit :: "Environment \<Rightarrow> WorkspaceLease \<Rightarrow> error option" where
  "validateEnvironmentCreateCommit environment lease =
     (if \<not> DNSMode_Valid (e_DNSMode environment) then Some ErrInvalidArgument
      else if e_PersistentResource environment \<noteq> l_PersistentResource lease then Some ErrIncompatibleState
      else if e_Name environment = [] \<or> e_RuntimeRef environment = []
         \<or> w_ID (e_Workspace environment) = [] \<or> w_Path (e_Workspace environment) = []
         \<or> IsZero (e_CreatedAt environment) then Some ErrInvalidArgument
      else if \<not> MatchesEnvironment lease environment then Some ErrIncompatibleState
      else None)"

definition environmentSupportsLease :: "Environment \<Rightarrow> bool" where
  "environmentSupportsLease environment \<longleftrightarrow>
     w_ID (e_Workspace environment) \<noteq> [] \<and> w_Path (e_Workspace environment) \<noteq> [] \<and>
     e_AccessMode environment \<noteq> [] \<and> e_RuntimeRef environment \<noteq> []"

definition validateLeaseCompatibleState :: "environmentFileState \<Rightarrow> error option" where
  "validateLeaseCompatibleState d =
     (if fmpred (\<lambda>_. environmentSupportsLease) (Environments d) then None
      else Some ErrIncompatibleState)"

section \<open>Normalisation of a decoded catalog (\<^verbatim>\<open>environment_migration.go\<close>)\<close>

definition supportedEnvironmentStateVersion :: "int \<Rightarrow> bool" where
  "supportedEnvironmentStateVersion version \<longleftrightarrow>
     version = 0 \<or> (version \<ge> previousEnvironmentStateVersion \<and> version \<le> 8)
     \<or> (version \<ge> 10 \<and> version \<le> 12) \<or> version = 16 \<or> version = environmentStateVersion"

definition workspace_copies_ok :: "environmentFileState \<Rightarrow> bool" where
  "workspace_copies_ok d \<longleftrightarrow> fmpred (\<lambda>i copy.
     \<not> (Version d \<noteq> environmentStateVersion \<or> \<not> validSnapshotWorkspaceCopy i copy
        \<or> (case fmlookup (Snapshots d) (wc_SnapshotID copy) of
             None \<Rightarrow> True | Some saved \<Rightarrow> s_State saved \<noteq> ''ready''))) (WorkspaceCopies d)"

definition base_assets_ok :: "environmentFileState \<Rightarrow> bool" where
  "base_assets_ok d \<longleftrightarrow> fmpred (\<lambda>i a.
     \<not> (Version d \<notin> {7, 8, 10, 11, 12, environmentStateVersion} \<or> i \<noteq> ba_ID a
        \<or> validateBaseAsset a \<noteq> None) \<and>
     fmpred (\<lambda>otherID b. \<not> (otherID \<noteq> i \<and> ba_Provider a = ba_Provider b
        \<and> ((ba_Scope a = ba_Scope b \<and> ba_Base a = ba_Base b) \<or> ba_NativeRef a = ba_NativeRef b)))
       (BaseAssets d)) (BaseAssets d)"

definition snapshots_ok :: "environmentFileState \<Rightarrow> bool" where
  "snapshots_ok d \<longleftrightarrow> fmpred (\<lambda>i snapshot.
     (Version d = 5 \<longrightarrow> list_all (\<lambda>component. \<not> (c_Binding component \<noteq> [] \<or> c_Role component = ''base''))
        (s_Components snapshot)) \<and>
     \<not> (Version d \<notin> {5, 6, 7, 8, 10, 11, 12, environmentStateVersion} \<or> i \<noteq> s_ID snapshot
        \<or> validateSnapshot snapshot \<noteq> None)) (Snapshots d)"

text \<open>Schema 8 kept the current target in the backup: move it.\<close>

definition migrate_restores :: "environmentFileState \<Rightarrow> error + environmentFileState" where
  "migrate_restores d =
     (if Version d \<noteq> 8 then Inr d
      else if \<not> fmpred (\<lambda>_ op. \<not> (e_Name (src_Environment (r_Current op)) \<noteq> [] \<or> s_ID (r_Before op) = []))
             (Restores d) then Inl ErrIncompatibleState
      else Inr (d\<lparr>Restores := fmmap (\<lambda>op. op\<lparr>r_Current := s_Source (r_Before op)\<rparr>) (Restores d)\<rparr>))"

definition restore_component_free :: "environmentFileState \<Rightarrow> SnapshotComponent \<Rightarrow> bool" where
  "restore_component_free d c \<longleftrightarrow>
     fmpred (\<lambda>_ env. c_NativeRef c \<noteq> e_RuntimeRef env) (Environments d) \<and>
     fmpred (\<lambda>_ snap. list_all (\<lambda>old. \<not> (c_NativeRef c = c_NativeRef old \<or> c_Owner c = c_Owner old))
        (s_Components snap)) (Snapshots d) \<and>
     fmpred (\<lambda>_ a. \<not> (c_NativeRef c = ba_NativeRef a \<or> c_Owner c = ba_Owner a)) (BaseAssets d)"

definition restores_ok :: "environmentFileState \<Rightarrow> bool" where
  "restores_ok d \<longleftrightarrow> fmpred (\<lambda>i op.
     \<not> (Version d \<notin> {8, 10, 11, 12, environmentStateVersion} \<or> i \<noteq> r_ID op \<or> validateRestore op \<noteq> None
        \<or> getd no_snapshot (Snapshots d) (s_ID (r_Saved op)) \<noteq> r_Saved op
        \<or> (s_ID (r_Before op) \<noteq> [] \<and> getd no_snapshot (Snapshots d) (s_ID (r_Before op)) \<noteq> r_Before op)) \<and>
     (let before = r_Current op;
          name = e_Name (src_Environment before);
          lease = getd no_lease (Leases d) name
      in \<not> (getd no_environment (Environments d) name \<noteq> src_Environment before
            \<or> l_InstanceID lease \<noteq> src_InstanceID before \<or> l_State lease \<noteq> ''active''
            \<or> validateEnvironmentCreateCommit (src_Environment before) lease \<noteq> None)) \<and>
     list_all (restore_component_free d) (r_Components op) \<and>
     fmpred (\<lambda>otherID other. otherID = i \<or>
        \<not> (e_Name (src_Environment (r_Current op)) = e_Name (src_Environment (r_Current other))) \<and>
        list_all (\<lambda>a. list_all (\<lambda>b. \<not> (c_NativeRef a = c_NativeRef b \<or> c_Owner a = c_Owner b))
          (r_Components other)) (r_Components op)) (Restores d)) (Restores d)"

definition fill_environment :: "string \<Rightarrow> Environment \<Rightarrow> Environment" where
  "fill_environment name environment =
     (if e_Name environment = [] then environment\<lparr>e_Name := name\<rparr> else environment)"

definition legacy_lease :: "string \<Rightarrow> Environment \<Rightarrow> WorkspaceLease" where
  "legacy_lease name environment = no_lease\<lparr>
     l_PersistentResource := e_PersistentResource environment,
     l_WorkspaceID := w_ID (e_Workspace environment),
     l_SourcePath := w_Path (e_Workspace environment),
     l_EnvironmentID := name, l_AccessMode := e_AccessMode environment, l_Owner := name,
     l_RuntimeRef := e_RuntimeRef environment, l_State := ''active'',
     l_AcquiredAt := e_CreatedAt environment\<rparr>"

text \<open>Environments that support a lease and have none get one; existing leases win.\<close>

definition fill_environments :: "environmentFileState \<Rightarrow> environmentFileState" where
  "fill_environments d =
     (let named = fmmap_keys fill_environment (Environments d) in
      d\<lparr>Environments := named,
        Leases := fmmap_keys legacy_lease
            (fmfilter (\<lambda>name. environmentSupportsLease (getd no_environment named name)) named)
          ++\<^sub>f Leases d\<rparr>)"

definition lease_source_ok :: "environmentFileState \<Rightarrow> WorkspaceLease \<Rightarrow> bool" where
  "lease_source_ok d lease \<longleftrightarrow>
     (l_SnapshotSource lease \<noteq> [] \<longrightarrow>
      (case fmlookup (Snapshots d) (l_SnapshotSource lease) of
         None \<Rightarrow> False
       | Some saved \<Rightarrow>
           \<not> ((Version d \<noteq> 12 \<and> Version d \<noteq> environmentStateVersion)
              \<or> \<not> snapshotIDPattern (l_SnapshotSource lease) \<or> s_State saved \<noteq> ''ready''
              \<or> \<not> ValidEnvironmentInstanceID (l_InstanceID lease)
              \<or> l_InstanceID lease = src_InstanceID (s_Source saved)
              \<or> (l_State lease \<noteq> ''acquiring'' \<and> l_State lease \<noteq> ''cleanup-required''))))"

definition fill_lease :: "environmentFileState \<Rightarrow> string \<Rightarrow> WorkspaceLease \<Rightarrow> WorkspaceLease" where
  "fill_lease d environmentID lease =
     (let l1 = (if l_EnvironmentID lease = [] then lease\<lparr>l_EnvironmentID := environmentID\<rparr> else lease);
          l2 = (if l_State l1 = [] then l1\<lparr>l_State := ''active''\<rparr> else l1)
      in if l_RuntimeRef l2 = [] then
           (case fmlookup (Environments d) environmentID of
              None \<Rightarrow> l2 | Some environment \<Rightarrow> l2\<lparr>l_RuntimeRef := e_RuntimeRef environment\<rparr>)
         else l2)"

definition fill_run :: "string \<Rightarrow> EphemeralRun \<Rightarrow> EphemeralRun" where
  "fill_run environmentID run =
     (let r1 = (if run_EnvironmentID run = [] then run\<lparr>run_EnvironmentID := environmentID\<rparr> else run)
      in if run_State r1 = [] then r1\<lparr>run_State := ''cleanup-required''\<rparr> else r1)"

definition normalizeEnvironmentState :: "environmentFileState \<Rightarrow> error + environmentFileState" where
  "normalizeEnvironmentState data =
     (case validateOwnedWorkspaceCleanup data of Some e \<Rightarrow> Inl e | None \<Rightarrow>
      let d = (if Version data = 16 then data\<lparr>Version := environmentStateVersion\<rparr> else data) in
      if \<not> supportedEnvironmentStateVersion (Version d) then Inl ErrIncompatibleState
      else case validateEnvironmentResources d of Some e \<Rightarrow> Inl e | None \<Rightarrow>
      if \<not> workspace_copies_ok d then Inl ErrIncompatibleState
      else if \<not> base_assets_ok d then Inl ErrIncompatibleState
      else if \<not> snapshots_ok d then Inl ErrIncompatibleState
      else case migrate_restores d of Inl e \<Rightarrow> Inl e | Inr d \<Rightarrow>
      if \<not> restores_ok d then Inl ErrIncompatibleState
      else let d = fill_environments d in
      if \<not> fmpred (\<lambda>_. lease_source_ok d) (Leases d) then Inl ErrIncompatibleState
      else let d = d\<lparr>Leases := fmmap_keys (fill_lease d) (Leases d),
                     EphemeralRuns := fmmap_keys fill_run (EphemeralRuns d)\<rparr> in
      case validateEphemeralIdentities d of Some e \<Rightarrow> Inl e | None \<Rightarrow>
      case validatePersistentResourceState d of Some e \<Rightarrow> Inl e | None \<Rightarrow>
      case validateResourceGenerations d of Some e \<Rightarrow> Inl e | None \<Rightarrow>
      Inr (d\<lparr>Version := environmentStateVersion\<rparr>))"

end
