(* ===== verification/Store.thy ===== *)
theory Store
  imports Catalog
begin

text \<open>
  The durable store: the catalog file, \<^verbatim>\<open>readEnvironments\<close> and \<^verbatim>\<open>writeEnvironments\<close> of
  \<^verbatim>\<open>environment_jsonstore.go\<close>, and the two transaction shapes every store method uses,
  \<^verbatim>\<open>catalogTransaction\<close> (which honours the caller's context) and the lock, read, change,
  write sequence of \<^verbatim>\<open>resourceTransaction\<close> and the lifecycle methods.

  A store method is a \<open>call\<close>: refused before the lock is taken, or a change of the decoded
  catalog under the lock.  The change returns whether the catalog is to be written, the
  new catalog and the method's result.  \<open>run\<close> executes a call on the disk under a choice
  of faults: the context errors, the lock error and the first step of the file
  replacement that fails.  The file lock serialises calls, so an interleaving of
  concurrent clients is a sequence of \<open>run\<close>s.  JSON encoding of a catalog and decoding
  it again is the identity on the modelled data.
\<close>

datatype content = Missing | Unreadable | Undecodable | Decoded environmentFileState

record disk =
  catalog :: content
  leftover :: bool \<comment> \<open>a temporary file that could not be removed remains\<close>

datatype write_step = MkdirAll | CreateTemp | ChmodTemp | WriteTemp | SyncTemp | CloseTemp | RenameTemp

record faults =
  f_ctx :: "error option"
  f_lock :: "error option"
  f_ctx_write :: "error option"
  f_write :: "write_step option"
  f_remove :: bool \<comment> \<open>\<^verbatim>\<open>os.Remove\<close> of the temporary file fails\<close>

definition no_faults :: faults where
  "no_faults = \<lparr>f_ctx = None, f_lock = None, f_ctx_write = None, f_write = None, f_remove = False\<rparr>"

definition readEnvironments :: "disk \<Rightarrow> error + environmentFileState" where
  "readEnvironments D = (case catalog D of
     Missing \<Rightarrow> Inr newEnvironmentFileState
   | Unreadable \<Rightarrow> Inl (ErrOther ''read environment state'')
   | Undecodable \<Rightarrow> Inl (ErrOther ''decode environment state'')
   | Decoded data \<Rightarrow> normalizeEnvironmentState data)"

definition validateWrite :: "environmentFileState \<Rightarrow> error option" where
  "validateWrite d =
     (case validateOwnedWorkspaceCleanup d of Some e \<Rightarrow> Some e | None \<Rightarrow>
      case validateEnvironmentResources d of Some e \<Rightarrow> Some e | None \<Rightarrow>
      case validateResourceGenerations d of Some e \<Rightarrow> Some e | None \<Rightarrow>
      validateEphemeralIdentities d)"

definition writeEnvironments ::
  "faults \<Rightarrow> environmentFileState \<Rightarrow> disk \<Rightarrow> disk \<times> error option" where
  "writeEnvironments f d D =
     (case validateWrite d of Some e \<Rightarrow> (D, Some e) | None \<Rightarrow>
      let removed = D\<lparr>leftover := leftover D \<or> f_remove f\<rparr> in
      case f_write f of
        Some MkdirAll \<Rightarrow> (D, Some (ErrOther ''create environment state directory''))
      | Some CreateTemp \<Rightarrow> (D, Some (ErrOther ''create temporary environment state''))
      | Some ChmodTemp \<Rightarrow> (removed, Some (ErrOther ''secure temporary environment state''))
      | Some WriteTemp \<Rightarrow> (removed, Some (ErrOther ''write temporary environment state''))
      | Some SyncTemp \<Rightarrow> (removed, Some (ErrOther ''sync temporary environment state''))
      | Some CloseTemp \<Rightarrow> (removed, Some (ErrOther ''close temporary environment state''))
      | Some RenameTemp \<Rightarrow> (removed, Some (ErrOther ''commit environment state''))
      | None \<Rightarrow> (D\<lparr>catalog := Decoded (d\<lparr>Version := environmentStateVersion\<rparr>)\<rparr>, None))"

type_synonym 'r change = "environmentFileState \<Rightarrow> error + bool \<times> environmentFileState \<times> 'r"

datatype 'r call = Refuse error | Transact "'r change" | Locked "'r change"

definition catalogTransaction :: "faults \<Rightarrow> 'r change \<Rightarrow> disk \<Rightarrow> disk \<times> (error + 'r)" where
  "catalogTransaction f change D =
     (case f_ctx f of Some e \<Rightarrow> (D, Inl e) | None \<Rightarrow>
      case f_lock f of Some e \<Rightarrow> (D, Inl e) | None \<Rightarrow>
      case readEnvironments D of Inl e \<Rightarrow> (D, Inl e) | Inr data \<Rightarrow>
      case change data of Inl e \<Rightarrow> (D, Inl e) | Inr (dirty, data', r) \<Rightarrow>
      if \<not> dirty then (D, Inr r)
      else case f_ctx_write f of Some e \<Rightarrow> (D, Inl e) | None \<Rightarrow>
      case writeEnvironments f data' D of
        (D', Some e) \<Rightarrow> (D', Inl e) | (D', None) \<Rightarrow> (D', Inr r))"

definition lockedTransaction :: "faults \<Rightarrow> 'r change \<Rightarrow> disk \<Rightarrow> disk \<times> (error + 'r)" where
  "lockedTransaction f change D =
     (case f_lock f of Some e \<Rightarrow> (D, Inl e) | None \<Rightarrow>
      case readEnvironments D of Inl e \<Rightarrow> (D, Inl e) | Inr data \<Rightarrow>
      case change data of Inl e \<Rightarrow> (D, Inl e) | Inr (dirty, data', r) \<Rightarrow>
      if \<not> dirty then (D, Inr r)
      else case writeEnvironments f data' D of
        (D', Some e) \<Rightarrow> (D', Inl e) | (D', None) \<Rightarrow> (D', Inr r))"

fun run :: "faults \<Rightarrow> 'r call \<Rightarrow> disk \<Rightarrow> disk \<times> (error + 'r)" where
  "run f (Refuse e) D = (D, Inl e)"
| "run f (Transact change) D = catalogTransaction f change D"
| "run f (Locked change) D = lockedTransaction f change D"

text \<open>\<^verbatim>\<open>resourceTransaction\<close>: the function returns an error or changes the catalog, which is
  then always written.\<close>

definition resourceTransaction :: "(environmentFileState \<Rightarrow> error + environmentFileState \<times> 'r) \<Rightarrow> 'r call" where
  "resourceTransaction fn = Locked (\<lambda>d. case fn d of Inl e \<Rightarrow> Inl e | Inr (d', r) \<Rightarrow> Inr (True, d', r))"

text \<open>What a call does to a decoded catalog, and the call without its result.\<close>

fun effect :: "'r call \<Rightarrow> 'r change" where
  "effect (Refuse e) d = Inl e"
| "effect (Transact change) d = change d"
| "effect (Locked change) d = change d"

definition forget_change :: "'r change \<Rightarrow> unit change" where
  "forget_change c d = (case c d of Inl e \<Rightarrow> Inl e | Inr (dirty, d', _) \<Rightarrow> Inr (dirty, d', ()))"

fun forget :: "'r call \<Rightarrow> unit call" where
  "forget (Refuse e) = Refuse e"
| "forget (Transact c) = Transact (forget_change c)"
| "forget (Locked c) = Locked (forget_change c)"

section \<open>The transaction laws\<close>

lemma effect_resourceTransaction:
  "effect (resourceTransaction fn) d =
     (case fn d of Inl e \<Rightarrow> Inl e | Inr (d', r) \<Rightarrow> Inr (True, d', r))"
  by (simp add: resourceTransaction_def)

lemma writeEnvironments_error:
  "writeEnvironments f d D = (D', Some e) \<Longrightarrow> catalog D' = catalog D"
  by (auto simp: writeEnvironments_def Let_def split: option.splits write_step.splits)

lemma writeEnvironments_leftover:
  "writeEnvironments f d D = (D', r) \<Longrightarrow> \<not> f_remove f \<Longrightarrow> leftover D' = leftover D"
  by (auto simp: writeEnvironments_def Let_def split: option.splits write_step.splits)

lemma writeEnvironments_ok:
  "writeEnvironments f d D = (D', None) \<Longrightarrow>
     validateWrite d = None \<and> D' = D\<lparr>catalog := Decoded (d\<lparr>Version := environmentStateVersion\<rparr>)\<rparr>"
  by (auto simp: writeEnvironments_def Let_def split: option.splits write_step.splits)

text \<open>
  The law all clients of the store rest on: a call that reports an error leaves the
  catalog file as it was, and one that succeeds has read a valid catalog, applied its
  change, and either written nothing or replaced the file by a catalog that passed the
  write validators.
\<close>

lemma run_error:
  "run f c D = (D', Inl e) \<Longrightarrow> catalog D' = catalog D"
  by (cases c) (auto simp: catalogTransaction_def lockedTransaction_def
      split: option.splits sum.splits if_splits prod.splits dest: writeEnvironments_error)

lemma run_ok:
  assumes "run f c D = (D', Inr r)"
  obtains d dirty d1 where "readEnvironments D = Inr d" and "effect c d = Inr (dirty, d1, r)"
    and "\<not> dirty \<Longrightarrow> D' = D"
    and "dirty \<Longrightarrow> validateWrite d1 = None
                   \<and> D' = D\<lparr>catalog := Decoded (d1\<lparr>Version := environmentStateVersion\<rparr>)\<rparr>"
  using assms
  by (cases c) (auto simp: catalogTransaction_def lockedTransaction_def
      split: option.splits sum.splits if_splits prod.splits dest!: writeEnvironments_ok)

lemma run_leftover:
  "run f c D = (D', r) \<Longrightarrow> \<not> f_remove f \<Longrightarrow> leftover D' = leftover D"
  by (cases c) (auto simp: catalogTransaction_def lockedTransaction_def
      split: option.splits sum.splits if_splits prod.splits dest: writeEnvironments_leftover)

lemma effect_forget:
  "effect (forget c) d = (case effect c d of Inl e \<Rightarrow> Inl e | Inr (dirty, d', _) \<Rightarrow> Inr (dirty, d', ()))"
  by (cases c) (simp_all add: forget_change_def)

lemma run_forget: "fst (run f (forget c) D) = fst (run f c D)"
  by (cases c) (simp_all add: catalogTransaction_def lockedTransaction_def forget_change_def
      split: option.splits sum.splits prod.splits)

end
