(* ===== verification/Lifecycle.thy ===== *)
theory Lifecycle
  imports Store
begin

text \<open>
  The Environment lifecycle of the store: \<^verbatim>\<open>environment_lifecycle.go\<close>, the creation entry
  points of \<^verbatim>\<open>environment_resource.go\<close> and \<^verbatim>\<open>saved_environment_resources.go\<close>,
  \<^verbatim>\<open>environment_identity.go\<close>, the observation methods, ephemeral runs, owned Workspace
  cleanup and preferences.  Each Go method is one \<open>call\<close>.
\<close>

section \<open>Reservation checks\<close>

definition validateEnvironmentCreateReservation :: "WorkspaceLease \<Rightarrow> error option" where
  "validateEnvironmentCreateReservation lease =
     (if l_RuntimeAbsent lease \<or> \<not> ValidEnvironmentAttachments (l_Attachments lease)
         \<or> (l_Attachments lease \<noteq> [] \<and> \<not> ValidEnvironmentInstanceID (l_InstanceID lease))
      then Some ErrInvalidArgument
      else if l_Ephemeral lease \<and> \<not> ValidEnvironmentInstanceID (l_InstanceID lease)
      then Some ErrInvalidArgument
      else if l_InstanceID lease \<noteq> [] \<and> \<not> ValidEnvironmentInstanceID (l_InstanceID lease)
      then Some ErrInvalidArgument
      else if l_PersistentResource lease \<noteq> no_ref
         \<and> \<not> ValidPersistentResourceRef (l_PersistentResource lease) then Some ErrInvalidArgument
      else if l_EnvironmentID lease = [] \<or> l_WorkspaceID lease = [] \<or> l_SourcePath lease = []
         \<or> l_Owner lease = [] \<or> l_RuntimeRef lease \<noteq> [] \<or> l_State lease \<noteq> ''acquiring''
         \<or> IsZero (l_AcquiredAt lease) then Some ErrInvalidArgument
      else if l_AccessMode lease = ''ro'' \<or> l_AccessMode lease = ''rw'' then None
      else Some ErrInvalidArgument)"

definition validateEnvironmentRuntimeReservation :: "WorkspaceLease \<Rightarrow> error option" where
  "validateEnvironmentRuntimeReservation lease =
     (case validateEnvironmentCreateReservation (no_lease\<lparr>
         l_Attachments := l_Attachments lease, l_RuntimeAbsent := l_RuntimeAbsent lease,
         l_Ephemeral := l_Ephemeral lease, l_InstanceID := l_InstanceID lease,
         l_PersistentResource := l_PersistentResource lease, l_WorkspaceID := l_WorkspaceID lease,
         l_SourcePath := l_SourcePath lease, l_EnvironmentID := l_EnvironmentID lease,
         l_AccessMode := l_AccessMode lease, l_Owner := l_Owner lease, l_State := l_State lease,
         l_AcquiredAt := l_AcquiredAt lease\<rparr>) of
        Some e \<Rightarrow> Some e
      | None \<Rightarrow> if l_RuntimeRef lease = [] then Some ErrInvalidArgument else None)"

definition publishedLease :: "WorkspaceLease \<Rightarrow> WorkspaceLease" where
  "publishedLease lease = lease\<lparr>l_SnapshotSource := []\<rparr>"

definition validateSameLeaseReservation :: "WorkspaceLease \<Rightarrow> WorkspaceLease \<Rightarrow> error option" where
  "validateSameLeaseReservation existing nxt =
     (if l_Attachments existing \<noteq> l_Attachments nxt \<or> l_RuntimeAbsent existing \<noteq> l_RuntimeAbsent nxt
      then Some ErrCapabilityStale
      else if l_SnapshotSource existing \<noteq> l_SnapshotSource nxt then Some ErrCapabilityStale
      else if l_PersistentResource existing \<noteq> l_PersistentResource nxt then Some ErrIncompatibleState
      else if l_Ephemeral existing \<noteq> l_Ephemeral nxt \<or> l_InstanceID existing \<noteq> l_InstanceID nxt
         \<or> l_EnvironmentID existing \<noteq> l_EnvironmentID nxt
         \<or> l_WorkspaceID existing \<noteq> l_WorkspaceID nxt \<or> l_SourcePath existing \<noteq> l_SourcePath nxt
         \<or> l_AccessMode existing \<noteq> l_AccessMode nxt \<or> l_Owner existing \<noteq> l_Owner nxt
         \<or> \<not> TimeEqual (l_AcquiredAt existing) (l_AcquiredAt nxt) then Some ErrIncompatibleState
      else None)"

definition resourceMaintenanceReservation :: "environmentFileState \<Rightarrow> WorkspaceLease \<Rightarrow> bool" where
  "resourceMaintenanceReservation d lease \<longleftrightarrow>
     resourceMaintenanceLease d lease \<and>
     (case fmlookup (EphemeralRuns d) (l_EnvironmentID lease) of
        None \<Rightarrow> False | Some er \<Rightarrow> run_State er = ''creating'')"

section \<open>Copy and resource reservations\<close>

definition reservePersistentResourceCopy ::
  "PersistentResource \<Rightarrow> PersistentResource \<Rightarrow> environmentFileState \<Rightarrow> error + environmentFileState" where
  "reservePersistentResourceCopy source target d =
     (if \<not> ValidPersistentResourceRef (Ref target) \<or> pr_ID target = pr_ID source
         \<or> pr_Owner target = pr_Owner source \<or> pr_Kind target \<noteq> pr_Kind source
         \<or> pr_NativeRef target = [] \<or> pr_NativeRef target = pr_NativeRef source
         \<or> (pr_State target \<noteq> ''creating'' \<and> (pr_State target \<noteq> ''planned'' \<or> pr_EnvironmentInstance target = []))
         \<or> IsZero (pr_CreatedAt target) \<or> pr_CopySource target \<noteq> Ref source \<or> pr_CopyCompleted target
         \<or> pr_CopyCleanup target \<or> pr_CopyOperation target \<noteq> [] then Inl ErrInvalidArgument
      else if present (PersistentResources d) (pr_ID target) then Inl ErrAlreadyExists
      else if fmlookup (PersistentResources d) (pr_ID source) \<noteq> Some source \<or> pr_State source \<noteq> ''ready''
      then Inl ErrIncompatibleState
      else if persistentCopyReserved d (pr_ID source) then Inl ErrStorageBusy
      else if fmex (\<lambda>_ lease. leaseHasResource lease (pr_ID source)
             \<and> \<not> environmentGenerationCopy d source target lease) (Leases d) then Inl ErrStorageBusy
      else if fmex (\<lambda>_ env. ref_ID (e_PersistentResource env) = pr_ID source
             \<or> list_ex (\<lambda>a. ref_ID (a_Resource a) = pr_ID source
                  \<and> \<not> environmentGenerationCopy d source target (getd no_lease (Leases d) (e_Name env)))
                (e_Attachments env)) (Environments d) then Inl ErrStorageBusy
      else Inr (d\<lparr>PersistentResources := fmupd (pr_ID target) target (PersistentResources d)\<rparr>))"

definition reserve_plan ::
  "WorkspaceLease \<Rightarrow> environmentFileState \<Rightarrow> EnvironmentResourcePlan \<times> EnvironmentAttachment
     \<Rightarrow> error + environmentFileState" where
  "reserve_plan lease d = (\<lambda>(plan, attachment).
     let a = plan_Attachment plan; r = plan_Resource plan in
     if a \<noteq> attachment \<or> \<not> ValidEnvironmentResourceRef (Ref r) \<or> Ref r \<noteq> a_Resource a
        \<or> pr_EnvironmentInstance r \<noteq> l_InstanceID lease \<or> pr_State r \<noteq> ''planned''
        \<or> pr_SourceOnly r \<or> pr_WorkspaceID r \<noteq> [] \<or> pr_CopyCompleted r
        \<or> pr_Kind r \<noteq> g_Kind (a_Origin a) \<or> pr_NativeRef r = [] \<or> IsZero (pr_CreatedAt r)
     then Inl ErrInvalidArgument
     else if pr_RestoreSource r \<noteq> [] \<and> \<not> matchesSavedEnvironmentResource d lease a r
     then Inl ErrCapabilityStale
     else if pr_RestoreSource r = []
        \<and> fmlookup (ResourceGenerations d) (g_Name (a_Origin a)) \<noteq> Some (a_Origin a)
     then Inl ErrSourceGenerationStale
     else if pr_RestoreSource r = [] \<and> pr_CopySource r \<noteq> g_Current (a_Origin a)
     then Inl ErrInvalidArgument
     else if present (PersistentResources d) (pr_ID r) then Inl ErrAlreadyExists
     else if fmex (\<lambda>_ other. pr_NativeRef other = pr_NativeRef r \<or> pr_Owner other = pr_Owner r)
            (PersistentResources d) then Inl ErrIncompatibleState
     else if pr_CopySource r \<noteq> no_ref then
       (case fmlookup (PersistentResources d) (ref_ID (pr_CopySource r)) of
          None \<Rightarrow> Inl ErrIncompatibleState
        | Some source \<Rightarrow>
            if Ref source \<noteq> pr_CopySource r \<or> \<not> pr_SourceOnly source then Inl ErrIncompatibleState
            else reservePersistentResourceCopy source r d)
     else Inr (d\<lparr>PersistentResources := fmupd (pr_ID r) r (PersistentResources d)\<rparr>))"

definition reserveEnvironmentResources ::
  "WorkspaceLease \<Rightarrow> EnvironmentResourcePlan list \<Rightarrow> environmentFileState \<Rightarrow> error + environmentFileState" where
  "reserveEnvironmentResources lease plans d =
     (if length plans \<noteq> length (l_Attachments lease) then Inl ErrInvalidArgument
      else forE (reserve_plan lease) d (zip plans (l_Attachments lease)))"

section \<open>Creation\<close>

text \<open>The persistent resource a creation wants to attach: \<open>None\<close> admits it.\<close>

definition admit_persistent_resource :: "environmentFileState \<Rightarrow> WorkspaceLease \<Rightarrow> error option" where
  "admit_persistent_resource d lease =
     (if l_PersistentResource lease = no_ref then None
      else case fmlookup (PersistentResources d) (ref_ID (l_PersistentResource lease)) of
        None \<Rightarrow> Some ErrIncompatibleState
      | Some resource \<Rightarrow>
          if Ref resource \<noteq> l_PersistentResource lease \<or> pr_State resource \<noteq> ''ready''
             \<or> pr_SourceOnly resource \<or> pr_EnvironmentInstance resource \<noteq> []
             \<or> (pr_WorkspaceID resource \<noteq> [] \<and> pr_WorkspaceID resource \<noteq> l_WorkspaceID lease
                \<and> \<not> resourceMaintenanceReservation d lease) then Some ErrIncompatibleState
          else if persistentCopyReserved d (pr_ID resource) then Some ErrStorageBusy
          else if fmex (\<lambda>_ held. ref_ID (l_PersistentResource held) = pr_ID resource) (Leases d)
          then Some ErrStorageBusy else None)"

definition admit_ephemeral :: "environmentFileState \<Rightarrow> WorkspaceLease \<Rightarrow> error option" where
  "admit_ephemeral d lease =
     (case fmlookup (EphemeralRuns d) (l_EnvironmentID lease) of
        None \<Rightarrow> if l_Ephemeral lease then Some ErrIncompatibleState else None
      | Some er \<Rightarrow>
          if l_Ephemeral lease then
            (if run_State er \<noteq> ''creating'' \<or> run_InstanceID er \<noteq> l_InstanceID lease
                \<or> \<not> ValidEnvironmentInstanceID (run_InstanceID er)
             then Some ErrIncompatibleState else None)
          else Some ErrRecoveryRequired)"

definition workspace_conflict :: "environmentFileState \<Rightarrow> WorkspaceLease \<Rightarrow> bool" where
  "workspace_conflict d lease =
     fmex (\<lambda>_ existing. \<not> (l_WorkspaceID existing \<noteq> l_WorkspaceID lease)
        \<and> (l_AccessMode existing = ''rw'' \<or> l_AccessMode lease = ''rw'')) (Leases d)"

definition beginEnvironmentCreate_change ::
  "WorkspaceLease \<Rightarrow> Snapshot option \<Rightarrow> EnvironmentResourcePlan list \<Rightarrow> unit change" where
  "beginEnvironmentCreate_change lease saved plans d =
     (case validateLeaseCompatibleState d of Some e \<Rightarrow> Inl e | None \<Rightarrow>
      if (case saved of None \<Rightarrow> False | Some s \<Rightarrow> getd no_snapshot (Snapshots d) (s_ID s) \<noteq> s)
      then Inl ErrCapabilityStale
      else if fmex (\<lambda>name work. name = l_EnvironmentID lease \<or> w_ID work = l_WorkspaceID lease
             \<or> w_Path work = l_SourcePath lease) (OwnedWorkspaceCleanup d)
      then Inl ErrRecoveryRequired
      else if present (Environments d) (l_EnvironmentID lease) then Inl ErrAlreadyExists
      else if present (Leases d) (l_EnvironmentID lease) then Inl ErrAlreadyExists
      else case admit_ephemeral d lease of Some e \<Rightarrow> Inl e | None \<Rightarrow>
      case admit_persistent_resource d lease of Some e \<Rightarrow> Inl e | None \<Rightarrow>
      if workspace_conflict d lease then Inl ErrWorkspaceBusy
      else case reserveEnvironmentResources lease plans d of Inl e \<Rightarrow> Inl e | Inr d' \<Rightarrow>
      Inr (True, d'\<lparr>Leases := fmupd (l_EnvironmentID lease) lease (Leases d')\<rparr>, ()))"

definition beginEnvironmentCreate ::
  "WorkspaceLease \<Rightarrow> Snapshot option \<Rightarrow> EnvironmentResourcePlan list \<Rightarrow> unit call" where
  "beginEnvironmentCreate lease saved plans =
     (case validateEnvironmentCreateReservation lease of
        Some e \<Rightarrow> Refuse e
      | None \<Rightarrow> Locked (beginEnvironmentCreate_change lease saved plans))"

definition BeginEnvironmentCreate :: "WorkspaceLease \<Rightarrow> unit call" where
  "BeginEnvironmentCreate lease =
     (if l_SnapshotSource lease \<noteq> [] \<or> l_Attachments lease \<noteq> [] then Refuse ErrInvalidArgument
      else beginEnvironmentCreate lease None [])"

definition BeginEnvironmentCreateFromSnapshot :: "WorkspaceLease \<Rightarrow> Snapshot \<Rightarrow> unit call" where
  "BeginEnvironmentCreateFromSnapshot lease saved =
     (if e_Attachments (src_Environment (s_Source saved)) \<noteq> [] \<or> l_Attachments lease \<noteq> []
         \<or> validateSnapshot saved \<noteq> None \<or> s_State saved \<noteq> ''ready''
         \<or> l_SnapshotSource lease \<noteq> s_ID saved \<or> \<not> ValidEnvironmentInstanceID (l_InstanceID lease)
         \<or> l_InstanceID lease = src_InstanceID (s_Source saved) then Refuse ErrInvalidArgument
      else beginEnvironmentCreate lease (Some saved) [])"

definition BeginEnvironmentCreateWithResources ::
  "WorkspaceLease \<Rightarrow> EnvironmentResourcePlan list \<Rightarrow> unit call" where
  "BeginEnvironmentCreateWithResources lease plans =
     (if l_SnapshotSource lease \<noteq> [] \<or> plans = [] then Refuse ErrInvalidArgument
      else beginEnvironmentCreate lease None plans)"

definition BeginEnvironmentCreateFromSnapshotWithResources ::
  "WorkspaceLease \<Rightarrow> Snapshot \<Rightarrow> EnvironmentResourcePlan list \<Rightarrow> unit call" where
  "BeginEnvironmentCreateFromSnapshotWithResources lease saved plans =
     (if plans = [] \<or> validateSnapshot saved \<noteq> None \<or> s_State saved \<noteq> ''ready''
         \<or> l_SnapshotSource lease \<noteq> s_ID saved \<or> \<not> ValidEnvironmentInstanceID (l_InstanceID lease)
         \<or> l_InstanceID lease = src_InstanceID (s_Source saved)
         \<or> length plans \<noteq> length (e_Attachments (src_Environment (s_Source saved)))
      then Refuse ErrInvalidArgument
      else if \<not> list_all (\<lambda>plan. pr_RestoreSource (plan_Resource plan) = s_ID saved) plans
      then Refuse ErrInvalidArgument
      else beginEnvironmentCreate lease (Some saved) plans)"

definition RecordEnvironmentRuntime :: "WorkspaceLease \<Rightarrow> unit call" where
  "RecordEnvironmentRuntime lease =
     (case validateEnvironmentRuntimeReservation lease of Some e \<Rightarrow> Refuse e | None \<Rightarrow>
      Locked (\<lambda>d.
        if present (Environments d) (l_EnvironmentID lease) then Inl ErrIncompatibleState
        else case fmlookup (Leases d) (l_EnvironmentID lease) of
          None \<Rightarrow> Inl ErrNotFound
        | Some existing \<Rightarrow>
            (case validateSameLeaseReservation existing lease of Some e \<Rightarrow> Inl e | None \<Rightarrow>
             if l_RuntimeRef existing \<noteq> [] \<and> l_RuntimeRef existing \<noteq> l_RuntimeRef lease
             then Inl ErrIncompatibleState
             else Inr (True, d\<lparr>Leases := fmupd (l_EnvironmentID lease) lease (Leases d)\<rparr>, ()))))"

definition CommitEnvironmentCreate :: "Environment \<Rightarrow> WorkspaceLease \<Rightarrow> unit call" where
  "CommitEnvironmentCreate environment lease =
     (case validateEnvironmentCreateCommit environment lease of Some e \<Rightarrow> Refuse e | None \<Rightarrow>
      Locked (\<lambda>d.
        case fmlookup (Environments d) (e_Name environment) of
          Some existingEnvironment \<Rightarrow>
            (case fmlookup (Leases d) (e_Name environment) of
               None \<Rightarrow> Inl ErrIncompatibleState
             | Some existingLease \<Rightarrow>
                 if Environment_Equal existingEnvironment environment
                    \<and> Lease_Equal existingLease (publishedLease lease) then Inr (False, d, ())
                 else Inl ErrIncompatibleState)
        | None \<Rightarrow>
            (case fmlookup (Leases d) (e_Name environment) of
               None \<Rightarrow> Inl ErrNotFound
             | Some existingLease \<Rightarrow>
                 (case validateSameLeaseReservation existingLease lease of Some e \<Rightarrow> Inl e | None \<Rightarrow>
                  if l_State existingLease \<noteq> ''acquiring'' then Inl ErrIncompatibleState
                  else if l_RuntimeRef existingLease = []
                     \<or> l_RuntimeRef existingLease \<noteq> e_RuntimeRef environment
                     \<or> l_RuntimeRef existingLease \<noteq> l_RuntimeRef lease then Inl ErrIncompatibleState
                  else if \<not> list_all (\<lambda>attachment.
                       case fmlookup (PersistentResources d) (ref_ID (a_Resource attachment)) of
                         None \<Rightarrow> False
                       | Some r \<Rightarrow> \<not> (Ref r \<noteq> a_Resource attachment \<or> pr_State r \<noteq> ''ready''
                           \<or> pr_EnvironmentInstance r \<noteq> l_InstanceID lease)) (l_Attachments lease)
                  then Inl ErrRecoveryRequired
                  else Inr (True, d\<lparr>
                    Environments := fmupd (e_Name environment) environment (Environments d),
                    Leases := fmupd (e_Name environment) (publishedLease lease) (Leases d)\<rparr>, ())))))"

definition MarkEnvironmentRecoveryRequired :: "WorkspaceLease \<Rightarrow> unit call" where
  "MarkEnvironmentRecoveryRequired lease =
     (if l_EnvironmentID lease = [] \<or> l_State lease \<noteq> ''cleanup-required'' then Refuse ErrInvalidArgument
      else Locked (\<lambda>d.
        case fmlookup (Leases d) (l_EnvironmentID lease) of
          None \<Rightarrow> Inl ErrNotFound
        | Some existing \<Rightarrow>
            (case validateSameLeaseReservation existing lease of Some e \<Rightarrow> Inl e | None \<Rightarrow>
             let lease' = (if l_RuntimeRef existing \<noteq> [] \<and> l_RuntimeRef lease = []
                           then lease\<lparr>l_RuntimeRef := l_RuntimeRef existing\<rparr> else lease) in
             if l_RuntimeRef existing \<noteq> [] \<and> l_RuntimeRef lease' \<noteq> l_RuntimeRef existing
             then Inl ErrIncompatibleState
             else Inr (True, d\<lparr>Leases := fmupd (l_EnvironmentID lease) lease' (Leases d)\<rparr>, ()))))"

definition finalize_blocked :: "environmentFileState \<Rightarrow> string \<Rightarrow> bool" where
  "finalize_blocked d environmentID =
     (case fmlookup (Leases d) environmentID of
        None \<Rightarrow> False
      | Some lease \<Rightarrow>
          l_Attachments lease \<noteq> [] \<and>
          (\<not> l_RuntimeAbsent lease \<or> l_State lease \<noteq> ''cleanup-required''
           \<or> list_ex (\<lambda>a. present (PersistentResources d) (ref_ID (a_Resource a))) (l_Attachments lease)))"

definition FinalizeEnvironmentDelete :: "string \<Rightarrow> unit call" where
  "FinalizeEnvironmentDelete environmentID =
     (if environmentID = [] then Refuse ErrInvalidArgument
      else Locked (\<lambda>d.
        if snapshotBusy d environmentID then Inl ErrRecoveryRequired
        else if \<not> present (Environments d) environmentID \<and> \<not> present (Leases d) environmentID
        then Inr (False, d, ())
        else if finalize_blocked d environmentID then Inl ErrRecoveryRequired
        else Inr (True, d\<lparr>
          LastOpened := (if LastOpened d = environmentID then [] else LastOpened d),
          OwnedWorkspaceCleanup :=
            (case fmlookup (Environments d) environmentID of
               None \<Rightarrow> OwnedWorkspaceCleanup d
             | Some env \<Rightarrow> if e_OwnedWorkspace env
                 then fmupd environmentID (e_Workspace env) (OwnedWorkspaceCleanup d)
                 else OwnedWorkspaceCleanup d),
          Environments := fmdrop environmentID (Environments d),
          Leases := fmdrop environmentID (Leases d)\<rparr>, ())))"

section \<open>Creation identity\<close>

text \<open>
  \<^verbatim>\<open>EnvironmentInstance\<close> reads the raw file, not the normalised catalog.  \<open>nonce\<close> are the
  random bytes of \<^verbatim>\<open>NewEnvironmentInstanceID\<close>.
\<close>

definition EnvironmentInstance ::
  "faults \<Rightarrow> char list \<Rightarrow> Environment \<Rightarrow> disk \<Rightarrow> disk \<times> (error + string)" where
  "EnvironmentInstance f nonce expected D =
     (case f_lock f of Some e \<Rightarrow> (D, Inl e) | None \<Rightarrow>
      case catalog D of
        Missing \<Rightarrow> (D, Inl (ErrOther ''open environment state''))
      | Unreadable \<Rightarrow> (D, Inl (ErrOther ''read environment state''))
      | Undecodable \<Rightarrow> (D, Inl (ErrOther ''decode environment state''))
      | Decoded data \<Rightarrow>
          if \<not> supportedEnvironmentStateVersion (Version data) then (D, Inl ErrIncompatibleState)
          else case validateResourceGenerations data of Some e \<Rightarrow> (D, Inl e) | None \<Rightarrow>
          case validateEnvironmentResources data of Some e \<Rightarrow> (D, Inl e) | None \<Rightarrow>
          case validateEphemeralIdentities data of Some e \<Rightarrow> (D, Inl e) | None \<Rightarrow>
          case fmlookup (Environments data) (e_Name expected) of
            None \<Rightarrow> (D, Inl ErrNotFound)
          | Some current \<Rightarrow>
              if current \<noteq> expected then (D, Inl ErrCapabilityStale)
              else case fmlookup (Leases data) (e_Name expected) of
                None \<Rightarrow> (D, Inl ErrIncompatibleState)
              | Some lease \<Rightarrow>
                  if l_SnapshotSource lease \<noteq> [] \<or> l_Owner lease = [] \<or> IsZero (l_AcquiredAt lease)
                  then (D, Inl ErrIncompatibleState)
                  else case validateEnvironmentCreateCommit current lease of Some e \<Rightarrow> (D, Inl e) | None \<Rightarrow>
                  if l_InstanceID lease = [] then
                    (case f_ctx_write f of Some e \<Rightarrow> (D, Inl e) | None \<Rightarrow>
                     let i = NewEnvironmentInstanceID nonce in
                     case writeEnvironments f (data\<lparr>Leases :=
                         fmupd (e_Name expected) (lease\<lparr>l_InstanceID := i\<rparr>) (Leases data)\<rparr>) D of
                       (D', Some e) \<Rightarrow> (D', Inl e)
                     | (D', None) \<Rightarrow> if \<not> ValidEnvironmentInstanceID i then (D', Inl ErrIncompatibleState)
                                    else (D', Inr i))
                  else if \<not> ValidEnvironmentInstanceID (l_InstanceID lease)
                  then (D, Inl ErrIncompatibleState)
                  else (D, Inr (l_InstanceID lease)))"

section \<open>Observation\<close>

text \<open>
  Go iterates a map in no fixed order; the lists below are in key order.  \<^verbatim>\<open>sort.Slice\<close> orders
  Environments by their name.
\<close>

definition GetEnvironment :: "string \<Rightarrow> Environment call" where
  "GetEnvironment name = Locked (\<lambda>d. case fmlookup (Environments d) name of
     None \<Rightarrow> Inl ErrNotFound | Some environment \<Rightarrow> Inr (False, d, environment))"

definition ListEnvironments :: "Environment list call" where
  "ListEnvironments = Locked (\<lambda>d.
     Inr (False, d, sort_key e_Name (map snd (sorted_list_of_fmap (Environments d)))))"

definition GetReadyEnvironment :: "string \<Rightarrow> Environment call" where
  "GetReadyEnvironment name = Transact (\<lambda>d.
     case fmlookup (Environments d) name of
       None \<Rightarrow> if present (Leases d) name then Inl ErrRecoveryRequired else Inl ErrNotFound
     | Some current \<Rightarrow>
         (case fmlookup (Leases d) name of
            None \<Rightarrow> Inl ErrRecoveryRequired
          | Some lease \<Rightarrow>
              if e_Name current \<noteq> name \<or> \<not> MatchesEnvironment lease current
              then Inl ErrRecoveryRequired else Inr (False, d, current)))"

definition ListWorkspaceLeases :: "WorkspaceLease list call" where
  "ListWorkspaceLeases = Locked (\<lambda>d. Inr (False, d, map snd (sorted_list_of_fmap (Leases d))))"

definition GetWorkspaceLease :: "string \<Rightarrow> WorkspaceLease call" where
  "GetWorkspaceLease environmentID = Locked (\<lambda>d. case fmlookup (Leases d) environmentID of
     None \<Rightarrow> Inl ErrNotFound | Some lease \<Rightarrow> Inr (False, d, lease))"

section \<open>Ephemeral runs\<close>

definition ListEphemeralRuns :: "EphemeralRun list call" where
  "ListEphemeralRuns = Locked (\<lambda>d. Inr (False, d, map snd (sorted_list_of_fmap (EphemeralRuns d))))"

definition PutEphemeralRun :: "EphemeralRun \<Rightarrow> unit call" where
  "PutEphemeralRun er =
     (case validateEphemeralRun er of Some e \<Rightarrow> Refuse e | None \<Rightarrow>
      Locked (\<lambda>d.
        let i = run_EnvironmentID er;
            d' = d\<lparr>EphemeralRuns := fmupd i er (EphemeralRuns d)\<rparr> in
        if (case fmlookup (EphemeralRuns d) i of
              Some previous \<Rightarrow> run_InstanceID previous \<noteq> run_InstanceID er
                \<or> \<not> TimeEqual (run_CreatedAt previous) (run_CreatedAt er)
                \<or> run_TemporaryWorkspace previous \<noteq> run_TemporaryWorkspace er
            | None \<Rightarrow> present (Leases d) i \<or> present (Environments d) i)
        then Inl ErrIncompatibleState
        else case validatePersistentResourceState d' of Some e \<Rightarrow> Inl e
        | None \<Rightarrow> Inr (True, d', ())))"

definition DeleteEphemeralRun :: "string \<Rightarrow> unit call" where
  "DeleteEphemeralRun environmentID =
     (if environmentID = [] then Refuse ErrInvalidArgument
      else Locked (\<lambda>d.
        let d' = d\<lparr>EphemeralRuns := fmdrop environmentID (EphemeralRuns d)\<rparr> in
        if \<not> present (EphemeralRuns d) environmentID then Inr (False, d, ())
        else if present (Leases d) environmentID then Inl ErrIncompatibleState
        else if present (Environments d) environmentID then Inl ErrIncompatibleState
        else case validatePersistentResourceState d' of Some e \<Rightarrow> Inl e
        | None \<Rightarrow> Inr (True, d', ())))"

section \<open>Owned Workspace cleanup and preferences\<close>

definition GetOwnedWorkspaceCleanup :: "string \<Rightarrow> Workspace call" where
  "GetOwnedWorkspaceCleanup name = Transact (\<lambda>d. case fmlookup (OwnedWorkspaceCleanup d) name of
     None \<Rightarrow> Inl ErrNotFound | Some work \<Rightarrow> Inr (False, d, work))"

definition FinalizeOwnedWorkspaceCleanup :: "string \<Rightarrow> Workspace \<Rightarrow> unit call" where
  "FinalizeOwnedWorkspaceCleanup name work = Transact (\<lambda>d.
     case fmlookup (OwnedWorkspaceCleanup d) name of
       None \<Rightarrow> Inr (False, d, ())
     | Some current \<Rightarrow>
         if current \<noteq> work then Inl ErrCapabilityStale
         else Inr (True, d\<lparr>OwnedWorkspaceCleanup := fmdrop name (OwnedWorkspaceCleanup d)\<rparr>, ()))"

definition GetDefaultImage :: "string call" where
  "GetDefaultImage = Transact (\<lambda>d. Inr (False, d, DefaultImage d))"

definition SetDefaultImage :: "string \<Rightarrow> bool \<Rightarrow> unit call" where
  "SetDefaultImage img initial =
     (if img = [] then Refuse ErrInvalidArgument
      else Transact (\<lambda>d. if initial \<and> DefaultImage d \<noteq> [] then Inr (False, d, ())
                        else Inr (True, d\<lparr>DefaultImage := img\<rparr>, ())))"

definition GetLastOpened :: "string call" where
  "GetLastOpened = Transact (\<lambda>d. Inr (False, d, LastOpened d))"

definition RememberOpened :: "Environment \<Rightarrow> unit call" where
  "RememberOpened expected = Transact (\<lambda>d.
     case fmlookup (Environments d) (e_Name expected) of
       None \<Rightarrow> Inl ErrCapabilityStale
     | Some current \<Rightarrow>
         if e_RuntimeRef current \<noteq> e_RuntimeRef expected \<or> e_Workspace current \<noteq> e_Workspace expected
            \<or> \<not> TimeEqual (e_CreatedAt current) (e_CreatedAt expected) then Inl ErrCapabilityStale
         else Inr (True, d\<lparr>LastOpened := e_Name expected\<rparr>, ()))"

end
