(* ===== verification/Resources.thy ===== *)
theory Resources
  imports Lifecycle
begin

text \<open>
  Persistent and disposable data: \<^verbatim>\<open>persistent_resource.go\<close>, \<^verbatim>\<open>persistent_restore.go\<close>,
  \<^verbatim>\<open>cache_copy_cleanup.go\<close>, \<^verbatim>\<open>environment_resource.go\<close>, \<^verbatim>\<open>environment_resource_clear.go\<close>,
  \<^verbatim>\<open>environment_generation.go\<close> and \<^verbatim>\<open>resource_generation.go\<close>.
\<close>

section \<open>Persistent resources\<close>

abbreviation put_resource :: "PersistentResource \<Rightarrow> environmentFileState \<Rightarrow> environmentFileState" where
  "put_resource r d \<equiv> d\<lparr>PersistentResources := fmupd (pr_ID r) r (PersistentResources d)\<rparr>"

definition ListPersistentResources :: "PersistentResource list call" where
  "ListPersistentResources = Locked (\<lambda>d.
     Inr (False, d, sort_key pr_ID (map snd (sorted_list_of_fmap (PersistentResources d)))))"

definition GetPersistentResource :: "string \<Rightarrow> PersistentResource call" where
  "GetPersistentResource i = Locked (\<lambda>d.
     case effect ListPersistentResources d of Inl e \<Rightarrow> Inl e | Inr (_, _, resources) \<Rightarrow>
     (case find (\<lambda>r. pr_ID r = i) resources of
        None \<Rightarrow> Inl ErrNotFound | Some r \<Rightarrow> Inr (False, d, r)))"

definition BeginPersistentResourceCreate :: "PersistentResource \<Rightarrow> unit call" where
  "BeginPersistentResourceCreate r =
     (if pr_PublicationOrigin r \<noteq> no_generation \<or> pr_Producer r \<noteq> no_ref \<or> pr_EnvironmentInstance r \<noteq> []
         \<or> ValidEnvironmentResourceRef (Ref r) \<or> \<not> ValidPersistentResourceRef (Ref r) \<or> pr_Kind r = []
         \<or> pr_NativeRef r = [] \<or> pr_State r \<noteq> ''creating'' \<or> IsZero (pr_CreatedAt r)
         \<or> pr_RestoreSource r \<noteq> [] \<or> (pr_CopySource r \<noteq> no_ref \<or> pr_CopyCompleted r)
      then Refuse ErrInvalidArgument
      else resourceTransaction (\<lambda>d.
        if present (PersistentResources d) (pr_ID r) then Inl ErrAlreadyExists
        else Inr (put_resource r d, ())))"

definition MarkPersistentResourceCopyCompleted :: "PersistentResource \<Rightarrow> unit call" where
  "MarkPersistentResourceCopyCompleted r =
     (if pr_State r \<noteq> ''creating'' \<or> pr_CopySource r = no_ref \<or> pr_CopyCompleted r \<or> pr_CopyCleanup r
      then Refuse ErrInvalidArgument
      else resourceTransaction (\<lambda>d.
        if fmlookup (PersistentResources d) (pr_ID r) \<noteq> Some r then Inl ErrIncompatibleState
        else Inr (put_resource (r\<lparr>pr_CopyCompleted := True\<rparr>) d, ())))"

definition committed_resource :: "PersistentResource \<Rightarrow> PersistentResource" where
  "committed_resource r = r\<lparr>pr_State := ''ready'', pr_ImportPending := False, pr_RestoreSource := [],
     pr_CopySource := no_ref, pr_CopyCompleted := False, pr_CopyOperation := []\<rparr>"

definition CommitPersistentResourceCreate :: "PersistentResource \<Rightarrow> unit call" where
  "CommitPersistentResourceCreate r = resourceTransaction (\<lambda>d.
     if fmlookup (PersistentResources d) (pr_ID r) \<noteq> Some r \<or> pr_CopyCleanup r
        \<or> (pr_State r \<noteq> ''creating'' \<and> pr_State r \<noteq> ''created'') then Inl ErrIncompatibleState
     else if pr_EnvironmentInstance r \<noteq> [] \<and> pr_CopySource r = no_ref \<and> pr_State r \<noteq> ''created''
     then Inl ErrRecoveryRequired
     else if pr_RestoreSource r \<noteq> [] \<and> pr_State r \<noteq> ''created'' then Inl ErrRecoveryRequired
     else if pr_CopySource r \<noteq> no_ref \<and> \<not> pr_CopyCompleted r then Inl ErrRecoveryRequired
     else Inr (put_resource (committed_resource r) d, ()))"

subsection \<open>Deletion\<close>

record persistentResourceDeletion =
  del_Workspace :: string
  del_Identity :: PersistentResourceRef
  del_StoppedCopy :: PersistentResource
  del_Reviewed :: bool
  del_EnvironmentInstance :: string

definition no_deletion :: persistentResourceDeletion where
  "no_deletion = \<lparr>del_Workspace = [], del_Identity = no_ref, del_StoppedCopy = no_resource,
     del_Reviewed = False, del_EnvironmentInstance = []\<rparr>"

text \<open>The checks on the record as it is, and those on the record \<open>r1\<close> whose copy source a
  fenced, never started creation has given up.\<close>

definition delete_identity_check ::
  "environmentFileState \<Rightarrow> string \<Rightarrow> persistentResourceDeletion \<Rightarrow> PersistentResource \<Rightarrow> error option" where
  "delete_identity_check d i request r =
     (let expected = del_Workspace request; owner = ref_Owner (del_Identity request);
          reviewed = del_Reviewed request; inst = del_EnvironmentInstance request in
      if del_Identity request \<noteq> no_ref \<and> Ref r \<noteq> del_Identity request then Some ErrCapabilityStale
      else if (pr_EnvironmentInstance r \<noteq> [] \<or> inst \<noteq> []) \<and>
         (pr_EnvironmentInstance r \<noteq> inst
          \<or> (case environmentResourceLease d r of
               None \<Rightarrow> True
             | Some lease \<Rightarrow> \<not> l_RuntimeAbsent lease \<or> l_State lease \<noteq> ''cleanup-required''))
      then Some ErrStorageBusy
      else if (pr_EnvironmentInstance r \<noteq> [] \<or> inst \<noteq> []) \<and> pr_State r = ''creating''
      then Some ErrRecoveryRequired
      else if generationReferences d i then Some ErrStorageBusy
      else if ValidGenerationResource (Ref r) \<and> \<not> pr_SourceOnly r then Some ErrIncompatibleState
      else if reviewed \<and> (pr_SourceOnly r \<or> (pr_State r \<noteq> ''ready'' \<and> pr_State r \<noteq> ''deleting''))
      then Some ErrRecoveryRequired
      else if pr_RestoreSource r \<noteq> [] \<and> pr_State r \<noteq> ''deleting'' \<and> owner = []
      then Some ErrRecoveryRequired
      else if expected \<noteq> [] \<and> (pr_WorkspaceID r \<noteq> expected \<or> pr_SourceOnly r)
      then Some ErrIncompatibleState
      else None)"

definition delete_holder_check ::
  "environmentFileState \<Rightarrow> string \<Rightarrow> persistentResourceDeletion \<Rightarrow> PersistentResource \<Rightarrow> error option" where
  "delete_holder_check d i request r1 =
     (let inst = del_EnvironmentInstance request;
          stoppedCopy = (del_StoppedCopy request = r1 \<and> pr_CopyCleanup r1 \<and> validCacheCopyReceipt r1) in
      if (pr_CopySource r1 \<noteq> no_ref \<or> (pr_SourceOnly r1 \<and> pr_State r1 = ''creating'')) \<and> \<not> stoppedCopy
      then Some ErrRecoveryRequired
      else if persistentCopyReserved d i then Some ErrStorageBusy
      else if fmex (\<lambda>_ e. ref_ID (e_PersistentResource e) = i) (Environments d) then Some ErrStorageBusy
      else if fmex (\<lambda>_ l. leaseHasResource l i
             \<and> (inst = [] \<or> l_InstanceID l \<noteq> inst \<or> \<not> l_RuntimeAbsent l)) (Leases d)
      then Some ErrStorageBusy
      else if pr_State r1 \<noteq> ''ready'' \<and> pr_State r1 \<noteq> ''creating'' \<and> pr_State r1 \<noteq> ''created''
         \<and> pr_State r1 \<noteq> ''deleting'' \<and> (pr_State r1 \<noteq> ''planned'' \<or> inst = [])
      then Some ErrRecoveryRequired
      else None)"

definition abandon_plan :: "persistentResourceDeletion \<Rightarrow> PersistentResource \<Rightarrow> PersistentResource" where
  "abandon_plan request r =
     (if pr_State r = ''planned'' \<and> del_EnvironmentInstance request \<noteq> []
      then r\<lparr>pr_CopySource := no_ref\<rparr> else r)"

definition delete_resource_change ::
  "string \<Rightarrow> persistentResourceDeletion \<Rightarrow> environmentFileState
     \<Rightarrow> error + environmentFileState \<times> PersistentResource" where
  "delete_resource_change i request d =
     (case fmlookup (PersistentResources d) i of None \<Rightarrow> Inl ErrNotFound | Some r \<Rightarrow>
      (case delete_identity_check d i request r of Some e \<Rightarrow> Inl e | None \<Rightarrow>
       (case delete_holder_check d i request (abandon_plan request r) of Some e \<Rightarrow> Inl e | None \<Rightarrow>
        let r2 = (abandon_plan request r)\<lparr>pr_State := ''deleting''\<rparr> in
        Inr (d\<lparr>PersistentResources := fmupd i r2 (PersistentResources d)\<rparr>, r2))))"

definition beginPersistentResourceDelete ::
  "string \<Rightarrow> persistentResourceDeletion \<Rightarrow> PersistentResource call" where
  "beginPersistentResourceDelete i request = resourceTransaction (delete_resource_change i request)"

definition BeginPersistentResourceDeleteReviewed :: "PersistentResourceRef \<Rightarrow> PersistentResource call" where
  "BeginPersistentResourceDeleteReviewed ref =
     (if \<not> ValidPersistentResourceRef ref then Refuse ErrInvalidArgument
      else beginPersistentResourceDelete (ref_ID ref)
             (no_deletion\<lparr>del_Identity := ref, del_Reviewed := True\<rparr>))"

definition BeginPersistentResourceDelete :: "string \<Rightarrow> PersistentResource call" where
  "BeginPersistentResourceDelete i = beginPersistentResourceDelete i no_deletion"

definition BeginWorkspaceResourceDelete :: "string \<Rightarrow> string \<Rightarrow> PersistentResource call" where
  "BeginWorkspaceResourceDelete i work =
     (if work = [] then Refuse ErrInvalidArgument
      else beginPersistentResourceDelete i (no_deletion\<lparr>del_Workspace := work\<rparr>))"

definition BeginPersistentResourceDeleteOwned :: "PersistentResource \<Rightarrow> PersistentResource call" where
  "BeginPersistentResourceDeleteOwned r =
     (if \<not> ValidPersistentResourceRef (Ref r) then Refuse ErrInvalidArgument
      else beginPersistentResourceDelete (pr_ID r) (no_deletion\<lparr>del_Identity := Ref r\<rparr>))"

definition BeginEnvironmentResourceDelete ::
  "string \<Rightarrow> PersistentResourceRef \<Rightarrow> PersistentResource call" where
  "BeginEnvironmentResourceDelete inst ref =
     (if \<not> ValidEnvironmentInstanceID inst \<or> \<not> ValidEnvironmentResourceRef ref
      then Refuse ErrInvalidArgument
      else beginPersistentResourceDelete (ref_ID ref)
             (no_deletion\<lparr>del_Identity := ref, del_EnvironmentInstance := inst\<rparr>))"

definition BeginGenerationResourceDelete :: "PersistentResourceRef \<Rightarrow> PersistentResource call" where
  "BeginGenerationResourceDelete ref =
     (if \<not> ValidGenerationResource ref then Refuse ErrInvalidArgument
      else beginPersistentResourceDelete (ref_ID ref) (no_deletion\<lparr>del_Identity := ref\<rparr>))"

definition BeginStoppedCacheCopyDelete :: "PersistentResource \<Rightarrow> PersistentResource call" where
  "BeginStoppedCacheCopyDelete r =
     (if \<not> validCacheCopyReceipt r \<or> \<not> pr_CopyCleanup r \<or> pr_CopyCompleted r
      then Refuse ErrRecoveryRequired
      else beginPersistentResourceDelete (pr_ID r)
             (no_deletion\<lparr>del_Identity := Ref r, del_StoppedCopy := r\<rparr>))"

definition FinalizePersistentResourceDelete :: "PersistentResource \<Rightarrow> unit call" where
  "FinalizePersistentResourceDelete r = resourceTransaction (\<lambda>d.
     if generationReferences d (pr_ID r) then Inl ErrStorageBusy
     else if fmlookup (PersistentResources d) (pr_ID r) \<noteq> Some r \<or> pr_State r \<noteq> ''deleting''
     then Inl ErrIncompatibleState
     else if fmex (\<lambda>_ l. leaseHasResource l (pr_ID r)
            \<and> (pr_EnvironmentInstance r = [] \<or> l_InstanceID l \<noteq> pr_EnvironmentInstance r
               \<or> \<not> l_RuntimeAbsent l)) (Leases d) then Inl ErrStorageBusy
     else Inr (d\<lparr>PersistentResources := fmdrop (pr_ID r) (PersistentResources d)\<rparr>, ()))"

subsection \<open>Copies and restoration\<close>

definition BeginPersistentResourceCopy :: "PersistentResource \<Rightarrow> PersistentResource \<Rightarrow> unit call" where
  "BeginPersistentResourceCopy source target =
     (if pr_PublicationOrigin target \<noteq> no_generation \<or> pr_Producer target \<noteq> no_ref
         \<or> pr_EnvironmentInstance source \<noteq> [] \<or> pr_EnvironmentInstance target \<noteq> []
         \<or> ValidEnvironmentResourceRef (Ref target) \<or> pr_State target \<noteq> ''creating''
      then Refuse ErrInvalidArgument
      else resourceTransaction (\<lambda>d. case reservePersistentResourceCopy source target d of
             Inl e \<Rightarrow> Inl e | Inr d' \<Rightarrow> Inr (d', ())))"

definition RecordCacheCopyOperation :: "PersistentResource \<Rightarrow> string \<Rightarrow> PersistentResource call" where
  "RecordCacheCopyOperation r operation =
     (let updated = r\<lparr>pr_CopyOperation := operation\<rparr> in
      if pr_CopyOperation r \<noteq> [] \<or> pr_CopyCompleted r \<or> pr_CopyCleanup r
         \<or> \<not> validCacheCopyReceipt updated then Refuse ErrInvalidArgument
      else resourceTransaction (\<lambda>d.
        if getd no_resource (PersistentResources d) (pr_ID r) \<noteq> r then Inl ErrCapabilityStale
        else Inr (put_resource updated d, updated)))"

definition MarkCacheCopyCleanup :: "PersistentResource \<Rightarrow> PersistentResource call" where
  "MarkCacheCopyCleanup r =
     (if \<not> validCacheCopyReceipt r \<or> pr_CopyCompleted r then Refuse ErrRecoveryRequired
      else let updated = r\<lparr>pr_CopyCleanup := True\<rparr> in
      resourceTransaction (\<lambda>d.
        if getd no_resource (PersistentResources d) (pr_ID r) \<noteq> r then Inl ErrCapabilityStale
        else Inr (put_resource updated d, updated)))"

definition BeginSnapshotResourceRestore :: "Snapshot \<Rightarrow> PersistentResource \<Rightarrow> unit call" where
  "BeginSnapshotResourceRestore saved r =
     (if \<not> ValidPersistentResourceRef (Ref r) \<or> pr_Kind r = [] \<or> pr_NativeRef r = []
         \<or> pr_State r \<noteq> ''creating'' \<or> IsZero (pr_CreatedAt r) \<or> pr_SourceOnly r \<or> pr_CopyCompleted r
         \<or> pr_CopySource r \<noteq> no_ref \<or> pr_RestoreSource r \<noteq> s_ID saved \<or> s_State saved \<noteq> ''ready''
      then Refuse ErrInvalidArgument
      else resourceTransaction (\<lambda>d.
        if fmlookup (Snapshots d) (s_ID saved) \<noteq> Some saved then Inl ErrCapabilityStale
        else if present (PersistentResources d) (pr_ID r) then Inl ErrAlreadyExists
        else Inr (put_resource r d, ())))"

definition RecordPersistentResourceCreated :: "PersistentResource \<Rightarrow> unit call" where
  "RecordPersistentResourceCreated r =
     (if pr_State r \<noteq> ''creating'' \<or> pr_RestoreSource r = [] then Refuse ErrInvalidArgument
      else resourceTransaction (\<lambda>d.
        if fmlookup (PersistentResources d) (pr_ID r) \<noteq> Some r then Inl ErrCapabilityStale
        else Inr (put_resource (r\<lparr>pr_State := ''created''\<rparr>) d, ())))"

section \<open>Disposable Environment resources\<close>

text \<open>The exact lease a caller expects, as the catalog has it.\<close>

definition current_lease :: "environmentFileState \<Rightarrow> WorkspaceLease \<Rightarrow> bool" where
  "current_lease d expected =
     (case fmlookup (Leases d) (l_EnvironmentID expected) of
        None \<Rightarrow> False | Some lease \<Rightarrow> Lease_Equal lease expected)"

definition bound_to :: "environmentFileState \<Rightarrow> PersistentResource \<Rightarrow> WorkspaceLease \<Rightarrow> bool" where
  "bound_to d r lease =
     (case environmentResourceLease d r of None \<Rightarrow> False | Some parent \<Rightarrow> Lease_Equal parent lease)"

definition beginEnvironmentResourceMaterialization ::
  "WorkspaceLease \<Rightarrow> PersistentResourceRef \<Rightarrow> bool \<Rightarrow> PersistentResource call" where
  "beginEnvironmentResourceMaterialization expected ref importing =
     (if \<not> ValidEnvironmentResourceRef ref then Refuse ErrInvalidArgument
      else Transact (\<lambda>d.
        if \<not> current_lease d expected \<or> l_State expected \<noteq> ''acquiring'' \<or> l_RuntimeAbsent expected
           \<or> l_RuntimeRef expected \<noteq> [] then Inl ErrCapabilityStale
        else case fmlookup (PersistentResources d) (ref_ID ref) of
          None \<Rightarrow> Inl ErrIncompatibleState
        | Some r \<Rightarrow>
            if Ref r \<noteq> ref \<or> \<not> bound_to d r expected then Inl ErrIncompatibleState
            else if pr_State r \<noteq> ''planned'' \<or> pr_ImportPending r \<noteq> importing
            then Inl ErrRecoveryRequired
            else let r' = r\<lparr>pr_State := ''creating''\<rparr> in Inr (True, put_resource r' d, r')))"

definition BeginEnvironmentResourceMaterialization ::
  "WorkspaceLease \<Rightarrow> PersistentResourceRef \<Rightarrow> PersistentResource call" where
  "BeginEnvironmentResourceMaterialization expected ref =
     beginEnvironmentResourceMaterialization expected ref False"

definition BeginEnvironmentResourceImport ::
  "WorkspaceLease \<Rightarrow> PersistentResourceRef \<Rightarrow> PersistentResource call" where
  "BeginEnvironmentResourceImport expected ref =
     beginEnvironmentResourceMaterialization expected ref True"

definition RecordEnvironmentResourceCreated :: "PersistentResource \<Rightarrow> PersistentResource call" where
  "RecordEnvironmentResourceCreated expected =
     (if pr_EnvironmentInstance expected = [] \<or> pr_State expected \<noteq> ''creating''
         \<or> pr_CopySource expected \<noteq> no_ref then Refuse ErrInvalidArgument
      else Transact (\<lambda>d.
        if fmlookup (PersistentResources d) (pr_ID expected) \<noteq> Some expected
           \<or> (case environmentResourceLease d expected of
                None \<Rightarrow> True
              | Some lease \<Rightarrow> l_State lease \<noteq> ''acquiring'' \<or> l_RuntimeAbsent lease)
        then Inl ErrCapabilityStale
        else let r' = expected\<lparr>pr_State := ''created''\<rparr> in Inr (True, put_resource r' d, r')))"

definition PrepareEnvironmentResourceDeletion :: "WorkspaceLease \<Rightarrow> WorkspaceLease call" where
  "PrepareEnvironmentResourceDeletion expected =
     (if l_Attachments expected = [] \<or> \<not> ValidEnvironmentInstanceID (l_InstanceID expected)
      then Refuse ErrInvalidArgument
      else Transact (\<lambda>d.
        if \<not> current_lease d expected then Inl ErrCapabilityStale
        else if snapshotBusy d (l_EnvironmentID expected)
           \<or> environmentResourcesBusy d (l_EnvironmentID expected) then Inl ErrRecoveryRequired
        else if l_RuntimeAbsent expected then Inr (False, d, expected)
        else let lease' = expected\<lparr>l_RuntimeAbsent := True, l_State := ''cleanup-required''\<rparr> in
          Inr (True, d\<lparr>Leases := fmupd (l_EnvironmentID expected) lease' (Leases d)\<rparr>, lease')))"

definition BeginEnvironmentResourceClear ::
  "WorkspaceLease \<Rightarrow> PersistentResourceRef \<Rightarrow> PersistentResource call" where
  "BeginEnvironmentResourceClear expected ref =
     (if \<not> ValidEnvironmentResourceRef ref then Refuse ErrInvalidArgument
      else Transact (\<lambda>d.
        if \<not> current_lease d expected \<or> l_State expected \<noteq> ''active'' \<or> l_RuntimeAbsent expected
           \<or> l_AccessMode expected \<noteq> ''rw''
           \<or> \<not> MatchesEnvironment expected
                (getd no_environment (Environments d) (l_EnvironmentID expected))
        then Inl ErrCapabilityStale
        else case fmlookup (PersistentResources d) (ref_ID ref) of
          None \<Rightarrow> Inl ErrCapabilityStale
        | Some r \<Rightarrow>
            if Ref r \<noteq> ref \<or> \<not> bound_to d r expected then Inl ErrCapabilityStale
            else if snapshotBusy d (l_EnvironmentID expected) then Inl ErrRecoveryRequired
            else if list_ex (\<lambda>a. persistentCopyReserved d (ref_ID (a_Resource a))
                 \<or> (a_Resource a \<noteq> ref
                    \<and> pr_State (getd no_resource (PersistentResources d) (ref_ID (a_Resource a)))
                        = ''clearing'')) (l_Attachments expected) then Inl ErrRecoveryRequired
            else if pr_State r \<noteq> ''ready'' \<and> pr_State r \<noteq> ''clearing'' then Inl ErrRecoveryRequired
            else if pr_State r = ''clearing'' then Inr (False, d, r)
            else let r' = r\<lparr>pr_State := ''clearing''\<rparr> in Inr (True, put_resource r' d, r')))"

definition CommitEnvironmentResourceClear :: "WorkspaceLease \<Rightarrow> PersistentResource \<Rightarrow> unit call" where
  "CommitEnvironmentResourceClear expected resource =
     (if pr_State resource \<noteq> ''clearing'' \<or> \<not> ValidEnvironmentResourceRef (Ref resource)
      then Refuse ErrInvalidArgument
      else Transact (\<lambda>d.
        if \<not> current_lease d expected \<or> l_State expected \<noteq> ''active'' \<or> l_RuntimeAbsent expected
           \<or> getd no_resource (PersistentResources d) (pr_ID resource) \<noteq> resource
        then Inl ErrCapabilityStale
        else if \<not> bound_to d resource expected then Inl ErrCapabilityStale
        else Inr (True, put_resource (resource\<lparr>pr_State := ''ready''\<rparr>) d, ())))"

definition BeginEnvironmentGenerationCopy ::
  "WorkspaceLease \<Rightarrow> PersistentResource \<Rightarrow> PersistentResource \<Rightarrow> unit call" where
  "BeginEnvironmentGenerationCopy expected source target = Transact (\<lambda>d.
     if \<not> current_lease d expected \<or> \<not> environmentGenerationCopy d source target expected
     then Inl ErrCapabilityStale
     else if snapshotBusy d (l_EnvironmentID expected)
        \<or> environmentResourcesBusy d (l_EnvironmentID expected) then Inl ErrRecoveryRequired
     else case reservePersistentResourceCopy source target d of
       Inl e \<Rightarrow> Inl e | Inr d' \<Rightarrow> Inr (True, d', ()))"

definition CheckEnvironmentResourcesIdle :: "string \<Rightarrow> unit call" where
  "CheckEnvironmentResourcesIdle name = Transact (\<lambda>d.
     if environmentResourcesBusy d name then Inl ErrRecoveryRequired else Inr (False, d, ()))"

section \<open>Resource generations\<close>

definition generationEpoch :: "char list \<Rightarrow> string" where
  "generationEpoch nonce = EncodeToString nonce"

definition EnsureResourceGeneration ::
  "char list \<Rightarrow> string \<Rightarrow> string \<Rightarrow> string \<Rightarrow> ResourceGeneration call" where
  "EnsureResourceGeneration nonce name kind compatibility =
     (if \<not> ValidResourceGenerationSpec name kind compatibility then Refuse ErrInvalidArgument
      else Transact (\<lambda>d.
        case fmlookup (ResourceGenerations d) name of
          Some current \<Rightarrow>
            if g_Kind current \<noteq> kind \<or> g_Compatibility current \<noteq> compatibility
            then Inl ErrIncompatibleState else Inr (False, d, current)
        | None \<Rightarrow>
            let g = no_generation\<lparr>g_Name := name, g_Kind := kind, g_Compatibility := compatibility,
                                  g_Epoch := generationEpoch nonce\<rparr> in
            Inr (True, d\<lparr>ResourceGenerations := fmupd name g (ResourceGenerations d)\<rparr>, g)))"

definition GetResourceGeneration :: "string \<Rightarrow> ResourceGeneration call" where
  "GetResourceGeneration name = Transact (\<lambda>d. case fmlookup (ResourceGenerations d) name of
     None \<Rightarrow> Inl ErrNotFound | Some g \<Rightarrow> Inr (False, d, g))"

definition ListResourceGenerations :: "ResourceGeneration list call" where
  "ListResourceGenerations = Transact (\<lambda>d.
     Inr (False, d, sort_key g_Name (map snd (sorted_list_of_fmap (ResourceGenerations d)))))"

definition AdvanceResourceGeneration ::
  "ResourceGeneration \<Rightarrow> PersistentResourceRef \<Rightarrow> ResourceGeneration call" where
  "AdvanceResourceGeneration expected candidate =
     (if \<not> ValidResourceGeneration expected \<or> \<not> ValidGenerationResource candidate
      then Refuse ErrInvalidArgument
      else Transact (\<lambda>d.
        if fmlookup (ResourceGenerations d) (g_Name expected) \<noteq> Some expected
        then Inl ErrSourceGenerationStale
        else if g_Number expected = not 0 \<or> g_Current expected = candidate then Inl ErrInvalidArgument
        else if (case fmlookup (PersistentResources d) (ref_ID candidate) of
             None \<Rightarrow> True
           | Some resource \<Rightarrow> Ref resource \<noteq> candidate \<or> \<not> pr_SourceOnly resource
               \<or> pr_State resource \<noteq> ''ready'' \<or> pr_Kind resource \<noteq> g_Kind expected)
        then Inl ErrIncompatibleState
        else if fmex (\<lambda>_ source. ref_ID (g_Current source) = ref_ID candidate) (ResourceGenerations d)
        then Inl ErrStorageBusy
        else let g = expected\<lparr>g_Number := g_Number expected + 1, g_Current := candidate\<rparr> in
          Inr (True, d\<lparr>ResourceGenerations := fmupd (g_Name g) g (ResourceGenerations d)\<rparr>, g)))"

definition ResetResourceGeneration ::
  "char list \<Rightarrow> ResourceGeneration \<Rightarrow> string \<Rightarrow> ResourceGeneration call" where
  "ResetResourceGeneration nonce expected compatibility =
     (if \<not> ValidResourceGeneration expected
         \<or> \<not> ValidResourceGenerationSpec (g_Name expected) (g_Kind expected) compatibility
      then Refuse ErrInvalidArgument
      else Transact (\<lambda>d.
        if fmlookup (ResourceGenerations d) (g_Name expected) \<noteq> Some expected
        then Inl ErrSourceGenerationStale
        else let epoch = generationEpoch nonce in
        if epoch = g_Epoch expected then Inl ErrIncompatibleState
        else let g = expected\<lparr>g_Epoch := epoch, g_Compatibility := compatibility, g_Number := 0,
                              g_Current := no_ref\<rparr> in
          Inr (True, d\<lparr>ResourceGenerations := fmupd (g_Name g) g (ResourceGenerations d)\<rparr>, g)))"

end
