(* ===== verification/Snapshots.thy ===== *)
theory Snapshots
  imports Resources
begin

text \<open>
  Saved data: \<^verbatim>\<open>snapshot.go\<close>, the legacy restore records of \<^verbatim>\<open>snapshot_restore.go\<close>, the
  Workspace copy references of \<^verbatim>\<open>snapshot_workspace_copy.go\<close> and \<^verbatim>\<open>base_asset.go\<close>.
\<close>

section \<open>Snapshots\<close>

definition CheckSnapshotIdle :: "string \<Rightarrow> unit call" where
  "CheckSnapshotIdle name = Transact (\<lambda>d.
     if snapshotBusy d name then Inl ErrRecoveryRequired else Inr (False, d, ()))"

definition BeginSnapshot :: "Snapshot \<Rightarrow> unit call" where
  "BeginSnapshot snapshot =
     (if validateSnapshot snapshot \<noteq> None \<or> s_State snapshot \<noteq> ''capturing'' then Refuse ErrInvalidArgument
      else if list_ex (\<lambda>c. c_State c \<noteq> ''planned'') (s_Components snapshot) then Refuse ErrInvalidArgument
      else Transact (\<lambda>d.
        let source = s_Source snapshot; name = e_Name (src_Environment source);
            lease = getd no_lease (Leases d) name in
        if present (Snapshots d) (s_ID snapshot) then Inl ErrAlreadyExists
        else case fmlookup (Environments d) name of
          None \<Rightarrow> Inl ErrCapabilityStale
        | Some current \<Rightarrow>
            if current \<noteq> src_Environment source \<or> l_InstanceID lease \<noteq> src_InstanceID source
               \<or> l_State lease \<noteq> ''active'' \<or> validateEnvironmentCreateCommit current lease \<noteq> None
            then Inl ErrCapabilityStale
            else if environmentResourcesBusy d (e_Name current) then Inl ErrRecoveryRequired
            else if snapshotBusy d (e_Name current) then Inl ErrStorageBusy
            else if fmex (\<lambda>_ existing. list_ex (\<lambda>a. list_ex (\<lambda>b. c_NativeRef a = c_NativeRef b)
                     (s_Components snapshot)) (s_Components existing)) (Snapshots d)
            then Inl ErrAlreadyExists
            else Inr (True, d\<lparr>Snapshots := fmupd (s_ID snapshot) snapshot (Snapshots d)\<rparr>, ())))"

definition GetSnapshot :: "string \<Rightarrow> Snapshot call" where
  "GetSnapshot i = Transact (\<lambda>d. case fmlookup (Snapshots d) i of
     None \<Rightarrow> Inl ErrNotFound | Some s \<Rightarrow> Inr (False, d, s))"

definition mutateSnapshot :: "string \<Rightarrow> (Snapshot \<Rightarrow> error + Snapshot) \<Rightarrow> unit call" where
  "mutateSnapshot i change = Transact (\<lambda>d.
     case fmlookup (Snapshots d) i of None \<Rightarrow> Inl ErrNotFound | Some s \<Rightarrow>
     (case change s of Inl e \<Rightarrow> Inl e | Inr s' \<Rightarrow>
      (case validateSnapshot s' of Some e \<Rightarrow> Inl e | None \<Rightarrow>
       Inr (True, d\<lparr>Snapshots := fmupd i s' (Snapshots d)\<rparr>, ()))))"

text \<open>
  The component loop of \<^verbatim>\<open>RecordSnapshotComponent\<close> and \<^verbatim>\<open>RecordRestoreComponent\<close>: the first
  component of the expected role decides.  \<open>working\<close> are the states in which components are
  created and verified.
\<close>

definition component_allowed :: "string set \<Rightarrow> string \<Rightarrow> string \<Rightarrow> string \<Rightarrow> bool" where
  "component_allowed working st c nxt \<longleftrightarrow>
     (st \<in> working \<and> ((c = ''planned'' \<and> nxt = ''created'') \<or> (c = ''created'' \<and> nxt = ''verified'')))
     \<or> (st = ''deleting'' \<and> nxt = ''absent'')"

fun record_component ::
  "string set \<Rightarrow> string \<Rightarrow> SnapshotComponent \<Rightarrow> string \<Rightarrow> SnapshotComponent list
     \<Rightarrow> error + SnapshotComponent list" where
  "record_component working st expected nxt [] = Inl ErrNotFound"
| "record_component working st expected nxt (c # cs) =
     (if c_Role c \<noteq> c_Role expected then
        (case record_component working st expected nxt cs of Inl e \<Rightarrow> Inl e | Inr cs' \<Rightarrow> Inr (c # cs'))
      else if c \<noteq> expected then Inl ErrCapabilityStale
      else if \<not> component_allowed working st (c_State c) nxt then Inl ErrIncompatibleState
      else Inr (c\<lparr>c_State := nxt\<rparr> # cs))"

definition RecordSnapshotComponent :: "string \<Rightarrow> SnapshotComponent \<Rightarrow> string \<Rightarrow> unit call" where
  "RecordSnapshotComponent i expected nxt = mutateSnapshot i (\<lambda>s.
     case record_component {''capturing'', ''recovery-required''} (s_State s) expected nxt (s_Components s) of
       Inl e \<Rightarrow> Inl e | Inr cs \<Rightarrow> Inr (s\<lparr>s_Components := cs\<rparr>))"

definition CommitSnapshot :: "string \<Rightarrow> unit call" where
  "CommitSnapshot i = mutateSnapshot i (\<lambda>s.
     if s_State s \<noteq> ''capturing'' \<and> s_State s \<noteq> ''recovery-required'' then Inl ErrIncompatibleState
     else if list_ex (\<lambda>c. c_State c \<noteq> ''verified'') (s_Components s) then Inl ErrRecoveryRequired
     else Inr (s\<lparr>s_State := ''ready''\<rparr>))"

definition RecordSnapshotImage :: "string \<Rightarrow> BaseRef \<Rightarrow> unit call" where
  "RecordSnapshotImage i img = mutateSnapshot i (\<lambda>s.
     if s_State s \<noteq> ''capturing'' \<or> b_Name img = [] \<or> b_Revision img = [] then Inl ErrIncompatibleState
     else Inr (s\<lparr>s_Image := Some img\<rparr>))"

definition MarkSnapshotRecovery :: "string \<Rightarrow> unit call" where
  "MarkSnapshotRecovery i = mutateSnapshot i (\<lambda>s.
     if s_State s \<noteq> ''capturing'' \<and> s_State s \<noteq> ''recovery-required'' then Inl ErrIncompatibleState
     else Inr (s\<lparr>s_State := ''recovery-required''\<rparr>))"

definition BeginSnapshotDelete :: "string \<Rightarrow> unit call" where
  "BeginSnapshotDelete i = Transact (\<lambda>d.
     if fmex (\<lambda>_ copy. wc_SnapshotID copy = i) (WorkspaceCopies d) then Inl ErrStorageBusy
     else if fmex (\<lambda>_ r. pr_RestoreSource r = i) (PersistentResources d) then Inl ErrStorageBusy
     else if fmex (\<lambda>_ lease. l_SnapshotSource lease = i) (Leases d) then Inl ErrStorageBusy
     else if restoreUsesSnapshot d i then Inl ErrStorageBusy
     else case fmlookup (Snapshots d) i of
       None \<Rightarrow> Inl ErrNotFound
     | Some s \<Rightarrow> Inr (True, d\<lparr>Snapshots := fmupd i (s\<lparr>s_State := ''deleting''\<rparr>) (Snapshots d)\<rparr>, ()))"

definition FinalizeSnapshotDelete :: "string \<Rightarrow> unit call" where
  "FinalizeSnapshotDelete i = Transact (\<lambda>d.
     case fmlookup (Snapshots d) i of None \<Rightarrow> Inl ErrNotFound | Some s \<Rightarrow>
     if s_State s \<noteq> ''deleting'' then Inl ErrIncompatibleState
     else if list_ex (\<lambda>c. c_State c \<noteq> ''absent'') (s_Components s) then Inl ErrRecoveryRequired
     else Inr (True, d\<lparr>Snapshots := fmdrop i (Snapshots d)\<rparr>, ()))"

text \<open>Ordered by Environment name, then by ID: two stable sorts.\<close>

definition ListSnapshots :: "Snapshot list call" where
  "ListSnapshots = Transact (\<lambda>d. Inr (False, d,
     sort_key (\<lambda>s. e_Name (src_Environment (s_Source s)))
       (sort_key s_ID (map snd (sorted_list_of_fmap (Snapshots d))))))"

section \<open>Legacy restore records\<close>

definition GetSnapshotRestore :: "string \<Rightarrow> SnapshotRestore call" where
  "GetSnapshotRestore i = Transact (\<lambda>d. case fmlookup (Restores d) i of
     None \<Rightarrow> Inl ErrNotFound | Some op \<Rightarrow> Inr (False, d, op))"

definition mutateRestore :: "string \<Rightarrow> (SnapshotRestore \<Rightarrow> error + SnapshotRestore) \<Rightarrow> unit call" where
  "mutateRestore i change = Transact (\<lambda>d.
     case fmlookup (Restores d) i of None \<Rightarrow> Inl ErrNotFound | Some op \<Rightarrow>
     (case change op of Inl e \<Rightarrow> Inl e | Inr op' \<Rightarrow>
      (case validateRestore op' of Some e \<Rightarrow> Inl e | None \<Rightarrow>
       Inr (True, d\<lparr>Restores := fmupd i op' (Restores d)\<rparr>, ()))))"

definition RecordRestoreComponent :: "string \<Rightarrow> SnapshotComponent \<Rightarrow> string \<Rightarrow> unit call" where
  "RecordRestoreComponent i expected nxt = mutateRestore i (\<lambda>op.
     case record_component {''preparing'', ''recovery-required''} (r_State op) expected nxt (r_Components op) of
       Inl e \<Rightarrow> Inl e | Inr cs \<Rightarrow> Inr (op\<lparr>r_Components := cs\<rparr>))"

definition BeginRestoreCleanup :: "string \<Rightarrow> unit call" where
  "BeginRestoreCleanup i = mutateRestore i (\<lambda>op. Inr (op\<lparr>r_State := ''deleting''\<rparr>))"

definition FinalizeRestoreCleanup :: "string \<Rightarrow> unit call" where
  "FinalizeRestoreCleanup i = Transact (\<lambda>d.
     case fmlookup (Restores d) i of None \<Rightarrow> Inl ErrNotFound | Some op \<Rightarrow>
     if r_State op \<noteq> ''deleting'' then Inl ErrIncompatibleState
     else if list_ex (\<lambda>c. c_State c \<noteq> ''absent'') (r_Components op) then Inl ErrRecoveryRequired
     else Inr (True, d\<lparr>Restores := fmdrop i (Restores d)\<rparr>, ()))"

section \<open>Workspace copies of saved data\<close>

definition BeginSnapshotWorkspaceCopy :: "Snapshot \<Rightarrow> string \<Rightarrow> string \<Rightarrow> unit call" where
  "BeginSnapshotWorkspaceCopy saved i owner =
     (let copy = \<lparr>wc_SnapshotID = s_ID saved, wc_Owner = owner\<rparr> in
      if \<not> validSnapshotWorkspaceCopy i copy \<or> s_State saved \<noteq> ''ready'' then Refuse ErrInvalidArgument
      else Transact (\<lambda>d.
        if fmlookup (Snapshots d) (s_ID saved) \<noteq> Some saved then Inl ErrCapabilityStale
        else if present (WorkspaceCopies d) i then Inl ErrAlreadyExists
        else Inr (True, d\<lparr>WorkspaceCopies := fmupd i copy (WorkspaceCopies d)\<rparr>, ())))"

definition FinishSnapshotWorkspaceCopy :: "string \<Rightarrow> string \<Rightarrow> string \<Rightarrow> unit call" where
  "FinishSnapshotWorkspaceCopy savedID i owner =
     (let expected = \<lparr>wc_SnapshotID = savedID, wc_Owner = owner\<rparr> in
      if \<not> validSnapshotWorkspaceCopy i expected then Refuse ErrInvalidArgument
      else Transact (\<lambda>d.
        case fmlookup (WorkspaceCopies d) i of
          None \<Rightarrow> Inl ErrNotFound
        | Some current \<Rightarrow>
            if current \<noteq> expected then Inl ErrCapabilityStale
            else Inr (True, d\<lparr>WorkspaceCopies := fmdrop i (WorkspaceCopies d)\<rparr>, ())))"

section \<open>Base assets\<close>

definition FindBaseAsset :: "BaseRef \<Rightarrow> string \<Rightarrow> string \<Rightarrow> BaseAsset call" where
  "FindBaseAsset base provider scope = Transact (\<lambda>d.
     case find (\<lambda>(_, a). ba_Base a = base \<and> ba_Provider a = provider \<and> ba_Scope a = scope)
            (sorted_list_of_fmap (BaseAssets d)) of
       None \<Rightarrow> Inl ErrNotFound | Some (_, a) \<Rightarrow> Inr (False, d, a))"

definition BeginBaseAsset :: "BaseAsset \<Rightarrow> unit call" where
  "BeginBaseAsset a =
     (if validateBaseAsset a \<noteq> None \<or> ba_State a \<noteq> ''planned'' then Refuse ErrInvalidArgument
      else Transact (\<lambda>d.
        if fmex (\<lambda>_ old. ba_ID old = ba_ID a
             \<or> (ba_Provider old = ba_Provider a
                \<and> ((ba_Scope old = ba_Scope a \<and> ba_Base old = ba_Base a)
                   \<or> ba_NativeRef old = ba_NativeRef a))) (BaseAssets d) then Inl ErrAlreadyExists
        else Inr (True, d\<lparr>BaseAssets := fmupd (ba_ID a) a (BaseAssets d)\<rparr>, ())))"

definition RecordBaseAsset :: "BaseAsset \<Rightarrow> string \<Rightarrow> unit call" where
  "RecordBaseAsset expected nxt =
     (if validateBaseAsset expected \<noteq> None then Refuse ErrInvalidArgument
      else Transact (\<lambda>d.
        if fmlookup (BaseAssets d) (ba_ID expected) \<noteq> Some expected then Inl ErrCapabilityStale
        else if \<not> ((ba_State expected = ''planned'' \<and> nxt = ''created'')
                  \<or> (ba_State expected = ''created'' \<and> nxt = ''ready'')) then Inl ErrIncompatibleState
        else Inr (True, d\<lparr>BaseAssets :=
               fmupd (ba_ID expected) (expected\<lparr>ba_State := nxt\<rparr>) (BaseAssets d)\<rparr>, ())))"

end
