(* ===== verification/Reachable.thy ===== *)
theory Reachable
  imports Snapshots
begin

text \<open>
  The store as a state machine.  One inductive rule per exported method of
  \<^verbatim>\<open>EnvironmentJSONStore\<close>; a run of the controller is a sequence of calls with arbitrary
  arguments and faults, starting from a missing catalog file.  \<open>store_invariant\<close> and
  \<open>store_transition\<close> are the proof obligations of a state invariant and of a property of
  single transitions; their interpretations are in the theories that prove one.
\<close>

section \<open>The methods\<close>

inductive observe_op :: "unit call \<Rightarrow> bool" where
  "observe_op (forget (GetEnvironment name))"
| "observe_op (forget ListEnvironments)"
| "observe_op (forget (GetReadyEnvironment name))"
| "observe_op (forget ListWorkspaceLeases)"
| "observe_op (forget (GetWorkspaceLease name))"
| "observe_op (forget ListEphemeralRuns)"
| "observe_op (forget (GetOwnedWorkspaceCleanup name))"
| "observe_op (forget GetDefaultImage)"
| "observe_op (forget GetLastOpened)"
| "observe_op (forget ListPersistentResources)"
| "observe_op (forget (GetPersistentResource name))"
| "observe_op (CheckEnvironmentResourcesIdle name)"
| "observe_op (forget (GetResourceGeneration name))"
| "observe_op (forget ListResourceGenerations)"
| "observe_op (CheckSnapshotIdle name)"
| "observe_op (forget (GetSnapshot name))"
| "observe_op (forget ListSnapshots)"
| "observe_op (forget (GetSnapshotRestore name))"
| "observe_op (forget (FindBaseAsset base provider scope))"

inductive lifecycle_op :: "unit call \<Rightarrow> bool" where
  "lifecycle_op (BeginEnvironmentCreate lease)"
| "lifecycle_op (BeginEnvironmentCreateFromSnapshot lease saved)"
| "lifecycle_op (BeginEnvironmentCreateWithResources lease plans)"
| "lifecycle_op (BeginEnvironmentCreateFromSnapshotWithResources lease saved plans)"
| "lifecycle_op (RecordEnvironmentRuntime lease)"
| "lifecycle_op (CommitEnvironmentCreate environment lease)"
| "lifecycle_op (MarkEnvironmentRecoveryRequired lease)"
| "lifecycle_op (FinalizeEnvironmentDelete environmentID)"
| "lifecycle_op (forget (PrepareEnvironmentResourceDeletion lease))"

inductive metadata_op :: "unit call \<Rightarrow> bool" where
  "metadata_op (PutEphemeralRun er)"
| "metadata_op (DeleteEphemeralRun environmentID)"
| "metadata_op (FinalizeOwnedWorkspaceCleanup name work)"
| "metadata_op (SetDefaultImage img initial)"
| "metadata_op (RememberOpened expected)"
| "metadata_op (BeginSnapshotWorkspaceCopy saved i owner)"
| "metadata_op (FinishSnapshotWorkspaceCopy savedID i owner)"
| "metadata_op (BeginBaseAsset a)"
| "metadata_op (RecordBaseAsset expected nxt)"
| "metadata_op (RecordRestoreComponent i component nxt)"
| "metadata_op (BeginRestoreCleanup i)"
| "metadata_op (FinalizeRestoreCleanup i)"

inductive generation_op :: "unit call \<Rightarrow> bool" where
  "length nonce = 16 \<Longrightarrow> generation_op (forget (EnsureResourceGeneration nonce name kind compatibility))"
| "generation_op (forget (AdvanceResourceGeneration expected candidate))"
| "length nonce = 16 \<Longrightarrow> generation_op (forget (ResetResourceGeneration nonce expected compatibility))"

inductive resource_op :: "unit call \<Rightarrow> bool" where
  "resource_op (BeginPersistentResourceCreate r)"
| "resource_op (MarkPersistentResourceCopyCompleted r)"
| "resource_op (CommitPersistentResourceCreate r)"
| "resource_op (forget (BeginPersistentResourceDeleteReviewed ref))"
| "resource_op (forget (BeginPersistentResourceDelete i))"
| "resource_op (forget (BeginWorkspaceResourceDelete i work))"
| "resource_op (forget (BeginPersistentResourceDeleteOwned r))"
| "resource_op (forget (BeginEnvironmentResourceDelete inst ref))"
| "resource_op (forget (BeginGenerationResourceDelete ref))"
| "resource_op (forget (BeginStoppedCacheCopyDelete r))"
| "resource_op (FinalizePersistentResourceDelete r)"
| "resource_op (BeginPersistentResourceCopy source target)"
| "resource_op (forget (RecordCacheCopyOperation r operation))"
| "resource_op (forget (MarkCacheCopyCleanup r))"
| "resource_op (BeginSnapshotResourceRestore saved r)"
| "resource_op (RecordPersistentResourceCreated r)"
| "resource_op (forget (BeginEnvironmentResourceMaterialization expected ref))"
| "resource_op (forget (BeginEnvironmentResourceImport expected ref))"
| "resource_op (forget (RecordEnvironmentResourceCreated r))"
| "resource_op (forget (BeginEnvironmentResourceClear expected ref))"
| "resource_op (CommitEnvironmentResourceClear expected r)"
| "resource_op (BeginEnvironmentGenerationCopy expected source target)"

inductive snapshot_op :: "unit call \<Rightarrow> bool" where
  "snapshot_op (BeginSnapshot s)"
| "snapshot_op (RecordSnapshotComponent i component nxt)"
| "snapshot_op (CommitSnapshot i)"
| "snapshot_op (RecordSnapshotImage i img)"
| "snapshot_op (MarkSnapshotRecovery i)"
| "snapshot_op (BeginSnapshotDelete i)"
| "snapshot_op (FinalizeSnapshotDelete i)"

definition store_op :: "unit call \<Rightarrow> bool" where
  "store_op c \<longleftrightarrow> observe_op c \<or> lifecycle_op c \<or> metadata_op c \<or> generation_op c \<or> resource_op c \<or> snapshot_op c"

inductive reachable :: "disk \<Rightarrow> bool" where
  start: "reachable \<lparr>catalog = Missing, leftover = False\<rparr>"
| call: "reachable D \<Longrightarrow> store_op c \<Longrightarrow> reachable (fst (run f c D))"
| identity: "reachable D \<Longrightarrow> length nonce = 16 \<Longrightarrow> reachable (fst (EnvironmentInstance f nonce env D))"

section \<open>What each group changes\<close>

lemma observe_op_effect:
  "observe_op c \<Longrightarrow> effect c d = Inr (dirty, d', r) \<Longrightarrow> \<not> dirty \<and> d' = d"
  by (induction rule: observe_op.induct)
    (simp_all add: forget_change_def GetEnvironment_def ListEnvironments_def GetReadyEnvironment_def
      ListWorkspaceLeases_def GetWorkspaceLease_def ListEphemeralRuns_def GetOwnedWorkspaceCleanup_def
      GetDefaultImage_def GetLastOpened_def ListPersistentResources_def GetPersistentResource_def
      CheckEnvironmentResourcesIdle_def GetResourceGeneration_def ListResourceGenerations_def
      CheckSnapshotIdle_def GetSnapshot_def ListSnapshots_def GetSnapshotRestore_def FindBaseAsset_def
      split: option.splits if_splits prod.splits)

text \<open>The fields of the catalog other than the named ones are the same.\<close>

definition same_ledger :: "environmentFileState \<Rightarrow> environmentFileState \<Rightarrow> bool" where
  "same_ledger d d' \<longleftrightarrow> Leases d' = Leases d \<and> Environments d' = Environments d"

definition same_data :: "environmentFileState \<Rightarrow> environmentFileState \<Rightarrow> bool" where
  "same_data d d' \<longleftrightarrow> PersistentResources d' = PersistentResources d"

definition same_saved :: "environmentFileState \<Rightarrow> environmentFileState \<Rightarrow> bool" where
  "same_saved d d' \<longleftrightarrow> Snapshots d' = Snapshots d"

definition same_generations :: "environmentFileState \<Rightarrow> environmentFileState \<Rightarrow> bool" where
  "same_generations d d' \<longleftrightarrow> ResourceGenerations d' = ResourceGenerations d"

definition same_registry :: "environmentFileState \<Rightarrow> environmentFileState \<Rightarrow> bool" where
  "same_registry d d' \<longleftrightarrow> EphemeralRuns d' = EphemeralRuns d \<and> BaseAssets d' = BaseAssets d"

lemmas same_defs = same_ledger_def same_data_def same_saved_def same_generations_def same_registry_def

lemma mutateSnapshot_frame:
  "effect (mutateSnapshot i f) d = Inr (dirty, d', r) \<Longrightarrow>
     same_ledger d d' \<and> same_data d d' \<and> same_generations d d' \<and> same_registry d d'"
  by (auto simp: mutateSnapshot_def same_defs split: option.splits sum.splits)

lemma mutateRestore_frame:
  "effect (mutateRestore i f) d = Inr (dirty, d', r) \<Longrightarrow>
     same_ledger d d' \<and> same_data d d' \<and> same_saved d d' \<and> same_generations d d' \<and> same_registry d d'"
  by (auto simp: mutateRestore_def same_defs split: option.splits sum.splits)

lemma snapshot_op_frame:
  "snapshot_op c \<Longrightarrow> effect c d = Inr (dirty, d', r) \<Longrightarrow>
     same_ledger d d' \<and> same_data d d' \<and> same_generations d d' \<and> same_registry d d'"
proof (induction rule: snapshot_op.induct)
  case (1 s)
  then show ?case
    by (auto simp: BeginSnapshot_def Let_def same_defs split: if_splits option.splits)
next
  case (6 i)
  then show ?case by (auto simp: BeginSnapshotDelete_def same_defs split: if_splits option.splits)
next
  case (7 i)
  then show ?case by (auto simp: FinalizeSnapshotDelete_def same_defs split: if_splits option.splits)
qed (simp_all add: mutateSnapshot_frame RecordSnapshotComponent_def CommitSnapshot_def
    RecordSnapshotImage_def MarkSnapshotRecovery_def)

lemma metadata_op_frame:
  "metadata_op c \<Longrightarrow> effect c d = Inr (dirty, d', r) \<Longrightarrow>
     same_ledger d d' \<and> same_data d d' \<and> same_saved d d' \<and> same_generations d d'"
  by (induction rule: metadata_op.induct)
    (auto simp: PutEphemeralRun_def DeleteEphemeralRun_def FinalizeOwnedWorkspaceCleanup_def
      SetDefaultImage_def RememberOpened_def BeginSnapshotWorkspaceCopy_def FinishSnapshotWorkspaceCopy_def
      BeginBaseAsset_def RecordBaseAsset_def RecordRestoreComponent_def BeginRestoreCleanup_def
      FinalizeRestoreCleanup_def Let_def same_defs
      split: if_splits option.splits dest!: mutateRestore_frame)

lemma generation_op_frame:
  "generation_op c \<Longrightarrow> effect c d = Inr (dirty, d', r) \<Longrightarrow>
     same_ledger d d' \<and> same_data d d' \<and> same_saved d d' \<and> same_registry d d'"
  by (induction rule: generation_op.induct)
    (auto simp: forget_change_def EnsureResourceGeneration_def AdvanceResourceGeneration_def
      ResetResourceGeneration_def Let_def same_defs split: if_splits option.splits sum.splits)

end
