(* ===== verification/Evolution.thy ===== *)
theory Evolution
  imports Reachable
begin

text \<open>
  How single records evolve.  \<open>record_evolves\<close> is the state machine of a persistent
  resource, \<open>snapshot_evolves\<close> the one of a snapshot and \<open>generation_evolves\<close> the one of a
  resource generation; each method of the store moves every record along them.
\<close>

section \<open>Persistent resources\<close>

definition resource_move :: "string \<Rightarrow> string \<Rightarrow> bool" where
  "resource_move a b \<longleftrightarrow>
     (a = ''planned'' \<and> (b = ''creating'' \<or> b = ''deleting''))
     \<or> (a = ''creating'' \<and> (b = ''creating'' \<or> b = ''created'' \<or> b = ''ready'' \<or> b = ''deleting''))
     \<or> (a = ''created'' \<and> (b = ''ready'' \<or> b = ''deleting''))
     \<or> (a = ''ready'' \<and> (b = ''clearing'' \<or> b = ''deleting''))
     \<or> (a = ''clearing'' \<and> b = ''ready'')
     \<or> (a = ''deleting'' \<and> b = ''deleting'')"

definition same_identity :: "PersistentResource \<Rightarrow> PersistentResource \<Rightarrow> bool" where
  "same_identity r r' \<longleftrightarrow> pr_ID r' = pr_ID r \<and> pr_Owner r' = pr_Owner r \<and> pr_Kind r' = pr_Kind r
     \<and> pr_NativeRef r' = pr_NativeRef r \<and> pr_CreatedAt r' = pr_CreatedAt r
     \<and> pr_WorkspaceID r' = pr_WorkspaceID r \<and> pr_SourceOnly r' = pr_SourceOnly r
     \<and> pr_EnvironmentInstance r' = pr_EnvironmentInstance r
     \<and> pr_PublicationOrigin r' = pr_PublicationOrigin r \<and> pr_Producer r' = pr_Producer r"

fun record_evolves :: "PersistentResource option \<Rightarrow> PersistentResource option \<Rightarrow> bool" where
  "record_evolves None None = True"
| "record_evolves None (Some r) \<longleftrightarrow> pr_State r = ''planned'' \<or> pr_State r = ''creating''"
| "record_evolves (Some r) None \<longleftrightarrow> pr_State r = ''deleting''"
| "record_evolves (Some r) (Some r') \<longleftrightarrow>
     r' = r \<or> (same_identity r r' \<and> resource_move (pr_State r) (pr_State r'))"

definition resources_evolve :: "environmentFileState \<Rightarrow> environmentFileState \<Rightarrow> bool" where
  "resources_evolve d d' \<longleftrightarrow>
     (\<forall>i. record_evolves (fmlookup (PersistentResources d) i) (fmlookup (PersistentResources d') i))"

lemma record_evolves_refl [simp]: "record_evolves r r"
  by (cases r) simp_all

lemma resources_evolve_same: "same_data d d' \<Longrightarrow> resources_evolve d d'"
  by (simp add: resources_evolve_def same_data_def)

lemma resources_evolve_upd:
  "PersistentResources d' = fmupd i r' (PersistentResources d) \<Longrightarrow>
     record_evolves (fmlookup (PersistentResources d) i) (Some r') \<Longrightarrow> resources_evolve d d'"
  by (simp add: resources_evolve_def)

lemma resources_evolve_drop:
  "PersistentResources d' = fmdrop i (PersistentResources d) \<Longrightarrow>
     record_evolves (fmlookup (PersistentResources d) i) None \<Longrightarrow> resources_evolve d d'"
  by (simp add: resources_evolve_def)

text \<open>A method that changes only the resource table, along the state machine.\<close>

definition data_step :: "environmentFileState \<Rightarrow> environmentFileState \<Rightarrow> bool" where
  "data_step d d' \<longleftrightarrow> resources_evolve d d' \<and> same_ledger d d' \<and> same_saved d d'
     \<and> same_generations d d' \<and> same_registry d d'"

lemma data_step_refl [simp]: "data_step d d"
  by (simp add: data_step_def same_defs resources_evolve_same)

lemma data_step_upd:
  "record_evolves (fmlookup (PersistentResources d) i) (Some r') \<Longrightarrow>
     data_step d (d\<lparr>PersistentResources := fmupd i r' (PersistentResources d)\<rparr>)"
  by (simp add: data_step_def same_defs resources_evolve_upd)

lemma data_step_drop:
  "record_evolves (fmlookup (PersistentResources d) i) None \<Longrightarrow>
     data_step d (d\<lparr>PersistentResources := fmdrop i (PersistentResources d)\<rparr>)"
  by (simp add: data_step_def same_defs resources_evolve_drop)

lemma reservePersistentResourceCopy_new:
  "reservePersistentResourceCopy source target d = Inr d' \<Longrightarrow>
     d' = d\<lparr>PersistentResources := fmupd (pr_ID target) target (PersistentResources d)\<rparr>
     \<and> fmlookup (PersistentResources d) (pr_ID target) = None
     \<and> (pr_State target = ''planned'' \<or> pr_State target = ''creating'')"
  by (auto simp: reservePersistentResourceCopy_def split: if_splits)

lemma reservePersistentResourceCopy_step:
  "reservePersistentResourceCopy source target d = Inr d' \<Longrightarrow> data_step d d'"
  by (drule reservePersistentResourceCopy_new) (auto intro!: data_step_upd)

text \<open>The record a deletion replaces, and the record it leaves.\<close>

lemma delete_resource_change_result:
  assumes "delete_resource_change i request d = Inr (d', r2)"
  obtains r where "fmlookup (PersistentResources d) i = Some r"
    and "d' = d\<lparr>PersistentResources := fmupd i r2 (PersistentResources d)\<rparr>"
    and "same_identity r r2" and "resource_move (pr_State r) ''deleting''" and "pr_State r2 = ''deleting''"
proof -
  from assms obtain r where r: "fmlookup (PersistentResources d) i = Some r"
    and held: "delete_holder_check d i request (abandon_plan request r) = None"
    and r2: "r2 = (abandon_plan request r)\<lparr>pr_State := ''deleting''\<rparr>"
    and d': "d' = d\<lparr>PersistentResources := fmupd i r2 (PersistentResources d)\<rparr>"
    by (auto simp: delete_resource_change_def Let_def guards)
  from held have "resource_move (pr_State (abandon_plan request r)) ''deleting''"
    by (simp add: delete_holder_check_def Let_def guards resource_move_def) blast
  moreover have "pr_State (abandon_plan request r) = pr_State r" "same_identity r r2"
    by (simp_all add: abandon_plan_def same_identity_def r2)
  ultimately show thesis using r d' r2 by (intro that [of r]) simp_all
qed

lemma delete_resource_change_step:
  "delete_resource_change i request d = Inr (d', r2) \<Longrightarrow> data_step d d'"
  by (erule delete_resource_change_result) (auto intro!: data_step_upd)

lemma beginPersistentResourceDelete_step:
  "effect (forget (beginPersistentResourceDelete i request)) d = Inr (dirty, d', r) \<Longrightarrow> data_step d d'"
  by (auto simp: beginPersistentResourceDelete_def resourceTransaction_def forget_change_def
      split: sum.splits dest: delete_resource_change_step)

lemma not_no_resource:
  "validCacheCopyReceipt r \<Longrightarrow> r \<noteq> no_resource"
  by (auto simp: validCacheCopyReceipt_def no_resource_def ValidGenerationResource_def Ref_def
      ValidPersistentResourceRef_def persistentIDPattern_def)

lemma getd_neq: "getd z m k = v \<Longrightarrow> v \<noteq> z \<Longrightarrow> fmlookup m k = Some v"
  by (auto simp: getd_def split: option.splits)

lemma effect_Refuse_if [guards]:
  "effect (if b then Refuse e else c) d = Inr y \<longleftrightarrow> \<not> b \<and> effect c d = Inr y"
  by simp

lemma forget_if: "forget (if b then Refuse e else c) = (if b then Refuse e else forget c)"
  by simp

lemma forget_change_Inr:
  "forget_change f d = Inr (dirty, d', u) \<longleftrightarrow> (\<exists>r. f d = Inr (dirty, d', r))"
  by (auto simp: forget_change_def split: sum.splits)

lemma forget_resourceTransaction_Inr:
  "effect (forget (resourceTransaction f)) d = Inr (dirty, d', u) \<longleftrightarrow> dirty \<and> (\<exists>r. f d = Inr (d', r))"
  by (auto simp: resourceTransaction_def forget_change_def split: sum.splits)

lemma resourceTransaction_Inr:
  "effect (resourceTransaction f) d = Inr (dirty, d', r) \<longleftrightarrow> dirty \<and> f d = Inr (d', r)"
  by (auto simp: effect_resourceTransaction split: sum.splits)

lemmas call_guards = guards forget_if forget_change_Inr forget_resourceTransaction_Inr
  resourceTransaction_Inr

text \<open>Each operation that rewrites one resource record, as a move of that record.\<close>

lemmas move_simps = call_guards data_step_upd data_step_drop same_identity_def resource_move_def

lemma BeginPersistentResourceCreate_step:
  "effect (BeginPersistentResourceCreate r) d = Inr (dirty, d', u) \<Longrightarrow> data_step d d'"
  by (clarsimp simp: BeginPersistentResourceCreate_def move_simps)

lemma MarkPersistentResourceCopyCompleted_step:
  "effect (MarkPersistentResourceCopyCompleted r) d = Inr (dirty, d', u) \<Longrightarrow> data_step d d'"
  by (clarsimp simp: MarkPersistentResourceCopyCompleted_def move_simps)

lemma CommitPersistentResourceCreate_step:
  assumes "effect (CommitPersistentResourceCreate r) d = Inr (dirty, d', u)"
  shows "data_step d d'"
proof -
  from assms have r: "fmlookup (PersistentResources d) (pr_ID r) = Some r"
    and st: "pr_State r = ''creating'' \<or> pr_State r = ''created''"
    and d': "d' = put_resource (committed_resource r) d"
    by (cases "pr_State r = ''creating''"; cases "pr_State r = ''created''";
        simp add: CommitPersistentResourceCreate_def call_guards)+
  have "same_identity r (committed_resource r)" "pr_State (committed_resource r) = ''ready''"
    "pr_ID (committed_resource r) = pr_ID r"
    by (simp_all add: same_identity_def committed_resource_def)
  with r st d' show ?thesis by (auto simp: data_step_upd resource_move_def)
qed

lemma FinalizePersistentResourceDelete_step:
  "effect (FinalizePersistentResourceDelete r) d = Inr (dirty, d', u) \<Longrightarrow> data_step d d'"
  by (clarsimp simp: FinalizePersistentResourceDelete_def move_simps)

lemma BeginPersistentResourceCopy_step:
  "effect (BeginPersistentResourceCopy source target) d = Inr (dirty, d', u) \<Longrightarrow> data_step d d'"
  by (simp add: BeginPersistentResourceCopy_def call_guards)
    (blast dest: reservePersistentResourceCopy_step)

lemma RecordCacheCopyOperation_step:
  assumes "effect (forget (RecordCacheCopyOperation r operation)) d = Inr (dirty, d', u)"
  shows "data_step d d'"
proof -
  from assms have ok: "validCacheCopyReceipt (r\<lparr>pr_CopyOperation := operation\<rparr>)" "\<not> pr_CopyCleanup r"
    and get: "getd no_resource (PersistentResources d) (pr_ID r) = r"
    and d': "d' = put_resource (r\<lparr>pr_CopyOperation := operation\<rparr>) d"
    by (simp_all add: RecordCacheCopyOperation_def Let_def call_guards)
  from ok have "pr_State r = ''creating''" by (simp add: validCacheCopyReceipt_def)
  moreover from this have "r \<noteq> no_resource" by (auto simp: no_resource_def)
  ultimately show ?thesis using getd_neq [OF get] d' by (simp add: move_simps)
qed

lemma MarkCacheCopyCleanup_step:
  assumes "effect (forget (MarkCacheCopyCleanup r)) d = Inr (dirty, d', u)"
  shows "data_step d d'"
proof -
  from assms have ok: "validCacheCopyReceipt r"
    and get: "getd no_resource (PersistentResources d) (pr_ID r) = r"
    and d': "d' = put_resource (r\<lparr>pr_CopyCleanup := True\<rparr>) d"
    by (simp_all add: MarkCacheCopyCleanup_def Let_def call_guards)
  from ok have "pr_State r = ''creating'' \<or> pr_State r = ''deleting''"
    by (auto simp: validCacheCopyReceipt_def)
  then show ?thesis
    using getd_neq [OF get not_no_resource [OF ok]] d' by (auto simp: move_simps)
qed

lemma BeginSnapshotResourceRestore_step:
  "effect (BeginSnapshotResourceRestore saved r) d = Inr (dirty, d', u) \<Longrightarrow> data_step d d'"
  by (clarsimp simp: BeginSnapshotResourceRestore_def move_simps)

lemma RecordPersistentResourceCreated_step:
  "effect (RecordPersistentResourceCreated r) d = Inr (dirty, d', u) \<Longrightarrow> data_step d d'"
  by (clarsimp simp: RecordPersistentResourceCreated_def move_simps)

lemma PersistentResources_ID:
  "fmlookup (PersistentResources d) (ref_ID ref) = Some r \<Longrightarrow> Ref r = ref \<Longrightarrow>
     fmlookup (PersistentResources d) (pr_ID r) = Some r"
  by auto

lemma beginEnvironmentResourceMaterialization_step:
  "effect (forget (beginEnvironmentResourceMaterialization expected ref importing)) d = Inr (dirty, d', u)
     \<Longrightarrow> data_step d d'"
  by (clarsimp simp: beginEnvironmentResourceMaterialization_def Let_def move_simps PersistentResources_ID)

lemma RecordEnvironmentResourceCreated_step:
  "effect (forget (RecordEnvironmentResourceCreated r)) d = Inr (dirty, d', u) \<Longrightarrow> data_step d d'"
  by (clarsimp simp: RecordEnvironmentResourceCreated_def Let_def move_simps)

lemma BeginEnvironmentResourceClear_step:
  assumes "effect (forget (BeginEnvironmentResourceClear expected ref)) d = Inr (dirty, d', u)"
  shows "data_step d d'"
proof -
  from assms obtain r v where r: "fmlookup (PersistentResources d) (ref_ID ref) = Some r" "Ref r = ref"
    and st: "\<not> (pr_State r \<noteq> ''ready'' \<and> pr_State r \<noteq> ''clearing'')"
    and res: "(if pr_State r = ''clearing'' then Inr (False, d, r)
      else let r' = r\<lparr>pr_State := ''clearing''\<rparr> in Inr (True, put_resource r' d, r'))
      = (Inr (dirty, d', v) :: error + _)"
    by (simp only: BeginEnvironmentResourceClear_def call_guards forget.simps effect.simps) blast
  show ?thesis
  proof (cases "pr_State r = ''clearing''")
    case False
    with st res r show ?thesis by (auto simp: Let_def move_simps)
  qed (use res in simp)
qed

lemma CommitEnvironmentResourceClear_step:
  assumes "effect (CommitEnvironmentResourceClear expected r) d = Inr (dirty, d', u)"
  shows "data_step d d'"
proof -
  from assms have st: "pr_State r = ''clearing''"
    and get: "getd no_resource (PersistentResources d) (pr_ID r) = r"
    and d': "d' = put_resource (r\<lparr>pr_State := ''ready''\<rparr>) d"
    by (simp_all add: CommitEnvironmentResourceClear_def call_guards)
  have "r \<noteq> no_resource" using st by (auto simp: no_resource_def)
  then show ?thesis using st getd_neq [OF get] d' by (simp add: move_simps)
qed

lemma BeginEnvironmentGenerationCopy_step:
  "effect (BeginEnvironmentGenerationCopy expected source target) d = Inr (dirty, d', u) \<Longrightarrow> data_step d d'"
  by (simp add: BeginEnvironmentGenerationCopy_def call_guards)
    (blast dest: reservePersistentResourceCopy_step)

lemma resource_op_step:
  assumes "resource_op c" and c: "effect c d = Inr (dirty, d', u)"
  shows "data_step d d'"
  using assms
proof (induction rule: resource_op.induct)
  case (4 ref)
  then show ?case
    by (auto simp: BeginPersistentResourceDeleteReviewed_def call_guards
        dest: beginPersistentResourceDelete_step)
next
  case (5 i)
  then show ?case
    by (auto simp: BeginPersistentResourceDelete_def dest: beginPersistentResourceDelete_step)
next
  case (6 i work)
  then show ?case
    by (auto simp: BeginWorkspaceResourceDelete_def call_guards dest: beginPersistentResourceDelete_step)
next
  case (7 r)
  then show ?case
    by (auto simp: BeginPersistentResourceDeleteOwned_def call_guards
        dest: beginPersistentResourceDelete_step)
next
  case (8 inst ref)
  then show ?case
    by (auto simp: BeginEnvironmentResourceDelete_def call_guards dest: beginPersistentResourceDelete_step)
next
  case (9 ref)
  then show ?case
    by (auto simp: BeginGenerationResourceDelete_def call_guards dest: beginPersistentResourceDelete_step)
next
  case (10 r)
  then show ?case
    by (auto simp: BeginStoppedCacheCopyDelete_def call_guards dest: beginPersistentResourceDelete_step)
qed (simp_all add: BeginPersistentResourceCreate_step MarkPersistentResourceCopyCompleted_step
    CommitPersistentResourceCreate_step FinalizePersistentResourceDelete_step
    BeginPersistentResourceCopy_step RecordCacheCopyOperation_step MarkCacheCopyCleanup_step
    BeginSnapshotResourceRestore_step RecordPersistentResourceCreated_step
    BeginEnvironmentResourceMaterialization_def BeginEnvironmentResourceImport_def
    beginEnvironmentResourceMaterialization_step RecordEnvironmentResourceCreated_step
    BeginEnvironmentResourceClear_step CommitEnvironmentResourceClear_step
    BeginEnvironmentGenerationCopy_step)

subsection \<open>Reservations made by a creation\<close>

definition reserving :: "environmentFileState \<Rightarrow> environmentFileState \<Rightarrow> bool" where
  "reserving d d' \<longleftrightarrow> same_ledger d d' \<and> same_saved d d' \<and> same_generations d d' \<and> same_registry d d' \<and>
     (\<forall>i. fmlookup (PersistentResources d') i = fmlookup (PersistentResources d) i
        \<or> (fmlookup (PersistentResources d) i = None
           \<and> (\<exists>r. fmlookup (PersistentResources d') i = Some r \<and> pr_State r = ''planned'')))"

lemma reserving_refl [simp]: "reserving d d"
  by (simp add: reserving_def same_defs)

lemma reserving_put:
  "reserving d0 d \<Longrightarrow> fmlookup (PersistentResources d) (pr_ID r) = None \<Longrightarrow> pr_State r = ''planned'' \<Longrightarrow>
     reserving d0 (put_resource r d)"
  unfolding reserving_def same_defs by (auto; metis option.distinct(1))

lemma reserve_plan_new:
  assumes "reserve_plan lease d p = Inr d'"
  shows "d' = put_resource (plan_Resource (fst p)) d
     \<and> fmlookup (PersistentResources d) (pr_ID (plan_Resource (fst p))) = None
     \<and> pr_State (plan_Resource (fst p)) = ''planned''"
proof -
  obtain plan attachment where p: "p = (plan, attachment)" by (cases p)
  let ?r = "plan_Resource plan"
  from assms have st: "pr_State ?r = ''planned''" and new: "\<not> present (PersistentResources d) (pr_ID ?r)"
    and res: "(if pr_CopySource ?r \<noteq> no_ref then
       (case fmlookup (PersistentResources d) (ref_ID (pr_CopySource ?r)) of
          None \<Rightarrow> Inl ErrIncompatibleState
        | Some source \<Rightarrow>
            if Ref source \<noteq> pr_CopySource ?r \<or> \<not> pr_SourceOnly source then Inl ErrIncompatibleState
            else reservePersistentResourceCopy source ?r d)
     else Inr (put_resource ?r d)) = Inr d'"
    by (simp_all only: reserve_plan_def p prod.case Let_def guards) simp_all
  show ?thesis
  proof (cases "pr_CopySource ?r = no_ref")
    case True
    with res st new show ?thesis by (simp add: p)
  next
    case False
    with res obtain source where "reservePersistentResourceCopy source ?r d = Inr d'"
      by (auto simp: guards)
    from reservePersistentResourceCopy_new [OF this] st show ?thesis by (simp add: p)
  qed
qed

lemma reserveEnvironmentResources_reserving:
  assumes "reserveEnvironmentResources lease plans d = Inr d'"
  shows "reserving d d'"
proof -
  from assms have "forE (reserve_plan lease) d (zip plans (l_Attachments lease)) = Inr d'"
    by (simp add: reserveEnvironmentResources_def guards)
  then show ?thesis
    by (rule forE_invariant [where I = "reserving d"]) (auto dest!: reserve_plan_new intro: reserving_put)
qed

lemma beginEnvironmentCreate_result:
  assumes "effect (beginEnvironmentCreate lease saved plans) d = Inr (dirty, d', u)"
  obtains d1 where "dirty" and "validateEnvironmentCreateReservation lease = None"
    and "fmlookup (Environments d) (l_EnvironmentID lease) = None"
    and "fmlookup (Leases d) (l_EnvironmentID lease) = None"
    and "admit_ephemeral d lease = None" and "admit_persistent_resource d lease = None"
    and "\<not> workspace_conflict d lease" and "reserveEnvironmentResources lease plans d = Inr d1"
    and "d' = d1\<lparr>Leases := fmupd (l_EnvironmentID lease) lease (Leases d1)\<rparr>"
proof -
  from assms have v: "validateEnvironmentCreateReservation lease = None"
    and "beginEnvironmentCreate_change lease saved plans d = Inr (dirty, d', u)"
    by (auto simp: beginEnvironmentCreate_def split: option.splits)
  then show thesis
    by (clarsimp simp: beginEnvironmentCreate_change_def guards) (rule that; simp)
qed

text \<open>The four entry points of a creation are \<^verbatim>\<open>beginEnvironmentCreate\<close> behind a check.\<close>

lemma create_entry_points:
  "effect (BeginEnvironmentCreate lease) d = Inr y \<Longrightarrow>
     effect (beginEnvironmentCreate lease None []) d = Inr y"
  "effect (BeginEnvironmentCreateFromSnapshot lease saved) d = Inr y \<Longrightarrow>
     effect (beginEnvironmentCreate lease (Some saved) []) d = Inr y"
  "effect (BeginEnvironmentCreateWithResources lease plans) d = Inr y \<Longrightarrow>
     effect (beginEnvironmentCreate lease None plans) d = Inr y"
  "effect (BeginEnvironmentCreateFromSnapshotWithResources lease saved plans) d = Inr y \<Longrightarrow>
     effect (beginEnvironmentCreate lease (Some saved) plans) d = Inr y"
  by (simp_all only: BeginEnvironmentCreate_def BeginEnvironmentCreateFromSnapshot_def
      BeginEnvironmentCreateWithResources_def BeginEnvironmentCreateFromSnapshotWithResources_def guards)

lemma lifecycle_op_data:
  assumes "lifecycle_op c" "effect c d = Inr (dirty, d', u)"
  shows "resources_evolve d d' \<and> same_saved d d' \<and> same_generations d d'"
proof -
  have create: "resources_evolve d d' \<and> same_saved d d' \<and> same_generations d d'"
    if "effect (beginEnvironmentCreate lease saved plans) d = Inr (dirty, d', u)" for lease saved plans
    using that
  proof (rule beginEnvironmentCreate_result)
    fix d1 assume "reserveEnvironmentResources lease plans d = Inr d1"
      and d': "d' = d1\<lparr>Leases := fmupd (l_EnvironmentID lease) lease (Leases d1)\<rparr>"
    then have r: "reserving d d1" by (simp add: reserveEnvironmentResources_reserving)
    have "record_evolves (fmlookup (PersistentResources d) i) (fmlookup (PersistentResources d1) i)" for i
      using r unfolding reserving_def by (metis record_evolves.simps(2) record_evolves_refl)
    with r show ?thesis by (simp add: d' resources_evolve_def reserving_def same_defs)
  qed
  note frame = resources_evolve_same same_data_def same_saved_def same_generations_def
  from assms show ?thesis
  proof (induction rule: lifecycle_op.induct)
    case (5 lease)
    then show ?case
      by (auto simp: RecordEnvironmentRuntime_def frame guards split: option.splits)
  next
    case (6 environment lease)
    then show ?case
      by (auto simp: CommitEnvironmentCreate_def frame split: option.splits if_splits)
  next
    case (7 lease)
    then show ?case
      by (auto simp: MarkEnvironmentRecoveryRequired_def frame guards Let_def)
  next
    case (8 environmentID)
    then show ?case
      by (auto simp: FinalizeEnvironmentDelete_def frame guards split: if_splits)
  next
    case (9 lease)
    then show ?case
      by (auto simp: PrepareEnvironmentResourceDeletion_def frame call_guards Let_def split: if_splits)
  qed (rule create, erule create_entry_points)+
qed

lemma store_op_resources:
  assumes "store_op c" "effect c d = Inr (dirty, d', u)"
  shows "resources_evolve d d'"
  using assms unfolding store_op_def
  by (elim disjE)
    (auto dest: observe_op_effect lifecycle_op_data metadata_op_frame generation_op_frame
      resource_op_step snapshot_op_frame simp: resources_evolve_same same_data_def data_step_def)

section \<open>Snapshots\<close>

text \<open>A component keeps its identity; its state advances while the snapshot is captured and
  becomes absent while it is deleted.\<close>

definition component_step :: "string \<Rightarrow> SnapshotComponent \<Rightarrow> SnapshotComponent \<Rightarrow> bool" where
  "component_step st c c' \<longleftrightarrow> c' = c \<or> (c' = c\<lparr>c_State := c_State c'\<rparr>
     \<and> component_allowed {''capturing'', ''recovery-required''} st (c_State c) (c_State c'))"

definition snapshot_move :: "Snapshot \<Rightarrow> Snapshot \<Rightarrow> bool" where
  "snapshot_move s s' \<longleftrightarrow>
     s_ID s' = s_ID s \<and> s_Source s' = s_Source s \<and> s_CreatedAt s' = s_CreatedAt s
     \<and> list_all2 (component_step (s_State s)) (s_Components s) (s_Components s')
     \<and> (s_State s' = ''deleting''
        \<or> (s_State s = ''capturing'' \<and> s_State s' \<in> {''capturing'', ''recovery-required'', ''ready''})
        \<or> (s_State s = ''recovery-required'' \<and> s_State s' \<in> {''recovery-required'', ''ready''}))
     \<and> (s_State s' = ''ready'' \<longrightarrow> list_all (\<lambda>c. c_State c = ''verified'') (s_Components s'))
     \<and> (s_Image s' = s_Image s \<or> s_State s = ''capturing'')"

fun snapshot_evolves :: "Snapshot option \<Rightarrow> Snapshot option \<Rightarrow> bool" where
  "snapshot_evolves None None = True"
| "snapshot_evolves None (Some s) \<longleftrightarrow> s_State s = ''capturing'' \<and> validateSnapshot s = None
     \<and> list_all (\<lambda>c. c_State c = ''planned'') (s_Components s)"
| "snapshot_evolves (Some s) None \<longleftrightarrow> s_State s = ''deleting''
     \<and> list_all (\<lambda>c. c_State c = ''absent'') (s_Components s)"
| "snapshot_evolves (Some s) (Some s') \<longleftrightarrow> s' = s \<or> snapshot_move s s'"

definition snapshots_evolve :: "environmentFileState \<Rightarrow> environmentFileState \<Rightarrow> bool" where
  "snapshots_evolve d d' \<longleftrightarrow>
     (\<forall>i. snapshot_evolves (fmlookup (Snapshots d) i) (fmlookup (Snapshots d') i))"

lemma snapshot_evolves_refl [simp]: "snapshot_evolves s s"
  by (cases s) simp_all

lemma snapshots_evolve_same: "same_saved d d' \<Longrightarrow> snapshots_evolve d d'"
  by (simp add: snapshots_evolve_def same_saved_def)

lemma snapshots_evolve_upd:
  "Snapshots d' = fmupd i s' (Snapshots d) \<Longrightarrow>
     snapshot_evolves (fmlookup (Snapshots d) i) (Some s') \<Longrightarrow> snapshots_evolve d d'"
  by (simp add: snapshots_evolve_def)

lemma component_steps_refl [simp]: "list_all2 (component_step st) cs cs"
  by (simp add: list_all2_same component_step_def)

lemma record_component_steps:
  "record_component {''capturing'', ''recovery-required''} st expected nxt cs = Inr cs' \<Longrightarrow>
     list_all2 (component_step st) cs cs' \<and> (st \<in> {''capturing'', ''recovery-required''} \<or> st = ''deleting'')"
  by (induction cs arbitrary: cs')
    (auto simp: guards component_step_def component_allowed_def split: if_splits)

lemma mutateSnapshot_evolves:
  assumes "effect (mutateSnapshot i f) d = Inr (dirty, d', u)"
    and "\<And>s s'. f s = Inr s' \<Longrightarrow> snapshot_move s s'"
  shows "snapshots_evolve d d'"
proof -
  from assms(1) obtain s s' where "fmlookup (Snapshots d) i = Some s" "f s = Inr s'"
    and "d' = d\<lparr>Snapshots := fmupd i s' (Snapshots d)\<rparr>"
    by (auto simp: mutateSnapshot_def guards)
  with assms(2) show ?thesis by (intro snapshots_evolve_upd) auto
qed

lemma snapshot_op_evolves:
  assumes "snapshot_op c" "effect c d = Inr (dirty, d', u)"
  shows "snapshots_evolve d d'"
  using assms
proof (induction rule: snapshot_op.induct)
  case (1 s)
  then have "validateSnapshot s = None" "s_State s = ''capturing''"
    "\<not> list_ex (\<lambda>c. c_State c \<noteq> ''planned'') (s_Components s)"
    "fmlookup (Snapshots d) (s_ID s) = None" "d' = d\<lparr>Snapshots := fmupd (s_ID s) s (Snapshots d)\<rparr>"
    by (auto simp: BeginSnapshot_def Let_def guards)
  then show ?case by (intro snapshots_evolve_upd) (auto simp: list_ex_iff list_all_iff)
next
  case (2 i component nxt)
  then show ?case unfolding RecordSnapshotComponent_def
    by (rule mutateSnapshot_evolves) (auto simp: snapshot_move_def guards dest!: record_component_steps)
next
  case (3 i)
  then show ?case unfolding CommitSnapshot_def
    by (rule mutateSnapshot_evolves) (auto simp: snapshot_move_def guards list_ex_iff list_all_iff)
next
  case (4 i img)
  then show ?case unfolding RecordSnapshotImage_def
    by (rule mutateSnapshot_evolves) (auto simp: snapshot_move_def guards)
next
  case (5 i)
  then show ?case unfolding MarkSnapshotRecovery_def
    by (rule mutateSnapshot_evolves) (auto simp: snapshot_move_def guards)
next
  case (6 i)
  then obtain s where "fmlookup (Snapshots d) i = Some s"
    and "d' = d\<lparr>Snapshots := fmupd i (s\<lparr>s_State := ''deleting''\<rparr>) (Snapshots d)\<rparr>"
    by (auto simp: BeginSnapshotDelete_def guards)
  then show ?case by (intro snapshots_evolve_upd) (auto simp: snapshot_move_def)
next
  case (7 i)
  then show ?case
    by (auto simp: FinalizeSnapshotDelete_def guards snapshots_evolve_def list_ex_iff list_all_iff)
qed

lemma store_op_snapshots:
  assumes "store_op c" "effect c d = Inr (dirty, d', u)"
  shows "snapshots_evolve d d'"
  using assms unfolding store_op_def
  by (elim disjE)
    (auto dest: observe_op_effect lifecycle_op_data metadata_op_frame generation_op_frame
      resource_op_step snapshot_op_evolves simp: snapshots_evolve_same same_saved_def data_step_def)

section \<open>Resource generations\<close>

text \<open>
  A generation counter counts up by one without wrapping, each time to a new current
  resource; a reset starts it again in a new epoch.  A generation is never removed.
\<close>

definition generation_move :: "ResourceGeneration \<Rightarrow> ResourceGeneration \<Rightarrow> bool" where
  "generation_move g g' \<longleftrightarrow> g_Name g' = g_Name g \<and> g_Kind g' = g_Kind g \<and>
     ((g_Epoch g' = g_Epoch g \<and> g_Compatibility g' = g_Compatibility g
       \<and> unat (g_Number g') = Suc (unat (g_Number g)) \<and> g_Current g' \<noteq> g_Current g
       \<and> ValidGenerationResource (g_Current g'))
      \<or> (g_Epoch g' \<noteq> g_Epoch g \<and> g_Number g' = 0 \<and> g_Current g' = no_ref))"

fun generation_evolves :: "ResourceGeneration option \<Rightarrow> ResourceGeneration option \<Rightarrow> bool" where
  "generation_evolves None None = True"
| "generation_evolves None (Some g) \<longleftrightarrow> g_Number g = 0 \<and> g_Current g = no_ref"
| "generation_evolves (Some g) None = False"
| "generation_evolves (Some g) (Some g') \<longleftrightarrow> g' = g \<or> generation_move g g'"

definition generations_evolve :: "environmentFileState \<Rightarrow> environmentFileState \<Rightarrow> bool" where
  "generations_evolve d d' \<longleftrightarrow>
     (\<forall>n. generation_evolves (fmlookup (ResourceGenerations d) n) (fmlookup (ResourceGenerations d') n))"

lemma generation_evolves_refl [simp]: "generation_evolves g g"
  by (cases g) simp_all

lemma generations_evolve_same: "same_generations d d' \<Longrightarrow> generations_evolve d d'"
  by (simp add: generations_evolve_def same_generations_def)

lemma generations_evolve_upd:
  "ResourceGenerations d' = fmupd n g' (ResourceGenerations d) \<Longrightarrow>
     generation_evolves (fmlookup (ResourceGenerations d) n) (Some g') \<Longrightarrow> generations_evolve d d'"
  by (simp add: generations_evolve_def)

lemma unat_Suc_word64: "(n :: u64) \<noteq> not 0 \<Longrightarrow> unat (n + 1) = Suc (unat n)"
  using unatSuc [of n] add_eq_0_iff [of 1 n] by (simp add: add.commute)

lemma generation_op_evolves:
  assumes "generation_op c" "effect c d = Inr (dirty, d', u)"
  shows "generations_evolve d d'"
  using assms
proof (induction rule: generation_op.induct)
  case (1 nonce name kind compatibility)
  show ?case
  proof (cases "fmlookup (ResourceGenerations d) name")
    case (Some g)
    with 1 show ?thesis
      by (auto simp: EnsureResourceGeneration_def call_guards generations_evolve_def)
  next
    case None
    with 1 show ?thesis
      by (intro generations_evolve_upd [where n = name])
        (auto simp: EnsureResourceGeneration_def call_guards Let_def no_generation_def)
  qed
next
  case (2 expected candidate)
  then have "ValidGenerationResource candidate"
    "fmlookup (ResourceGenerations d) (g_Name expected) = Some expected"
    "\<not> (g_Number expected = not 0 \<or> g_Current expected = candidate)"
    "ResourceGenerations d' = fmupd (g_Name expected)
       (expected\<lparr>g_Number := g_Number expected + 1, g_Current := candidate\<rparr>) (ResourceGenerations d)"
    by (auto simp: AdvanceResourceGeneration_def call_guards Let_def)
  then show ?case
    by (intro generations_evolve_upd) (auto simp: generation_move_def unat_Suc_word64)
next
  case (3 nonce expected compatibility)
  then have "fmlookup (ResourceGenerations d) (g_Name expected) = Some expected"
    "generationEpoch nonce \<noteq> g_Epoch expected"
    "ResourceGenerations d' = fmupd (g_Name expected) (expected\<lparr>g_Epoch := generationEpoch nonce,
        g_Compatibility := compatibility, g_Number := 0, g_Current := no_ref\<rparr>) (ResourceGenerations d)"
    by (auto simp: ResetResourceGeneration_def call_guards Let_def)
  then show ?case
    by (intro generations_evolve_upd) (auto simp: generation_move_def)
qed

lemma store_op_generations:
  assumes "store_op c" "effect c d = Inr (dirty, d', u)"
  shows "generations_evolve d d'"
  using assms unfolding store_op_def
  by (elim disjE)
    (auto dest: observe_op_effect lifecycle_op_data metadata_op_frame generation_op_evolves
      resource_op_step snapshot_op_frame simp: generations_evolve_same same_generations_def data_step_def)

end
