(* ===== verification/Ledger.thy ===== *)
theory Ledger
  imports Catalog
begin

text \<open>
  The abstract contract of the Environment lifecycle: a ledger of Workspace leases and
  published Environments with five moves.  \<open>ledger_ok\<close> is what the rest of the system relies
  on: published Environments and leases describe the same aggregate, and a Workspace or a
  persistent resource is never handed to two holders that exclude each other.  The theory
  \<^verbatim>\<open>Refinement\<close> shows that every method of the store makes one of these moves or none.
\<close>

record ledger =
  held :: "WorkspaceLease gomap"
  published :: "Environment gomap"

definition ledger_of :: "environmentFileState \<Rightarrow> ledger" where
  "ledger_of d = \<lparr>held = Leases d, published = Environments d\<rparr>"

lemma ledger_of_sel [simp]: "held (ledger_of d) = Leases d" "published (ledger_of d) = Environments d"
  by (simp_all add: ledger_of_def)

lemma ledger_of_cong:
  "Leases d' = Leases d \<Longrightarrow> Environments d' = Environments d \<Longrightarrow> ledger_of d' = ledger_of d"
  by (simp add: ledger_of_def)

text \<open>What a lease claims; it is fixed from reservation to release.\<close>

record lease_claim =
  k_EnvironmentID :: string
  k_WorkspaceID :: string
  k_SourcePath :: string
  k_AccessMode :: string
  k_Owner :: string
  k_PersistentResource :: PersistentResourceRef
  k_Attachments :: "EnvironmentAttachment list"
  k_Ephemeral :: bool

definition claim :: "WorkspaceLease \<Rightarrow> lease_claim" where
  "claim l = \<lparr>k_EnvironmentID = l_EnvironmentID l, k_WorkspaceID = l_WorkspaceID l,
     k_SourcePath = l_SourcePath l, k_AccessMode = l_AccessMode l, k_Owner = l_Owner l,
     k_PersistentResource = l_PersistentResource l, k_Attachments = l_Attachments l,
     k_Ephemeral = l_Ephemeral l\<rparr>"

lemma claim_eq_iff:
  "claim l = claim l' \<longleftrightarrow> l_EnvironmentID l = l_EnvironmentID l' \<and> l_WorkspaceID l = l_WorkspaceID l'
     \<and> l_SourcePath l = l_SourcePath l' \<and> l_AccessMode l = l_AccessMode l' \<and> l_Owner l = l_Owner l'
     \<and> l_PersistentResource l = l_PersistentResource l' \<and> l_Attachments l = l_Attachments l'
     \<and> l_Ephemeral l = l_Ephemeral l'"
  by (simp add: claim_def)

text \<open>Two claims exclude each other when they share a Workspace that one of them writes, or a
  persistent resource.\<close>

definition workspace_excludes :: "WorkspaceLease \<Rightarrow> WorkspaceLease \<Rightarrow> bool" where
  "workspace_excludes a b \<longleftrightarrow> l_WorkspaceID a = l_WorkspaceID b
     \<and> (l_AccessMode a = ''rw'' \<or> l_AccessMode b = ''rw'')"

definition resource_excludes :: "WorkspaceLease \<Rightarrow> WorkspaceLease \<Rightarrow> bool" where
  "resource_excludes a b \<longleftrightarrow> l_PersistentResource a \<noteq> no_ref \<and> l_PersistentResource b \<noteq> no_ref
     \<and> ref_ID (l_PersistentResource a) = ref_ID (l_PersistentResource b)"

definition excludes :: "WorkspaceLease \<Rightarrow> WorkspaceLease \<Rightarrow> bool" where
  "excludes a b \<longleftrightarrow> workspace_excludes a b \<or> resource_excludes a b"

lemma excludes_sym: "excludes a b \<longleftrightarrow> excludes b a"
  by (auto simp: excludes_def workspace_excludes_def resource_excludes_def)

lemma excludes_claim: "claim a = claim a' \<Longrightarrow> excludes a b \<longleftrightarrow> excludes a' b"
  by (auto simp: claim_eq_iff excludes_def workspace_excludes_def resource_excludes_def)

inductive ledger_step :: "ledger \<Rightarrow> ledger \<Rightarrow> bool" where
  Reserve: "fmlookup (held L) n = None \<Longrightarrow> fmlookup (published L) n = None \<Longrightarrow>
     l_EnvironmentID l = n \<Longrightarrow> n \<noteq> [] \<Longrightarrow> l_State l = ''acquiring'' \<Longrightarrow> l_RuntimeRef l = [] \<Longrightarrow>
     l_AccessMode l \<in> {''ro'', ''rw''} \<Longrightarrow> fmpred (\<lambda>_ l'. \<not> excludes l l') (held L) \<Longrightarrow>
     ledger_step L (L\<lparr>held := fmupd n l (held L)\<rparr>)"
| Amend: "fmlookup (held L) n = Some l \<Longrightarrow> claim l' = claim l \<Longrightarrow>
     l_State l' \<in> {''acquiring'', ''cleanup-required''} \<Longrightarrow>
     l_RuntimeRef l \<in> {[], l_RuntimeRef l'} \<Longrightarrow>
     (l_State l' = ''acquiring'' \<longrightarrow> fmlookup (published L) n = None) \<Longrightarrow>
     ledger_step L (L\<lparr>held := fmupd n l' (held L)\<rparr>)"
| Identify: "fmlookup (held L) n = Some l \<Longrightarrow>
     ledger_step L (L\<lparr>held := fmupd n (l\<lparr>l_InstanceID := i\<rparr>) (held L)\<rparr>)"
| Publish: "fmlookup (held L) n = Some l \<Longrightarrow> fmlookup (published L) n = None \<Longrightarrow>
     claim l' = claim l \<Longrightarrow> l_RuntimeRef l' = l_RuntimeRef l \<Longrightarrow> e_Name env = n \<Longrightarrow>
     w_ID (e_Workspace env) \<noteq> [] \<Longrightarrow> w_Path (e_Workspace env) \<noteq> [] \<Longrightarrow>
     l_State l = ''acquiring'' \<Longrightarrow> MatchesEnvironment l' env \<Longrightarrow>
     ledger_step L \<lparr>held = fmupd n l' (held L), published = fmupd n env (published L)\<rparr>"
| Release: "ledger_step L \<lparr>held = fmdrop n (held L), published = fmdrop n (published L)\<rparr>"

section \<open>The invariant\<close>

definition lease_ok :: "string \<Rightarrow> WorkspaceLease \<Rightarrow> bool" where
  "lease_ok n l \<longleftrightarrow> l_EnvironmentID l = n \<and> n \<noteq> [] \<and> l_AccessMode l \<in> {''ro'', ''rw''}
     \<and> l_State l \<in> {''acquiring'', ''active'', ''cleanup-required''}"

text \<open>An active lease belongs to the published Environment it describes.\<close>

definition active_published :: "ledger \<Rightarrow> bool" where
  "active_published L \<longleftrightarrow> fmpred (\<lambda>n l. l_State l = ''active'' \<longrightarrow>
     (case fmlookup (published L) n of None \<Rightarrow> False | Some env \<Rightarrow> MatchesEnvironment l env)) (held L)"

text \<open>A published Environment has a lease of the same aggregate, active or in cleanup.\<close>

definition covers :: "WorkspaceLease \<Rightarrow> Environment \<Rightarrow> bool" where
  "covers l env \<longleftrightarrow> l_State l \<noteq> ''acquiring''
     \<and> MatchesEnvironment (l\<lparr>l_State := ''active'', l_RuntimeAbsent := False\<rparr>) env
     \<and> w_ID (e_Workspace env) \<noteq> [] \<and> w_Path (e_Workspace env) \<noteq> []"

definition published_leased :: "ledger \<Rightarrow> bool" where
  "published_leased L \<longleftrightarrow> fmpred (\<lambda>n env. e_Name env = n \<and>
     (case fmlookup (held L) n of None \<Rightarrow> False | Some l \<Rightarrow> covers l env)) (published L)"

definition exclusive :: "ledger \<Rightarrow> bool" where
  "exclusive L \<longleftrightarrow> fmpred (\<lambda>n l. fmpred (\<lambda>m l'. n \<noteq> m \<longrightarrow> \<not> excludes l l') (held L)) (held L)"

definition ledger_ok :: "ledger \<Rightarrow> bool" where
  "ledger_ok L \<longleftrightarrow> fmpred lease_ok (held L) \<and> active_published L \<and> published_leased L \<and> exclusive L"

lemma exclusiveD:
  "exclusive L \<Longrightarrow> fmlookup (held L) n = Some l \<Longrightarrow> fmlookup (held L) m = Some l' \<Longrightarrow> n \<noteq> m \<Longrightarrow>
     \<not> excludes l l'"
  unfolding exclusive_def by (blast dest: fmpredD)

lemma exclusive_upd:
  assumes "exclusive L" "\<And>m l'. fmlookup (held L) m = Some l' \<Longrightarrow> m \<noteq> n \<Longrightarrow> \<not> excludes l l'"
    and "held L' = fmupd n l (held L)"
  shows "exclusive L'"
  unfolding exclusive_def
proof (intro fmpredI impI)
  fix a x b y assume "fmlookup (held L') a = Some x" "fmlookup (held L') b = Some y" "a \<noteq> b"
  with assms show "\<not> excludes x y"
    using excludes_sym [of x y] by (cases "a = n"; cases "b = n") (auto dest: exclusiveD)
qed

lemma exclusive_same_claim:
  assumes "exclusive L" "fmlookup (held L) n = Some l" "claim l' = claim l"
    and "held L' = fmupd n l' (held L)"
  shows "exclusive L'"
proof (rule exclusive_upd [OF assms(1) _ assms(4)])
  fix m k assume "fmlookup (held L) m = Some k" "m \<noteq> n"
  then have "\<not> excludes l k" using exclusiveD [OF assms(1,2)] by auto
  then show "\<not> excludes l' k" using excludes_claim [OF assms(3)] by simp
qed

lemma exclusive_drop:
  assumes "exclusive L" and L': "held L' = fmdrop n (held L)"
  shows "exclusive L'"
  unfolding exclusive_def
proof (intro fmpredI impI)
  fix a x b y assume "fmlookup (held L') a = Some x" "fmlookup (held L') b = Some y" "a \<noteq> b"
  then show "\<not> excludes x y"
    using exclusiveD [OF assms(1), of a x b y] by (simp add: L' split: if_splits)
qed

lemma active_publishedD:
  "active_published L \<Longrightarrow> fmlookup (held L) n = Some l \<Longrightarrow> l_State l = ''active'' \<Longrightarrow>
     \<exists>env. fmlookup (published L) n = Some env \<and> MatchesEnvironment l env"
  unfolding active_published_def by (drule (1) fmpredD) (simp split: option.splits)

lemma published_leasedD:
  "published_leased L \<Longrightarrow> fmlookup (published L) n = Some env \<Longrightarrow>
     e_Name env = n \<and> (\<exists>l. fmlookup (held L) n = Some l \<and> covers l env)"
  unfolding published_leased_def by (drule (1) fmpredD) (simp split: option.splits)

lemma active_publishedI:
  assumes "\<And>n l. fmlookup (held L) n = Some l \<Longrightarrow> l_State l = ''active'' \<Longrightarrow>
     \<exists>env. fmlookup (published L) n = Some env \<and> MatchesEnvironment l env"
  shows "active_published L"
  unfolding active_published_def by (rule fmpredI) (use assms in fastforce)

lemma published_leasedI:
  assumes "\<And>n env. fmlookup (published L) n = Some env \<Longrightarrow>
     e_Name env = n \<and> (\<exists>l. fmlookup (held L) n = Some l \<and> covers l env)"
  shows "published_leased L"
  unfolding published_leased_def by (rule fmpredI) (use assms in fastforce)

lemma ledger_okD:
  assumes "ledger_ok L"
  shows "fmpred lease_ok (held L)" "active_published L" "published_leased L" "exclusive L"
  using assms by (simp_all add: ledger_ok_def)

section \<open>Every move keeps it\<close>

lemma covers_amend:
  "covers l env \<Longrightarrow> claim l' = claim l \<Longrightarrow> l_RuntimeRef l \<in> {[], l_RuntimeRef l'} \<Longrightarrow>
     l_State l' \<noteq> ''acquiring'' \<Longrightarrow> covers l' env"
  by (auto simp: covers_def MatchesEnvironment_def claim_eq_iff)

lemma covers_published:
  "MatchesEnvironment l env \<Longrightarrow> w_ID (e_Workspace env) \<noteq> [] \<Longrightarrow> w_Path (e_Workspace env) \<noteq> [] \<Longrightarrow> covers l env"
  by (auto simp: covers_def MatchesEnvironment_def)

lemma ledger_ok_Reserve:
  assumes ok: "ledger_ok L" and new: "fmlookup (held L) n = None" "fmlookup (published L) n = None"
    and l: "lease_ok n l" "l_State l = ''acquiring''" "fmpred (\<lambda>_ l'. \<not> excludes l l') (held L)"
  shows "ledger_ok (L\<lparr>held := fmupd n l (held L)\<rparr>)"
proof -
  have "active_published (L\<lparr>held := fmupd n l (held L)\<rparr>)"
    using active_publishedD [OF ledger_okD(2) [OF ok]] l(2)
    by (intro active_publishedI) (simp split: if_splits)
  moreover have "published_leased (L\<lparr>held := fmupd n l (held L)\<rparr>)"
    using published_leasedD [OF ledger_okD(3) [OF ok]] new by (intro published_leasedI) fastforce
  moreover have "exclusive (L\<lparr>held := fmupd n l (held L)\<rparr>)"
    by (rule exclusive_upd [OF ledger_okD(4) [OF ok], where n = n and l = l])
      (simp_all add: fmpredD [OF l(3)])
  ultimately show ?thesis
    using ledger_okD(1) [OF ok] l(1) by (auto simp: ledger_ok_def intro!: fmpred_upd)
qed

lemma ledger_ok_held_upd:
  assumes ok: "ledger_ok L" and l: "fmlookup (held L) n = Some l" and c: "claim l' = claim l"
    and st: "l_State l' \<in> {''acquiring'', ''active'', ''cleanup-required''}"
    and act: "l_State l' = ''active'' \<Longrightarrow> \<exists>env. fmlookup (published L) n = Some env \<and> MatchesEnvironment l' env"
    and cov: "\<And>env. fmlookup (published L) n = Some env \<Longrightarrow> covers l' env"
  shows "ledger_ok (L\<lparr>held := fmupd n l' (held L)\<rparr>)"
proof -
  have "lease_ok n l"
    using ledger_okD(1) [OF ok] l by (rule fmpredD)
  then have "lease_ok n l'"
    using c st by (simp add: lease_ok_def claim_eq_iff)
  then have "fmpred lease_ok (fmupd n l' (held L))"
    using ledger_okD(1) [OF ok] by (simp add: fmpred_upd)
  moreover have "active_published (L\<lparr>held := fmupd n l' (held L)\<rparr>)"
    using active_publishedD [OF ledger_okD(2) [OF ok]] act
    by (intro active_publishedI) (simp split: if_splits)
  moreover have "published_leased (L\<lparr>held := fmupd n l' (held L)\<rparr>)"
    using published_leasedD [OF ledger_okD(3) [OF ok]] cov by (intro published_leasedI) fastforce
  moreover have "exclusive (L\<lparr>held := fmupd n l' (held L)\<rparr>)"
    by (rule exclusive_same_claim [OF ledger_okD(4) [OF ok] l c]) simp
  ultimately show ?thesis by (simp add: ledger_ok_def)
qed

lemma ledger_ok_Amend:
  assumes ok: "ledger_ok L" and l: "fmlookup (held L) n = Some l" and c: "claim l' = claim l"
    and st: "l_State l' \<in> {''acquiring'', ''cleanup-required''}"
    and rt: "l_RuntimeRef l \<in> {[], l_RuntimeRef l'}"
    and acq: "l_State l' = ''acquiring'' \<longrightarrow> fmlookup (published L) n = None"
  shows "ledger_ok (L\<lparr>held := fmupd n l' (held L)\<rparr>)"
proof (rule ledger_ok_held_upd [OF ok l c])
  fix env assume env: "fmlookup (published L) n = Some env"
  then have "covers l env" using published_leasedD [OF ledger_okD(3) [OF ok] env] l by auto
  then show "covers l' env" using c rt acq env by (auto intro: covers_amend)
qed (use st in auto)

lemma ledger_ok_Identify:
  assumes ok: "ledger_ok L" and l: "fmlookup (held L) n = Some l"
  shows "ledger_ok (L\<lparr>held := fmupd n (l\<lparr>l_InstanceID := i\<rparr>) (held L)\<rparr>)"
proof (rule ledger_ok_held_upd [OF ok l])
  have "lease_ok n l" using ledger_okD(1) [OF ok] l by (rule fmpredD)
  then show "l_State (l\<lparr>l_InstanceID := i\<rparr>) \<in> {''acquiring'', ''active'', ''cleanup-required''}"
    by (simp add: lease_ok_def)
next
  fix env assume env: "fmlookup (published L) n = Some env"
  show "covers (l\<lparr>l_InstanceID := i\<rparr>) env"
    using published_leasedD [OF ledger_okD(3) [OF ok] env] l
    by (auto simp: covers_def MatchesEnvironment_def)
qed (use active_publishedD [OF ledger_okD(2) [OF ok] l] in \<open>auto simp: claim_def MatchesEnvironment_def\<close>)

lemma ledger_ok_Publish:
  assumes ok: "ledger_ok L" and l: "fmlookup (held L) n = Some l"
    and c: "claim l' = claim l" and env: "e_Name env = n"
    and m: "MatchesEnvironment l' env" "w_ID (e_Workspace env) \<noteq> []" "w_Path (e_Workspace env) \<noteq> []"
  shows "ledger_ok \<lparr>held = fmupd n l' (held L), published = fmupd n env (published L)\<rparr>"
proof -
  let ?L = "\<lparr>held = fmupd n l' (held L), published = fmupd n env (published L)\<rparr>"
  have "lease_ok n l" using ledger_okD(1) [OF ok] l by (rule fmpredD)
  then have "lease_ok n l'" using c m(1) by (simp add: lease_ok_def claim_eq_iff MatchesEnvironment_def)
  then have "fmpred lease_ok (held ?L)" using ledger_okD(1) [OF ok] by (simp add: fmpred_upd)
  moreover have "active_published ?L"
    using active_publishedD [OF ledger_okD(2) [OF ok]] m(1)
    by (intro active_publishedI) (simp split: if_splits)
  moreover have "published_leased ?L"
    using published_leasedD [OF ledger_okD(3) [OF ok]] env covers_published [OF m]
    by (intro published_leasedI) (simp split: if_splits)
  moreover have "exclusive ?L"
    by (rule exclusive_same_claim [OF ledger_okD(4) [OF ok] l c]) simp
  ultimately show ?thesis by (simp add: ledger_ok_def)
qed

lemma ledger_ok_Release:
  assumes ok: "ledger_ok L"
  shows "ledger_ok \<lparr>held = fmdrop n (held L), published = fmdrop n (published L)\<rparr>"
proof -
  let ?L = "\<lparr>held = fmdrop n (held L), published = fmdrop n (published L)\<rparr>"
  have "active_published ?L"
    using active_publishedD [OF ledger_okD(2) [OF ok]]
    by (intro active_publishedI) (simp split: if_splits)
  moreover have "published_leased ?L"
    using published_leasedD [OF ledger_okD(3) [OF ok]]
    by (intro published_leasedI) (simp split: if_splits)
  moreover have "exclusive ?L" by (rule exclusive_drop [OF ledger_okD(4) [OF ok]]) simp
  ultimately show ?thesis using ledger_okD(1) [OF ok] by (auto simp: ledger_ok_def)
qed

lemma ledger_step_ok: "ledger_step L L' \<Longrightarrow> ledger_ok L \<Longrightarrow> ledger_ok L'"
proof (induction rule: ledger_step.induct)
  case (Reserve L n l)
  then show ?case by (intro ledger_ok_Reserve) (auto simp: lease_ok_def)
next
  case (Publish L n l l' env)
  then show ?case by (intro ledger_ok_Publish) auto
next
  case (Amend L n l l')
  then show ?case by (intro ledger_ok_Amend)
next
  case (Identify L n l i)
  then show ?case by (intro ledger_ok_Identify)
next
  case (Release L n)
  then show ?case by (intro ledger_ok_Release)
qed

text \<open>A recorded runtime reference stays with its lease until the lease is released.\<close>

lemma ledger_step_runtime:
  assumes "ledger_step L L'" "fmlookup (held L) n = Some l" "fmlookup (held L') n = Some l'"
  shows "claim l' = claim l \<and> l_RuntimeRef l \<in> {[], l_RuntimeRef l'}"
  using assms by (induction rule: ledger_step.induct) (auto simp: claim_eq_iff split: if_splits)

end
