(* ===== verification/Refinement.thy ===== *)
theory Refinement
  imports Evolution Ledger
begin

text \<open>
  The store refines the ledger: under \<open>ledger_of\<close> every successful change of a method of
  \<^verbatim>\<open>EnvironmentJSONStore\<close> is one ledger move or leaves the ledger as it was.
\<close>

definition ledger_moves :: "environmentFileState \<Rightarrow> environmentFileState \<Rightarrow> bool" where
  "ledger_moves d d' \<longleftrightarrow> ledger_of d' = ledger_of d \<or> ledger_step (ledger_of d) (ledger_of d')"

lemma ledger_moves_same: "same_ledger d d' \<Longrightarrow> ledger_moves d d'"
  by (simp add: ledger_moves_def same_ledger_def ledger_of_def)

lemma ledger_moves_refl [simp]: "ledger_moves d d"
  by (simp add: ledger_moves_def)

lemma ledger_moves_ok: "ledger_moves d d' \<Longrightarrow> ledger_ok (ledger_of d) \<Longrightarrow> ledger_ok (ledger_of d')"
  by (auto simp: ledger_moves_def dest: ledger_step_ok)

section \<open>Reservation\<close>

lemma reservation_valid:
  assumes "validateEnvironmentCreateReservation lease = None"
  shows "l_EnvironmentID lease \<noteq> []" "l_State lease = ''acquiring''" "l_RuntimeRef lease = []"
    "l_AccessMode lease \<in> {''ro'', ''rw''}" "\<not> l_RuntimeAbsent lease"
  using assms by (simp_all only: validateEnvironmentCreateReservation_def guards) (auto split: if_splits)

lemma admitted_excludes_none:
  assumes "admit_persistent_resource d lease = None" and "\<not> workspace_conflict d lease"
  shows "fmpred (\<lambda>_ l'. \<not> excludes lease l') (Leases d)"
proof (rule fmpredI)
  fix n l assume n: "fmlookup (Leases d) n = Some l"
  have "\<not> workspace_excludes lease l"
    using assms(2) n by (auto simp: workspace_conflict_def workspace_excludes_def fmex_iff)
  moreover have "\<not> resource_excludes lease l"
  proof (cases "l_PersistentResource lease = no_ref")
    case False
    with assms(1) obtain r
      where r: "fmlookup (PersistentResources d) (ref_ID (l_PersistentResource lease)) = Some r"
      by (auto simp: admit_persistent_resource_def split: option.splits)
    with assms(1) False have ref: "l_PersistentResource lease = Ref r"
      and free: "\<not> fmex (\<lambda>_ held. ref_ID (l_PersistentResource held) = pr_ID r) (Leases d)"
      by (simp_all add: admit_persistent_resource_def guards)
    from free n have "ref_ID (l_PersistentResource l) \<noteq> pr_ID r" by (auto simp: fmex_iff)
    with ref show ?thesis by (simp add: resource_excludes_def)
  qed (simp add: resource_excludes_def)
  ultimately show "\<not> excludes lease l" by (simp add: excludes_def)
qed

lemma beginEnvironmentCreate_ledger:
  assumes "effect (beginEnvironmentCreate lease saved plans) d = Inr (dirty, d', u)"
  shows "ledger_moves d d'"
  using assms
proof (rule beginEnvironmentCreate_result)
  fix d1
  assume v: "validateEnvironmentCreateReservation lease = None"
    and new: "fmlookup (Environments d) (l_EnvironmentID lease) = None"
      "fmlookup (Leases d) (l_EnvironmentID lease) = None"
    and admit: "admit_persistent_resource d lease = None" "\<not> workspace_conflict d lease"
    and d1: "reserveEnvironmentResources lease plans d = Inr d1"
    and d': "d' = d1\<lparr>Leases := fmupd (l_EnvironmentID lease) lease (Leases d1)\<rparr>"
  have "ledger_of d' = (ledger_of d)\<lparr>held := fmupd (l_EnvironmentID lease) lease (held (ledger_of d))\<rparr>"
    using reserveEnvironmentResources_reserving [OF d1]
    by (simp add: d' ledger_of_def reserving_def same_ledger_def)
  moreover have "ledger_step (ledger_of d) \<dots>"
    using new admitted_excludes_none [OF admit] reservation_valid [OF v]
    by (intro Reserve) simp_all
  ultimately show ?thesis by (simp add: ledger_moves_def)
qed

section \<open>Changes of a held lease\<close>

lemma same_reservation:
  assumes "validateSameLeaseReservation existing nxt = None"
  shows "claim nxt = claim existing" "l_RuntimeAbsent nxt = l_RuntimeAbsent existing"
    "l_InstanceID nxt = l_InstanceID existing" "l_SnapshotSource nxt = l_SnapshotSource existing"
  using assms by (simp_all add: validateSameLeaseReservation_def guards claim_eq_iff)

lemma runtime_reservation_valid:
  assumes "validateEnvironmentRuntimeReservation lease = None"
  shows "l_State lease = ''acquiring''" "l_RuntimeRef lease \<noteq> []"
  using assms by (auto simp: validateEnvironmentRuntimeReservation_def guards dest: reservation_valid(2))

lemma amend_moves:
  assumes "fmlookup (Leases d) n = Some l" "claim l' = claim l"
    and "l_State l' = ''acquiring'' \<and> fmlookup (Environments d) n = None \<or> l_State l' = ''cleanup-required''"
    and "l_RuntimeRef l = [] \<or> l_RuntimeRef l' = l_RuntimeRef l"
  shows "ledger_moves d (d\<lparr>Leases := fmupd n l' (Leases d)\<rparr>)"
proof -
  have "ledger_step (ledger_of d) ((ledger_of d)\<lparr>held := fmupd n l' (held (ledger_of d))\<rparr>)"
    using assms by (intro Amend [where l = l]) auto
  then show ?thesis by (simp add: ledger_moves_def ledger_of_def)
qed

lemma RecordEnvironmentRuntime_ledger:
  assumes "effect (RecordEnvironmentRuntime lease) d = Inr (dirty, d', u)"
  shows "ledger_moves d d'"
proof -
  from assms have v: "validateEnvironmentRuntimeReservation lease = None"
    by (auto simp: RecordEnvironmentRuntime_def split: option.splits)
  with assms obtain l where "fmlookup (Environments d) (l_EnvironmentID lease) = None"
    and l: "fmlookup (Leases d) (l_EnvironmentID lease) = Some l"
    and same: "validateSameLeaseReservation l lease = None"
    and rt: "\<not> (l_RuntimeRef l \<noteq> [] \<and> l_RuntimeRef l \<noteq> l_RuntimeRef lease)"
    and "d' = d\<lparr>Leases := fmupd (l_EnvironmentID lease) lease (Leases d)\<rparr>"
    by (auto simp: RecordEnvironmentRuntime_def guards)
  with runtime_reservation_valid(1) [OF v] same_reservation(1) [OF same] show ?thesis
    by (auto intro!: amend_moves)
qed

lemma MarkEnvironmentRecoveryRequired_ledger:
  assumes "effect (MarkEnvironmentRecoveryRequired lease) d = Inr (dirty, d', u)"
  shows "ledger_moves d d'"
proof -
  from assms obtain l where st: "l_State lease = ''cleanup-required''"
    and l: "fmlookup (Leases d) (l_EnvironmentID lease) = Some l"
    and same: "validateSameLeaseReservation l lease = None"
    and res: "(let lease' = (if l_RuntimeRef l \<noteq> [] \<and> l_RuntimeRef lease = []
                 then lease\<lparr>l_RuntimeRef := l_RuntimeRef l\<rparr> else lease) in
         if l_RuntimeRef l \<noteq> [] \<and> l_RuntimeRef lease' \<noteq> l_RuntimeRef l
         then Inl ErrIncompatibleState
         else Inr (True, d\<lparr>Leases := fmupd (l_EnvironmentID lease) lease' (Leases d)\<rparr>, ()))
      = Inr (dirty, d', u)"
    by (auto simp only: MarkEnvironmentRecoveryRequired_def effect.simps guards)
  define lease' where "lease' = (if l_RuntimeRef l \<noteq> [] \<and> l_RuntimeRef lease = []
                 then lease\<lparr>l_RuntimeRef := l_RuntimeRef l\<rparr> else lease)"
  from res have "l_RuntimeRef l = [] \<or> l_RuntimeRef lease' = l_RuntimeRef l"
    and d': "d' = d\<lparr>Leases := fmupd (l_EnvironmentID lease) lease' (Leases d)\<rparr>"
    unfolding lease'_def [symmetric] Let_def guards by auto
  moreover have "claim lease' = claim l" "l_State lease' = ''cleanup-required''"
    using same_reservation(1) [OF same] st by (auto simp: lease'_def claim_eq_iff)
  ultimately show ?thesis unfolding d' using l by (intro amend_moves) auto
qed

lemma PrepareEnvironmentResourceDeletion_ledger:
  assumes "effect (forget (PrepareEnvironmentResourceDeletion lease)) d = Inr (dirty, d', u)"
  shows "ledger_moves d d'"
proof (cases "l_RuntimeAbsent lease")
  case True
  with assms show ?thesis by (auto simp: PrepareEnvironmentResourceDeletion_def call_guards)
next
  case False
  with assms have "current_lease d lease"
    and d': "d' = d\<lparr>Leases := fmupd (l_EnvironmentID lease)
       (lease\<lparr>l_RuntimeAbsent := True, l_State := ''cleanup-required''\<rparr>) (Leases d)\<rparr>"
    by (auto simp: PrepareEnvironmentResourceDeletion_def call_guards Let_def)
  then have "fmlookup (Leases d) (l_EnvironmentID lease) = Some lease"
    by (auto simp: current_lease_def split: option.splits)
  then show ?thesis unfolding d' by (intro amend_moves) (auto simp: claim_eq_iff)
qed

section \<open>Publication and release\<close>

lemma commit_valid:
  assumes "validateEnvironmentCreateCommit env lease = None"
  shows "MatchesEnvironment lease env" "w_ID (e_Workspace env) \<noteq> []" "w_Path (e_Workspace env) \<noteq> []"
  using assms by (simp_all add: validateEnvironmentCreateCommit_def guards)

lemma CommitEnvironmentCreate_ledger:
  assumes "effect (CommitEnvironmentCreate env lease) d = Inr (dirty, d', u)"
  shows "ledger_moves d d'"
proof (cases "fmlookup (Environments d) (e_Name env)")
  case (Some existing)
  with assms show ?thesis
    by (auto simp: CommitEnvironmentCreate_def split: option.splits if_splits)
next
  case None
  from assms have v: "validateEnvironmentCreateCommit env lease = None"
    by (auto simp: CommitEnvironmentCreate_def split: option.splits)
  with assms None obtain l where l: "fmlookup (Leases d) (e_Name env) = Some l"
    and same: "validateSameLeaseReservation l lease = None" and st: "\<not> (l_State l \<noteq> ''acquiring'')"
    and rt: "\<not> (l_RuntimeRef l = [] \<or> l_RuntimeRef l \<noteq> e_RuntimeRef env \<or> l_RuntimeRef l \<noteq> l_RuntimeRef lease)"
    and d': "d' = d\<lparr>Environments := fmupd (e_Name env) env (Environments d),
                  Leases := fmupd (e_Name env) (publishedLease lease) (Leases d)\<rparr>"
    by (simp add: CommitEnvironmentCreate_def guards) blast
  have "ledger_step (ledger_of d) \<lparr>held = fmupd (e_Name env) (publishedLease lease) (held (ledger_of d)),
     published = fmupd (e_Name env) env (published (ledger_of d))\<rparr>"
    using None l st rt same_reservation(1) [OF same] commit_valid [OF v]
    by (intro Publish [where l = l]) (auto simp: publishedLease_def claim_eq_iff MatchesEnvironment_def)
  then show ?thesis by (simp add: ledger_moves_def ledger_of_def d')
qed

lemma FinalizeEnvironmentDelete_ledger:
  assumes "effect (FinalizeEnvironmentDelete name) d = Inr (dirty, d', u)"
  shows "ledger_moves d d'"
proof (cases "\<not> present (Environments d) name \<and> \<not> present (Leases d) name")
  case True
  with assms show ?thesis by (simp add: FinalizeEnvironmentDelete_def guards)
next
  case False
  with assms have "Leases d' = fmdrop name (Leases d)" "Environments d' = fmdrop name (Environments d)"
    by (auto simp: FinalizeEnvironmentDelete_def guards)
  then have "ledger_of d' = \<lparr>held = fmdrop name (held (ledger_of d)),
      published = fmdrop name (published (ledger_of d))\<rparr>"
    by (simp add: ledger_of_def)
  then show ?thesis using Release [of "ledger_of d" name] by (simp add: ledger_moves_def)
qed

section \<open>Every method\<close>

lemma lifecycle_op_ledger:
  assumes "lifecycle_op c" "effect c d = Inr (dirty, d', u)"
  shows "ledger_moves d d'"
  using assms
  by (induction rule: lifecycle_op.induct)
    (blast dest: create_entry_points intro: beginEnvironmentCreate_ledger RecordEnvironmentRuntime_ledger
      CommitEnvironmentCreate_ledger MarkEnvironmentRecoveryRequired_ledger
      FinalizeEnvironmentDelete_ledger PrepareEnvironmentResourceDeletion_ledger)+

lemma store_op_ledger:
  assumes "store_op c" "effect c d = Inr (dirty, d', u)"
  shows "ledger_moves d d'"
  using assms unfolding store_op_def
  by (elim disjE)
    (auto dest: observe_op_effect lifecycle_op_ledger metadata_op_frame generation_op_frame
      resource_op_step snapshot_op_frame simp: ledger_moves_same data_step_def)

end
