(* ===== verification/Invariants.thy ===== *)
theory Invariants
  imports Refinement
begin

text \<open>
  State invariants of the store over every reachable catalog file.  \<open>store_invariant\<close> is the
  contract a predicate has to meet: it holds of a new catalog, the normalisation on read
  keeps it, every method keeps it.  It is interpreted on \<open>catalog_ok\<close>: the ledger invariant,
  well-formed ephemeral runs, and the validators that run before each write.
\<close>

locale store_invariant =
  fixes I :: "environmentFileState \<Rightarrow> bool"
  assumes I_new: "I newEnvironmentFileState"
    and I_read: "I d \<Longrightarrow> normalizeEnvironmentState d = Inr d' \<Longrightarrow> I d'"
    and I_op: "store_op c \<Longrightarrow> I d \<Longrightarrow> effect c d = Inr (True, d', u) \<Longrightarrow> validateWrite d' = None \<Longrightarrow>
      I (d'\<lparr>Version := environmentStateVersion\<rparr>)"
    and I_identify: "I d \<Longrightarrow> fmlookup (Leases d) n = Some l \<Longrightarrow> l_InstanceID l = [] \<Longrightarrow>
      d' = d\<lparr>Leases := fmupd n (l\<lparr>l_InstanceID := i\<rparr>) (Leases d)\<rparr> \<Longrightarrow> validateWrite d' = None \<Longrightarrow>
      I (d'\<lparr>Version := environmentStateVersion\<rparr>)"
begin

lemma invariant_read:
  assumes "\<And>d. catalog D = Decoded d \<Longrightarrow> I d" and "readEnvironments D = Inr d"
  shows "I d"
  using assms by (auto simp: readEnvironments_def I_new I_read split: content.splits)

lemma invariant_run:
  assumes "\<And>d. catalog D = Decoded d \<Longrightarrow> I d" and "store_op c" and "run f c D = (D', res)"
    and "catalog D' = Decoded d"
  shows "I d"
proof (cases res)
  case (Inl e)
  with assms show ?thesis using run_error [of f c D D' e] by simp
next
  case (Inr u)
  with assms(3) obtain d0 dirty d1 where "readEnvironments D = Inr d0" "effect c d0 = Inr (dirty, d1, u)"
    "\<not> dirty \<Longrightarrow> D' = D"
    "dirty \<Longrightarrow> validateWrite d1 = None \<and> D' = D\<lparr>catalog := Decoded (d1\<lparr>Version := environmentStateVersion\<rparr>)\<rparr>"
    by (blast elim: run_ok)
  with assms(1,2,4) invariant_read [of D d0] I_op [of c d0 d1 u] show ?thesis
    by (cases dirty) auto
qed

lemma invariant_identity:
  assumes "\<And>d. catalog D = Decoded d \<Longrightarrow> I d" and "EnvironmentInstance f nonce env D = (D', res)"
    and "catalog D' = Decoded d"
  shows "I d"
proof (cases "catalog D' = catalog D")
  case False
  with assms(2) obtain data lease where data: "catalog D = Decoded data"
    and l: "fmlookup (Leases data) (e_Name env) = Some lease" "l_InstanceID lease = []"
    and w: "fst (writeEnvironments f (data\<lparr>Leases := fmupd (e_Name env)
          (lease\<lparr>l_InstanceID := NewEnvironmentInstanceID nonce\<rparr>) (Leases data)\<rparr>) D) = D'"
    by (auto simp: EnvironmentInstance_def Let_def split: option.splits content.splits if_splits prod.splits)
  let ?d = "data\<lparr>Leases := fmupd (e_Name env)
    (lease\<lparr>l_InstanceID := NewEnvironmentInstanceID nonce\<rparr>) (Leases data)\<rparr>"
  obtain r where r: "writeEnvironments f ?d D = (D', r)" using w by (cases "writeEnvironments f ?d D") auto
  with False have "r = None" using writeEnvironments_error [of f ?d D D'] by (cases r) auto
  with r have "validateWrite ?d = None" "d = ?d\<lparr>Version := environmentStateVersion\<rparr>"
    using writeEnvironments_ok [of f ?d D D'] assms(3) by auto
  with I_identify [OF assms(1) [OF data] l refl] show ?thesis by simp
qed (use assms in auto)

theorem reachable_invariant: "reachable D \<Longrightarrow> catalog D = Decoded d \<Longrightarrow> I d"
proof (induction arbitrary: d rule: reachable.induct)
  case (call D c f)
  then show ?case using invariant_run [of D c f "fst (run f c D)" "snd (run f c D)" d] by simp
next
  case (identity D nonce f env)
  then show ?case
    using invariant_identity [of D f nonce env "fst (EnvironmentInstance f nonce env D)"
        "snd (EnvironmentInstance f nonce env D)" d] by simp
qed simp

theorem reachable_read: "reachable D \<Longrightarrow> readEnvironments D = Inr d \<Longrightarrow> I d"
  using invariant_read reachable_invariant by blast

end

section \<open>Reading a well-formed catalog changes nothing\<close>

definition run_ok :: "string \<Rightarrow> EphemeralRun \<Rightarrow> bool" where
  "run_ok n er \<longleftrightarrow> run_EnvironmentID er = n \<and> n \<noteq> [] \<and> run_State er \<noteq> []"

definition catalog_ok :: "environmentFileState \<Rightarrow> bool" where
  "catalog_ok d \<longleftrightarrow> Version d = environmentStateVersion \<and> ledger_ok (ledger_of d)
     \<and> fmpred run_ok (EphemeralRuns d) \<and> validateWrite d = None"

lemma fmmap_keys_id: "fmpred (\<lambda>k v. f k v = v) m \<Longrightarrow> fmmap_keys f m = m"
  by (rule fmap_ext) (auto simp: fmpred_iff split: option.splits intro: option.map_ident_strong)

lemma fmadd_dom: "fmdom m |\<subseteq>| fmdom n \<Longrightarrow> m ++\<^sub>f n = n"
  by (rule fmap_ext) (auto simp: fmdom_notD fsubset_iff)

lemma fill_environment_ok:
  assumes "ledger_ok (ledger_of d)"
  shows "fmmap_keys fill_environment (Environments d) = Environments d"
proof (rule fmmap_keys_id, rule fmpredI)
  fix n env assume "fmlookup (Environments d) n = Some env"
  then have "\<exists>l. covers l env"
    using published_leasedD [OF ledger_okD(3) [OF assms], of n env] by auto
  then show "fill_environment n env = env"
    by (auto simp: fill_environment_def covers_def MatchesEnvironment_def)
qed

lemma published_dom:
  "ledger_ok (ledger_of d) \<Longrightarrow> fmdom (Environments d) |\<subseteq>| fmdom (Leases d)"
  using published_leasedD [OF ledger_okD(3), of "ledger_of d"]
  by (auto simp: fsubset_iff fmlookup_dom_iff)

lemma fill_environments_ok: "ledger_ok (ledger_of d) \<Longrightarrow> fill_environments d = d"
  using published_dom [of d]
  by (simp add: fill_environments_def Let_def fill_environment_ok fmadd_dom)
    (subst fmadd_dom; auto simp: fsubset_iff)

lemma fill_lease_ok:
  assumes "ledger_ok (ledger_of d)"
  shows "fmmap_keys (fill_lease d) (Leases d) = Leases d"
proof (rule fmmap_keys_id, rule fmpredI)
  fix n l assume l: "fmlookup (Leases d) n = Some l"
  have "lease_ok n l" using fmpredD [OF ledger_okD(1) [OF assms]] l by simp
  then have "l_EnvironmentID l \<noteq> []" "l_State l \<noteq> []" by (auto simp: lease_ok_def)
  moreover have "l_RuntimeRef l = [] \<Longrightarrow> fmlookup (Environments d) n = None"
    using published_leasedD [OF ledger_okD(3) [OF assms], of n] l
    by (cases "fmlookup (Environments d) n") (auto simp: covers_def MatchesEnvironment_def)
  ultimately show "fill_lease d n l = l"
    by (simp add: fill_lease_def Let_def)
qed

lemma fill_run_ok: "fmpred run_ok m \<Longrightarrow> fmmap_keys fill_run m = m"
  by (rule fmmap_keys_id) (auto simp: fmpred_iff run_ok_def fill_run_def)

text \<open>The read checks on a well-formed catalog, in the order of the source.\<close>

definition read_checks :: "environmentFileState \<Rightarrow> bool" where
  "read_checks d \<longleftrightarrow> validateOwnedWorkspaceCleanup d = None \<and> validateEnvironmentResources d = None
     \<and> workspace_copies_ok d \<and> base_assets_ok d \<and> snapshots_ok d \<and> restores_ok d
     \<and> fmpred (\<lambda>_. lease_source_ok d) (Leases d) \<and> validateEphemeralIdentities d = None
     \<and> validatePersistentResourceState d = None \<and> validateResourceGenerations d = None"

lemma normalize_iff:
  assumes "Version d = environmentStateVersion" "ledger_ok (ledger_of d)" "fmpred run_ok (EphemeralRuns d)"
  shows "normalizeEnvironmentState d = Inr d' \<longleftrightarrow> d' = d \<and> read_checks d"
proof -
  have v: "(if Version d = 16 then d\<lparr>Version := environmentStateVersion\<rparr> else d) = d"
    "supportedEnvironmentStateVersion (Version d) = True"
    and m: "migrate_restores d = Inr d"
    using assms(1)
    by (simp_all add: environmentStateVersion_def migrate_restores_def supportedEnvironmentStateVersion_def)
  have u: "d\<lparr>Leases := Leases d, EphemeralRuns := EphemeralRuns d\<rparr> = d"
    "d\<lparr>Version := environmentStateVersion\<rparr> = d" using assms(1) by simp_all
  show ?thesis
    unfolding normalizeEnvironmentState_def Let_def v read_checks_def
    unfolding m sum.case(2) fill_environments_ok [OF assms(2)]
    unfolding fill_lease_ok [OF assms(2)] fill_run_ok [OF assms(3)] u
    unfolding guards by blast
qed

lemma normalize_ok:
  assumes "Version d = environmentStateVersion" "ledger_ok (ledger_of d)" "fmpred run_ok (EphemeralRuns d)"
    and "normalizeEnvironmentState d = Inr d'"
  shows "d' = d"
  using normalize_iff [OF assms(1-3), of d'] assms(4) by simp

text \<open>A read that fails says so with one error.\<close>

lemma forE_only:
  assumes "forE f s xs = Inl e" and "\<And>s x e. f s x = Inl e \<Longrightarrow> e = ErrIncompatibleState"
  shows "e = ErrIncompatibleState"
  using assms(1)
proof (induction xs arbitrary: s)
  case (Cons x xs)
  then show ?case by (cases "f s x") (auto dest: assms(2))
qed simp

lemma validate_identities_only: "validateEphemeralIdentities d = Some e \<Longrightarrow> e = ErrIncompatibleState"
  unfolding validateEphemeralIdentities_def
  by (auto split: sum.splits if_splits elim!: forE_only)

lemma validate_cleanup_only: "validateOwnedWorkspaceCleanup d = Some e \<Longrightarrow> e = ErrIncompatibleState"
  unfolding validateOwnedWorkspaceCleanup_def by (auto split: sum.splits if_splits elim!: forE_only)

lemma validate_resources_only: "validateEnvironmentResources d = Some e \<Longrightarrow> e = ErrIncompatibleState"
  unfolding validateEnvironmentResources_def env_lease_step_def
  by (auto simp: env_attachment_step_def Let_def split: sum.splits if_splits option.splits prod.splits elim!: forE_only)

lemma validate_persistent_only: "validatePersistentResourceState d = Some e \<Longrightarrow> e = ErrIncompatibleState"
  unfolding validatePersistentResourceState_def by (auto split: sum.splits if_splits elim!: forE_only)

lemma validate_generations_only: "validateResourceGenerations d = Some e \<Longrightarrow> e = ErrIncompatibleState"
  unfolding validateResourceGenerations_def generation_step_def
  by (auto split: sum.splits if_splits prod.splits elim!: forE_only)

lemmas validate_only = validate_identities_only validate_cleanup_only validate_resources_only
  validate_persistent_only validate_generations_only

lemma normalize_only: "normalizeEnvironmentState d = Inl e \<Longrightarrow> e = ErrIncompatibleState"
  unfolding normalizeEnvironmentState_def migrate_restores_def Let_def
  by (auto split: option.splits if_splits dest: validate_only)

lemma normalize_eq:
  assumes "Version d = environmentStateVersion" "ledger_ok (ledger_of d)" "fmpred run_ok (EphemeralRuns d)"
  shows "normalizeEnvironmentState d = (if read_checks d then Inr d else Inl ErrIncompatibleState)"
  using normalize_iff [OF assms] normalize_only [of d] by (cases "normalizeEnvironmentState d") auto

section \<open>The write validators and the version stamp\<close>

lemma forE_mono:
  "forE f s xs = Inr t \<Longrightarrow> (\<And>s x t. f s x = Inr t \<Longrightarrow> g s x = Inr t) \<Longrightarrow> forE g s xs = Inr t"
  by (induction xs arbitrary: s) (auto simp: guards)

abbreviation stamp :: "environmentFileState \<Rightarrow> environmentFileState" where
  "stamp d \<equiv> d\<lparr>Version := environmentStateVersion\<rparr>"

lemma stamp_shared [simp]:
  "owned_cleanup_ok (d\<lparr>Version := v\<rparr>) = owned_cleanup_ok d" "ephemeral_run_ok (d\<lparr>Version := v\<rparr>) = ephemeral_run_ok d"
  "matchesSavedEnvironmentResource (d\<lparr>Version := v\<rparr>) = matchesSavedEnvironmentResource d"
  "validSavedEnvironmentLease (d\<lparr>Version := v\<rparr>) = validSavedEnvironmentLease d"
  "generation_current_ok (d\<lparr>Version := v\<rparr>) = generation_current_ok d"
  by (simp_all add: fun_eq_iff owned_cleanup_ok_def ephemeral_run_ok_def
      matchesSavedEnvironmentResource_def validSavedEnvironmentLease_def generation_current_ok_def)

lemma stamp_attachment [simp]: "env_attachment_step (d\<lparr>Version := v\<rparr>) = env_attachment_step d"
proof -
  have "env_attachment_resource_ok (d\<lparr>Version := v\<rparr>) = env_attachment_resource_ok d"
    by (simp add: fun_eq_iff env_attachment_resource_ok_def)
  then show ?thesis
    by (intro ext) (simp add: env_attachment_step_def Let_def cong: if_cong option.case_cong)
qed

lemma stamp_generation [simp]: "generation_step (d\<lparr>Version := v\<rparr>) = generation_step d"
  by (intro ext) (simp add: generation_step_def cong: if_cong split: prod.splits)

lemma stamp_lease_ok: "env_lease_ok d name lease \<Longrightarrow> env_lease_ok (stamp d) name lease"
  by (clarsimp simp: env_lease_ok_def environmentStateVersion_def)

lemma stamp_lease_step: "env_lease_step d h p = Inr t \<Longrightarrow> env_lease_step (stamp d) h p = Inr t"
  by (auto simp: env_lease_step_def guards stamp_lease_ok split: prod.splits if_splits)

lemma validateEnvironmentResources_stamp:
  assumes "validateEnvironmentResources d = None"
  shows "validateEnvironmentResources (stamp d) = None"
proof -
  from assms obtain h where dns: "fmpred (\<lambda>_ e. DNSMode_Valid (e_DNSMode e)) (Environments d)"
      "fmpred (\<lambda>_ saved. DNSMode_Valid (e_DNSMode (src_Environment (s_Source saved)))) (Snapshots d)"
    and h: "forE (env_lease_step d) fmempty (sorted_list_of_fmap (Leases d)) = Inr h"
    and pub: "fmpred (env_attachments_published d) (Environments d)"
    and res: "fmpred (env_resource_held d h) (PersistentResources d)"
    by (auto simp: validateEnvironmentResources_def guards)
  have "forE (env_lease_step (stamp d)) fmempty (sorted_list_of_fmap (Leases d)) = Inr h"
    using h stamp_lease_step by (rule forE_mono)
  moreover have "fmpred (env_attachments_published (stamp d)) (Environments d)"
    by (rule fmpredI, drule fmpredD [OF pub])
      (simp add: env_attachments_published_def Let_def environmentStateVersion_def split: if_split_asm)
  moreover have "fmpred (env_resource_held (stamp d) h) (PersistentResources d)"
    by (rule fmpredI, drule fmpredD [OF res])
      (simp add: env_resource_held_def environmentStateVersion_def split: if_splits)
  ultimately show ?thesis using dns by (simp add: validateEnvironmentResources_def)
qed

lemma validateWrite_stamp: "validateWrite d = None \<Longrightarrow> validateWrite (stamp d) = None"
  by (simp add: validateWrite_def guards validateEnvironmentResources_stamp)
    (auto simp: validateOwnedWorkspaceCleanup_def validateResourceGenerations_def
      validateEphemeralIdentities_def guards environmentStateVersion_def)

section \<open>Every method keeps the catalog well formed\<close>

lemma validateEphemeralRun_ok: "validateEphemeralRun er = None \<Longrightarrow> run_ok (run_EnvironmentID er) er"
  by (auto simp: validateEphemeralRun_def run_ok_def guards split: if_splits)

lemma metadata_op_runs:
  assumes "metadata_op c" "effect c d = Inr (dirty, d', u)" "fmpred run_ok (EphemeralRuns d)"
  shows "fmpred run_ok (EphemeralRuns d')"
  using assms
proof (induction rule: metadata_op.induct)
  case (1 er)
  then have v: "validateEphemeralRun er = None"
    by (auto simp: PutEphemeralRun_def split: option.splits)
  with 1 have "EphemeralRuns d' = fmupd (run_EnvironmentID er) er (EphemeralRuns d)"
    by (auto simp: PutEphemeralRun_def Let_def guards)
  with 1(2) validateEphemeralRun_ok [OF v] show ?case by (simp add: fmpred_upd)
next
  case (2 environmentID)
  then show ?case by (auto simp: DeleteEphemeralRun_def Let_def guards split: if_splits)
qed (auto simp: FinalizeOwnedWorkspaceCleanup_def SetDefaultImage_def RememberOpened_def
    BeginSnapshotWorkspaceCopy_def FinishSnapshotWorkspaceCopy_def BeginBaseAsset_def RecordBaseAsset_def
    RecordRestoreComponent_def BeginRestoreCleanup_def FinalizeRestoreCleanup_def Let_def same_registry_def
    split: if_splits option.splits dest!: mutateRestore_frame)

lemma lifecycle_op_runs:
  assumes "lifecycle_op c" "effect c d = Inr (dirty, d', u)"
  shows "same_registry d d'"
proof -
  have create: "same_registry d d'" if "effect (beginEnvironmentCreate lease saved plans) d = Inr (dirty, d', u)"
    for lease saved plans
    using that by (rule beginEnvironmentCreate_result)
      (auto dest!: reserveEnvironmentResources_reserving simp: reserving_def same_registry_def)
  from assms show ?thesis
  proof (induction rule: lifecycle_op.induct)
    case (5 lease)
    then show ?case
      by (auto simp: RecordEnvironmentRuntime_def same_registry_def guards split: option.splits)
  next
    case (6 environment lease)
    then show ?case
      by (auto simp: CommitEnvironmentCreate_def same_registry_def split: option.splits if_splits)
  next
    case (7 lease)
    then show ?case
      by (auto simp: MarkEnvironmentRecoveryRequired_def same_registry_def guards Let_def)
  next
    case (8 environmentID)
    then show ?case
      by (auto simp: FinalizeEnvironmentDelete_def same_registry_def guards split: if_splits)
  next
    case (9 lease)
    then show ?case
      by (auto simp: PrepareEnvironmentResourceDeletion_def same_registry_def call_guards Let_def split: if_splits)
  qed (blast dest: create_entry_points intro: create)+
qed

lemma store_op_runs:
  assumes "store_op c" "effect c d = Inr (dirty, d', u)" "fmpred run_ok (EphemeralRuns d)"
  shows "fmpred run_ok (EphemeralRuns d')"
  using assms unfolding store_op_def
  by (elim disjE)
    (auto dest: observe_op_effect lifecycle_op_runs metadata_op_runs generation_op_frame
      resource_op_step snapshot_op_frame simp: data_step_def same_registry_def)

lemma ledger_of_stamp [simp]: "ledger_of (stamp d) = ledger_of d"
  by (simp add: ledger_of_def)

lemma catalog_ok_new: "catalog_ok newEnvironmentFileState"
  by (simp add: catalog_ok_def newEnvironmentFileState_def ledger_ok_def ledger_of_def
      active_published_def published_leased_def exclusive_def validateWrite_def
      validateOwnedWorkspaceCleanup_def validateEnvironmentResources_def validateResourceGenerations_def
      validateEphemeralIdentities_def)

lemma catalog_ok_read: "catalog_ok d \<Longrightarrow> normalizeEnvironmentState d = Inr d' \<Longrightarrow> catalog_ok d'"
  using normalize_ok by (auto simp: catalog_ok_def)

lemma catalog_ok_op:
  assumes "store_op c" "catalog_ok d" "effect c d = Inr (dirty, d', u)" "validateWrite d' = None"
  shows "catalog_ok (stamp d')"
  using assms ledger_moves_ok [OF store_op_ledger [OF assms(1,3)]] store_op_runs [OF assms(1,3)]
  by (simp add: catalog_ok_def validateWrite_stamp)

lemma catalog_ok_identify:
  assumes "catalog_ok d" "fmlookup (Leases d) n = Some l"
    and d': "d' = d\<lparr>Leases := fmupd n (l\<lparr>l_InstanceID := i\<rparr>) (Leases d)\<rparr>" and "validateWrite d' = None"
  shows "catalog_ok (stamp d')"
proof -
  have "ledger_of d' = (ledger_of d)\<lparr>held := fmupd n (l\<lparr>l_InstanceID := i\<rparr>) (held (ledger_of d))\<rparr>"
    by (simp add: d' ledger_of_def)
  then have "ledger_ok (ledger_of d')"
    using ledger_ok_Identify [of "ledger_of d" n l i] assms(1,2) by (simp add: catalog_ok_def)
  then show ?thesis using assms by (simp add: catalog_ok_def validateWrite_stamp)
qed

interpretation catinv: store_invariant catalog_ok
  by unfold_locales (blast intro: catalog_ok_new catalog_ok_read catalog_ok_op catalog_ok_identify)+

end
