(* ===== verification/Transitions.thy ===== *)
theory Transitions
  imports Invariants
begin

text \<open>
  Properties of single transitions, lifted from the decoded catalog to the catalog file.
  \<open>store_transition\<close> is met by the ledger moves and by the evolution of resources, snapshots
  and generations; \<open>disk_step\<close> is a call with its faults or an identity request.
\<close>

inductive disk_step :: "disk \<Rightarrow> disk \<Rightarrow> bool" where
  call: "store_op c \<Longrightarrow> disk_step D (fst (run f c D))"
| identity: "length nonce = 16 \<Longrightarrow> disk_step D (fst (EnvironmentInstance f nonce env D))"

lemma disk_step_reachable: "disk_step D D' \<Longrightarrow> reachable D \<Longrightarrow> reachable D'"
  by (induction rule: disk_step.induct) (auto intro: reachable.intros)

text \<open>The catalog a reader sees; a missing file reads as a new catalog.\<close>

definition contents :: "disk \<Rightarrow> environmentFileState" where
  "contents D = (case catalog D of Decoded d \<Rightarrow> d | _ \<Rightarrow> newEnvironmentFileState)"

lemma reachable_catalog: "reachable D \<Longrightarrow> catalog D = Missing \<or> (\<exists>d. catalog D = Decoded d)"
proof (induction rule: reachable.induct)
  case (call D c f)
  obtain D' r where r: "run f c D = (D', r)" by force
  show ?case
  proof (cases r)
    case (Inl e)
    with r run_error call.IH show ?thesis by fastforce
  next
    case (Inr u)
    with r show ?thesis using call.IH by (auto elim!: run_ok)
  qed
next
  case (identity D nonce f env)
  then show ?case
    by (auto simp: EnvironmentInstance_def Let_def split: option.splits if_splits prod.splits
        dest!: writeEnvironments_ok writeEnvironments_error)
qed simp

lemma reachable_contents: "reachable D \<Longrightarrow> catalog_ok (contents D)"
  using reachable_catalog [of D] catinv.reachable_invariant [of D] catalog_ok_new
  by (auto simp: contents_def)

lemma reachable_read_contents: "reachable D \<Longrightarrow> readEnvironments D = Inr d \<Longrightarrow> d = contents D"
  using reachable_catalog [of D] catinv.reachable_invariant [of D]
  by (auto simp: readEnvironments_def contents_def catalog_ok_def normalize_ok)

lemma read_contents:
  assumes "reachable D" "catalog D = Decoded d" "read_checks d"
  shows "readEnvironments D = Inr d"
  using catinv.reachable_invariant [OF assms(1,2)] assms(2,3)
  by (simp add: readEnvironments_def catalog_ok_def normalize_iff)

text \<open>The checks of a read that no write runs.  The others hold on every reachable catalog, so these
  six decide whether it can be read.\<close>

definition unwritten_checks :: "environmentFileState \<Rightarrow> bool" where
  "unwritten_checks d \<longleftrightarrow> workspace_copies_ok d \<and> base_assets_ok d \<and> snapshots_ok d \<and> restores_ok d
     \<and> fmpred (\<lambda>_. lease_source_ok d) (Leases d) \<and> validatePersistentResourceState d = None"

lemma unwritten_checks_new: "unwritten_checks newEnvironmentFileState"
  by (simp add: unwritten_checks_def newEnvironmentFileState_def workspace_copies_ok_def base_assets_ok_def
      snapshots_ok_def restores_ok_def validatePersistentResourceState_def)

lemma reachable_read_eq:
  assumes "reachable D"
  shows "readEnvironments D = (if unwritten_checks (contents D) then Inr (contents D) else Inl ErrIncompatibleState)"
  using reachable_catalog [OF assms]
proof
  assume "catalog D = Missing"
  then show ?thesis using unwritten_checks_new by (simp add: readEnvironments_def contents_def)
next
  assume "\<exists>d. catalog D = Decoded d"
  then obtain d where d: "catalog D = Decoded d" ..
  note ok = catinv.reachable_invariant [OF assms d]
  then have "validateWrite d = None" by (simp add: catalog_ok_def)
  then have "read_checks d \<longleftrightarrow> unwritten_checks d"
    by (auto simp: read_checks_def unwritten_checks_def validateWrite_def guards)
  then show ?thesis
    using ok normalize_eq [of d] by (simp add: d readEnvironments_def contents_def catalog_ok_def)
qed

text \<open>A method sees a catalog that has passed the checks of \<^verbatim>\<open>readEnvironments\<close>.\<close>

definition checked :: "environmentFileState \<Rightarrow> bool" where
  "checked d \<longleftrightarrow> d = newEnvironmentFileState \<or> (\<exists>d0. normalizeEnvironmentState d0 = Inr d)"

lemma checked_read: "readEnvironments D = Inr d \<Longrightarrow> checked d"
  by (auto simp: readEnvironments_def checked_def split: content.splits)

locale store_transition =
  fixes R :: "environmentFileState \<Rightarrow> environmentFileState \<Rightarrow> bool"
  assumes R_refl: "R d d"
    and R_op: "store_op c \<Longrightarrow> checked d \<Longrightarrow> effect c d = Inr (dirty, d', u) \<Longrightarrow> R d d'"
    and R_stamp: "R d d' \<Longrightarrow> R d (stamp d')"
    and R_identify: "fmlookup (Leases d) n = Some l \<Longrightarrow>
      R d (d\<lparr>Leases := fmupd n (l\<lparr>l_InstanceID := i\<rparr>) (Leases d)\<rparr>)"
begin

lemma contents_same: "catalog D' = catalog D \<Longrightarrow> R (contents D) (contents D')"
  by (simp add: contents_def R_refl)

lemma run_step:
  assumes "reachable D" "store_op c" "run f c D = (D', res)"
  shows "R (contents D) (contents D')"
proof (cases res)
  case (Inl e)
  with assms(3) show ?thesis by (auto dest: run_error intro: contents_same)
next
  case (Inr u)
  with assms(3) obtain d0 dirty d1 where "readEnvironments D = Inr d0" "effect c d0 = Inr (dirty, d1, u)"
    "\<not> dirty \<Longrightarrow> D' = D" "dirty \<Longrightarrow> validateWrite d1 = None \<and> D' = D\<lparr>catalog := Decoded (stamp d1)\<rparr>"
    by (blast elim: run_ok)
  with assms(1,2) R_stamp [OF R_op [of c d0 dirty d1 u]] checked_read [of D d0] show ?thesis
    by (cases dirty) (auto simp: contents_def R_refl dest: reachable_read_contents)
qed

lemma identity_step:
  assumes "EnvironmentInstance f nonce env D = (D', res)"
  shows "R (contents D) (contents D')"
proof (cases "catalog D' = catalog D")
  case False
  with assms obtain data l r where data: "catalog D = Decoded data"
    and l: "fmlookup (Leases data) (e_Name env) = Some l"
    and w: "writeEnvironments f (data\<lparr>Leases := fmupd (e_Name env)
        (l\<lparr>l_InstanceID := NewEnvironmentInstanceID nonce\<rparr>) (Leases data)\<rparr>) D = (D', r)"
    by (auto simp: EnvironmentInstance_def Let_def split: option.splits content.splits if_splits prod.splits)
  from w False have "r = None" by (cases r) (auto dest: writeEnvironments_error)
  with w have "catalog D' = Decoded (stamp (data\<lparr>Leases := fmupd (e_Name env)
        (l\<lparr>l_InstanceID := NewEnvironmentInstanceID nonce\<rparr>) (Leases data)\<rparr>))"
    by (auto dest!: writeEnvironments_ok)
  then show ?thesis using R_stamp [OF R_identify [OF l]] data by (simp add: contents_def)
qed (rule contents_same)

theorem transition: "reachable D \<Longrightarrow> disk_step D D' \<Longrightarrow> R (contents D) (contents D')"
  by (erule disk_step.cases) (auto intro: run_step identity_step simp: prod_eq_iff)

end

text \<open>A reflexive, transitive relation that every step satisfies holds along every run.\<close>

locale store_history = store_transition +
  assumes R_trans: "R a b \<Longrightarrow> R b c \<Longrightarrow> R a c"
begin

theorem history:
  assumes "reachable D" "disk_step\<^sup>*\<^sup>* D D'"
  shows "R (contents D) (contents D')"
  using assms(2)
proof (induction rule: rtranclp_induct)
  case (step E F)
  have "reachable E" using step.hyps(1) assms(1)
    by (induction rule: rtranclp_induct) (auto dest: disk_step_reachable)
  with step show ?case by (blast intro: R_trans transition)
qed (rule R_refl)

end

section \<open>The transitions of the store\<close>

interpretation ledger_trans: store_transition ledger_moves
proof unfold_locales
  fix d :: environmentFileState and n l i assume "fmlookup (Leases d) n = Some l"
  then show "ledger_moves d (d\<lparr>Leases := fmupd n (l\<lparr>l_InstanceID := i\<rparr>) (Leases d)\<rparr>)"
    using Identify [of "ledger_of d" n l i] by (simp add: ledger_moves_def ledger_of_def)
qed (simp_all add: store_op_ledger, simp add: ledger_moves_def)

interpretation resource_trans: store_transition resources_evolve
  by unfold_locales (auto simp: resources_evolve_def intro: store_op_resources [unfolded resources_evolve_def, rule_format])

interpretation snapshot_trans: store_transition snapshots_evolve
  by unfold_locales (auto simp: snapshots_evolve_def intro: store_op_snapshots [unfolded snapshots_evolve_def, rule_format])

interpretation generation_trans: store_transition generations_evolve
  by unfold_locales (auto simp: generations_evolve_def intro: store_op_generations [unfolded generations_evolve_def, rule_format])

section \<open>Base assets only grow\<close>

definition asset_rank :: "string \<Rightarrow> nat" where
  "asset_rank st = (if st = ''ready'' then 2 else if st = ''created'' then 1 else 0)"

definition assets_grow :: "environmentFileState \<Rightarrow> environmentFileState \<Rightarrow> bool" where
  "assets_grow d d' \<longleftrightarrow> (\<forall>i a. fmlookup (BaseAssets d) i = Some a \<longrightarrow>
     (\<exists>a'. fmlookup (BaseAssets d') i = Some a' \<and> a' = a\<lparr>ba_State := ba_State a'\<rparr>
        \<and> asset_rank (ba_State a) \<le> asset_rank (ba_State a')))"

lemma assets_grow_same: "BaseAssets d' = BaseAssets d \<Longrightarrow> assets_grow d d'"
  by (simp add: assets_grow_def)

lemma assets_grow_upd:
  assumes "BaseAssets d' = fmupd i a' (BaseAssets d)"
    and "\<And>a. fmlookup (BaseAssets d) i = Some a \<Longrightarrow>
      a' = a\<lparr>ba_State := ba_State a'\<rparr> \<and> asset_rank (ba_State a) \<le> asset_rank (ba_State a')"
  shows "assets_grow d d'"
  using assms by (simp add: assets_grow_def)

lemma assets_grow_trans:
  assumes ab: "assets_grow a b" and bc: "assets_grow b c"
  shows "assets_grow a c"
  unfolding assets_grow_def
proof (intro allI impI)
  fix i x assume "fmlookup (BaseAssets a) i = Some x"
  with ab obtain y where y: "fmlookup (BaseAssets b) i = Some y" "y = x\<lparr>ba_State := ba_State y\<rparr>"
    "asset_rank (ba_State x) \<le> asset_rank (ba_State y)"
    by (auto simp: assets_grow_def)
  with bc obtain z where z: "fmlookup (BaseAssets c) i = Some z" "z = y\<lparr>ba_State := ba_State z\<rparr>"
    "asset_rank (ba_State y) \<le> asset_rank (ba_State z)"
    by (auto simp: assets_grow_def)
  have "z = x\<lparr>ba_State := ba_State z\<rparr>" using y(2) z(2) by (cases x; cases y; cases z) simp
  with y z show "\<exists>a'. fmlookup (BaseAssets c) i = Some a' \<and> a' = x\<lparr>ba_State := ba_State a'\<rparr>
      \<and> asset_rank (ba_State x) \<le> asset_rank (ba_State a')" by (intro exI [of _ z]) simp
qed

lemma metadata_op_assets:
  assumes "metadata_op c" "effect c d = Inr (dirty, d', u)" and "fmpred (\<lambda>i a. i = ba_ID a) (BaseAssets d)"
  shows "assets_grow d d'"
  using assms(1,2)
proof (induction rule: metadata_op.induct)
  case (8 a)
  then have new: "\<not> fmex (\<lambda>_ old. ba_ID old = ba_ID a \<or> (ba_Provider old = ba_Provider a
      \<and> ((ba_Scope old = ba_Scope a \<and> ba_Base old = ba_Base a) \<or> ba_NativeRef old = ba_NativeRef a)))
      (BaseAssets d)" and d': "BaseAssets d' = fmupd (ba_ID a) a (BaseAssets d)"
    by (auto simp: BeginBaseAsset_def guards)
  have "fmlookup (BaseAssets d) (ba_ID a) = None"
    using new assms(3) by (cases "fmlookup (BaseAssets d) (ba_ID a)") (auto simp: fmex_iff fmpred_iff)
  with d' show ?case by (intro assets_grow_upd) auto
next
  case (9 expected nxt)
  then have e: "fmlookup (BaseAssets d) (ba_ID expected) = Some expected"
    and st: "(ba_State expected = ''planned'' \<and> nxt = ''created'') \<or> (ba_State expected = ''created'' \<and> nxt = ''ready'')"
    and d': "BaseAssets d' = fmupd (ba_ID expected) (expected\<lparr>ba_State := nxt\<rparr>) (BaseAssets d)"
    by (simp_all only: RecordBaseAsset_def guards effect.simps) auto
  from st have "asset_rank (ba_State expected) \<le> asset_rank nxt" by (auto simp: asset_rank_def)
  with e d' show ?case by (intro assets_grow_upd) auto
qed (auto simp: PutEphemeralRun_def DeleteEphemeralRun_def FinalizeOwnedWorkspaceCleanup_def
    SetDefaultImage_def RememberOpened_def BeginSnapshotWorkspaceCopy_def FinishSnapshotWorkspaceCopy_def
    RecordRestoreComponent_def BeginRestoreCleanup_def FinalizeRestoreCleanup_def Let_def same_registry_def
    split: if_splits option.splits dest!: mutateRestore_frame intro!: assets_grow_same)

lemma checked_assets: "checked d \<Longrightarrow> fmpred (\<lambda>i a. i = ba_ID a) (BaseAssets d)"
proof -
  have fill: "BaseAssets (fill_environments e) = BaseAssets e" for e
    by (simp add: fill_environments_def Let_def)
  have migrate: "BaseAssets e' = BaseAssets e" if "migrate_restores e = Inr e'" for e e'
    using that by (auto simp: migrate_restores_def split: if_splits)
  have ok: "base_assets_ok e \<Longrightarrow> fmpred (\<lambda>i a. i = ba_ID a) (BaseAssets e)" for e
    unfolding base_assets_ok_def by (rule fmpredI, drule (1) fmpredD) simp
  assume "checked d"
  then consider "d = newEnvironmentFileState" | d0 where "normalizeEnvironmentState d0 = Inr d"
    by (auto simp: checked_def)
  then show ?thesis
  proof cases
    case 2
    define v where "v = (if Version d0 = 16 then d0\<lparr>Version := environmentStateVersion\<rparr> else d0)"
    from 2 obtain e where "base_assets_ok v" "migrate_restores v = Inr e"
      and d: "BaseAssets d = BaseAssets (fill_environments e)"
      unfolding normalizeEnvironmentState_def Let_def v_def [symmetric] guards by auto
    then show ?thesis using ok fill migrate by simp
  qed (simp add: newEnvironmentFileState_def)
qed

lemma store_op_assets:
  assumes "store_op c" "checked d" "effect c d = Inr (dirty, d', u)"
  shows "assets_grow d d'"
  using assms checked_assets [OF assms(2)] unfolding store_op_def
  by (elim disjE)
    (auto dest: observe_op_effect lifecycle_op_runs metadata_op_assets generation_op_frame
      resource_op_step snapshot_op_frame simp: assets_grow_same same_registry_def data_step_def)

interpretation asset_history: store_history assets_grow
proof unfold_locales
  show "assets_grow d (stamp d')" if "assets_grow d d'" for d d'
    using that by (simp add: assets_grow_def)
qed (auto intro: assets_grow_same store_op_assets assets_grow_trans)

end
