(* ===== verification/Examples.thy ===== *)
theory Examples
  imports Transitions
begin

text \<open>
  A run of the store on concrete inputs: an Environment \<open>''a''\<close> is reserved, gets its
  runtime recorded and is published; a second Environment \<open>''b''\<close> reads the same Workspace.
  The witnesses of the properties evaluate on these catalogs.
\<close>

definition now :: GoTime where "now = \<lparr>instant = 1, location = 0\<rparr>"

definition leaseA :: WorkspaceLease where
  "leaseA = no_lease\<lparr>l_WorkspaceID := ''w'', l_SourcePath := ''p'', l_EnvironmentID := ''a'',
     l_AccessMode := ''ro'', l_Owner := ''o'', l_State := ''acquiring'', l_AcquiredAt := now\<rparr>"

definition leaseB :: WorkspaceLease where
  "leaseB = leaseA\<lparr>l_EnvironmentID := ''b''\<rparr>"

definition envA :: Environment where
  "envA = no_environment\<lparr>e_Name := ''a'', e_Workspace := \<lparr>w_ID = ''w'', w_Path = ''p''\<rparr>,
     e_AccessMode := ''ro'', e_RuntimeRef := ''rt'', e_CreatedAt := now\<rparr>"

abbreviation catalog0 :: environmentFileState where
  "catalog0 \<equiv> newEnvironmentFileState"

definition catalog1 :: environmentFileState where
  "catalog1 = catalog0\<lparr>Leases := fmupd ''a'' leaseA fmempty\<rparr>"

definition catalog2 :: environmentFileState where
  "catalog2 = catalog0\<lparr>Leases := fmupd ''a'' (leaseA\<lparr>l_RuntimeRef := ''rt''\<rparr>) fmempty\<rparr>"

definition activeA :: WorkspaceLease where
  "activeA = leaseA\<lparr>l_RuntimeRef := ''rt'', l_State := ''active''\<rparr>"

definition catalog3 :: environmentFileState where
  "catalog3 = catalog0\<lparr>Environments := fmupd ''a'' envA fmempty, Leases := fmupd ''a'' activeA fmempty\<rparr>"

definition catalog4 :: environmentFileState where
  "catalog4 = catalog3\<lparr>Leases := fmupd ''b'' leaseB (fmupd ''a'' activeA fmempty)\<rparr>"

definition saved_file :: "environmentFileState \<Rightarrow> disk" where
  "saved_file d = \<lparr>catalog = Decoded d, leftover = False\<rparr>"

definition no_file :: disk where
  "no_file = \<lparr>catalog = Missing, leftover = False\<rparr>"

section \<open>Evaluating a call\<close>

lemma run_effect:
  "readEnvironments D = Inr d \<Longrightarrow> effect c d = Inr (True, d', r) \<Longrightarrow> validateWrite d' = None \<Longrightarrow>
     run no_faults c D = (D\<lparr>catalog := Decoded (stamp d')\<rparr>, Inr r)"
  by (cases c) (simp_all add: lockedTransaction_def catalogTransaction_def writeEnvironments_def no_faults_def)

lemmas catalog_values = catalog1_def catalog2_def catalog3_def catalog4_def newEnvironmentFileState_def
  leaseA_def leaseB_def activeA_def envA_def no_lease_def no_environment_def now_def saved_file_def no_file_def
  no_ref_def no_generation_def no_workspace_def

lemmas validator_values = validateWrite_def validateOwnedWorkspaceCleanup_def validateEnvironmentResources_def
  validateResourceGenerations_def validateEphemeralIdentities_def env_lease_step_def
  env_attachments_published_def DNSMode_Valid_def DNSMode_Effective_def

lemmas read_values = read_checks_def workspace_copies_ok_def base_assets_ok_def snapshots_ok_def
  restores_ok_def lease_source_ok_def validatePersistentResourceState_def

lemma sorted_list_of_fmap_two:
  "k < l \<Longrightarrow> sorted_list_of_fmap (fmupd l w (fmupd k v fmempty)) = [(k, v), (l, w)]"
  by (auto simp: sorted_list_of_fmap_def sorted_list_of_fset.rep_eq)

lemmas catalog_eval = catalog_values validator_values read_values fmap_eval sorted_list_of_fmap_two

text \<open>One more step of a run without faults.\<close>

lemma next_file:
  assumes "reachable (saved_file d)" "read_checks d" "store_op c" "effect c d = Inr (True, d', ())"
    and "validateWrite d' = None" "Version d' = environmentStateVersion"
  shows "run no_faults c (saved_file d) = (saved_file d', Inr ())" and "reachable (saved_file d')"
    and "disk_step (saved_file d) (saved_file d')"
proof -
  have "readEnvironments (saved_file d) = Inr d"
    by (rule read_contents [OF assms(1) _ assms(2)]) (simp add: saved_file_def)
  from run_effect [OF this assms(4,5)]
  show r: "run no_faults c (saved_file d) = (saved_file d', Inr ())"
    using assms(6) by (simp add: saved_file_def)
  show "reachable (saved_file d')"
    using reachable.call [OF assms(1,3), of no_faults] r by simp
  show "disk_step (saved_file d) (saved_file d')"
    using disk_step.call [OF assms(3), of "saved_file d" no_faults] r by simp
qed

lemmas create_values = BeginEnvironmentCreate_def beginEnvironmentCreate_def
  beginEnvironmentCreate_change_def validateEnvironmentCreateReservation_def IsZero_def
  validateLeaseCompatibleState_def environmentSupportsLease_def admit_ephemeral_def
  admit_persistent_resource_def workspace_conflict_def reserveEnvironmentResources_def

lemmas lifecycle_values = RecordEnvironmentRuntime_def validateEnvironmentRuntimeReservation_def
  validateSameLeaseReservation_def TimeEqual_def CommitEnvironmentCreate_def
  validateEnvironmentCreateCommit_def publishedLease_def MatchesEnvironment_def

lemma catalog_checks:
  "read_checks catalog1" "read_checks catalog2" "read_checks catalog3" "read_checks catalog4"
  "validateWrite catalog1 = None" "validateWrite catalog2 = None" "validateWrite catalog3 = None"
  "validateWrite catalog4 = None"
  by (simp_all add: catalog_eval)

lemma catalog_version:
  "Version catalog1 = environmentStateVersion" "Version catalog2 = environmentStateVersion"
  "Version catalog3 = environmentStateVersion" "Version catalog4 = environmentStateVersion"
  by (simp_all add: catalog_values)

lemma first_file:
  assumes "store_op c" "effect c catalog0 = Inr (True, d', ())"
    and "validateWrite d' = None" "Version d' = environmentStateVersion"
  shows "run no_faults c no_file = (saved_file d', Inr ())" and "reachable (saved_file d')"
    and "disk_step no_file (saved_file d')"
proof -
  have "readEnvironments no_file = Inr catalog0" by (simp add: readEnvironments_def no_file_def)
  from run_effect [OF this assms(2,3)]
  show r: "run no_faults c no_file = (saved_file d', Inr ())"
    using assms(4) by (simp add: saved_file_def no_file_def)
  show "reachable (saved_file d')" "disk_step no_file (saved_file d')"
    using reachable.call [OF reachable.start assms(1), of no_faults] disk_step.call [OF assms(1), of no_file no_faults] r
    by (simp_all add: no_file_def)
qed

lemma no_file_reachable: "reachable no_file"
  by (simp add: no_file_def reachable.start)

lemma catalog1_effect: "effect (BeginEnvironmentCreate leaseA) catalog0 = Inr (True, catalog1, ())"
  by (simp add: create_values catalog_eval)

lemma catalog2_effect:
  "effect (RecordEnvironmentRuntime (leaseA\<lparr>l_RuntimeRef := ''rt''\<rparr>)) catalog1 = Inr (True, catalog2, ())"
  by (simp add: lifecycle_values create_values catalog_eval)

lemma catalog3_effect:
  "effect (CommitEnvironmentCreate envA activeA) catalog2 = Inr (True, catalog3, ())"
  by (simp add: lifecycle_values create_values catalog_eval)

lemma catalog4_effect:
  "effect (BeginEnvironmentCreate leaseB) catalog3 = Inr (True, catalog4, ())"
  by (simp add: lifecycle_values create_values catalog_eval)

lemmas lifecycle_store_op = store_op_def lifecycle_op.intros

lemmas catalog1_step = first_file [OF _ catalog1_effect catalog_checks(5) catalog_version(1),
  simplified lifecycle_store_op, simplified]

lemmas catalog2_step = next_file [OF catalog1_step(2) catalog_checks(1)
  _ catalog2_effect catalog_checks(6) catalog_version(2), simplified lifecycle_store_op, simplified]

lemmas catalog3_step = next_file [OF catalog2_step(2) catalog_checks(2)
  _ catalog3_effect catalog_checks(7) catalog_version(3), simplified lifecycle_store_op, simplified]

lemmas catalog4_step = next_file [OF catalog3_step(2) catalog_checks(3)
  _ catalog4_effect catalog_checks(8) catalog_version(4), simplified lifecycle_store_op, simplified]

section \<open>A persistent resource\<close>

definition volR :: PersistentResource where
  "volR = no_resource\<lparr>pr_ID := ''oci:x'', pr_Owner := ''00112233445566778899aabbccddeeff'',
     pr_Kind := ''oci'', pr_NativeRef := ''v'', pr_State := ''creating'', pr_CreatedAt := now\<rparr>"

definition catalog5 :: environmentFileState where
  "catalog5 = catalog0\<lparr>PersistentResources := fmupd ''oci:x'' volR fmempty\<rparr>"

definition catalog6 :: environmentFileState where
  "catalog6 = catalog0\<lparr>PersistentResources := fmupd ''oci:x'' (volR\<lparr>pr_State := ''ready''\<rparr>) fmempty\<rparr>"

definition leaseC :: WorkspaceLease where
  "leaseC = leaseA\<lparr>l_EnvironmentID := ''c'', l_PersistentResource := Ref volR\<rparr>"

definition catalog7 :: environmentFileState where
  "catalog7 = catalog6\<lparr>Leases := fmupd ''c'' leaseC fmempty\<rparr>"

lemmas resource_values = catalog5_def catalog6_def catalog7_def volR_def leaseC_def no_resource_def Ref_def
  zero_time_def

lemma volR_valid: "ValidPersistentResourceRef (Ref volR)" "\<not> ValidEnvironmentResourceRef (Ref volR)"
    "\<not> HasPrefix ''oci:x'' ''env-data:''"
  by code_simp+

lemma volR_fields:
  "pr_ID volR = ''oci:x''" "pr_Kind volR = ''oci''" "pr_NativeRef volR = ''v''" "pr_State volR = ''creating''"
  "pr_CreatedAt volR = now" "pr_EnvironmentInstance volR = []" "pr_RestoreSource volR = []"
  "pr_CopySource volR = no_ref" "\<not> pr_CopyCompleted volR" "pr_PublicationOrigin volR = no_generation"
  "pr_Producer volR = no_ref" "\<not> pr_SourceOnly volR" "pr_WorkspaceID volR = []" "\<not> pr_ImportPending volR"
  "\<not> pr_CopyCleanup volR" "pr_CopyOperation volR = []"
  by (simp_all add: volR_def no_resource_def)

lemmas resource_checks = env_resource_held_def persistent_record_ok_def persistent_progress_ok_def
  persistent_copy_ok_def publication_receipt_ok_def persistent_lease_ok_def

lemma catalog5_ok: "read_checks catalog5" "validateWrite catalog5 = None"
    "Version catalog5 = environmentStateVersion"
    "effect (BeginPersistentResourceCreate volR) catalog0 = Inr (True, catalog5, ())"
  using volR_valid
  by (simp_all add: catalog5_def newEnvironmentFileState_def validator_values read_values fmap_eval
      resource_checks volR_fields IsZero_def now_def BeginPersistentResourceCreate_def
      effect_resourceTransaction)

text \<open>A source-only resource of a Workspace is stored and then cannot be read.\<close>

definition volU :: PersistentResource where
  "volU = volR\<lparr>pr_SourceOnly := True, pr_WorkspaceID := ''w''\<rparr>"

definition catalogU :: environmentFileState where
  "catalogU = catalog0\<lparr>PersistentResources := fmupd ''oci:x'' volU fmempty\<rparr>"

lemma catalogU_ok: "validateWrite catalogU = None" "Version catalogU = environmentStateVersion"
    "effect (BeginPersistentResourceCreate volU) catalog0 = Inr (True, catalogU, ())"
    "validatePersistentResourceState catalogU = Some ErrIncompatibleState"
proof -
  have ref: "Ref (volR\<lparr>pr_SourceOnly := True, pr_WorkspaceID := ''w''\<rparr>) = Ref volR" by (simp add: Ref_def)
  from volR_valid show "validateWrite catalogU = None" "Version catalogU = environmentStateVersion"
    "effect (BeginPersistentResourceCreate volU) catalog0 = Inr (True, catalogU, ())"
    "validatePersistentResourceState catalogU = Some ErrIncompatibleState"
    by (simp_all add: catalogU_def volU_def newEnvironmentFileState_def validator_values read_values fmap_eval
        resource_checks volR_fields ref IsZero_def now_def BeginPersistentResourceCreate_def effect_resourceTransaction)
qed

lemma volR_ready: "Ref (volR\<lparr>pr_State := ''ready''\<rparr>) = Ref volR"
    "committed_resource volR = volR\<lparr>pr_State := ''ready''\<rparr>"
  by (simp_all add: Ref_def committed_resource_def volR_def no_resource_def)

lemma catalog6_ok: "read_checks catalog6" "validateWrite catalog6 = None"
    "Version catalog6 = environmentStateVersion"
    "effect (CommitPersistentResourceCreate volR) catalog5 = Inr (True, catalog6, ())"
  using volR_valid
  by (simp_all add: catalog5_def catalog6_def newEnvironmentFileState_def validator_values read_values fmap_eval
      resource_checks volR_fields IsZero_def now_def CommitPersistentResourceCreate_def volR_ready
      effect_resourceTransaction)

lemma catalog7_ok: "read_checks catalog7" "validateWrite catalog7 = None"
    "Version catalog7 = environmentStateVersion"
    "effect (BeginEnvironmentCreate leaseC) catalog6 = Inr (True, catalog7, ())"
  using volR_valid
  by (simp_all add: catalog_eval leaseC_def catalog5_def catalog6_def catalog7_def
      resource_checks volR_fields volR_ready create_values persistentCopyReserved_def)

lemmas resource_store_op = store_op_def resource_op.intros lifecycle_op.intros

lemmas catalog5_step = first_file [OF _ catalog5_ok(4,2,3), simplified resource_store_op, simplified]
lemmas catalogU_step = first_file [OF _ catalogU_ok(3,1,2), simplified resource_store_op, simplified]
lemmas catalog6_step = next_file [OF catalog5_step(2) catalog5_ok(1) _ catalog6_ok(4,2,3),
  simplified resource_store_op, simplified]
lemmas catalog7_step = next_file [OF catalog6_step(2) catalog6_ok(1) _ catalog7_ok(4,2,3),
  simplified resource_store_op, simplified]

section \<open>A published generation\<close>

definition hex32 :: string where "hex32 = ''00112233445566778899aabbccddeeff''"

definition volG :: PersistentResource where
  "volG = volR\<lparr>pr_ID := ''generation:'' @ hex32, pr_Kind := ''build-cache'', pr_SourceOnly := True\<rparr>"

definition nonceG :: "char list" where "nonceG = replicate 16 CHR ''0''"

definition genG :: ResourceGeneration where
  "genG = no_generation\<lparr>g_Name := ''go'', g_Kind := ''build-cache'', g_Compatibility := hex32 @ hex32,
     g_Epoch := generationEpoch nonceG\<rparr>"

definition genG1 :: ResourceGeneration where
  "genG1 = genG\<lparr>g_Number := 1, g_Current := Ref volG\<rparr>"

definition catalogG1 :: environmentFileState where
  "catalogG1 = catalog0\<lparr>PersistentResources := fmupd (pr_ID volG) volG fmempty\<rparr>"

definition catalogG2 :: environmentFileState where
  "catalogG2 = catalog0\<lparr>PersistentResources := fmupd (pr_ID volG) (committed_resource volG) fmempty\<rparr>"

definition catalogG3 :: environmentFileState where
  "catalogG3 = catalogG2\<lparr>ResourceGenerations := fmupd ''go'' genG fmempty\<rparr>"

definition catalogG4 :: environmentFileState where
  "catalogG4 = catalogG2\<lparr>ResourceGenerations := fmupd ''go'' genG1 fmempty\<rparr>"

lemma volG_fields:
  "pr_Kind volG = ''build-cache''" "pr_NativeRef volG = ''v''" "pr_State volG = ''creating''"
  "pr_CreatedAt volG = now" "pr_EnvironmentInstance volG = []" "pr_RestoreSource volG = []"
  "pr_CopySource volG = no_ref" "\<not> pr_CopyCompleted volG" "pr_PublicationOrigin volG = no_generation"
  "pr_Producer volG = no_ref" "pr_SourceOnly volG" "pr_WorkspaceID volG = []" "\<not> pr_ImportPending volG"
  "\<not> pr_CopyCleanup volG" "pr_CopyOperation volG = []"
  by (simp_all add: volG_def volR_def no_resource_def)

lemma volG_valid: "ValidGenerationResource (Ref volG)" "ValidPersistentResourceRef (Ref volG)"
    "\<not> ValidEnvironmentResourceRef (Ref volG)" "\<not> HasPrefix (pr_ID volG) ''env-data:''"
    "ValidResourceGenerationSpec ''go'' ''build-cache'' (hex32 @ hex32)" "ValidResourceGeneration genG"
    "ValidResourceGeneration genG1"
  by code_simp+

lemma volG_ref: "no_ref \<noteq> Ref volG" "ref_ID no_ref \<noteq> pr_ID volG"
  using ValidPersistentResourceRef_ID [OF volG_valid(2)] not_ValidPersistentResourceRef_no_ref volG_valid(2)
  by (metis, simp add: no_ref_def)

lemma volG_ready: "Ref (committed_resource volG) = Ref volG"
    "pr_ID (committed_resource volG) = pr_ID volG" "pr_State (committed_resource volG) = ''ready''"
    "pr_SourceOnly (committed_resource volG)" "pr_Kind (committed_resource volG) = ''build-cache''"
    "pr_EnvironmentInstance (committed_resource volG) = []" "pr_WorkspaceID (committed_resource volG) = []"
    "pr_NativeRef (committed_resource volG) = ''v''" "pr_CreatedAt (committed_resource volG) = now"
    "\<not> pr_ImportPending (committed_resource volG)" "pr_RestoreSource (committed_resource volG) = []"
    "pr_CopySource (committed_resource volG) = no_ref" "\<not> pr_CopyCompleted (committed_resource volG)"
    "pr_CopyOperation (committed_resource volG) = []" "\<not> pr_CopyCleanup (committed_resource volG)"
    "pr_PublicationOrigin (committed_resource volG) = no_generation"
    "pr_Producer (committed_resource volG) = no_ref"
  by (simp_all add: Ref_def committed_resource_def volG_fields)

lemma genG_fields:
  "g_Name genG = ''go''" "g_Kind genG = ''build-cache''" "g_Number genG = 0" "g_Current genG = no_ref"
  "g_Name genG1 = ''go''" "g_Kind genG1 = ''build-cache''" "g_Number genG1 = 1" "g_Current genG1 = Ref volG"
  by (simp_all add: genG_def genG1_def no_generation_def)

lemmas generation_values = catalogG1_def catalogG2_def catalogG3_def catalogG4_def newEnvironmentFileState_def
  validator_values read_values fmap_eval resource_checks volG_fields volG_ready volG_valid genG_fields
  IsZero_def now_def generation_step_def generation_current_ok_def environmentStateVersion_def

lemma catalogG_ok:
  "read_checks catalogG1" "validateWrite catalogG1 = None" "Version catalogG1 = environmentStateVersion"
  "read_checks catalogG2" "validateWrite catalogG2 = None" "Version catalogG2 = environmentStateVersion"
  "read_checks catalogG3" "validateWrite catalogG3 = None" "Version catalogG3 = environmentStateVersion"
  "read_checks catalogG4" "validateWrite catalogG4 = None" "Version catalogG4 = environmentStateVersion"
  by (simp_all add: generation_values)

lemma catalogG_effect:
  "effect (BeginPersistentResourceCreate volG) catalog0 = Inr (True, catalogG1, ())"
  "effect (CommitPersistentResourceCreate volG) catalogG1 = Inr (True, catalogG2, ())"
  "effect (forget (EnsureResourceGeneration nonceG ''go'' ''build-cache'' (hex32 @ hex32))) catalogG2
     = Inr (True, catalogG3, ())"
  "effect (forget (AdvanceResourceGeneration genG (Ref volG))) catalogG3 = Inr (True, catalogG4, ())"
proof -
  show "effect (BeginPersistentResourceCreate volG) catalog0 = Inr (True, catalogG1, ())"
    "effect (CommitPersistentResourceCreate volG) catalogG1 = Inr (True, catalogG2, ())"
    by (simp_all add: generation_values BeginPersistentResourceCreate_def CommitPersistentResourceCreate_def
        effect_resourceTransaction)
  show "effect (forget (EnsureResourceGeneration nonceG ''go'' ''build-cache'' (hex32 @ hex32))) catalogG2
     = Inr (True, catalogG3, ())"
    by (simp add: generation_values EnsureResourceGeneration_def forget_change_def genG_def Let_def)
  show "effect (forget (AdvanceResourceGeneration genG (Ref volG))) catalogG3 = Inr (True, catalogG4, ())"
    using volG_ref
    by (simp add: generation_values AdvanceResourceGeneration_def forget_change_def genG1_def Let_def)
qed

lemmas generation_store_op = store_op_def resource_op.intros generation_op.intros

lemma nonceG_length: "length nonceG = 16"
  by (simp add: nonceG_def)

lemmas catalogG1_step = first_file [OF _ catalogG_effect(1) catalogG_ok(2,3), simplified generation_store_op, simplified]
lemmas catalogG2_step = next_file [OF catalogG1_step(2) catalogG_ok(1) _ catalogG_effect(2) catalogG_ok(5,6),
  simplified generation_store_op, simplified]
lemmas catalogG3_step = next_file [OF catalogG2_step(2) catalogG_ok(4) _ catalogG_effect(3) catalogG_ok(8,9),
  simplified generation_store_op nonceG_length, simplified]
lemmas catalogG4_step = next_file [OF catalogG3_step(2) catalogG_ok(7) _ catalogG_effect(4) catalogG_ok(11,12),
  simplified generation_store_op, simplified]

section \<open>A snapshot\<close>

definition leaseS :: WorkspaceLease where
  "leaseS = leaseA\<lparr>l_EnvironmentID := ''s'', l_SourcePath := ''managed:w'', l_InstanceID := ''env-'' @ hex32\<rparr>"

definition activeS :: WorkspaceLease where
  "activeS = leaseS\<lparr>l_RuntimeRef := ''rt'', l_State := ''active''\<rparr>"

definition envS :: Environment where
  "envS = envA\<lparr>e_Name := ''s'', e_Workspace := \<lparr>w_ID = ''w'', w_Path = ''managed:w''\<rparr>\<rparr>"

definition snapS :: Snapshot where
  "snapS = no_snapshot\<lparr>s_ID := ''snap'', s_CreatedAt := now, s_State := ''capturing'',
     s_Source := \<lparr>src_Environment = envS, src_InstanceID = ''env-'' @ hex32\<rparr>,
     s_Components := [\<lparr>c_Binding = [], c_Role = ''rootfs'', c_NativeRef = ''r'', c_Owner = hex32, c_State = ''planned''\<rparr>,
       \<lparr>c_Binding = [], c_Role = ''workspace:main'', c_NativeRef = ''q'', c_Owner = hex32, c_State = ''planned''\<rparr>]\<rparr>"

definition catalogS1 :: environmentFileState where
  "catalogS1 = catalog0\<lparr>Leases := fmupd ''s'' leaseS fmempty\<rparr>"

definition catalogS2 :: environmentFileState where
  "catalogS2 = catalog0\<lparr>Leases := fmupd ''s'' (leaseS\<lparr>l_RuntimeRef := ''rt''\<rparr>) fmempty\<rparr>"

definition catalogS3 :: environmentFileState where
  "catalogS3 = catalog0\<lparr>Environments := fmupd ''s'' envS fmempty, Leases := fmupd ''s'' activeS fmempty\<rparr>"

definition catalogS4 :: environmentFileState where
  "catalogS4 = catalogS3\<lparr>Snapshots := fmupd ''snap'' snapS fmempty\<rparr>"

definition catalogS5 :: environmentFileState where
  "catalogS5 = catalogS3\<lparr>Snapshots := fmupd ''snap'' (snapS\<lparr>s_State := ''recovery-required''\<rparr>) fmempty\<rparr>"

lemma instanceS_valid: "ValidEnvironmentInstanceID (''env-'' @ hex32)"
  by code_simp

lemma snapS_valid: "validateSnapshot snapS = None"
    "validateSnapshot (snapS\<lparr>s_State := ''recovery-required''\<rparr>) = None"
  by code_simp+

lemmas snapshot_values = catalogS1_def catalogS2_def catalogS3_def catalogS4_def catalogS5_def
  leaseS_def activeS_def envS_def catalog_eval

lemma snapS_fields: "s_ID snapS = ''snap''" "s_State snapS = ''capturing''" "src_Environment (s_Source snapS) = envS"
    "src_InstanceID (s_Source snapS) = ''env-'' @ hex32"
    "\<not> list_ex (\<lambda>c. c_State c \<noteq> ''planned'') (s_Components snapS)"
  by (simp_all add: snapS_def)

lemma catalogS_ok:
  "read_checks catalogS1" "validateWrite catalogS1 = None" "Version catalogS1 = environmentStateVersion"
  "read_checks catalogS2" "validateWrite catalogS2 = None" "Version catalogS2 = environmentStateVersion"
  "read_checks catalogS3" "validateWrite catalogS3 = None" "Version catalogS3 = environmentStateVersion"
  "read_checks catalogS4" "validateWrite catalogS4 = None" "Version catalogS4 = environmentStateVersion"
  "read_checks catalogS5" "validateWrite catalogS5 = None" "Version catalogS5 = environmentStateVersion"
  using snapS_valid snapS_fields by (simp_all add: snapshot_values environmentStateVersion_def)

lemma catalogS_effect:
  "effect (BeginEnvironmentCreate leaseS) catalog0 = Inr (True, catalogS1, ())"
  "effect (RecordEnvironmentRuntime (leaseS\<lparr>l_RuntimeRef := ''rt''\<rparr>)) catalogS1 = Inr (True, catalogS2, ())"
  "effect (CommitEnvironmentCreate envS activeS) catalogS2 = Inr (True, catalogS3, ())"
  "effect (BeginSnapshot snapS) catalogS3 = Inr (True, catalogS4, ())"
  "effect (MarkSnapshotRecovery ''snap'') catalogS4 = Inr (True, catalogS5, ())"
  using instanceS_valid snapS_valid snapS_fields
  by (simp_all add: snapshot_values create_values lifecycle_values BeginSnapshot_def MarkSnapshotRecovery_def
      mutateSnapshot_def environmentResourcesBusy_def snapshotBusy_def Let_def)

lemmas snapshot_store_op = store_op_def lifecycle_op.intros snapshot_op.intros

lemmas catalogS1_step = first_file [OF _ catalogS_effect(1) catalogS_ok(2,3), simplified snapshot_store_op, simplified]
lemmas catalogS2_step = next_file [OF catalogS1_step(2) catalogS_ok(1) _ catalogS_effect(2) catalogS_ok(5,6),
  simplified snapshot_store_op, simplified]
lemmas catalogS3_step = next_file [OF catalogS2_step(2) catalogS_ok(4) _ catalogS_effect(3) catalogS_ok(8,9),
  simplified snapshot_store_op, simplified]
lemmas catalogS4_step = next_file [OF catalogS3_step(2) catalogS_ok(7) _ catalogS_effect(4) catalogS_ok(11,12),
  simplified snapshot_store_op, simplified]
lemmas catalogS5_step = next_file [OF catalogS4_step(2) catalogS_ok(10) _ catalogS_effect(5) catalogS_ok(14,15),
  simplified snapshot_store_op, simplified]

section \<open>A Base asset\<close>

definition assetX :: BaseAsset where
  "assetX = \<lparr>ba_ID = ''base-'' @ hex32, ba_Base = \<lparr>b_Name = ''n'', b_Revision = ''r''\<rparr>, ba_Provider = ''p'',
     ba_Scope = ''s'', ba_Owner = hex32, ba_NativeRef = ''x'', ba_Binding = ''b'', ba_State = ''planned''\<rparr>"

definition catalogX1 :: environmentFileState where
  "catalogX1 = catalog0\<lparr>BaseAssets := fmupd (ba_ID assetX) assetX fmempty\<rparr>"

definition catalogX2 :: environmentFileState where
  "catalogX2 = catalog0\<lparr>BaseAssets := fmupd (ba_ID assetX) (assetX\<lparr>ba_State := ''created''\<rparr>) fmempty\<rparr>"

lemma base_asset_letter:
  assumes "alnum c"
  shows "base_asset_text_ok [c]"
proof -
  have "ascii_char c" "\<not> IsSpace (of_char c)" "\<not> IsControl (of_char c)"
    using assms by (auto simp: go_simps ascii_char_def IsSpace_def IsControl_def)
  then show ?thesis
    by (simp add: base_asset_text_ok_def ValidString_ascii has_control_def runes_ascii
        TrimSpace_def utf8_segments_ascii space_segment_def ascii_char_def)
qed

lemma hex32_owner: "baseAssetOwnerPattern hex32"
  by code_simp

lemma assetX_valid: "validateBaseAsset assetX = None" "validateBaseAsset (assetX\<lparr>ba_State := ''created''\<rparr>) = None"
  using hex32_owner
  by (simp_all add: validateBaseAsset_def assetX_def base_asset_letter go_simps HasPrefix_def TrimPrefix_def
      ValidString_ascii ascii_char_def)

lemma catalogX_ok:
  "read_checks catalogX1" "validateWrite catalogX1 = None" "Version catalogX1 = environmentStateVersion"
  "read_checks catalogX2" "validateWrite catalogX2 = None" "Version catalogX2 = environmentStateVersion"
  using assetX_valid by (simp_all add: catalog_eval catalogX1_def catalogX2_def)

lemma catalogX_effect:
  "effect (BeginBaseAsset assetX) catalog0 = Inr (True, catalogX1, ())"
  "effect (RecordBaseAsset assetX ''created'') catalogX1 = Inr (True, catalogX2, ())"
  using assetX_valid
  by (simp_all add: catalog_eval catalogX1_def catalogX2_def BeginBaseAsset_def RecordBaseAsset_def)
    (simp_all add: assetX_def)

lemmas metadata_store_op = store_op_def metadata_op.intros

lemmas catalogX1_step = first_file [OF _ catalogX_effect(1) catalogX_ok(2,3), simplified metadata_store_op, simplified]
lemmas catalogX2_step = next_file [OF catalogX1_step(2) catalogX_ok(1) _ catalogX_effect(2) catalogX_ok(5,6),
  simplified metadata_store_op, simplified]

end
