(* ===== verification/Guarantees.thy ===== *)
theory Guarantees
  imports Examples
begin

text \<open>
  What the store guarantees to the rest of Hacocoon, over every catalog file it can reach
  and every call, fault and interleaving.
\<close>

section \<open>Ownership\<close>

text \<open>C1. Workspace exclusivity: in every reachable catalog, two Environments whose leases name
  the same Workspace both hold it read-only.  A writer is alone.\<close>

theorem workspace_exclusive:
  assumes "reachable D" "fmlookup (Leases (contents D)) n = Some a" "fmlookup (Leases (contents D)) m = Some b"
    and "n \<noteq> m" "l_WorkspaceID a = l_WorkspaceID b"
  shows "l_AccessMode a = ''ro'' \<and> l_AccessMode b = ''ro''"
proof -
  have ok: "ledger_ok (ledger_of (contents D))"
    using reachable_contents [OF assms(1)] by (simp add: catalog_ok_def)
  have "\<not> workspace_excludes a b"
    using exclusiveD [OF ledger_okD(4) [OF ok], of n a m b] assms(2-4) by (simp add: excludes_def)
  moreover have "lease_ok n a" "lease_ok m b"
    using fmpredD [OF ledger_okD(1) [OF ok]] assms(2,3) by simp_all
  ultimately show ?thesis using assms(5) by (auto simp: workspace_excludes_def lease_ok_def)
qed

theorem workspace_exclusive_witness:
  "reachable (saved_file catalog4) \<and> l_WorkspaceID activeA = l_WorkspaceID leaseB
     \<and> l_AccessMode activeA = ''ro'' \<and> l_AccessMode leaseB = ''ro''"
proof -
  have l: "fmlookup (Leases (contents (saved_file catalog4))) ''a'' = Some activeA"
    "fmlookup (Leases (contents (saved_file catalog4))) ''b'' = Some leaseB"
    by (simp_all add: contents_def saved_file_def catalog4_def)
  have "l_WorkspaceID activeA = l_WorkspaceID leaseB" by (simp add: activeA_def leaseB_def)
  with workspace_exclusive [OF catalog4_step(2) l] catalog4_step(2) show ?thesis by simp
qed

text \<open>C2. No persistent resource is reserved by two leases: leases that name a persistent
  resource with the same identifier are the same lease.\<close>

theorem persistent_resource_exclusive:
  assumes "reachable D" "fmlookup (Leases (contents D)) n = Some a" "fmlookup (Leases (contents D)) m = Some b"
    and "l_PersistentResource a \<noteq> no_ref" "l_PersistentResource b \<noteq> no_ref"
    and "ref_ID (l_PersistentResource a) = ref_ID (l_PersistentResource b)"
  shows "n = m"
proof (rule ccontr)
  assume "n \<noteq> m"
  moreover have "ledger_ok (ledger_of (contents D))"
    using reachable_contents [OF assms(1)] by (simp add: catalog_ok_def)
  ultimately show False
    using exclusiveD [OF ledger_okD(4), of "ledger_of (contents D)" n a m b] assms
    by (simp add: excludes_def resource_excludes_def)
qed

theorem persistent_resource_exclusive_witness:
  "reachable (saved_file catalog7) \<and> l_PersistentResource leaseC \<noteq> no_ref \<and> ''c'' = ''c''"
proof -
  have l: "fmlookup (Leases (contents (saved_file catalog7))) ''c'' = Some leaseC"
    by (simp add: contents_def saved_file_def catalog7_def)
  have n: "l_PersistentResource leaseC \<noteq> no_ref"
    using volR_valid(1) by (auto simp: leaseC_def)
  from persistent_resource_exclusive [OF catalog7_step(2) l l n n refl] n catalog7_step(2) show ?thesis by simp
qed

text \<open>C3. There is no durable state in which a lease is active while the Environment it describes
  is absent, and no published Environment without a lease of the same aggregate that is active or
  awaits cleanup (\<^verbatim>\<open>CommitEnvironmentCreate\<close>, \<^verbatim>\<open>FinalizeEnvironmentDelete\<close>).\<close>

theorem lease_and_environment_agree:
  assumes "reachable D"
  shows "(fmlookup (Leases (contents D)) n = Some l \<and> l_State l = ''active'' \<longrightarrow>
      (\<exists>env. fmlookup (Environments (contents D)) n = Some env \<and> MatchesEnvironment l env))
    \<and> (fmlookup (Environments (contents D)) n = Some env \<longrightarrow> e_Name env = n \<and>
      (\<exists>l. fmlookup (Leases (contents D)) n = Some l \<and> l_State l \<in> {''active'', ''cleanup-required''}
         \<and> MatchesEnvironment (l\<lparr>l_State := ''active'', l_RuntimeAbsent := False\<rparr>) env))"
proof -
  have ok: "ledger_ok (ledger_of (contents D))"
    using reachable_contents [OF assms] by (simp add: catalog_ok_def)
  have "lease_ok n l" if "fmlookup (Leases (contents D)) n = Some l" for l
    using fmpredD [OF ledger_okD(1) [OF ok]] that by simp
  then show ?thesis
    using active_publishedD [OF ledger_okD(2) [OF ok], of n l]
      published_leasedD [OF ledger_okD(3) [OF ok], of n env]
    by (fastforce simp: covers_def lease_ok_def)
qed

theorem lease_and_environment_agree_witness:
  "\<exists>env. fmlookup (Environments catalog3) ''a'' = Some env \<and> MatchesEnvironment activeA env"
proof -
  have "fmlookup (Leases (contents (saved_file catalog3))) ''a'' = Some activeA" "l_State activeA = ''active''"
    by (simp_all add: contents_def saved_file_def catalog3_def activeA_def)
  with lease_and_environment_agree [OF catalog3_step(2), of "''a''" activeA envA] show ?thesis
    by (simp add: contents_def saved_file_def)
qed

text \<open>C4. Refinement: every call with every fault, and every identity request, makes one move of the
  abstract lease ledger (reserve, amend, identify, publish, release) or leaves it unchanged.\<close>

theorem store_refines_ledger:
  assumes "reachable D" "disk_step D D'"
  shows "ledger_of (contents D') = ledger_of (contents D)
    \<or> ledger_step (ledger_of (contents D)) (ledger_of (contents D'))"
  using ledger_trans.transition [OF assms] by (simp add: ledger_moves_def)

theorem store_refines_ledger_witness:
  "ledger_step (ledger_of catalog2) (ledger_of catalog3)"
proof -
  have "fmlookup (Environments catalog2) ''a'' = None" "fmlookup (Environments catalog3) ''a'' = Some envA"
    by (simp_all add: catalog2_def catalog3_def newEnvironmentFileState_def)
  then have "ledger_of catalog3 \<noteq> ledger_of catalog2" by (auto simp: ledger_of_def)
  with store_refines_ledger [OF catalog2_step(2) catalog3_step(3)] show ?thesis
    by (simp add: contents_def saved_file_def)
qed

text \<open>C5. From reservation to release a lease keeps its claim (Environment, Workspace, mode, owner,
  resources), and a runtime reference once recorded is neither cleared nor replaced.\<close>

theorem lease_identity_stable:
  assumes "reachable D" "disk_step D D'"
    and "fmlookup (Leases (contents D)) n = Some l" "fmlookup (Leases (contents D')) n = Some l'"
  shows "claim l' = claim l \<and> (l_RuntimeRef l \<noteq> [] \<longrightarrow> l_RuntimeRef l' = l_RuntimeRef l)"
  using ledger_trans.transition [OF assms(1,2)] ledger_step_runtime [of _ _ n l l'] assms(3,4)
  by (fastforce simp: ledger_moves_def ledger_of_def)

theorem lease_identity_stable_witness:
  "claim activeA = claim (leaseA\<lparr>l_RuntimeRef := ''rt''\<rparr>) \<and> l_RuntimeRef activeA = ''rt''"
proof -
  have "fmlookup (Leases (contents (saved_file catalog2))) ''a'' = Some (leaseA\<lparr>l_RuntimeRef := ''rt''\<rparr>)"
    "fmlookup (Leases (contents (saved_file catalog3))) ''a'' = Some activeA"
    by (simp_all add: contents_def saved_file_def catalog2_def catalog3_def)
  from lease_identity_stable [OF catalog2_step(2) catalog3_step(3) this] show ?thesis by simp
qed

section \<open>The catalog file\<close>

text \<open>C6. Atomicity: a call that reports an error leaves the catalog file as it was, whatever fails
  (context, lock, read, validation, any step of the file replacement); when removing files works it
  also leaves no temporary file.\<close>

theorem failed_call_keeps_catalog:
  assumes "run f c D = (D', Inl e)"
  shows "catalog D' = catalog D \<and> (\<not> f_remove f \<longrightarrow> leftover D' = leftover D)"
  using run_error [OF assms] run_leftover [OF assms] by blast

theorem failed_call_keeps_catalog_witness:
  "\<exists>D' e. run (no_faults\<lparr>f_write := Some RenameTemp\<rparr>) (SetDefaultImage ''img'' False) no_file = (D', Inl e)
     \<and> catalog D' = Missing"
proof -
  let ?f = "no_faults\<lparr>f_write := Some RenameTemp\<rparr>"
  have "run ?f (SetDefaultImage ''img'' False) no_file
      = (no_file, Inl (ErrOther ''commit environment state''))"
    by (simp add: SetDefaultImage_def catalogTransaction_def no_faults_def readEnvironments_def no_file_def
        writeEnvironments_def validator_values newEnvironmentFileState_def)
  from this failed_call_keeps_catalog [OF this] show ?thesis by (simp add: no_file_def)
qed



text \<open>The second outcome occurs: a resource the store accepts makes its catalog unreadable.\<close>

theorem unreadable_catalog:
  "reachable (saved_file catalogU) \<and> run no_faults (BeginPersistentResourceCreate volU) no_file = (saved_file catalogU, Inr ())
     \<and> readEnvironments (saved_file catalogU) = Inl ErrIncompatibleState"
  using catalogU_step(1,2) catalogU_ok(4) reachable_read_eq [OF catalogU_step(2)]
  by (simp add: unwritten_checks_def contents_def saved_file_def)

text \<open>C8. Every reachable stored catalog carries the current version and passes the four validators
  that run before a write (\<^verbatim>\<open>writeEnvironments\<close>).\<close>

theorem stored_catalog_valid:
  assumes "reachable D" "catalog D = Decoded d"
  shows "Version d = environmentStateVersion \<and> validateOwnedWorkspaceCleanup d = None
     \<and> validateEnvironmentResources d = None \<and> validateResourceGenerations d = None
     \<and> validateEphemeralIdentities d = None"
  using catinv.reachable_invariant [OF assms] by (simp add: catalog_ok_def validateWrite_def guards)

theorem stored_catalog_valid_witness:
  "reachable (saved_file catalogG4) \<and> validateResourceGenerations catalogG4 = None"
  using stored_catalog_valid [OF catalogG4_step(2), of catalogG4] catalogG4_step(2)
  by (simp add: saved_file_def)

section \<open>Records\<close>

text \<open>C9. Persistent resources move along one state machine: planned, creating, created, ready,
  clearing, deleting; only a record in deleting disappears, only planned or creating records
  appear, and identity, owner, kind, native reference and parent never change.\<close>

theorem resource_lifecycle:
  assumes "reachable D" "disk_step D D'"
  shows "record_evolves (fmlookup (PersistentResources (contents D)) i)
     (fmlookup (PersistentResources (contents D')) i)"
  using resource_trans.transition [OF assms] by (simp add: resources_evolve_def)

theorem resource_lifecycle_witness:
  "record_evolves (Some volR) (Some (volR\<lparr>pr_State := ''ready''\<rparr>))"
  using resource_lifecycle [OF catalog5_step(2) catalog6_step(3), of "''oci:x''"]
  by (simp add: contents_def saved_file_def catalog5_def catalog6_def)

text \<open>C10. Snapshots move along one state machine.  A snapshot appears in capturing with every
  component planned, becomes ready only when every component is verified, is immutable while ready
  (its only move is to deleting), and disappears only when every component is absent.\<close>

theorem snapshot_lifecycle:
  assumes "reachable D" "disk_step D D'"
  shows "snapshot_evolves (fmlookup (Snapshots (contents D)) i) (fmlookup (Snapshots (contents D')) i)"
  using snapshot_trans.transition [OF assms] by (simp add: snapshots_evolve_def)

theorem snapshot_lifecycle_witness:
  "snapshot_evolves None (Some snapS) \<and> snapshot_evolves (Some snapS) (Some (snapS\<lparr>s_State := ''recovery-required''\<rparr>))"
  using snapshot_lifecycle [OF catalogS3_step(2) catalogS4_step(3), of "''snap''"]
    snapshot_lifecycle [OF catalogS4_step(2) catalogS5_step(3), of "''snap''"]
  by (simp add: contents_def saved_file_def catalogS3_def catalogS4_def catalogS5_def newEnvironmentFileState_def
      del: snapshot_evolves.simps)

text \<open>C11. A resource generation is never removed; within an epoch its number increases by exactly one
  per change, without wrapping at \<open>2 ^ 64\<close>, and a reset starts a different epoch at zero.\<close>

theorem generation_counter:
  assumes "reachable D" "disk_step D D'"
  shows "generation_evolves (fmlookup (ResourceGenerations (contents D)) n)
     (fmlookup (ResourceGenerations (contents D')) n)"
  using generation_trans.transition [OF assms] by (simp add: generations_evolve_def)

theorem generation_counter_witness: "generation_evolves (Some genG) (Some genG1)"
  using generation_counter [OF catalogG3_step(2) catalogG4_step(3), of "''go''"]
  by (simp add: contents_def saved_file_def catalogG3_def catalogG4_def)

text \<open>C12. Along any sequence of calls a Base asset is never removed or altered, and its state only
  advances from planned over created to ready.\<close>

theorem base_assets_retained:
  assumes "reachable D" "disk_step\<^sup>*\<^sup>* D D'" "fmlookup (BaseAssets (contents D)) i = Some a"
  shows "\<exists>a'. fmlookup (BaseAssets (contents D')) i = Some a' \<and> a' = a\<lparr>ba_State := ba_State a'\<rparr>
     \<and> asset_rank (ba_State a) \<le> asset_rank (ba_State a')"
  using asset_history.history [OF assms(1,2)] assms(3) by (simp add: assets_grow_def)

theorem base_assets_retained_witness:
  "\<exists>a'. fmlookup (BaseAssets catalogX2) (ba_ID assetX) = Some a' \<and> asset_rank ''planned'' \<le> asset_rank (ba_State a')"
proof -
  have "fmlookup (BaseAssets (contents (saved_file catalogX1))) (ba_ID assetX) = Some assetX"
    by (simp add: contents_def saved_file_def catalogX1_def)
  with base_assets_retained [OF catalogX1_step(2), of "saved_file catalogX2" "ba_ID assetX" assetX]
    r_into_rtranclp [of disk_step, OF catalogX2_step(3)] show ?thesis
    by (auto simp: contents_def saved_file_def assetX_def)
qed

end
