(* ===== verification/GoNet.thy ===== *)
theory GoNet
  imports GoText
begin

text \<open>
  The parts of Go's \<^verbatim>\<open>strconv\<close>, \<^verbatim>\<open>strings\<close> and \<^verbatim>\<open>net/netip\<close> packages that the Policy and the
  network code calls: decimal integers, splitting and trimming, lower case, and the textual
  form of IP addresses.  \<^verbatim>\<open>ParseAddr\<close> and \<^verbatim>\<open>Addr.String\<close> follow the library's own loops,
  on an address of four octets or of eight 16-bit groups with a zone; \<open>NoAddr\<close> is the zero
  value.
\<close>

subsection \<open>Numbers\<close>

fun digits :: "nat \<Rightarrow> nat \<Rightarrow> string" where
  "digits b n = (if b < 2 \<or> n < b then [hex_digit n] else digits b (n div b) @ [hex_digit (n mod b)])"

declare digits.simps [simp del]

definition Itoa :: "int \<Rightarrow> string" where
  "Itoa i = (if i < 0 then CHR ''-'' # digits 10 (nat (- i)) else digits 10 (nat i))"

definition digit_value :: "char \<Rightarrow> nat" where
  "digit_value c = of_char c - 48"

definition decimal :: "string \<Rightarrow> nat" where
  "decimal s = foldl (\<lambda>n c. n * 10 + digit_value c) 0 s"

text \<open>\<^verbatim>\<open>strconv.Atoi\<close> at a 64-bit \<^verbatim>\<open>int\<close>: an optional sign, then decimal digits.\<close>

definition Atoi :: "string \<Rightarrow> int option" where
  "Atoi s =
     (let neg = HasPrefix s ''-'';
          body = (if neg \<or> HasPrefix s ''+'' then tl s else s)
      in if body = [] \<or> \<not> list_all digit body then None
         else let v = (if neg then - int (decimal body) else int (decimal body))
              in if - (2 ^ 63) \<le> v \<and> v < 2 ^ 63 then Some v else None)"

subsection \<open>Strings\<close>

fun Split :: "char \<Rightarrow> string \<Rightarrow> string list" where
  "Split sep [] = [[]]"
| "Split sep (c # cs) =
     (if c = sep then [] # Split sep cs
      else case Split sep cs of [] \<Rightarrow> [[c]] | w # ws \<Rightarrow> (c # w) # ws)"

fun Join :: "string \<Rightarrow> string list \<Rightarrow> string" where
  "Join sep [] = []"
| "Join sep [w] = w"
| "Join sep (w # v # ws) = w @ sep @ Join sep (v # ws)"

definition HasSuffix :: "string \<Rightarrow> string \<Rightarrow> bool" where
  "HasSuffix s p \<longleftrightarrow> HasPrefix (rev s) (rev p)"

definition TrimSuffix :: "string \<Rightarrow> string \<Rightarrow> string" where
  "TrimSuffix s p = (if HasSuffix s p then take (length s - length p) s else s)"

definition Trim :: "string \<Rightarrow> string \<Rightarrow> string" where
  \<comment> \<open>used with sets of ASCII characters only\<close>
  "Trim s chars =
     rev (dropWhile (\<lambda>c. c \<in> set chars) (rev (dropWhile (\<lambda>c. c \<in> set chars) s)))"

text \<open>
  \<^verbatim>\<open>strings.ToLower\<close>, rune by rune.  Two runes outside ASCII have an ASCII lower case: U+0130
  gives \<open>i\<close> and U+212A gives \<open>k\<close>.  Every other rune outside ASCII has a lower case outside
  ASCII; it is kept as it is here, which suffices for callers that accept ASCII only.
\<close>

definition upper :: "char \<Rightarrow> bool" where "upper c \<longleftrightarrow> in_range CHR ''A'' CHR ''Z'' c"

definition lower_segment :: "nat option \<times> string \<Rightarrow> string" where
  "lower_segment p =
     (case fst p of
        None \<Rightarrow> snd p
      | Some r \<Rightarrow> if 65 \<le> r \<and> r \<le> 90 then [char_of (r + 32)]
                  else if r = 304 then ''i'' else if r = 8490 then ''k'' else snd p)"

definition ToLower :: "string \<Rightarrow> string" where
  "ToLower s = concat (map lower_segment (utf8_segments s))"

subsection \<open>IP addresses\<close>

datatype Addr = NoAddr | IPv4 "nat list" | IPv6 "nat list" string

fun octet :: "string \<Rightarrow> nat option" where
  "octet s =
     (if s = [] \<or> \<not> list_all digit s \<or> (length s > 1 \<and> hd s = CHR ''0'') \<or> decimal s > 255 then None
      else Some (decimal s))"

definition parseIPv4Fields :: "string \<Rightarrow> nat list option" where
  "parseIPv4Fields s =
     (case Split CHR ''.'' s of
        [a, b, c, d] \<Rightarrow>
          (case (octet a, octet b, octet c, octet d) of
             (Some a, Some b, Some c, Some d) \<Rightarrow> Some [a, b, c, d]
           | _ \<Rightarrow> None)
      | _ \<Rightarrow> None)"

definition hex_char :: "char \<Rightarrow> bool" where
  "hex_char c \<longleftrightarrow> hexdigit c \<or> in_range CHR ''A'' CHR ''F'' c"

definition hex_value :: "char \<Rightarrow> nat" where
  "hex_value c = (if digit c then of_char c - 48
     else if in_range CHR ''A'' CHR ''F'' c then of_char c - 55 else of_char c - 87)"

text \<open>One group: one to four hexadecimal digits, and what follows.\<close>

definition hex_group :: "string \<Rightarrow> (nat \<times> string) option" where
  "hex_group s =
     (let ds = takeWhile hex_char s
      in if ds = [] \<or> length ds > 4 then None
         else Some (foldl (\<lambda>n c. n * 16 + hex_value c) 0 ds, dropWhile hex_char s))"

text \<open>The group loop: groups still to read, groups read, position of the ellipsis, input.\<close>

fun parse_groups ::
  "nat \<Rightarrow> nat list \<Rightarrow> nat option \<Rightarrow> string \<Rightarrow> (nat list \<times> nat option \<times> string) option" where
  "parse_groups 0 gs e s = Some (gs, e, s)"
| "parse_groups (Suc k) gs e s =
     (case hex_group s of None \<Rightarrow> None | Some (v, rest) \<Rightarrow>
      if HasPrefix rest ''.'' then
        (if (e = None \<and> length gs \<noteq> 6) \<or> length gs > 6 then None
         else case parseIPv4Fields s of
                Some [a, b, c, d] \<Rightarrow> Some (gs @ [a * 256 + b, c * 256 + d], e, [])
              | _ \<Rightarrow> None)
      else (case rest of
              [] \<Rightarrow> Some (gs @ [v], e, [])
            | c # s1 \<Rightarrow>
                if c \<noteq> CHR '':'' \<or> s1 = [] then None
                else if hd s1 \<noteq> CHR '':'' then parse_groups k (gs @ [v]) e s1
                else if e \<noteq> None then None
                else if tl s1 = [] then Some (gs @ [v], Some (Suc (length gs)), [])
                else parse_groups k (gs @ [v]) (Some (Suc (length gs))) (tl s1)))"

definition expand_groups :: "nat list \<times> nat option \<times> string \<Rightarrow> nat list option" where
  "expand_groups p =
     (case p of (gs, e, s) \<Rightarrow>
      if s \<noteq> [] then None
      else if length gs < 8 then
        (case e of None \<Rightarrow> None
         | Some i \<Rightarrow> Some (take i gs @ replicate (8 - length gs) 0 @ drop i gs))
      else if e \<noteq> None then None else Some gs)"

definition parseIPv6 :: "string \<Rightarrow> Addr option" where
  "parseIPv6 text =
     (let s = takeWhile (\<lambda>c. c \<noteq> CHR ''%'') text;
          rest = dropWhile (\<lambda>c. c \<noteq> CHR ''%'') text;
          zone = tl rest
      in if rest \<noteq> [] \<and> zone = [] then None
         else if s = ''::'' then Some (IPv6 (replicate 8 0) zone)
         else case (if HasPrefix s ''::'' then parse_groups 8 [] (Some 0) (drop 2 s)
                    else parse_groups 8 [] None s) of
                None \<Rightarrow> None
              | Some p \<Rightarrow> map_option (\<lambda>gs. IPv6 gs zone) (expand_groups p))"

fun ParseAddr_from :: "string \<Rightarrow> string \<Rightarrow> Addr option" where
  "ParseAddr_from s [] = None"
| "ParseAddr_from s (c # cs) =
     (if c = CHR ''.'' then map_option IPv4 (parseIPv4Fields s)
      else if c = CHR '':'' then parseIPv6 s
      else if c = CHR ''%'' then None
      else ParseAddr_from s cs)"

definition ParseAddr :: "string \<Rightarrow> Addr option" where
  "ParseAddr s = ParseAddr_from s s"

definition IsValid :: "Addr \<Rightarrow> bool" where
  "IsValid a \<longleftrightarrow> a \<noteq> NoAddr"

definition Is4In6 :: "Addr \<Rightarrow> bool" where
  "Is4In6 a = (case a of IPv6 gs _ \<Rightarrow> take 6 gs = [0, 0, 0, 0, 0, 65535] | _ \<Rightarrow> False)"

definition Zone :: "Addr \<Rightarrow> string" where
  "Zone a = (case a of IPv6 _ z \<Rightarrow> z | _ \<Rightarrow> [])"

definition octets_of :: "nat list \<Rightarrow> nat list" where
  "octets_of gs = [gs ! 6 div 256, gs ! 6 mod 256, gs ! 7 div 256, gs ! 7 mod 256]"

definition Unmap :: "Addr \<Rightarrow> Addr" where
  "Unmap a = (case a of IPv6 gs _ \<Rightarrow> if Is4In6 a then IPv4 (octets_of gs) else a | _ \<Rightarrow> a)"

definition IsUnspecified :: "Addr \<Rightarrow> bool" where
  "IsUnspecified a \<longleftrightarrow> a = IPv4 [0, 0, 0, 0] \<or> a = IPv6 (replicate 8 0) []"

text \<open>The classes of an address; an IPv4 address in IPv6 has the class of the IPv4 address.\<close>

definition IsMulticast :: "Addr \<Rightarrow> bool" where
  "IsMulticast a = (case Unmap a of NoAddr \<Rightarrow> False | IPv4 os \<Rightarrow> hd os div 16 = 14 | IPv6 gs _ \<Rightarrow> hd gs div 256 = 255)"

definition IsLinkLocalUnicast :: "Addr \<Rightarrow> bool" where
  "IsLinkLocalUnicast a =
     (case Unmap a of NoAddr \<Rightarrow> False | IPv4 os \<Rightarrow> take 2 os = [169, 254] | IPv6 gs _ \<Rightarrow> hd gs div 64 = 1018)"

definition IsLoopback :: "Addr \<Rightarrow> bool" where
  "IsLoopback a =
     (case Unmap a of NoAddr \<Rightarrow> False | IPv4 os \<Rightarrow> hd os = 127 | IPv6 gs _ \<Rightarrow> gs = [0, 0, 0, 0, 0, 0, 0, 1])"

definition IsGlobalUnicast :: "Addr \<Rightarrow> bool" where
  "IsGlobalUnicast a \<longleftrightarrow>
     (case Unmap a of NoAddr \<Rightarrow> False
      | b \<Rightarrow> b \<noteq> IPv4 [0, 0, 0, 0] \<and> b \<noteq> IPv4 [255, 255, 255, 255] \<and> b \<noteq> IPv6 (replicate 8 0) []
             \<and> \<not> IsLoopback b \<and> \<not> IsMulticast b \<and> \<not> IsLinkLocalUnicast b)"

definition zero_run :: "nat list \<Rightarrow> nat \<Rightarrow> nat" where
  "zero_run gs i = length (takeWhile (\<lambda>g. g = 0) (drop i gs))"

definition longest_zero_run :: "nat list \<Rightarrow> nat \<times> nat" where
  "longest_zero_run gs =
     foldl (\<lambda>(start, len) i. if 2 \<le> zero_run gs i \<and> len < zero_run gs i then (i, zero_run gs i)
                               else (start, len)) (0, 0) [0..<8]"

definition string6 :: "nat list \<Rightarrow> string" where
  "string6 gs =
     (let (start, len) = longest_zero_run gs; hex = map (digits 16) gs
      in if len = 0 then Join '':'' hex
         else Join '':'' (take start hex) @ ''::'' @ Join '':'' (drop (start + len) hex))"

definition Addr_String :: "Addr \<Rightarrow> string" where
  "Addr_String a =
     (case a of
        NoAddr \<Rightarrow> ''invalid IP''
      | IPv4 os \<Rightarrow> Join ''.'' (map (digits 10) os)
      | IPv6 gs zone \<Rightarrow>
          (if Is4In6 a
           then ''::ffff:'' @ Join ''.'' (map (digits 10) (octets_of gs))
           else string6 gs)
          @ (if zone = [] then [] else CHR ''%'' # zone))"

text \<open>\<^verbatim>\<open>net.ParseIP\<close> is \<^verbatim>\<open>ParseAddr\<close> without zones.\<close>

definition ParseIP :: "string \<Rightarrow> Addr option" where
  "ParseIP s = (case ParseAddr s of None \<Rightarrow> None | Some a \<Rightarrow> if Zone a = [] then Some a else None)"

section \<open>Laws\<close>

lemma Split_nonempty: "Split sep s \<noteq> []"
  by (cases "(sep, s)" rule: Split.cases) (auto split: list.splits)

text \<open>The pieces between separators contain none, and joining them gives the string back.\<close>

lemma Split_no_sep: "w \<in> set (Split sep s) \<Longrightarrow> sep \<notin> set w"
  by (induction sep s arbitrary: w rule: Split.induct) (auto split: list.splits if_splits)

lemma Join_Split: "Join [sep] (Split sep s) = s"
proof (induction sep s rule: Split.induct)
  case (2 sep c cs)
  obtain w ws where "Split sep cs = w # ws" using Split_nonempty by (meson list.exhaust)
  with 2 show ?case by (cases ws) (auto split: if_splits)
qed simp

lemma hex_digit_decimal:
  assumes "n < 10"
  shows "digit (hex_digit n) \<and> digit_value (hex_digit n) = n"
proof -
  have "n \<in> {0, 1, 2, 3, 4, 5, 6, 7, 8, 9}" using assms by auto
  then show ?thesis
    by (elim insertE emptyE) (simp_all add: hex_digit_def digit_value_def go_simps)
qed

lemma digits_nonempty: "digits b n \<noteq> []"
  by (subst digits.simps) simp

lemma digits_decimal: "list_all digit (digits 10 n) \<and> decimal (digits 10 n) = n"
proof (induction n rule: less_induct)
  case (less n)
  show ?case
  proof (cases "n < 10")
    case True
    then show ?thesis by (simp add: digits.simps [of 10 n] hex_digit_decimal decimal_def)
  next
    case False
    then have "list_all digit (digits 10 (n div 10)) \<and> decimal (digits 10 (n div 10)) = n div 10"
      by (intro less.IH) simp
    with False show ?thesis
      using hex_digit_decimal [of "n mod 10"] by (simp add: digits.simps [of 10 n] decimal_def)
  qed
qed

text \<open>\<^verbatim>\<open>Atoi\<close> reads what \<^verbatim>\<open>Itoa\<close> prints.\<close>

lemma digit_not_sign: "digit c \<Longrightarrow> c \<noteq> CHR ''-'' \<and> c \<noteq> CHR ''+''"
  by (auto simp: go_simps)

lemma Atoi_Itoa: "0 \<le> i \<Longrightarrow> i < 2 ^ 63 \<Longrightarrow> Atoi (Itoa i) = Some i"
proof -
  assume i: "0 \<le> i" "i < 2 ^ 63"
  obtain c cs where d: "digits 10 (nat i) = c # cs" using digits_nonempty by (meson list.exhaust)
  with digits_decimal [of "nat i"] have "digit c" by simp
  with digit_not_sign have "c \<noteq> CHR ''-''" "c \<noteq> CHR ''+''" by blast+
  with d i digits_decimal [of "nat i"] show ?thesis
    by (simp add: Atoi_def Itoa_def HasPrefix_def Let_def)
qed

end
