(* ===== verification/PolicyRules.thy ===== *)
theory PolicyRules
  imports Core GoNet
begin

text \<open>
  The Policy of the capability boundary (\<^verbatim>\<open>src/internal/policy\<close>): requests, rules and the
  Policy file with its validation, the evaluation of a request, the rules an approval may
  save and the scope a trusted provider may give them, and the replacement of the file that
  saves one.  A Policy file is read as in the store: missing, unreadable, not decodable, or
  decoded.
\<close>

section \<open>Data\<close>

subsection \<open>Requests and results (\<^verbatim>\<open>core/capability.go\<close>)\<close>

record CapabilityRequest =
  q_EnvironmentInstance :: string
  q_Capability :: string
  q_Action :: string
  q_Resource :: string
  q_Environment :: string
  q_Attributes :: "string gomap"
  q_Parameters :: "string gomap"

definition no_request :: CapabilityRequest where
  "no_request = \<lparr>q_EnvironmentInstance = [], q_Capability = [], q_Action = [], q_Resource = [],
     q_Environment = [], q_Attributes = fmempty, q_Parameters = fmempty\<rparr>"

record PolicyEvaluation =
  ev_Decision :: string
  ev_Reason :: string

record ApprovalRequest =
  ar_RequestID :: string
  ar_SavedScope :: "CapabilityRequest option"
  ar_CapabilityRequest :: CapabilityRequest
  ar_Reason :: string

record CapabilityResult =
  cr_SavedChoice :: string
  cr_Provider :: string
  cr_Output :: string
  cr_RequestID :: string
  cr_ExecutionState :: string
  cr_AuditComplete :: bool

definition no_result :: CapabilityResult where
  "no_result = \<lparr>cr_SavedChoice = [], cr_Provider = [], cr_Output = [], cr_RequestID = [],
     cr_ExecutionState = [], cr_AuditComplete = False\<rparr>"

subsection \<open>The Policy file (\<^verbatim>\<open>policy.go\<close>, \<^verbatim>\<open>network_service.go\<close>)\<close>

record NetworkService =
  ns_Name :: string
  ns_Instance :: string
  ns_Protocol :: string
  ns_Address :: string
  ns_Port :: int

record PolicyRule =
  rule_ExpiresAt :: "GoTime option"
  rule_EnvironmentInstance :: string
  rule_Capability :: string
  rule_Action :: string
  rule_Resource :: string
  rule_Environment :: string
  rule_Attributes :: "string gomap"
  rule_Decision :: string
  rule_Reason :: string

record PolicyFile =
  NetworkServices :: "NetworkService list"
  SavedDecisions :: "PolicyRule list"
  Default :: string
  Rules :: "PolicyRule list"

definition deny_all :: PolicyFile where
  "deny_all = \<lparr>NetworkServices = [], SavedDecisions = [], Default = ''deny'', Rules = []\<rparr>"

datatype policy_content = NoPolicy | UnreadablePolicy | MalformedPolicy | Policy PolicyFile

section \<open>Validation\<close>

definition validDecision :: "string \<Rightarrow> bool" where
  "validDecision d \<longleftrightarrow> d = ''allow'' \<or> d = ''deny'' \<or> d = ''require-approval''"

definition networkServiceName :: "string \<Rightarrow> bool" where
  "networkServiceName s \<longleftrightarrow> ident alnum alnumdash 62 s"

definition networkServiceInstance :: "string \<Rightarrow> bool" where
  "networkServiceInstance s \<longleftrightarrow> HasPrefix s ''svc-'' \<and> hexn 32 (TrimPrefix s ''svc-'')"

definition ValidateNetworkService :: "NetworkService \<Rightarrow> error option" where
  "ValidateNetworkService s =
     (if \<not> networkServiceName (ns_Name s) \<or> \<not> networkServiceInstance (ns_Instance s)
         \<or> (ns_Protocol s \<noteq> ''tcp'' \<and> ns_Protocol s \<noteq> ''udp'') \<or> ns_Port s < 1 \<or> ns_Port s > 65535
      then Some ErrInvalidArgument
      else case ParseAddr (ns_Address s) of
        None \<Rightarrow> Some ErrInvalidArgument
      | Some address \<Rightarrow>
          if Addr_String address \<noteq> ns_Address s \<or> Is4In6 address \<or> Zone address \<noteq> []
             \<or> IsUnspecified address \<or> IsMulticast address \<or> IsLinkLocalUnicast address
          then Some ErrInvalidArgument else None)"

definition service_step ::
  "string set \<times> string set \<Rightarrow> NetworkService \<Rightarrow> error + string set \<times> string set" where
  "service_step seen s =
     (if ValidateNetworkService s \<noteq> None \<or> ns_Name s \<in> fst seen \<or> ns_Instance s \<in> snd seen
      then Inl (ErrOther ''invalid or duplicate network service'')
      else Inr (insert (ns_Name s) (fst seen), insert (ns_Instance s) (snd seen)))"

definition saved_rule_check :: "PolicyRule \<Rightarrow> error option" where
  "saved_rule_check r =
     (if rule_EnvironmentInstance r \<noteq> [] \<and> \<not> ValidEnvironmentInstanceID (rule_EnvironmentInstance r)
      then Some (ErrOther ''invalid Environment instance identity'')
      else if \<not> validDecision (rule_Decision r)
      then Some (ErrOther ''saved decisions must allow, deny or require approval'')
      else None)"

definition rule_check :: "PolicyRule \<Rightarrow> error option" where
  "rule_check r =
     (if TrimSpace (rule_Capability r) = [] \<or> TrimSpace (rule_Action r) = [] \<or> TrimSpace (rule_Resource r) = []
      then Some (ErrOther ''requires capability, action, and explicit resource'')
      else if rule_EnvironmentInstance r \<noteq> [] \<and> \<not> ValidEnvironmentInstanceID (rule_EnvironmentInstance r)
      then Some (ErrOther ''invalid Environment instance identity'')
      else if \<not> validDecision (rule_Decision r)
      then Some (ErrOther ''invalid policy decision'')
      else if list_ex (\<lambda>v. ContainsAny v crlf0)
          [rule_Capability r, rule_Action r, rule_Resource r, rule_Environment r, rule_Reason r]
      then Some (ErrOther ''contains invalid control characters'')
      else if fmex (\<lambda>k v. TrimSpace k = [] \<or> ContainsAny (k @ v) crlf0) (rule_Attributes r)
      then Some (ErrOther ''contains invalid attribute scope'')
      else None)"

text \<open>The first error of a slice whose elements are checked in order.\<close>

fun first_error :: "('a \<Rightarrow> error option) \<Rightarrow> 'a list \<Rightarrow> error option" where
  "first_error f [] = None"
| "first_error f (x # xs) = (case f x of Some e \<Rightarrow> Some e | None \<Rightarrow> first_error f xs)"

definition validatePolicy :: "PolicyFile \<Rightarrow> error option" where
  "validatePolicy p =
     (case forE service_step ({}, {}) (NetworkServices p) of Inl e \<Rightarrow> Some e | Inr _ \<Rightarrow>
      if Default p \<noteq> [] \<and> \<not> validDecision (Default p)
      then Some (ErrOther ''invalid default policy decision'')
      else case first_error saved_rule_check (SavedDecisions p) of Some e \<Rightarrow> Some e | None \<Rightarrow>
      first_error rule_check (Rules p @ SavedDecisions p))"

definition load :: "policy_content \<Rightarrow> error + PolicyFile" where
  "load c =
     (case c of
        NoPolicy \<Rightarrow> Inr deny_all
      | UnreadablePolicy \<Rightarrow> Inl (ErrOther ''read policy'')
      | MalformedPolicy \<Rightarrow> Inl (ErrOther ''parse policy'')
      | Policy p \<Rightarrow> (case validatePolicy p of Some e \<Rightarrow> Inl e | None \<Rightarrow> Inr p))"

section \<open>Evaluation\<close>

definition matchAttributes :: "string gomap \<Rightarrow> string gomap \<Rightarrow> bool" where
  "matchAttributes required actual \<longleftrightarrow>
     fcard (fmdom required) = fcard (fmdom actual) \<and>
     fmpred (\<lambda>k actualValue. case fmlookup required k of
         None \<Rightarrow> False
       | Some requiredValue \<Rightarrow> requiredValue = ''*'' \<or> requiredValue = actualValue) actual"

definition ruleMatches :: "PolicyRule \<Rightarrow> CapabilityRequest \<Rightarrow> bool" where
  "ruleMatches r q =
     (if rule_EnvironmentInstance r \<noteq> [] \<and> rule_EnvironmentInstance r \<noteq> q_EnvironmentInstance q then False
      else if rule_Capability r \<noteq> q_Capability q \<or> rule_Action r \<noteq> q_Action q then False
      else if rule_Resource r \<noteq> ''*'' \<and> rule_Resource r \<noteq> q_Resource q then False
      else if rule_Environment r \<noteq> ''*'' \<and> rule_Environment r \<noteq> q_Environment q then False
      else matchAttributes (rule_Attributes r) (q_Attributes q))"

definition decisionPriority :: "string \<Rightarrow> nat" where
  "decisionPriority d =
     (if d = ''deny'' then 3 else if d = ''require-approval'' then 2 else if d = ''allow'' then 1 else 0)"

definition expired :: "GoTime \<Rightarrow> PolicyRule \<Rightarrow> bool" where
  "expired now r = (case rule_ExpiresAt r of None \<Rightarrow> False | Some t \<Rightarrow> \<not> instant now < instant t)"

text \<open>The body of the loop: \<open>saved\<close> is \<^verbatim>\<open>index >= len(policy.Rules)\<close>.\<close>

definition applies :: "GoTime \<Rightarrow> CapabilityRequest \<Rightarrow> bool \<Rightarrow> PolicyRule \<Rightarrow> bool" where
  "applies now q saved r \<longleftrightarrow> \<not> expired now r
     \<and> \<not> (saved \<and> rule_Environment r \<noteq> ''*'' \<and> rule_EnvironmentInstance r \<noteq> q_EnvironmentInstance q)
     \<and> ruleMatches r q"

definition select_step ::
  "GoTime \<Rightarrow> CapabilityRequest \<Rightarrow> nat \<Rightarrow> PolicyEvaluation \<Rightarrow> nat \<times> PolicyRule \<Rightarrow> PolicyEvaluation" where
  "select_step now q n selected ir =
     (let rule = snd ir in
      if applies now q (n \<le> fst ir) rule \<and> decisionPriority (rule_Decision rule) > decisionPriority (ev_Decision selected)
      then \<lparr>ev_Decision = rule_Decision rule, ev_Reason = rule_Reason rule\<rparr> else selected)"

definition evaluate_policy :: "GoTime \<Rightarrow> PolicyFile \<Rightarrow> CapabilityRequest \<Rightarrow> PolicyEvaluation" where
  "evaluate_policy now p q =
     (let selected = foldl (select_step now q (length (Rules p))) \<lparr>ev_Decision = [], ev_Reason = []\<rparr>
                       (enumerate 0 (Rules p @ SavedDecisions p))
      in if ev_Decision selected \<noteq> [] then selected
         else \<lparr>ev_Decision = (if Default p = [] then ''deny'' else Default p), ev_Reason = ''default policy''\<rparr>)"

definition Evaluate :: "GoTime \<Rightarrow> policy_content \<Rightarrow> CapabilityRequest \<Rightarrow> error + PolicyEvaluation" where
  "Evaluate now c q = (case load c of Inl e \<Rightarrow> Inl e | Inr p \<Rightarrow> Inr (evaluate_policy now p q))"

section \<open>Requests (\<^verbatim>\<open>service.go\<close>)\<close>

text \<open>
  Trimming can map two attribute keys to one; which value survives depends on the order in
  which Go ranges over the map, so the order is an argument.
\<close>

type_synonym map_order = "string gomap \<Rightarrow> (string \<times> string) list"

definition range_order :: "map_order \<Rightarrow> bool" where
  "range_order ord \<longleftrightarrow> (\<forall>m. distinct (map fst (ord m)) \<and> fmap_of_list (ord m) = m)"

definition normalizeRequest :: "map_order \<Rightarrow> CapabilityRequest \<Rightarrow> CapabilityRequest" where
  "normalizeRequest ord q =
     q\<lparr>q_Capability := TrimSpace (q_Capability q), q_Action := TrimSpace (q_Action q),
       q_Resource := TrimSpace (q_Resource q), q_Environment := TrimSpace (q_Environment q),
       q_Attributes := foldl (\<lambda>m (k, v). fmupd (TrimSpace k) (TrimSpace v) m) fmempty (ord (q_Attributes q))\<rparr>"

definition validateRequest :: "CapabilityRequest \<Rightarrow> error option" where
  "validateRequest q =
     (if q_EnvironmentInstance q \<noteq> [] \<and> (q_Environment q = [] \<or> \<not> ValidEnvironmentInstanceID (q_EnvironmentInstance q))
      then Some ErrInvalidArgument
      else if q_Capability q = [] \<or> q_Action q = [] then Some ErrInvalidArgument
      else if list_ex (\<lambda>v. ContainsAny v crlf0) [q_Capability q, q_Action q, q_Resource q, q_Environment q]
      then Some ErrInvalidArgument
      else if fmex (\<lambda>k v. k = [] \<or> ContainsAny k crlf0 \<or> ContainsAny v crlf0) (q_Attributes q)
      then Some ErrInvalidArgument
      else if fmex (\<lambda>k v. TrimSpace k = [] \<or> TrimSpace k \<noteq> k \<or> ContainsAny k crlf0) (q_Parameters q)
      then Some ErrInvalidArgument
      else None)"

text \<open>A provider that does not implement \<^verbatim>\<open>NonAuthorityParameterProvider\<close> declares \<open>None\<close>.\<close>

definition validateNonAuthorityParameters :: "string list option \<Rightarrow> string gomap \<Rightarrow> error option" where
  "validateNonAuthorityParameters declared parameters =
     (if parameters = fmempty then None
      else case declared of
        None \<Rightarrow> Some ErrPolicyDenied
      | Some keys \<Rightarrow>
          let allowed = set (filter (\<lambda>k. k \<noteq> []) (map TrimSpace keys))
          in if fmex (\<lambda>k v. k \<notin> allowed) parameters then Some ErrPolicyDenied else None)"

section \<open>Saved decisions (\<^verbatim>\<open>saved_choice.go\<close>, \<^verbatim>\<open>saved_scope.go\<close>, \<^verbatim>\<open>decision.go\<close>)\<close>

definition environment_choice :: "string \<Rightarrow> bool" where
  "environment_choice c \<longleftrightarrow> c = ''allow-environment'' \<or> c = ''deny-environment'' \<or> c = ''ask-environment''"

definition global_choice :: "string \<Rightarrow> bool" where
  "global_choice c \<longleftrightarrow> c = ''allow-global'' \<or> c = ''deny-global'' \<or> c = ''ask-global''"

definition choice_decision :: "string \<Rightarrow> string" where
  "choice_decision c =
     (if c = ''allow-environment'' \<or> c = ''allow-global'' then ''allow''
      else if c = ''deny-environment'' \<or> c = ''deny-global'' then ''deny''
      else if c = ''ask-environment'' \<or> c = ''ask-global'' then ''require-approval'' else [])"

definition RuleForSavedChoice :: "CapabilityRequest \<Rightarrow> string \<Rightarrow> error + PolicyRule" where
  "RuleForSavedChoice q choice =
     (case validateRequest q of Some e \<Rightarrow> Inl e | None \<Rightarrow>
      if q_Resource q = [] \<or> q_Resource q = ''*'' then Inl ErrInvalidArgument
      else if fmex (\<lambda>k v. v = ''*'') (q_Attributes q) then Inl ErrInvalidArgument
      else if environment_choice choice
          \<and> (TrimSpace (q_Environment q) = [] \<or> q_Environment q = ''*'' \<or> \<not> ValidEnvironmentInstanceID (q_EnvironmentInstance q))
      then Inl ErrInvalidArgument
      else if \<not> environment_choice choice \<and> \<not> global_choice choice then Inl ErrInvalidArgument
      else let rule = \<lparr>rule_ExpiresAt = None,
             rule_EnvironmentInstance = (if global_choice choice then [] else q_EnvironmentInstance q),
             rule_Capability = q_Capability q, rule_Action = q_Action q, rule_Resource = q_Resource q,
             rule_Environment = (if global_choice choice then ''*'' else q_Environment q),
             rule_Attributes = q_Attributes q, rule_Decision = choice_decision choice, rule_Reason = []\<rparr>
      in case validatePolicy \<lparr>NetworkServices = [], SavedDecisions = [], Default = [], Rules = [rule]\<rparr> of
           Some e \<Rightarrow> Inl e | None \<Rightarrow> Inr rule)"

text \<open>A provider that implements \<^verbatim>\<open>SavedScopeProvider\<close> declares a scope for a request.\<close>

type_synonym scope_declaration = "(CapabilityRequest \<Rightarrow> error + CapabilityRequest) option"

definition savedApprovalScope :: "scope_declaration \<Rightarrow> CapabilityRequest \<Rightarrow> error + CapabilityRequest" where
  "savedApprovalScope declarer q =
     (let input = q\<lparr>q_Parameters := fmempty\<rparr> in
      case (case declarer of None \<Rightarrow> Inr input | Some declare_scope \<Rightarrow> declare_scope input) of
        Inl e \<Rightarrow> Inl e
      | Inr scope \<Rightarrow>
          if q_Capability scope \<noteq> q_Capability q \<or> q_Action scope \<noteq> q_Action q \<or> q_Resource scope \<noteq> q_Resource q
             \<or> q_Environment scope \<noteq> q_Environment q \<or> q_EnvironmentInstance scope \<noteq> q_EnvironmentInstance q
             \<or> q_Parameters scope \<noteq> fmempty
          then Inl ErrInvalidArgument
          else if fcard (fmdom (q_Attributes scope)) \<noteq> fcard (fmdom (q_Attributes q)) then Inl ErrInvalidArgument
          else if fmex (\<lambda>k v. case fmlookup (q_Attributes q) k of
                     None \<Rightarrow> True
                   | Some original \<Rightarrow> original = ''*'' \<or> (original \<noteq> v \<and> v \<noteq> ''*'')) (q_Attributes scope)
          then Inl ErrInvalidArgument
          else case validateRequest scope of Some e \<Rightarrow> Inl e | None \<Rightarrow> Inr scope)"

definition RuleForSavedScope :: "CapabilityRequest \<Rightarrow> string \<Rightarrow> error + PolicyRule" where
  "RuleForSavedScope scope choice =
     (let literal = scope\<lparr>q_Attributes := fmmap (\<lambda>v. if v = ''*'' then ''scope-placeholder'' else v) (q_Attributes scope)\<rparr>
      in case RuleForSavedChoice literal choice of
           Inl e \<Rightarrow> Inl e
         | Inr rule \<Rightarrow> Inr (rule\<lparr>rule_Attributes := q_Attributes scope\<rparr>))"

record ApprovalDecision =
  ad_Approved :: bool
  ad_Save :: string

definition approvalSavedRule :: "ApprovalRequest \<Rightarrow> string \<Rightarrow> error + PolicyRule" where
  "approvalSavedRule req choice =
     (case ar_SavedScope req of
        Some scope \<Rightarrow> RuleForSavedScope scope choice
      | None \<Rightarrow> RuleForSavedChoice (ar_CapabilityRequest req) choice)"

definition ValidateApprovalDecision :: "ApprovalRequest \<Rightarrow> ApprovalDecision \<Rightarrow> error option" where
  "ValidateApprovalDecision req decision =
     (if ad_Save decision = [] then None
      else case approvalSavedRule req (ad_Save decision) of
        Inl e \<Rightarrow> Some e
      | Inr rule \<Rightarrow>
          if rule_Decision rule \<noteq> ''require-approval'' \<and> (rule_Decision rule = ''allow'') \<noteq> ad_Approved decision
          then Some ErrInvalidArgument else None)"

definition CloneApprovalRequest :: "ApprovalRequest \<Rightarrow> ApprovalRequest" where
  "CloneApprovalRequest req =
     req\<lparr>ar_SavedScope := map_option (\<lambda>s. s\<lparr>q_Parameters := fmempty\<rparr>) (ar_SavedScope req),
         ar_CapabilityRequest := (ar_CapabilityRequest req)\<lparr>q_Parameters := fmempty\<rparr>\<rparr>"

section \<open>Saving a decision (\<^verbatim>\<open>saved_policy_linux.go\<close>)\<close>

text \<open>
  One update of the file: whether the path is absolute, what the setup of directory and lock,
  the context and the steps of the replacement report, whether the encoded Policy exceeds the
  size limit, and the file an editor put in place between the two reads.
\<close>

record update_faults =
  u_absolute :: bool
  u_setup :: "error option"
  u_ctx :: "error option"
  u_oversize :: "PolicyFile \<Rightarrow> bool"
  u_temporary :: "error option"
  u_edit :: "policy_content option"
  u_ctx_rename :: "error option"
  u_rename :: "error option"
  u_sync :: "error option"

definition updatePolicy ::
  "update_faults \<Rightarrow> (policy_content \<Rightarrow> error + PolicyFile) \<Rightarrow> policy_content \<Rightarrow> policy_content \<times> error option" where
  "updatePolicy f change c =
     (case u_setup f of Some e \<Rightarrow> (c, Some e) | None \<Rightarrow>
      case u_ctx f of Some e \<Rightarrow> (c, Some e) | None \<Rightarrow>
      if c = UnreadablePolicy then (c, Some (ErrOther ''unsafe Policy file'')) else
      let latest = (case u_edit f of None \<Rightarrow> c | Some c' \<Rightarrow> c') in
      case change c of Inl e \<Rightarrow> (latest, Some e) | Inr policy \<Rightarrow>
      case validatePolicy policy of Some e \<Rightarrow> (latest, Some e) | None \<Rightarrow>
      if u_oversize f policy then (latest, Some (ErrOther ''Policy size limit exceeded'')) else
      case u_temporary f of Some e \<Rightarrow> (latest, Some e) | None \<Rightarrow>
      if u_edit f \<noteq> None then (latest, Some (ErrOther ''Policy changed during update'')) else
      case u_ctx_rename f of Some e \<Rightarrow> (c, Some e) | None \<Rightarrow>
      case u_rename f of Some e \<Rightarrow> (c, Some e) | None \<Rightarrow>
      (Policy policy, u_sync f))"

definition same_scope :: "PolicyRule \<Rightarrow> PolicyRule \<Rightarrow> bool" where
  "same_scope r s \<longleftrightarrow> rule_Capability r = rule_Capability s \<and> rule_Action r = rule_Action s
     \<and> rule_Resource r = rule_Resource s \<and> rule_Environment r = rule_Environment s
     \<and> rule_EnvironmentInstance r = rule_EnvironmentInstance s \<and> rule_Attributes r = rule_Attributes s"

fun replace_or_append :: "PolicyRule list \<Rightarrow> PolicyRule \<Rightarrow> PolicyRule list" where
  "replace_or_append [] rule = [rule]"
| "replace_or_append (r # rs) rule =
     (if same_scope r rule then rule # rs else r # replace_or_append rs rule)"

definition rememberRule_change :: "PolicyRule \<Rightarrow> policy_content \<Rightarrow> error + PolicyFile" where
  "rememberRule_change rule c =
     (case load c of Inl e \<Rightarrow> Inl e
      | Inr p \<Rightarrow> Inr (p\<lparr>SavedDecisions := replace_or_append (SavedDecisions p) rule\<rparr>))"

definition rememberRule :: "update_faults \<Rightarrow> PolicyRule \<Rightarrow> policy_content \<Rightarrow> policy_content \<times> error option" where
  "rememberRule f rule = updatePolicy f (rememberRule_change rule)"

definition Remember :: "update_faults \<Rightarrow> CapabilityRequest \<Rightarrow> string \<Rightarrow> policy_content \<Rightarrow> policy_content \<times> error option" where
  "Remember f q choice c =
     (case RuleForSavedChoice q choice of Inl e \<Rightarrow> (c, Some e) | Inr rule \<Rightarrow>
      if \<not> u_absolute f then (c, Some ErrInvalidArgument) else rememberRule f rule c)"

definition RememberScope :: "update_faults \<Rightarrow> CapabilityRequest \<Rightarrow> string \<Rightarrow> policy_content \<Rightarrow> policy_content \<times> error option" where
  "RememberScope f q choice c =
     (case RuleForSavedScope q choice of Inl e \<Rightarrow> (c, Some e) | Inr rule \<Rightarrow>
      if \<not> u_absolute f then (c, Some ErrInvalidArgument) else rememberRule f rule c)"

section \<open>Laws of validation and matching\<close>

lemma first_error_None [guards]: "first_error f xs = None \<longleftrightarrow> (\<forall>x\<in>set xs. f x = None)"
  by (induction xs) (auto split: option.splits)

lemma rule_check_decision: "rule_check r = None \<Longrightarrow> validDecision (rule_Decision r)"
  by (simp add: rule_check_def guards)

lemma validatePolicy_decisions:
  assumes "validatePolicy p = None" "r \<in> set (Rules p) \<union> set (SavedDecisions p)"
  shows "validDecision (rule_Decision r)"
proof -
  from assms(1) have "\<forall>x\<in>set (Rules p @ SavedDecisions p). rule_check x = None"
    by (simp only: validatePolicy_def guards) blast
  with assms(2) have "rule_check r = None" by auto
  then show ?thesis by (rule rule_check_decision)
qed

lemma load_cases:
  assumes "load c = Inr p"
  shows "c = NoPolicy \<and> p = deny_all \<or> c = Policy p \<and> validatePolicy p = None"
  using assms by (cases c) (auto simp: load_def split: option.splits)

lemma load_decisions:
  assumes "load c = Inr p" "r \<in> set (Rules p) \<union> set (SavedDecisions p)"
  shows "validDecision (rule_Decision r)"
  using load_cases [OF assms(1)] assms(2) validatePolicy_decisions by (auto simp: deny_all_def)

text \<open>Attributes match key by key: the same keys, and each required value is the actual one or a
  wildcard.\<close>

lemma matchAttributes_iff:
  "matchAttributes required actual \<longleftrightarrow> fmdom required = fmdom actual \<and>
     (\<forall>k v. fmlookup actual k = Some v \<longrightarrow> fmlookup required k = Some ''*'' \<or> fmlookup required k = Some v)"
proof
  assume m: "matchAttributes required actual"
  then have vals: "\<And>k v. fmlookup actual k = Some v \<Longrightarrow>
      fmlookup required k = Some ''*'' \<or> fmlookup required k = Some v"
    by (auto simp: matchAttributes_def fmpred_iff split: option.splits)
  then have "fmdom actual |\<subseteq>| fmdom required" by (metis fmdomI fmlookup_dom_iff fsubsetI)
  with m have "fmdom actual = fmdom required"
    using fcard_seteq [of "fmdom actual" "fmdom required"] by (simp add: matchAttributes_def)
  with vals show "fmdom required = fmdom actual \<and> (\<forall>k v. fmlookup actual k = Some v \<longrightarrow>
      fmlookup required k = Some ''*'' \<or> fmlookup required k = Some v)" by auto
next
  assume "fmdom required = fmdom actual \<and> (\<forall>k v. fmlookup actual k = Some v \<longrightarrow>
      fmlookup required k = Some ''*'' \<or> fmlookup required k = Some v)"
  then show "matchAttributes required actual"
    by (fastforce simp: matchAttributes_def fmpred_iff split: option.splits)
qed

lemma matchAttributes_self: "matchAttributes m m"
  by (simp add: matchAttributes_iff)

text \<open>Without wildcards matching is equality.\<close>

lemma matchAttributes_literal:
  assumes "\<not> fmex (\<lambda>k v. v = ''*'') required"
  shows "matchAttributes required actual \<longleftrightarrow> required = actual"
proof
  assume m: "matchAttributes required actual"
  have "fmlookup required k = fmlookup actual k" for k
  proof (cases "fmlookup actual k")
    case None
    with m show ?thesis by (simp add: matchAttributes_iff) (metis fmdom_notD fmdom_notI)
  next
    case (Some v)
    with m assms show ?thesis by (auto simp: matchAttributes_iff fmex_iff)
  qed
  then show "required = actual" by (rule fmap_ext)
qed (simp add: matchAttributes_self)

lemma ruleMatches_iff:
  "ruleMatches r q \<longleftrightarrow> (rule_EnvironmentInstance r = [] \<or> rule_EnvironmentInstance r = q_EnvironmentInstance q)
     \<and> rule_Capability r = q_Capability q \<and> rule_Action r = q_Action q
     \<and> (rule_Resource r = ''*'' \<or> rule_Resource r = q_Resource q)
     \<and> (rule_Environment r = ''*'' \<or> rule_Environment r = q_Environment q)
     \<and> matchAttributes (rule_Attributes r) (q_Attributes q)"
  by (auto simp: ruleMatches_def)

section \<open>Laws of evaluation\<close>

definition matching :: "GoTime \<Rightarrow> PolicyFile \<Rightarrow> CapabilityRequest \<Rightarrow> PolicyRule list" where
  "matching now p q =
     filter (applies now q False) (Rules p) @ filter (applies now q True) (SavedDecisions p)"

definition matched :: "GoTime \<Rightarrow> PolicyFile \<Rightarrow> CapabilityRequest \<Rightarrow> string set" where
  "matched now p q = rule_Decision ` set (matching now p q)"

definition pick :: "PolicyEvaluation \<Rightarrow> PolicyRule \<Rightarrow> PolicyEvaluation" where
  "pick selected rule =
     (if decisionPriority (rule_Decision rule) > decisionPriority (ev_Decision selected)
      then \<lparr>ev_Decision = rule_Decision rule, ev_Reason = rule_Reason rule\<rparr> else selected)"

lemma select_fold:
  assumes "\<And>i. m \<le> i \<Longrightarrow> i < m + length rs \<Longrightarrow> (n \<le> i) = saved"
  shows "foldl (select_step now q n) sel (enumerate m rs) = foldl pick sel (filter (applies now q saved) rs)"
  using assms
proof (induction rs arbitrary: m sel)
  case (Cons r rs)
  have "(n \<le> m) = saved" using Cons.prems [of m] by simp
  with Cons.IH [of "Suc m"] Cons.prems show ?case
    by (auto simp: select_step_def pick_def Let_def)
qed simp

lemma evaluate_policy_pick:
  "evaluate_policy now p q =
     (let selected = foldl pick \<lparr>ev_Decision = [], ev_Reason = []\<rparr> (matching now p q)
      in if ev_Decision selected \<noteq> [] then selected
         else \<lparr>ev_Decision = (if Default p = [] then ''deny'' else Default p), ev_Reason = ''default policy''\<rparr>)"
  by (simp add: evaluate_policy_def matching_def enumerate_append_eq select_fold [where saved = False]
      select_fold [where saved = True])

lemma decisionPriority_eq:
  "decisionPriority d = 3 \<longleftrightarrow> d = ''deny''" "decisionPriority d = 2 \<longleftrightarrow> d = ''require-approval''"
  "decisionPriority d = 1 \<longleftrightarrow> d = ''allow''" "decisionPriority d \<le> 3"
  by (auto simp: decisionPriority_def)

lemma pick_bound:
  "decisionPriority (ev_Decision sel) \<le> decisionPriority (ev_Decision (foldl pick sel rs))
   \<and> (\<forall>r\<in>set rs. decisionPriority (rule_Decision r) \<le> decisionPriority (ev_Decision (foldl pick sel rs)))"
proof (induction rs arbitrary: sel)
  case (Cons r rs)
  have "decisionPriority (ev_Decision sel) \<le> decisionPriority (ev_Decision (pick sel r))
      \<and> decisionPriority (rule_Decision r) \<le> decisionPriority (ev_Decision (pick sel r))"
    by (auto simp: pick_def)
  with Cons.IH [of "pick sel r"] show ?case by auto
qed simp

lemma pick_from:
  "foldl pick sel rs = sel \<or>
     (\<exists>r\<in>set rs. foldl pick sel rs = \<lparr>ev_Decision = rule_Decision r, ev_Reason = rule_Reason r\<rparr>)"
proof (induction rs arbitrary: sel)
  case (Cons r rs)
  show ?case using Cons.IH [of "pick sel r"] by (auto simp: pick_def split: if_splits)
qed simp

text \<open>The strongest matching decision wins: deny over approval over allow.\<close>

lemma pick_decision:
  assumes "\<forall>r\<in>set rs. validDecision (rule_Decision r)"
  defines "D \<equiv> rule_Decision ` set rs"
  shows "ev_Decision (foldl pick \<lparr>ev_Decision = [], ev_Reason = []\<rparr> rs) =
    (if ''deny'' \<in> D then ''deny'' else if ''require-approval'' \<in> D then ''require-approval''
     else if ''allow'' \<in> D then ''allow'' else [])"
proof -
  let ?s = "\<lparr>ev_Decision = [], ev_Reason = []\<rparr>" let ?d = "ev_Decision (foldl pick ?s rs)"
  have from_rule: "?d = [] \<or> ?d \<in> D" using pick_from [of ?s rs] by (auto simp: D_def)
  have bound: "d \<in> D \<Longrightarrow> decisionPriority d \<le> decisionPriority ?d" for d
    using pick_bound [of ?s rs] by (auto simp: D_def)
  have "D \<subseteq> {''allow'', ''deny'', ''require-approval''}"
    using assms by (auto simp: D_def validDecision_def)
  then show ?thesis
    using from_rule bound [of "''deny''"] bound [of "''require-approval''"] bound [of "''allow''"]
    by (auto simp: decisionPriority_def split: if_splits)
qed

lemma evaluate_decision:
  assumes "load c = Inr p"
  shows "ev_Decision (evaluate_policy now p q) =
    (if ''deny'' \<in> matched now p q then ''deny''
     else if ''require-approval'' \<in> matched now p q then ''require-approval''
     else if ''allow'' \<in> matched now p q then ''allow''
     else if Default p = [] then ''deny'' else Default p)"
proof -
  have "\<forall>r\<in>set (matching now p q). validDecision (rule_Decision r)"
    using load_decisions [OF assms(1)] by (auto simp: matching_def)
  from pick_decision [OF this] show ?thesis by (simp add: evaluate_policy_pick matched_def Let_def)
qed

section \<open>Laws of saved decisions\<close>

lemma RuleForSavedChoiceD:
  assumes "RuleForSavedChoice q choice = Inr rule"
  shows "validateRequest q = None" "q_Resource q \<noteq> []" "q_Resource q \<noteq> ''*''"
    "\<not> fmex (\<lambda>k v. v = ''*'') (q_Attributes q)" "environment_choice choice \<noteq> global_choice choice"
    "environment_choice choice \<Longrightarrow> q_Environment q \<noteq> ''*'' \<and> ValidEnvironmentInstanceID (q_EnvironmentInstance q)"
    "rule = \<lparr>rule_ExpiresAt = None,
       rule_EnvironmentInstance = (if global_choice choice then [] else q_EnvironmentInstance q),
       rule_Capability = q_Capability q, rule_Action = q_Action q, rule_Resource = q_Resource q,
       rule_Environment = (if global_choice choice then ''*'' else q_Environment q),
       rule_Attributes = q_Attributes q, rule_Decision = choice_decision choice, rule_Reason = []\<rparr>"
    "rule_check rule = None"
proof -
  note facts = assms [unfolded RuleForSavedChoice_def Let_def guards validatePolicy_def]
  from facts show "validateRequest q = None" "q_Resource q \<noteq> []" "q_Resource q \<noteq> ''*''"
    "\<not> fmex (\<lambda>k v. v = ''*'') (q_Attributes q)" by simp_all
  from facts have "environment_choice choice \<or> global_choice choice" by simp
  then show "environment_choice choice \<noteq> global_choice choice"
    by (auto simp: environment_choice_def global_choice_def)
  from facts show "environment_choice choice \<Longrightarrow>
    q_Environment q \<noteq> ''*'' \<and> ValidEnvironmentInstanceID (q_EnvironmentInstance q)" by simp
  from facts show rule: "rule = \<lparr>rule_ExpiresAt = None,
       rule_EnvironmentInstance = (if global_choice choice then [] else q_EnvironmentInstance q),
       rule_Capability = q_Capability q, rule_Action = q_Action q, rule_Resource = q_Resource q,
       rule_Environment = (if global_choice choice then ''*'' else q_Environment q),
       rule_Attributes = q_Attributes q, rule_Decision = choice_decision choice, rule_Reason = []\<rparr>" by simp
  from facts show "rule_check rule = None" by (simp add: rule)
qed

text \<open>A saved rule speaks about one request: the same capability, action, resource and attributes,
  in the one Environment creation it was saved for, or in every Environment when the choice is
  global.\<close>

definition same_authority :: "CapabilityRequest \<Rightarrow> string \<Rightarrow> CapabilityRequest \<Rightarrow> bool" where
  "same_authority q choice q' \<longleftrightarrow> q_Capability q = q_Capability q' \<and> q_Action q = q_Action q'
     \<and> q_Resource q = q_Resource q' \<and> q_Attributes q = q_Attributes q'
     \<and> (global_choice choice \<or> (q_Environment q = q_Environment q' \<and> q_EnvironmentInstance q = q_EnvironmentInstance q'))"

lemma instance_nonempty: "ValidEnvironmentInstanceID i \<Longrightarrow> i \<noteq> []"
  by (auto simp: ValidEnvironmentInstanceID_def HasPrefix_def)

lemma saved_choice_matches:
  assumes "RuleForSavedChoice q choice = Inr rule"
  shows "ruleMatches rule q' \<longleftrightarrow> same_authority q choice q'"
proof -
  note D = RuleForSavedChoiceD [OF assms]
  note literal = matchAttributes_literal [OF D(4)]
  show ?thesis
  proof (cases "global_choice choice")
    case True
    then show ?thesis unfolding ruleMatches_iff same_authority_def D(7) by (simp add: literal D(3))
  next
    case False
    with D(5,6) instance_nonempty
    have "q_Environment q \<noteq> ''*''" "q_EnvironmentInstance q \<noteq> []" by blast+
    with False show ?thesis
      unfolding ruleMatches_iff same_authority_def D(7) by (auto simp: literal D(3))
  qed
qed

text \<open>A provider's scope keeps everything but attribute values it replaces by the wildcard.\<close>

definition widens :: "string gomap \<Rightarrow> string gomap \<Rightarrow> bool" where
  "widens wide m \<longleftrightarrow> fmdom wide = fmdom m \<and>
     (\<forall>k v. fmlookup m k = Some v \<longrightarrow> v \<noteq> ''*'' \<and> (fmlookup wide k = Some v \<or> fmlookup wide k = Some ''*''))"

lemma savedApprovalScopeD:
  assumes "savedApprovalScope declarer q = Inr scope"
  shows "scope = q\<lparr>q_Attributes := q_Attributes scope, q_Parameters := fmempty\<rparr>"
    "widens (q_Attributes scope) (q_Attributes q)" "validateRequest scope = None"
proof -
  note facts = assms [unfolded savedApprovalScope_def Let_def guards, simplified]
  then show "scope = q\<lparr>q_Attributes := q_Attributes scope, q_Parameters := fmempty\<rparr>"
    "validateRequest scope = None" by auto
  from facts have card: "fcard (fmdom (q_Attributes scope)) = fcard (fmdom (q_Attributes q))"
    and none: "\<not> fmex (\<lambda>k v. case fmlookup (q_Attributes q) k of None \<Rightarrow> True
      | Some original \<Rightarrow> original = ''*'' \<or> (original \<noteq> v \<and> v \<noteq> ''*'')) (q_Attributes scope)" by simp_all
  have each: "\<exists>u. fmlookup (q_Attributes q) k = Some u \<and> u \<noteq> ''*'' \<and> (u = v \<or> v = ''*'')"
    if "fmlookup (q_Attributes scope) k = Some v" for k v
    using fmex_notD [OF none that] by (cases "fmlookup (q_Attributes q) k") auto
  from each have "fmdom (q_Attributes scope) |\<subseteq>| fmdom (q_Attributes q)"
    by (metis fmdomI fmlookup_dom_iff fsubsetI)
  with card have "fmdom (q_Attributes scope) = fmdom (q_Attributes q)"
    using fcard_seteq by (metis order_refl)
  with each show "widens (q_Attributes scope) (q_Attributes q)"
    by (auto simp: widens_def) (metis fmdomI fmlookup_dom_iff option.inject)+
qed

text \<open>The rule of a provider scope matches requests that agree with the original one on everything
  but the wildcarded attribute values; it matches the original request itself.\<close>

lemma saved_scope_matches:
  assumes "RuleForSavedScope scope choice = Inr rule"
  shows "ruleMatches rule q' \<longleftrightarrow>
    same_authority scope choice (q'\<lparr>q_Attributes := q_Attributes scope\<rparr>) \<and>
    matchAttributes (q_Attributes scope) (q_Attributes q')"
proof -
  let ?literal = "scope\<lparr>q_Attributes := fmmap (\<lambda>v. if v = ''*'' then ''scope-placeholder'' else v) (q_Attributes scope)\<rparr>"
  from assms obtain r where r: "RuleForSavedChoice ?literal choice = Inr r"
    and rule: "rule = r\<lparr>rule_Attributes := q_Attributes scope\<rparr>"
    by (auto simp: RuleForSavedScope_def Let_def split: sum.splits)
  have "rule_Attributes r = q_Attributes ?literal" by (subst RuleForSavedChoiceD(7) [OF r]) simp
  moreover have "ruleMatches r (q'\<lparr>q_Attributes := q_Attributes ?literal\<rparr>)
      \<longleftrightarrow> same_authority ?literal choice (q'\<lparr>q_Attributes := q_Attributes ?literal\<rparr>)"
    by (rule saved_choice_matches [OF r])
  ultimately show ?thesis
    by (cases "matchAttributes (q_Attributes scope) (q_Attributes q')")
      (simp_all add: rule ruleMatches_iff same_authority_def matchAttributes_self)
qed

lemma savedApprovalScope_matches:
  assumes "savedApprovalScope declarer q = Inr scope" "RuleForSavedScope scope choice = Inr rule"
  shows "ruleMatches rule q"
proof -
  note D = savedApprovalScopeD [OF assms(1)]
  have "q_Capability scope = q_Capability q \<and> q_Action scope = q_Action q \<and> q_Resource scope = q_Resource q
    \<and> q_Environment scope = q_Environment q \<and> q_EnvironmentInstance scope = q_EnvironmentInstance q"
    by (subst (1 2 3 4 5) D(1)) simp
  moreover have "matchAttributes (q_Attributes scope) (q_Attributes q)"
    using D(2) by (auto simp: matchAttributes_iff widens_def)
  ultimately show ?thesis by (simp add: saved_scope_matches [OF assms(2)] same_authority_def)
qed

lemma same_scope_refl [simp]: "same_scope r r"
  by (simp add: same_scope_def)

lemma replace_or_append_mem: "rule \<in> set (replace_or_append rs rule)"
  by (induction rs) auto

lemma replace_or_append_keeps: "r \<in> set rs \<Longrightarrow> \<not> same_scope r rule \<Longrightarrow> r \<in> set (replace_or_append rs rule)"
  by (induction rs) auto

lemma replace_or_append_only: "set (replace_or_append rs rule) \<subseteq> insert rule (set rs)"
  by (induction rs) auto

lemma replace_or_append_idem: "replace_or_append (replace_or_append rs rule) rule = replace_or_append rs rule"
  by (induction rs) auto

lemma replace_or_append_length: "length (replace_or_append rs rule) \<le> Suc (length rs)"
  by (induction rs) auto

text \<open>An update either fails and leaves the file to whoever wrote it last, or replaces exactly the
  file it read by a valid Policy.\<close>

lemma updatePolicy_cases:
  assumes "updatePolicy f change c = (c', err)"
  shows "(err \<noteq> None \<and> c' = (case u_edit f of None \<Rightarrow> c | Some e \<Rightarrow> e)) \<or> (err \<noteq> None \<and> c' = c)
    \<or> (\<exists>p. u_edit f = None \<and> change c = Inr p \<and> validatePolicy p = None \<and> c' = Policy p \<and> err = u_sync f)"
  using assms by (auto simp: updatePolicy_def Let_def split: option.splits sum.splits if_splits)

lemma remember_result:
  assumes "rememberRule f rule c = (c', None)"
  obtains p where "load c = Inr p"
    "c' = Policy (p\<lparr>SavedDecisions := replace_or_append (SavedDecisions p) rule\<rparr>)"
    "validatePolicy (p\<lparr>SavedDecisions := replace_or_append (SavedDecisions p) rule\<rparr>) = None"
  using updatePolicy_cases [OF assms [unfolded rememberRule_def]]
  by (auto simp: rememberRule_change_def split: sum.splits)

text \<open>A saved rule without expiry that matches a request is among the matching rules from then on.\<close>

lemma remembered_matching:
  assumes "ruleMatches rule q" "rule_ExpiresAt rule = None"
    and "rule_Environment rule = ''*'' \<or> rule_EnvironmentInstance rule = q_EnvironmentInstance q"
  shows "rule_Decision rule \<in> matched now (p\<lparr>SavedDecisions := replace_or_append (SavedDecisions p) rule\<rparr>) q"
proof -
  have "applies now q True rule" using assms by (auto simp: applies_def expired_def)
  then have "rule \<in> set (matching now (p\<lparr>SavedDecisions := replace_or_append (SavedDecisions p) rule\<rparr>) q)"
    by (simp add: matching_def replace_or_append_mem)
  then show ?thesis by (simp add: matched_def)
qed

end
