(* ===== verification/CapabilityService.thy ===== *)
theory CapabilityService
  imports PolicyRules
begin

text \<open>
  The capability boundary (\<^verbatim>\<open>src/internal/policy/service.go\<close>): one request is normalised,
  validated, bound to an Environment creation, evaluated by the Policy, approved where the
  Policy asks, rechecked and executed, with an audit event before every step that matters.

  The interfaces the service calls (\<^verbatim>\<open>PolicyEvaluator\<close>, \<^verbatim>\<open>ApprovalProvider\<close>, \<^verbatim>\<open>AuditSink\<close>,
  \<^verbatim>\<open>Provider\<close>, \<^verbatim>\<open>EnvironmentIdentityResolver\<close>) are functions that may change a world \<open>'w\<close>
  on every call: a Policy edited while an approval is pending is such a change.  The state of a
  request is the world, the calls made so far (\<open>trace\<close>, used by the theorems only) and the
  deferred completion of an approval session.  A step ends the request early with a result and
  an error (\<open>Inl\<close>) or goes on (\<open>Inr\<close>).  The context is not modelled as a value: an interface
  that honours it reports its error.
\<close>

section \<open>Audit events and errors\<close>

record CapabilityAuditEvent =
  au_SavedScope :: "CapabilityRequest option"
  au_EnvironmentInstance :: string
  au_SavedChoice :: string
  au_Time :: GoTime
  au_RequestID :: string
  au_Type :: string
  au_Capability :: string
  au_Action :: string
  au_Resource :: string
  au_Environment :: string
  au_Attributes :: "string gomap"
  au_Decision :: string
  au_Approved :: "bool option"
  au_Success :: "bool option"
  au_Reason :: string

definition audit_event :: "string \<Rightarrow> CapabilityAuditEvent" where
  "audit_event kind = \<lparr>au_SavedScope = None, au_EnvironmentInstance = [], au_SavedChoice = [],
     au_Time = zero_time, au_RequestID = [], au_Type = kind, au_Capability = [], au_Action = [],
     au_Resource = [], au_Environment = [], au_Attributes = fmempty, au_Decision = [],
     au_Approved = None, au_Success = None, au_Reason = []\<rparr>"

definition audit_reasons :: "(error \<times> string) list" where
  "audit_reasons =
     [(ContextCanceled, ''context-canceled''), (ContextDeadlineExceeded, ''context-deadline-exceeded''),
      (ErrCapabilityStale, ''capability-stale''), (ErrInvalidArgument, ''invalid-argument''),
      (ErrNotFound, ''not-found''), (ErrAlreadyExists, ''already-exists''),
      (ErrUnsupported, ''unsupported''), (ErrUnsafeShrink, ''unsafe-shrink''),
      (ErrRuntimeUnavailable, ''runtime-unavailable''), (ErrStorageUnavailable, ''storage-unavailable''),
      (ErrStorageBusy, ''storage-busy''), (ErrWorkspaceBusy, ''workspace-busy''),
      (ErrPolicyDenied, ''policy-denied''), (ErrApprovalDenied, ''approval-denied''),
      (ErrAuditIncomplete, ''audit-incomplete''), (ErrIncompatibleState, ''incompatible-state''),
      (ErrRecoveryRequired, ''recovery-required'')]"

definition auditErrorReason :: "goerr option \<Rightarrow> string" where
  "auditErrorReason err =
     (case err of None \<Rightarrow> []
      | Some e \<Rightarrow> (case find (\<lambda>(t, _). errors_Is e t) audit_reasons of
                    None \<Rightarrow> ''provider-execution-failed'' | Some (_, reason) \<Rightarrow> reason))"

section \<open>The service and its interfaces\<close>

record 'w session =
  ss_Decide :: "'w \<Rightarrow> 'w \<times> (goerr + ApprovalDecision)"
  ss_Complete :: "CapabilityResult \<Rightarrow> goerr option \<Rightarrow> 'w \<Rightarrow> 'w"

text \<open>The dispatch on the interfaces an approval provider implements: a
  \<^verbatim>\<open>SessionApprovalProvider\<close> (whose session may be nil), one with \<^verbatim>\<open>Decide\<close>, or only
  \<^verbatim>\<open>Approve\<close>.\<close>

datatype 'w approval =
    SessionApproval "ApprovalRequest \<Rightarrow> 'w \<Rightarrow> 'w \<times> (goerr + 'w session option)"
  | DecisionApproval "ApprovalRequest \<Rightarrow> 'w \<Rightarrow> 'w \<times> (goerr + ApprovalDecision)"
  | BooleanApproval "ApprovalRequest \<Rightarrow> 'w \<Rightarrow> 'w \<times> (goerr + bool)"

record 'w provider =
  pv_Capability :: string
  pv_NonAuthorityParameters :: "string list option"
  pv_SavedApprovalScope :: scope_declaration
  pv_Execute :: "string \<Rightarrow> CapabilityRequest \<Rightarrow> 'w \<Rightarrow> 'w \<times> CapabilityResult \<times> goerr option"

record 'w identities =
  id_GetEnvironment :: "string \<Rightarrow> 'w \<Rightarrow> 'w \<times> (goerr + Environment)"
  id_EnvironmentInstance :: "Environment \<Rightarrow> 'w \<Rightarrow> 'w \<times> (goerr + string)"

record 'w policy =
  po_Evaluate :: "CapabilityRequest \<Rightarrow> 'w \<Rightarrow> 'w \<times> (goerr + PolicyEvaluation)"
  po_Remember :: "(CapabilityRequest \<Rightarrow> string \<Rightarrow> 'w \<Rightarrow> 'w \<times> goerr option) option"
  po_RememberScope :: "(CapabilityRequest \<Rightarrow> string \<Rightarrow> 'w \<Rightarrow> 'w \<times> goerr option) option"

record 'w Service =
  sv_identities :: "'w identities option"
  sv_policy :: "'w policy option"
  sv_approval :: "'w approval option"
  sv_audit :: "(CapabilityAuditEvent \<Rightarrow> 'w \<Rightarrow> 'w \<times> goerr option) option"
  sv_providers :: "'w provider gomap"
  sv_now :: "'w \<Rightarrow> GoTime"

fun register :: "'w provider gomap \<Rightarrow> 'w provider option list \<Rightarrow> error + 'w provider gomap" where
  "register registered [] = Inr registered"
| "register registered (None # ps) = register registered ps"
| "register registered (Some p # ps) =
     (let name = pv_Capability p in
      if TrimSpace name = [] \<or> TrimSpace name \<noteq> name \<or> ContainsAny name crlf0 then Inl ErrInvalidArgument
      else if present registered name then Inl ErrAlreadyExists
      else register (fmupd name p registered) ps)"

definition New ::
  "'w policy option \<Rightarrow> 'w approval option \<Rightarrow> (CapabilityAuditEvent \<Rightarrow> 'w \<Rightarrow> 'w \<times> goerr option) option
   \<Rightarrow> ('w \<Rightarrow> GoTime) \<Rightarrow> 'w provider option list \<Rightarrow> error + 'w Service" where
  "New policy approval audit now providers =
     (case register fmempty providers of Inl e \<Rightarrow> Inl e
      | Inr registered \<Rightarrow> Inr \<lparr>sv_identities = None, sv_policy = policy, sv_approval = approval,
          sv_audit = audit, sv_providers = registered, sv_now = now\<rparr>)"

section \<open>One request\<close>

datatype action =
    Audited CapabilityAuditEvent bool
  | Evaluated CapabilityRequest "string option"
  | Asked ApprovalRequest
  | Answered "ApprovalDecision option"
  | Saved CapabilityRequest string bool
  | Identified "string option"
  | Executed CapabilityRequest bool

record 'w st =
  world :: 'w
  trace :: "action list"
  deferred :: "'w session option"

type_synonym ('w, 'a) step = "'w st \<times> (CapabilityResult \<times> goerr + 'a)"

definition andThen :: "('w, 'a) step \<Rightarrow> ('w st \<Rightarrow> 'a \<Rightarrow> ('w, 'b) step) \<Rightarrow> ('w, 'b) step" where
  "andThen x f = (case x of (s, Inl out) \<Rightarrow> (s, Inl out) | (s, Inr a) \<Rightarrow> f s a)"

definition log :: "action \<Rightarrow> 'w \<Rightarrow> 'w st \<Rightarrow> 'w st" where
  "log a w s = s\<lparr>world := w, trace := trace s @ [a]\<rparr>"

definition record_event ::
  "'w Service \<Rightarrow> string \<Rightarrow> CapabilityRequest \<Rightarrow> CapabilityAuditEvent \<Rightarrow> 'w st \<Rightarrow> 'w st \<times> goerr option" where
  "record_event svc requestID req event s =
     (let event' = event\<lparr>au_Time := sv_now svc (world s), au_RequestID := requestID,
             au_Capability := q_Capability req, au_Action := q_Action req, au_Resource := q_Resource req,
             au_Environment := q_Environment req, au_EnvironmentInstance := q_EnvironmentInstance req,
             au_Attributes := q_Attributes req\<rparr>
      in case sv_audit svc of
           None \<Rightarrow> (s, None) \<comment> \<open>excluded before the first event\<close>
         | Some sink \<Rightarrow> (case sink event' (world s) of (w, err) \<Rightarrow> (log (Audited event' (err = None)) w s, err)))"

definition evaluate ::
  "'w policy \<Rightarrow> CapabilityRequest \<Rightarrow> 'w st \<Rightarrow> 'w st \<times> (goerr + PolicyEvaluation)" where
  "evaluate policy req s =
     (case po_Evaluate policy req (world s) of
        (w, Inl e) \<Rightarrow> (log (Evaluated req None) w s, Inl e)
      | (w, Inr e) \<Rightarrow> (log (Evaluated req (Some (ev_Decision e))) w s, Inr e))"

text \<open>\<^verbatim>\<open>service.go\<close> 125--143: bind the request to the current creation of its Environment.\<close>

definition bind_identity ::
  "'w Service \<Rightarrow> CapabilityRequest \<Rightarrow> 'w st \<Rightarrow> ('w, CapabilityRequest \<times> Environment) step" where
  "bind_identity svc req s =
     (case sv_identities svc of
        None \<Rightarrow> (s, Inr (req, no_environment))
      | Some ids \<Rightarrow>
          if q_Environment req = [] then (s, Inr (req, no_environment))
          else case id_GetEnvironment ids (q_Environment req) (world s) of
            (w, Inl e) \<Rightarrow> (s\<lparr>world := w\<rparr>, Inl (no_result, e))
          | (w, Inr snapshot) \<Rightarrow>
              (case id_EnvironmentInstance ids snapshot w of
                 (w', Inl e) \<Rightarrow> (log (Identified None) w' s, Inl (no_result, e))
               | (w', Inr inst) \<Rightarrow>
                   let s' = log (Identified (Some inst)) w' s in
                   if \<not> ValidEnvironmentInstanceID inst then (s', Inl (no_result, Sentinel ErrIncompatibleState))
                   else if q_EnvironmentInstance req \<noteq> [] \<and> q_EnvironmentInstance req \<noteq> inst
                   then (s', Inl (no_result, Sentinel ErrCapabilityStale))
                   else (s', Inr (req\<lparr>q_EnvironmentInstance := inst\<rparr>, snapshot))))"

text \<open>181--200: ask the approval provider.  A session is completed when the request returns.\<close>

definition obtain_decision ::
  "'w approval \<Rightarrow> ApprovalRequest \<Rightarrow> 'w st \<Rightarrow> 'w st \<times> (goerr + ApprovalDecision)" where
  "obtain_decision approval prompt s0 =
     (let s = s0\<lparr>trace := trace s0 @ [Asked prompt]\<rparr>;
          answered = (\<lambda>w s a. case a of
             Inl e \<Rightarrow> (log (Answered None) w s, Inl e) | Inr d \<Rightarrow> (log (Answered (Some d)) w s, Inr d))
      in case approval of
           SessionApproval BeginApproval \<Rightarrow>
             (case BeginApproval prompt (world s) of
                (w, Inl e) \<Rightarrow> answered w s (Inl e)
              | (w, Inr None) \<Rightarrow> answered w s (Inl (Sentinel ErrIncompatibleState))
              | (w, Inr (Some session)) \<Rightarrow>
                  (case ss_Decide session w of (w', a) \<Rightarrow> answered w' (s\<lparr>deferred := Some session\<rparr>) a))
         | DecisionApproval Decide \<Rightarrow> (case Decide prompt (world s) of (w, a) \<Rightarrow> answered w s a)
         | BooleanApproval Approve \<Rightarrow>
             (case Approve prompt (world s) of
                (w, Inl e) \<Rightarrow> answered w s (Inl e)
              | (w, Inr yes) \<Rightarrow> answered w s (Inr \<lparr>ad_Approved = yes, ad_Save = []\<rparr>)))"

text \<open>213--250: persist the choice that came with the answer.\<close>

definition audit_scope :: "CapabilityRequest \<Rightarrow> string \<Rightarrow> CapabilityRequest" where
  "audit_scope saved choice =
     (if choice = ''allow-global'' \<or> choice = ''deny-global'' \<or> choice = ''ask-global''
      then saved\<lparr>q_Environment := ''*'', q_EnvironmentInstance := []\<rparr> else saved)"

definition save_choice ::
  "'w Service \<Rightarrow> 'w policy \<Rightarrow> string \<Rightarrow> CapabilityRequest \<Rightarrow> CapabilityRequest \<Rightarrow> string \<Rightarrow> CapabilityResult
   \<Rightarrow> 'w st \<Rightarrow> ('w, CapabilityResult) step" where
  "save_choice svc policy requestID req saved choice base s =
     (if choice = [] then (s, Inr base)
      else case po_Remember policy of None \<Rightarrow> (s, Inl (base, Sentinel ErrUnsupported)) | Some saver \<Rightarrow>
      case (if q_Attributes saved \<noteq> q_Attributes req then po_RememberScope policy else Some saver) of
        None \<Rightarrow> (s, Inl (base, Sentinel ErrUnsupported))
      | Some remember \<Rightarrow>
      case remember saved choice (world s) of
        (w, Some e) \<Rightarrow>
          (case record_event svc requestID req
              ((audit_event ''policy-save-failed'')\<lparr>au_SavedChoice := choice, au_Reason := ''policy-save-failed''\<rparr>)
              (log (Saved saved choice False) w s) of
            (s', _) \<Rightarrow> (s', Inl (base, Wrap (Some e))))
      | (w, None) \<Rightarrow>
          (case record_event svc requestID req
              ((audit_event ''policy-saved'')\<lparr>au_SavedChoice := choice, au_SavedScope := Some (audit_scope saved choice)\<rparr>)
              (log (Saved saved choice True) w s) of
            (s', Some e) \<Rightarrow> (s', Inl (base, Joined [Sentinel ErrAuditIncomplete, e]))
          | (s', None) \<Rightarrow>
              let base' = base\<lparr>cr_SavedChoice := choice\<rparr> in
              (case evaluate policy req s' of
                 (s2, Inl e) \<Rightarrow> (s2, Inl (base', e))
               | (s2, Inr current) \<Rightarrow>
                   if \<not> validDecision (ev_Decision current) \<or> ev_Decision current = ''deny''
                   then (s2, Inl (base', Sentinel ErrPolicyDenied)) else (s2, Inr base'))))"

text \<open>167--253: the branch of a Policy that requires approval.\<close>

definition checked_answer ::
  "CapabilityRequest \<Rightarrow> CapabilityRequest \<Rightarrow> goerr + ApprovalDecision \<Rightarrow> goerr + ApprovalDecision" where
  "checked_answer req saved a =
     (case a of Inl e \<Rightarrow> Inl e
      | Inr d \<Rightarrow> (case ValidateApprovalDecision \<lparr>ar_RequestID = [], ar_SavedScope = Some saved,
                       ar_CapabilityRequest = req, ar_Reason = []\<rparr> d of
                    Some e \<Rightarrow> Inl (Sentinel e) | None \<Rightarrow> Inr d))"

definition approval_phase ::
  "'w Service \<Rightarrow> 'w policy \<Rightarrow> 'w approval option \<Rightarrow> 'w provider \<Rightarrow> string \<Rightarrow> CapabilityRequest \<Rightarrow> PolicyEvaluation
   \<Rightarrow> CapabilityResult \<Rightarrow> 'w st \<Rightarrow> ('w, CapabilityResult) step" where
  "approval_phase svc policy approval provider requestID req evaluation base s =
     (case approval of
        None \<Rightarrow> (s, Inl (base, Wrap (Some (Sentinel ErrApprovalDenied))))
      | Some ap \<Rightarrow>
      case savedApprovalScope (pv_SavedApprovalScope provider) req of
        Inl e \<Rightarrow> (s, Inl (base, Sentinel e))
      | Inr saved \<Rightarrow>
      case obtain_decision ap \<lparr>ar_RequestID = requestID, ar_SavedScope = Some saved,
             ar_CapabilityRequest = req\<lparr>q_Parameters := fmempty\<rparr>, ar_Reason = ev_Reason evaluation\<rparr> s of
        (s1, a) \<Rightarrow>
      case checked_answer req saved a of
        Inl e \<Rightarrow>
          (case record_event svc requestID req
              ((audit_event ''approval-decision'')\<lparr>au_Approved := Some False, au_Reason := ''approval-provider-failed''\<rparr>) s1 of
            (s2, _) \<Rightarrow> (s2, Inl (base, Wrap (Some e))))
      | Inr decision \<Rightarrow>
          (case record_event svc requestID req
              ((audit_event ''approval-decision'')\<lparr>au_Approved := Some (ad_Approved decision),
                 au_SavedChoice := ad_Save decision, au_Reason := ev_Reason evaluation\<rparr>) s1 of
            (s2, Some e) \<Rightarrow> (s2, Inl (base, Wrap (Some e)))
          | (s2, None) \<Rightarrow>
              andThen (save_choice svc policy requestID req saved (ad_Save decision) base s2)
                (\<lambda>s3 base'. if \<not> ad_Approved decision then (s3, Inl (base', Sentinel ErrApprovalDenied))
                            else (s3, Inr base'))))"

text \<open>256--278: the recheck at the execution boundary.\<close>

definition recheck_error :: "string \<Rightarrow> string \<Rightarrow> error option" where
  "recheck_error first current =
     (if current = ''allow'' then None
      else if current = ''require-approval'' then
        (if first \<noteq> ''require-approval'' then Some ErrApprovalDenied else None)
      else Some ErrPolicyDenied)"

definition recheck ::
  "'w Service \<Rightarrow> 'w policy \<Rightarrow> string \<Rightarrow> CapabilityRequest \<Rightarrow> PolicyEvaluation \<Rightarrow> CapabilityResult \<Rightarrow> 'w st
   \<Rightarrow> ('w, unit) step" where
  "recheck svc policy requestID req evaluation base s =
     (case evaluate policy req s of
        (s1, Inl e) \<Rightarrow> (s1, Inl (base, Wrap (Some e)))
      | (s1, Inr current) \<Rightarrow>
          (case recheck_error (ev_Decision evaluation) (ev_Decision current) of
             None \<Rightarrow> (s1, Inr ())
           | Some e \<Rightarrow>
               (case record_event svc requestID req
                   ((audit_event ''policy-recheck-denied'')\<lparr>au_Reason := ''policy-changed-before-execution''\<rparr>) s1 of
                 (s2, None) \<Rightarrow> (s2, Inl (base, Joined [Sentinel e]))
               | (s2, Some auditErr) \<Rightarrow> (s2, Inl (base, Joined [Sentinel e, auditErr])))))"

text \<open>280--288: the Environment must still be the same creation.\<close>

definition recheck_identity ::
  "'w Service \<Rightarrow> CapabilityRequest \<Rightarrow> Environment \<Rightarrow> CapabilityResult \<Rightarrow> 'w st \<Rightarrow> ('w, unit) step" where
  "recheck_identity svc req snapshot base s =
     (case sv_identities svc of
        None \<Rightarrow> (s, Inr ())
      | Some ids \<Rightarrow>
          if q_Environment req = [] then (s, Inr ())
          else case id_EnvironmentInstance ids snapshot (world s) of
            (w, Inl e) \<Rightarrow> (log (Identified None) w s, Inl (base, e))
          | (w, Inr current) \<Rightarrow>
              let s' = log (Identified (Some current)) w s in
              if current \<noteq> q_EnvironmentInstance req then (s', Inl (base, Sentinel ErrCapabilityStale))
              else (s', Inr ()))"

text \<open>289--309: execution and its completion record.\<close>

definition execute ::
  "'w Service \<Rightarrow> 'w provider \<Rightarrow> string \<Rightarrow> CapabilityRequest \<Rightarrow> CapabilityResult \<Rightarrow> 'w st
   \<Rightarrow> 'w st \<times> CapabilityResult \<times> goerr option" where
  "execute svc provider requestID req base s =
     (case pv_Execute provider requestID req (world s) of
        (w, result0, execErr) \<Rightarrow>
          (case record_event svc requestID req
              ((audit_event ''completed'')\<lparr>au_Success := Some (execErr = None), au_Reason := auditErrorReason execErr\<rparr>)
              (log (Executed req (execErr = None)) w s) of
            (s', completionErr) \<Rightarrow>
              let result = result0\<lparr>cr_RequestID := requestID, cr_SavedChoice := cr_SavedChoice base,
                     cr_ExecutionState := (if execErr = None then ''succeeded'' else ''failed''),
                     cr_AuditComplete := completionErr = None\<rparr>
              in (case (execErr, completionErr) of
                    (Some e, Some c) \<Rightarrow> (s', result, Some (Joined [e, Sentinel ErrAuditIncomplete, Wrap (Some c)]))
                  | (Some e, None) \<Rightarrow> (s', result, Some e)
                  | (None, Some c) \<Rightarrow> (s', result, Some (Joined [Sentinel ErrAuditIncomplete, Wrap (Some c)]))
                  | (None, None) \<Rightarrow> (s', result, None))))"

text \<open>145--162: record the request, evaluate it and record the decision.\<close>

definition decide_policy ::
  "'w Service \<Rightarrow> 'w policy \<Rightarrow> string \<Rightarrow> CapabilityRequest \<Rightarrow> CapabilityResult \<Rightarrow> 'w st \<Rightarrow> ('w, PolicyEvaluation) step" where
  "decide_policy svc policy requestID req base s =
     (case record_event svc requestID req (audit_event ''requested'') s of
        (s1, Some e) \<Rightarrow> (s1, Inl (base, Wrap (Some e)))
      | (s1, None) \<Rightarrow>
     (case evaluate policy req s1 of
        (s2, Inl e) \<Rightarrow>
          (case record_event svc requestID req
              ((audit_event ''policy-error'')\<lparr>au_Decision := ''deny'', au_Reason := ''policy-evaluation-failed''\<rparr>) s2 of
            (s3, _) \<Rightarrow> (s3, Inl (base, Wrap (Some e))))
      | (s2, Inr evaluation) \<Rightarrow>
          if \<not> validDecision (ev_Decision evaluation) then
            (case record_event svc requestID req
                ((audit_event ''policy-error'')\<lparr>au_Decision := ''deny'', au_Reason := ''invalid-policy-decision''\<rparr>) s2 of
              (s3, _) \<Rightarrow> (s3, Inl (base, Wrap (Some (Sentinel ErrPolicyDenied)))))
          else
            (case record_event svc requestID req
                ((audit_event ''policy-decision'')\<lparr>au_Decision := ev_Decision evaluation, au_Reason := ev_Reason evaluation\<rparr>) s2 of
              (s3, Some e) \<Rightarrow> (s3, Inl (base, Wrap (Some e)))
            | (s3, None) \<Rightarrow> (s3, Inr evaluation))))"

text \<open>164--254: what the decision asks for.\<close>

definition authorize ::
  "'w Service \<Rightarrow> 'w policy \<Rightarrow> 'w approval option \<Rightarrow> 'w provider \<Rightarrow> string \<Rightarrow> CapabilityRequest \<Rightarrow> PolicyEvaluation
   \<Rightarrow> CapabilityResult \<Rightarrow> 'w st \<Rightarrow> ('w, CapabilityResult) step" where
  "authorize svc policy approval provider requestID req evaluation base s =
     (if ev_Decision evaluation = ''deny'' then (s, Inl (base, Wrap (Some (Sentinel ErrPolicyDenied))))
      else if ev_Decision evaluation = ''require-approval''
      then approval_phase svc policy approval provider requestID req evaluation base s
      else (s, Inr base))"

text \<open>110--123: validation, before anything is recorded or called.\<close>

definition admit ::
  "'w Service option \<Rightarrow> CapabilityRequest \<Rightarrow> goerr + 'w Service \<times> 'w policy \<times> 'w provider" where
  "admit service req =
     (case validateRequest req of Some e \<Rightarrow> Inl (Sentinel e) | None \<Rightarrow>
      case service of None \<Rightarrow> Inl (Wrap (Some (Sentinel ErrPolicyDenied))) | Some svc \<Rightarrow>
      case sv_policy svc of None \<Rightarrow> Inl (Wrap (Some (Sentinel ErrPolicyDenied))) | Some policy \<Rightarrow>
      if sv_audit svc = None then Inl (Wrap (Some (Sentinel ErrPolicyDenied))) else
      case fmlookup (sv_providers svc) (q_Capability req) of
        None \<Rightarrow> Inl (Wrap (Some (Sentinel ErrUnsupported)))
      | Some provider \<Rightarrow>
          (case validateNonAuthorityParameters (pv_NonAuthorityParameters provider) (q_Parameters req) of
             Some e \<Rightarrow> Inl (Sentinel e) | None \<Rightarrow> Inr (svc, policy, provider)))"

text \<open>The request itself, up to the deferred completion.\<close>

definition perform ::
  "'w Service \<Rightarrow> 'w policy \<Rightarrow> 'w approval option \<Rightarrow> 'w provider \<Rightarrow> string \<Rightarrow> CapabilityRequest \<Rightarrow> 'w st
   \<Rightarrow> ('w, CapabilityResult \<times> goerr option) step" where
  "perform svc policy approval provider requestID req0 s0 =
     andThen (bind_identity svc req0 s0) (\<lambda>s1 (req, snapshot).
     let base = no_result\<lparr>cr_RequestID := requestID, cr_ExecutionState := ''not-executed''\<rparr> in
     andThen (decide_policy svc policy requestID req base s1) (\<lambda>s2 evaluation.
     andThen (authorize svc policy approval provider requestID req evaluation base s2) (\<lambda>s3 base'.
     andThen (recheck svc policy requestID req evaluation base' s3) (\<lambda>s4 _.
     andThen (recheck_identity svc req snapshot base' s4) (\<lambda>s5 _.
     case execute svc provider requestID req base' s5 of (s6, result, err) \<Rightarrow> (s6, Inr (result, err)))))))"

definition outcome :: "(CapabilityResult \<times> goerr) + (CapabilityResult \<times> goerr option) \<Rightarrow> CapabilityResult \<times> goerr option" where
  "outcome r = (case r of Inl (res, e) \<Rightarrow> (res, Some e) | Inr out \<Rightarrow> out)"

definition request ::
  "'w Service option \<Rightarrow> 'w approval option \<Rightarrow> map_order \<Rightarrow> char list \<Rightarrow> CapabilityRequest \<Rightarrow> 'w
   \<Rightarrow> 'w st \<times> CapabilityResult \<times> goerr option" where
  "request service approval ord nonce req0 w =
     (let req = normalizeRequest ord req0; s0 = \<lparr>world = w, trace = [], deferred = None\<rparr> in
      case admit service req of
        Inl e \<Rightarrow> (s0, no_result, Some e)
      | Inr (svc, policy, provider) \<Rightarrow>
          (case perform svc policy approval provider (EncodeToString nonce) req s0 of
             (s, r) \<Rightarrow>
               (case outcome r of (result, err) \<Rightarrow>
                  (case deferred s of
                     None \<Rightarrow> (s, result, err)
                   | Some session \<Rightarrow> (s\<lparr>world := ss_Complete session result err (world s)\<rparr>, result, err)))))"

definition Request ::
  "'w Service \<Rightarrow> map_order \<Rightarrow> char list \<Rightarrow> CapabilityRequest \<Rightarrow> 'w \<Rightarrow> 'w st \<times> CapabilityResult \<times> goerr option" where
  "Request svc ord nonce req w = request (Some svc) (sv_approval svc) ord nonce req w"

definition RequestWithDecision ::
  "'w Service \<Rightarrow> map_order \<Rightarrow> char list \<Rightarrow> CapabilityRequest
   \<Rightarrow> (ApprovalRequest \<Rightarrow> 'w \<Rightarrow> 'w \<times> (goerr + ApprovalDecision)) option \<Rightarrow> 'w \<Rightarrow> 'w st \<times> CapabilityResult \<times> goerr option" where
  "RequestWithDecision svc ord nonce req decide w =
     request (Some svc) (map_option DecisionApproval decide) ord nonce req w"

definition RequestWithApproval ::
  "'w Service \<Rightarrow> map_order \<Rightarrow> char list \<Rightarrow> CapabilityRequest
   \<Rightarrow> (ApprovalRequest \<Rightarrow> 'w \<Rightarrow> 'w \<times> (goerr + bool)) option \<Rightarrow> 'w \<Rightarrow> 'w st \<times> CapabilityResult \<times> goerr option" where
  "RequestWithApproval svc ord nonce req approve w =
     request (Some svc) (map_option BooleanApproval approve) ord nonce req w"

section \<open>What a request does\<close>

text \<open>Every step appends to the trace.  \<open>quiet\<close> steps execute nothing.\<close>

definition quiet :: "action list \<Rightarrow> bool" where
  "quiet t \<longleftrightarrow> (\<forall>q b. Executed q b \<notin> set t)"

lemma quiet_simps [simp]:
  "quiet []" "quiet (t @ u) \<longleftrightarrow> quiet t \<and> quiet u" "quiet (Audited e b # t) = quiet t"
  "quiet (Evaluated r d # t) = quiet t" "quiet (Asked p # t) = quiet t" "quiet (Answered a # t) = quiet t"
  "quiet (Saved r c b # t) = quiet t" "quiet (Identified i # t) = quiet t" "\<not> quiet (Executed r b # t)"
  by (auto simp: quiet_def)

lemma quiet_code [code]: "quiet t = list_all (\<lambda>a. case a of Executed _ _ \<Rightarrow> False | _ \<Rightarrow> True) t"
  by (induction t) (auto simp: quiet_def split: action.splits)

definition quietly :: "'w st \<Rightarrow> 'w st \<Rightarrow> bool" where
  "quietly s s' \<longleftrightarrow> (\<exists>t. trace s' = trace s @ t \<and> quiet t)"

lemma quietly_refl [simp]: "quietly s s"
  by (simp add: quietly_def)

lemma quietly_trans [trans]: "quietly s t \<Longrightarrow> quietly t u \<Longrightarrow> quietly s u"
  by (auto simp: quietly_def)

lemma andThen_cases:
  assumes "andThen x f = (s', r)"
  obtains out where "x = (s', Inl out)" "r = Inl out" | s a where "x = (s, Inr a)" "f s a = (s', r)"
  using assms by (cases x; cases "snd x") (auto simp: andThen_def)

lemma log_simps [simp]: "trace (log a w s) = trace s @ [a]" "deferred (log a w s) = deferred s" "world (log a w s) = w"
  by (simp_all add: log_def)

text \<open>The fields of an event that name its request.\<close>

definition event_for :: "string \<Rightarrow> CapabilityRequest \<Rightarrow> CapabilityAuditEvent \<Rightarrow> bool" where
  "event_for requestID req ev \<longleftrightarrow> au_RequestID ev = requestID \<and> au_Capability ev = q_Capability req
     \<and> au_Action ev = q_Action req \<and> au_Resource ev = q_Resource req \<and> au_Environment ev = q_Environment req
     \<and> au_EnvironmentInstance ev = q_EnvironmentInstance req \<and> au_Attributes ev = q_Attributes req"

lemma record_event_trace:
  assumes "record_event svc i req event s = (s', err)" "sv_audit svc \<noteq> None"
  obtains ev where "trace s' = trace s @ [Audited ev (err = None)]" "event_for i req ev"
    "au_Type ev = au_Type event" "au_Decision ev = au_Decision event" "au_Approved ev = au_Approved event"
    "au_SavedScope ev = au_SavedScope event" "au_Success ev = au_Success event" "au_Reason ev = au_Reason event"
    "deferred s' = deferred s"
  using assms by (auto simp: record_event_def Let_def event_for_def split: prod.splits)

lemma evaluate_trace:
  assumes "evaluate policy req s = (s', r)"
  shows "trace s' = trace s @ [Evaluated req (case r of Inl _ \<Rightarrow> None | Inr e \<Rightarrow> Some (ev_Decision e))]"
    "deferred s' = deferred s"
  using assms by (auto simp: evaluate_def split: prod.splits sum.splits)

lemma record_event_quietly: "record_event svc i req event s = (s', err) \<Longrightarrow> quietly s s'"
  by (auto simp: record_event_def Let_def quietly_def split: option.splits prod.splits)

lemma evaluate_quietly: "evaluate policy req s = (s', r) \<Longrightarrow> quietly s s'"
  by (auto simp: evaluate_trace quietly_def)

lemma bind_identity_trace:
  assumes "bind_identity svc req s = (s', r)"
  shows "quietly s s'"
    "r = Inr (req', snapshot) \<Longrightarrow> req' = req\<lparr>q_EnvironmentInstance := q_EnvironmentInstance req'\<rparr>
       \<and> (q_EnvironmentInstance req \<noteq> [] \<longrightarrow> req' = req)"
  using assms by (auto simp: bind_identity_def Let_def quietly_def split: option.splits if_splits prod.splits sum.splits)

lemma obtain_decision_trace:
  assumes "obtain_decision ap prompt s = (s', a)"
  shows "trace s' = trace s @ [Asked prompt, Answered (case a of Inl _ \<Rightarrow> None | Inr d \<Rightarrow> Some d)]"
  using assms
  by (auto simp: obtain_decision_def Let_def split: approval.splits prod.splits sum.splits option.splits)

lemma obtain_decision_quietly: "obtain_decision ap prompt s = (s', a) \<Longrightarrow> quietly s s'"
  by (simp add: obtain_decision_trace quietly_def)

lemmas step_quietly = record_event_quietly evaluate_quietly obtain_decision_quietly

text \<open>The Policy phase: request and decision are recorded before anything follows from them.\<close>

lemma decide_policy_quietly: "decide_policy svc policy i req base s = (s', r) \<Longrightarrow> quietly s s'"
  by (auto simp: decide_policy_def split: option.splits prod.splits sum.splits if_splits
      dest!: step_quietly intro: quietly_trans)

lemma decide_policy_trace:
  assumes run: "decide_policy svc policy i req base s = (s', Inr e)" and audit: "sv_audit svc \<noteq> None"
  shows "\<exists>e1 e2. trace s' = trace s @ [Audited e1 True, Evaluated req (Some (ev_Decision e)), Audited e2 True]
       \<and> event_for i req e1 \<and> au_Type e1 = ''requested'' \<and> event_for i req e2 \<and> au_Type e2 = ''policy-decision''
       \<and> au_Decision e2 = ev_Decision e \<and> validDecision (ev_Decision e)"
proof -
  from run obtain s1 s2 where
    r1: "record_event svc i req (audit_event ''requested'') s = (s1, None)"
    and r2: "evaluate policy req s1 = (s2, Inr e)" and valid: "validDecision (ev_Decision e)"
    and r3: "record_event svc i req ((audit_event ''policy-decision'')\<lparr>au_Decision := ev_Decision e, au_Reason := ev_Reason e\<rparr>) s2
        = (s', None)"
    by (auto simp: decide_policy_def split: option.splits prod.splits sum.splits if_splits)
  from record_event_trace [OF r1 audit] obtain e1 where
    "trace s1 = trace s @ [Audited e1 True]" "event_for i req e1" "au_Type e1 = ''requested''"
    by (auto simp: audit_event_def)
  moreover from record_event_trace [OF r3 audit] obtain e2 where
    "trace s' = trace s2 @ [Audited e2 True]" "event_for i req e2" "au_Type e2 = ''policy-decision''" "au_Decision e2 = ev_Decision e"
    by (auto simp: audit_event_def)
  ultimately show ?thesis using evaluate_trace(1) [OF r2] valid by simp
qed

text \<open>Saving a choice: nothing to save, or a recorded save after which the Policy does not deny.\<close>

definition save_part :: "string \<Rightarrow> CapabilityRequest \<Rightarrow> string \<Rightarrow> action list \<Rightarrow> bool" where
  "save_part i req choice t \<longleftrightarrow> (choice = [] \<and> t = []) \<or>
     (\<exists>saved ev d. t = [Saved saved choice True, Audited ev True, Evaluated req (Some d)]
        \<and> event_for i req ev \<and> au_Type ev = ''policy-saved'' \<and> au_SavedScope ev = Some (audit_scope saved choice)
        \<and> (d = ''allow'' \<or> d = ''require-approval''))"

lemma save_choice_quietly: "save_choice svc policy i req saved choice base s = (s', r) \<Longrightarrow> quietly s s'"
proof -
  have logged: "quietly s (log (Saved r c b) w s)" for r c b w s by (simp add: quietly_def)
  show "save_choice svc policy i req saved choice base s = (s', r) \<Longrightarrow> quietly s s'"
    by (auto simp: save_choice_def Let_def split: option.splits prod.splits sum.splits if_splits
        dest!: step_quietly intro: quietly_trans [OF logged] quietly_trans)
qed

lemma save_choice_trace:
  assumes run: "save_choice svc policy i req saved choice base s = (s', Inr base')" and audit: "sv_audit svc \<noteq> None"
  shows "\<exists>t. trace s' = trace s @ t \<and> save_part i req choice t" and "base' = base\<lparr>cr_SavedChoice := cr_SavedChoice base'\<rparr>"
proof -
  show "base' = base\<lparr>cr_SavedChoice := cr_SavedChoice base'\<rparr>"
    using run by (auto simp: save_choice_def Let_def split: option.splits prod.splits sum.splits if_splits)
  show "\<exists>t. trace s' = trace s @ t \<and> save_part i req choice t"
  proof (cases "choice = []")
    case True
    with run show ?thesis by (simp add: save_choice_def save_part_def)
  next
    case False
    with run obtain w s1 e where
      r1: "record_event svc i req
        ((audit_event ''policy-saved'')\<lparr>au_SavedChoice := choice, au_SavedScope := Some (audit_scope saved choice)\<rparr>)
        (log (Saved saved choice True) w s) = (s1, None)"
      and r2: "evaluate policy req s1 = (s', Inr e)" "validDecision (ev_Decision e)" "ev_Decision e \<noteq> ''deny''"
      by (auto simp: save_choice_def Let_def split: option.splits prod.splits sum.splits if_splits)
    from record_event_trace [OF r1 audit] obtain ev where
      "trace s1 = trace s @ [Saved saved choice True, Audited ev True]" "event_for i req ev"
      "au_Type ev = ''policy-saved''" "au_SavedScope ev = Some (audit_scope saved choice)"
      by (auto simp: audit_event_def)
    then show ?thesis
      using evaluate_trace(1) [OF r2(1)] r2(2,3) by (auto simp: save_part_def validDecision_def)
  qed
qed

text \<open>An approval: the question without opaque parameters, an affirmative answer, its record, and
  the save.\<close>

definition approval_part :: "string \<Rightarrow> CapabilityRequest \<Rightarrow> action list \<Rightarrow> bool" where
  "approval_part i req t \<longleftrightarrow> (\<exists>prompt d ev rest. t = [Asked prompt, Answered (Some d), Audited ev True] @ rest
     \<and> ar_RequestID prompt = i \<and> ar_CapabilityRequest prompt = req\<lparr>q_Parameters := fmempty\<rparr>
     \<and> ad_Approved d \<and> event_for i req ev \<and> au_Type ev = ''approval-decision'' \<and> au_Approved ev = Some True
     \<and> save_part i req (ad_Save d) rest)"

lemma approval_phase_quietly:
  assumes "approval_phase svc policy approval provider i req e base s = (s', r)"
  shows "quietly s s'"
  using assms
  by (auto simp: approval_phase_def split: option.splits prod.splits sum.splits if_splits
      elim!: andThen_cases dest!: step_quietly save_choice_quietly intro: quietly_trans)

lemma approval_phase_trace:
  assumes run: "approval_phase svc policy approval provider i req e base s = (s', Inr base')" and audit: "sv_audit svc \<noteq> None"
  shows "\<exists>t. trace s' = trace s @ t \<and> approval_part i req t"
    and "base' = base\<lparr>cr_SavedChoice := cr_SavedChoice base'\<rparr>" and "approval \<noteq> None"
proof -
  from run obtain ap saved d s1 s2 where ap: "approval = Some ap"
    and r1: "obtain_decision ap \<lparr>ar_RequestID = i, ar_SavedScope = Some saved,
      ar_CapabilityRequest = req\<lparr>q_Parameters := fmempty\<rparr>, ar_Reason = ev_Reason e\<rparr> s = (s1, Inr d)"
    and r2: "record_event svc i req ((audit_event ''approval-decision'')\<lparr>au_Approved := Some (ad_Approved d),
      au_SavedChoice := ad_Save d, au_Reason := ev_Reason e\<rparr>) s1 = (s2, None)"
    and r3: "save_choice svc policy i req saved (ad_Save d) base s2 = (s', Inr base')" and yes: "ad_Approved d"
    by (auto simp: approval_phase_def checked_answer_def split: option.splits prod.splits sum.splits if_splits
        elim!: andThen_cases)
  from record_event_trace [OF r2 audit] obtain ev where
    "trace s2 = trace s1 @ [Audited ev True]" "event_for i req ev" "au_Type ev = ''approval-decision''" "au_Approved ev = Some True"
    using yes by (auto simp: audit_event_def)
  with obtain_decision_trace [OF r1] save_choice_trace(1) [OF r3 audit] yes
  show "\<exists>t. trace s' = trace s @ t \<and> approval_part i req t"
    by (fastforce simp: approval_part_def)
  show "base' = base\<lparr>cr_SavedChoice := cr_SavedChoice base'\<rparr>" by (rule save_choice_trace(2) [OF r3 audit])
  from ap show "approval \<noteq> None" by simp
qed

lemma authorize_quietly:
  "authorize svc policy approval provider i req e base s = (s', r) \<Longrightarrow> quietly s s'"
  by (auto simp: authorize_def split: if_splits dest!: approval_phase_quietly)

lemma recheck_quietly: "recheck svc policy i req e base s = (s', r) \<Longrightarrow> quietly s s'"
  by (auto simp: recheck_def split: option.splits prod.splits sum.splits dest!: step_quietly intro: quietly_trans)

lemma recheck_identity_quietly: "recheck_identity svc req snapshot base s = (s', r) \<Longrightarrow> quietly s s'"
  by (auto simp: recheck_identity_def quietly_def Let_def split: option.splits prod.splits sum.splits if_splits)

lemma recheck_trace:
  assumes "recheck svc policy i req e base s = (s', Inr u)"
  shows "\<exists>d. trace s' = trace s @ [Evaluated req (Some d)] \<and> recheck_error (ev_Decision e) d = None"
proof -
  from assms obtain current where "evaluate policy req s = (s', Inr current)"
    "recheck_error (ev_Decision e) (ev_Decision current) = None"
    by (auto simp: recheck_def split: option.splits prod.splits sum.splits)
  with evaluate_trace(1) show ?thesis by fastforce
qed

definition identity_part :: "'w Service \<Rightarrow> CapabilityRequest \<Rightarrow> action list \<Rightarrow> bool" where
  "identity_part svc req t \<longleftrightarrow> t = (if sv_identities svc = None \<or> q_Environment req = [] then []
     else [Identified (Some (q_EnvironmentInstance req))])"

lemma recheck_identity_trace:
  assumes "recheck_identity svc req snapshot base s = (s', Inr u)"
  shows "\<exists>t. trace s' = trace s @ t \<and> identity_part svc req t"
  using assms by (auto simp: recheck_identity_def identity_part_def Let_def split: option.splits prod.splits sum.splits if_splits)

lemma execute_trace:
  assumes run: "execute svc provider i req base s = (s', result, err)" and audit: "sv_audit svc \<noteq> None"
  shows "\<exists>ok ev rec. trace s' = trace s @ [Executed req ok, Audited ev rec] \<and> event_for i req ev
    \<and> au_Type ev = ''completed'' \<and> au_Success ev = Some ok
    \<and> cr_RequestID result = i \<and> cr_ExecutionState result = (if ok then ''succeeded'' else ''failed'')
    \<and> cr_AuditComplete result = rec \<and> (err = None \<longleftrightarrow> ok \<and> rec)
    \<and> (\<not> rec \<longrightarrow> (\<exists>e. err = Some e \<and> errors_Is e ErrAuditIncomplete))"
proof -
  obtain w result0 execErr where x: "pv_Execute provider i req (world s) = (w, result0, execErr)" by (metis prod_cases3)
  obtain s1 c where r: "record_event svc i req
      ((audit_event ''completed'')\<lparr>au_Success := Some (execErr = None), au_Reason := auditErrorReason execErr\<rparr>)
      (log (Executed req (execErr = None)) w s) = (s1, c)" by fastforce
  from record_event_trace [OF r audit] obtain ev where
    "trace s1 = trace s @ [Executed req (execErr = None), Audited ev (c = None)]" "event_for i req ev"
    "au_Type ev = ''completed''" "au_Success ev = Some (execErr = None)"
    by (auto simp: audit_event_def)
  moreover from run x r have "s1 = s'" "cr_RequestID result = i"
    "cr_ExecutionState result = (if execErr = None then ''succeeded'' else ''failed'')"
    "cr_AuditComplete result = (c = None)" "err = None \<longleftrightarrow> execErr = None \<and> c = None"
    "c \<noteq> None \<longrightarrow> (\<exists>e. err = Some e \<and> errors_Is e ErrAuditIncomplete)"
    by (auto simp: execute_def Let_def split: option.splits)
  ultimately show ?thesis by blast
qed

text \<open>The trace that authorises an execution.\<close>

definition authorized :: "'w Service \<Rightarrow> string \<Rightarrow> CapabilityRequest \<Rightarrow> action list \<Rightarrow> bool" where
  "authorized svc i req t \<longleftrightarrow> (\<exists>e1 e2 first mid last ids.
     t = [Audited e1 True, Evaluated req (Some first), Audited e2 True] @ mid @ [Evaluated req (Some last)] @ ids
     \<and> event_for i req e1 \<and> au_Type e1 = ''requested''
     \<and> event_for i req e2 \<and> au_Type e2 = ''policy-decision'' \<and> au_Decision e2 = first
     \<and> (first = ''allow'' \<and> mid = [] \<and> last = ''allow''
        \<or> first = ''require-approval'' \<and> approval_part i req mid \<and> (last = ''allow'' \<or> last = ''require-approval''))
     \<and> identity_part svc req ids)"

text \<open>The result of a request that has not executed yet: only the saved choice changes.\<close>

definition unexecuted :: "CapabilityResult \<Rightarrow> bool" where
  "unexecuted res \<longleftrightarrow> cr_ExecutionState res \<in> {[], ''not-executed''} \<and> \<not> cr_AuditComplete res
     \<and> cr_Output res = [] \<and> cr_Provider res = []"

lemma unexecuted_saved [simp]: "unexecuted (res\<lparr>cr_SavedChoice := c\<rparr>) = unexecuted res"
  by (simp add: unexecuted_def)

lemma save_choice_result:
  assumes "save_choice svc policy i req saved choice base s = (s', r)" "unexecuted base"
  shows "case r of Inl (res, err) \<Rightarrow> unexecuted res | Inr res \<Rightarrow> unexecuted res"
  using assms by (auto simp: save_choice_def Let_def split: option.splits prod.splits sum.splits if_splits)

lemma authorize_step:
  assumes run: "authorize svc policy approval provider i req e base s = (s', r)" and base: "unexecuted base"
  shows "quietly s s' \<and> (case r of Inl (res, err) \<Rightarrow> unexecuted res | Inr res \<Rightarrow> unexecuted res)"
proof
  show "quietly s s'" by (rule authorize_quietly [OF run])
  show "case r of Inl (res, err) \<Rightarrow> unexecuted res | Inr res \<Rightarrow> unexecuted res"
    using run base
    by (auto simp: authorize_def approval_phase_def split: option.splits prod.splits sum.splits if_splits
        elim!: andThen_cases dest!: save_choice_result)
qed

lemma decide_policy_step:
  "decide_policy svc policy i req base s = (s', r) \<Longrightarrow>
     quietly s s' \<and> (case r of Inl (res, err) \<Rightarrow> res = base | Inr _ \<Rightarrow> True)"
  using decide_policy_quietly [of svc policy i req base s s' r]
  by (auto simp: decide_policy_def split: option.splits prod.splits sum.splits if_splits)

lemma recheck_step:
  "recheck svc policy i req e base s = (s', r) \<Longrightarrow>
     quietly s s' \<and> (case r of Inl (res, err) \<Rightarrow> res = base | Inr _ \<Rightarrow> True)"
  using recheck_quietly [of svc policy i req e base s s' r]
  by (auto simp: recheck_def split: option.splits prod.splits sum.splits)

lemma recheck_identity_step:
  "recheck_identity svc req snapshot base s = (s', r) \<Longrightarrow>
     quietly s s' \<and> (case r of Inl (res, err) \<Rightarrow> res = base | Inr _ \<Rightarrow> True)"
  using recheck_identity_quietly [of svc req snapshot base s s' r]
  by (auto simp: recheck_identity_def Let_def split: option.splits prod.splits sum.splits if_splits)

lemma bind_identity_step:
  "bind_identity svc req s = (s', r) \<Longrightarrow>
     quietly s s' \<and> (case r of Inl (res, err) \<Rightarrow> res = no_result | Inr _ \<Rightarrow> True)"
  using bind_identity_trace(1) [of svc req s s' r]
  by (auto simp: bind_identity_def Let_def split: option.splits prod.splits sum.splits if_splits)

text \<open>A request that stops early executes nothing and says so.\<close>

lemma perform_early:
  assumes run: "perform svc policy approval provider i req0 s0 = (s', Inl (res, err))"
  shows "quietly s0 s' \<and> unexecuted res"
proof -
  have base: "unexecuted (no_result\<lparr>cr_RequestID := i, cr_ExecutionState := ''not-executed''\<rparr>)" "unexecuted no_result"
    by (simp_all add: unexecuted_def no_result_def)
  note steps = bind_identity_step decide_policy_step authorize_step [OF _ base(1)] recheck_step recheck_identity_step
  have "unexecuted res" using run base unfolding perform_def Let_def
    by (auto split: prod.splits elim!: andThen_cases dest!: steps)
  moreover have "quietly s0 s'" using run unfolding perform_def Let_def
    by (auto split: prod.splits elim!: andThen_cases dest!: steps) (meson quietly_trans)+
  ultimately show ?thesis by blast
qed

lemma perform_executes:
  assumes run: "perform svc policy approval provider i req0 s0 = (s', Inr (result, err))" and audit: "sv_audit svc \<noteq> None"
  shows "\<exists>req pre t ok ev rec. trace s' = trace s0 @ pre @ t @ [Executed req ok, Audited ev rec] \<and> quiet pre
    \<and> authorized svc i req t \<and> req = req0\<lparr>q_EnvironmentInstance := q_EnvironmentInstance req\<rparr>
    \<and> (q_EnvironmentInstance req0 \<noteq> [] \<longrightarrow> req = req0)
    \<and> event_for i req ev \<and> au_Type ev = ''completed'' \<and> au_Success ev = Some ok \<and> cr_RequestID result = i
    \<and> cr_ExecutionState result = (if ok then ''succeeded'' else ''failed'') \<and> cr_AuditComplete result = rec
    \<and> (err = None \<longleftrightarrow> ok \<and> rec) \<and> (\<not> rec \<longrightarrow> (\<exists>e. err = Some e \<and> errors_Is e ErrAuditIncomplete))"
proof -
  let ?base = "no_result\<lparr>cr_RequestID := i, cr_ExecutionState := ''not-executed''\<rparr>"
  from run obtain s1 s2 s3 s4 s5 req snapshot e base' u v where
    r0: "bind_identity svc req0 s0 = (s1, Inr (req, snapshot))"
    and r1: "decide_policy svc policy i req ?base s1 = (s2, Inr e)"
    and r2: "authorize svc policy approval provider i req e ?base s2 = (s3, Inr base')"
    and r3: "recheck svc policy i req e base' s3 = (s4, Inr u)"
    and r4: "recheck_identity svc req snapshot base' s4 = (s5, Inr v)"
    and r5: "execute svc provider i req base' s5 = (s', result, err)"
    by (auto simp: perform_def Let_def split: prod.splits elim!: andThen_cases)
  obtain pre where pre: "trace s1 = trace s0 @ pre" "quiet pre"
    using bind_identity_trace(1) [OF r0] by (auto simp: quietly_def)
  obtain e1 e2 where t1: "trace s2 = trace s1 @ [Audited e1 True, Evaluated req (Some (ev_Decision e)), Audited e2 True]"
    and ev: "event_for i req e1" "au_Type e1 = ''requested''" "event_for i req e2" "au_Type e2 = ''policy-decision''"
    "au_Decision e2 = ev_Decision e" "validDecision (ev_Decision e)"
    using decide_policy_trace [OF r1 audit] by blast
  obtain last where t3: "trace s4 = trace s3 @ [Evaluated req (Some last)]" "recheck_error (ev_Decision e) last = None"
    using recheck_trace [OF r3] by blast
  obtain mid where t2: "trace s3 = trace s2 @ mid"
    "ev_Decision e = ''allow'' \<and> mid = [] \<or> ev_Decision e = ''require-approval'' \<and> approval_part i req mid"
    using r2 ev(6) approval_phase_trace(1) [OF _ audit]
    by (cases "ev_Decision e = ''require-approval''") (fastforce simp: authorize_def validDecision_def split: if_splits)+
  obtain ids where t4: "trace s5 = trace s4 @ ids" "identity_part svc req ids"
    using recheck_identity_trace [OF r4] by blast
  have "authorized svc i req ([Audited e1 True, Evaluated req (Some (ev_Decision e)), Audited e2 True] @ mid
      @ [Evaluated req (Some last)] @ ids)"
    unfolding authorized_def using ev t2(2) t3(2) t4(2)
    by (intro exI conjI refl) (auto simp: recheck_error_def split: if_splits)
  moreover note execute_trace [OF r5 audit] bind_identity_trace(2) [OF r0 refl]
  ultimately show ?thesis using pre t1 t2(1) t3(1) t4(1) by (fastforce simp del: append_assoc simp: append_assoc [symmetric])
qed

end
