(* ===== verification/Egress.thy ===== *)
theory Egress
  imports CapabilityService
begin

text \<open>
  Outbound connections by host name: the canonical form of a host, the broker that sends one
  connection through the capability boundary and the provider that grants it
  (\<^verbatim>\<open>src/internal/network/egress/egress.go\<close>), and the proxy's reading of an authority
  (\<^verbatim>\<open>src/internal/adapters/network/proxy/authority.go\<close>).  Logging is not modelled.
\<close>

section \<open>Requests and hosts\<close>

record EgressRequest =
  eg_Environment :: string
  eg_Host :: string
  eg_Port :: int
  eg_Protocol :: string

record EgressGrant =
  gr_RequestID :: string
  gr_Environment :: string
  gr_Host :: string
  gr_Port :: int
  gr_Protocol :: string

definition host_label :: "string \<Rightarrow> bool" where
  "host_label l \<longleftrightarrow> l \<noteq> [] \<and> length l \<le> 63 \<and> hd l \<noteq> CHR ''-'' \<and> last l \<noteq> CHR ''-'' \<and> list_all alnumdash l"

definition CanonicalHost :: "string \<Rightarrow> error + string" where
  "CanonicalHost raw =
     (if raw = [] \<or> TrimSpace raw \<noteq> raw \<or> ContainsAny raw (crlf0 @ ''/@%'') then Inl ErrInvalidArgument
      else let lowered = ToLower raw;
               host = (if HasSuffix lowered ''.'' then TrimSuffix lowered ''.'' else lowered)
      in if host = [] \<or> length host > 253 \<or> ParseIP (Trim host ''[]'') \<noteq> None \<or> CHR '':'' \<in> set host
         then Inl ErrInvalidArgument
         else if \<not> list_all host_label (Split CHR ''.'' host) then Inl ErrInvalidArgument
         else Inr host)"

definition NormalizeRequest :: "EgressRequest \<Rightarrow> error + EgressRequest" where
  "NormalizeRequest r =
     (if TrimSpace (eg_Environment r) = [] \<or> TrimSpace (eg_Environment r) \<noteq> eg_Environment r
         \<or> ContainsAny (eg_Environment r) crlf0
      then Inl ErrInvalidArgument
      else case CanonicalHost (eg_Host r) of Inl e \<Rightarrow> Inl e | Inr host \<Rightarrow>
      if eg_Port r < 1 \<or> eg_Port r > 65535 then Inl ErrInvalidArgument
      else if eg_Protocol r = ''http'' \<or> eg_Protocol r = ''https'' then Inr (r\<lparr>eg_Host := host\<rparr>)
      else Inl ErrUnsupported)"

text \<open>The capability request of a normalised connection.\<close>

definition egress_capability :: "EgressRequest \<Rightarrow> CapabilityRequest" where
  "egress_capability n = no_request\<lparr>q_Capability := ''network.egress'', q_Action := ''connect'',
     q_Resource := eg_Host n, q_Environment := eg_Environment n,
     q_Attributes := fmupd ''port'' (Itoa (eg_Port n)) (fmupd ''protocol'' (eg_Protocol n) fmempty)\<rparr>"

definition Authorize ::
  "(CapabilityRequest \<Rightarrow> 'w \<Rightarrow> 'w \<times> CapabilityResult \<times> goerr option) option \<Rightarrow> EgressRequest \<Rightarrow> 'w
   \<Rightarrow> 'w \<times> (goerr + EgressGrant)" where
  "Authorize capabilities req w =
     (case capabilities of None \<Rightarrow> (w, Inl (Wrap (Some (Sentinel ErrPolicyDenied)))) | Some ask \<Rightarrow>
      case NormalizeRequest req of Inl e \<Rightarrow> (w, Inl (Sentinel e)) | Inr n \<Rightarrow>
      case ask (egress_capability n) w of
        (w', _, Some e) \<Rightarrow> (w', Inl e)
      | (w', result, None) \<Rightarrow>
          (w', Inr \<lparr>gr_RequestID = cr_RequestID result, gr_Environment = eg_Environment n, gr_Host = eg_Host n,
             gr_Port = eg_Port n, gr_Protocol = eg_Protocol n\<rparr>))"

text \<open>\<^verbatim>\<open>Provider.Execute\<close>: the grant of exactly the normalised connection.\<close>

definition egress_Execute :: "CapabilityRequest \<Rightarrow> CapabilityResult \<times> error option" where
  "egress_Execute q =
     (if q_Capability q \<noteq> ''network.egress'' \<or> q_Action q \<noteq> ''connect'' \<or> q_Parameters q \<noteq> fmempty
      then (no_result, Some ErrInvalidArgument)
      else if fcard (fmdom (q_Attributes q)) \<noteq> 2 then (no_result, Some ErrInvalidArgument)
      else case Atoi (getd [] (q_Attributes q) ''port'') of None \<Rightarrow> (no_result, Some ErrInvalidArgument) | Some port \<Rightarrow>
      case NormalizeRequest \<lparr>eg_Environment = q_Environment q, eg_Host = q_Resource q, eg_Port = port,
             eg_Protocol = getd [] (q_Attributes q) ''protocol''\<rparr> of
        Inl e \<Rightarrow> (no_result, Some e)
      | Inr n \<Rightarrow>
          if eg_Environment n \<noteq> q_Environment q \<or> eg_Host n \<noteq> q_Resource q
             \<or> Itoa (eg_Port n) \<noteq> getd [] (q_Attributes q) ''port''
             \<or> eg_Protocol n \<noteq> getd [] (q_Attributes q) ''protocol''
          then (no_result, Some ErrInvalidArgument)
          else (no_result\<lparr>cr_Provider := ''standard.egress.authorization''\<rparr>, None))"

definition egress_Provider :: "'w provider" where
  "egress_Provider = \<lparr>pv_Capability = ''network.egress'', pv_NonAuthorityParameters = None,
     pv_SavedApprovalScope = None,
     pv_Execute = (\<lambda>_ q w. case egress_Execute q of (result, err) \<Rightarrow> (w, result, map_option Sentinel err))\<rparr>"

section \<open>Authorities in proxy requests\<close>

text \<open>\<^verbatim>\<open>net.SplitHostPort\<close>: the port follows the last colon; brackets enclose the host.\<close>

definition last_colon :: "string \<Rightarrow> nat option" where
  "last_colon s = (if CHR '':'' \<in> set s
     then Some (length s - Suc (length (takeWhile (\<lambda>c. c \<noteq> CHR '':'') (rev s)))) else None)"

definition SplitHostPort :: "string \<Rightarrow> (string \<times> string) option" where
  "SplitHostPort s =
     (case last_colon s of None \<Rightarrow> None | Some i \<Rightarrow>
      let port = drop (Suc i) s in
      if HasPrefix s ''['' then
        (if CHR '']'' \<notin> set s then None
         else let end_bracket = length (takeWhile (\<lambda>c. c \<noteq> CHR '']'') s) in
         if Suc end_bracket \<noteq> i then None
         else if CHR ''['' \<in> set (drop 1 s) \<or> CHR '']'' \<in> set (drop (Suc end_bracket) s) then None
         else Some (drop 1 (take end_bracket s), port))
      else if CHR '':'' \<in> set (take i s) \<or> CHR ''['' \<in> set s \<or> CHR '']'' \<in> set s then None
      else Some (take i s, port))"

definition parseAuthority :: "string \<Rightarrow> int \<Rightarrow> error + string \<times> int" where
  "parseAuthority authority defaultPort =
     (if authority = [] \<or> ContainsAny authority (crlf0 @ ''/@'') then Inl ErrInvalidArgument
      else let canonical = (\<lambda>host port. case CanonicalHost host of Inl e \<Rightarrow> Inl e | Inr h \<Rightarrow> Inr (h, port))
      in case SplitHostPort authority of
           Some (host, parsedPort) \<Rightarrow>
             (case Atoi parsedPort of None \<Rightarrow> Inl ErrInvalidArgument
              | Some value \<Rightarrow> if value < 1 \<or> value > 65535 then Inl ErrInvalidArgument else canonical host value)
         | None \<Rightarrow> if CHR '':'' \<in> set authority then Inl ErrInvalidArgument else canonical authority defaultPort)"

section \<open>Canonical hosts\<close>

lemma CanonicalHostD:
  assumes "CanonicalHost raw = Inr h"
  shows "h \<noteq> []" "length h \<le> 253" "ParseIP (Trim h ''[]'') = None" "CHR '':'' \<notin> set h"
    "list_all host_label (Split CHR ''.'' h)"
  using assms by (auto simp: CanonicalHost_def Let_def split: if_splits)

definition host_char :: "char \<Rightarrow> bool" where
  "host_char c \<longleftrightarrow> alnumdash c \<or> c = CHR ''.''"

lemma Join_chars:
  "c \<in> set (Join sep ws) \<Longrightarrow> c \<in> set sep \<or> (\<exists>w\<in>set ws. c \<in> set w)"
  by (induction sep ws rule: Join.induct) auto

lemma host_labels_chars:
  assumes "list_all host_label (Split CHR ''.'' h)"
  shows "list_all host_char h"
proof -
  have "host_char c" if "c \<in> set h" for c
  proof -
    from that have "c \<in> set (Join ''.'' (Split CHR ''.'' h))" by (simp add: Join_Split)
    from Join_chars [OF this] assms show ?thesis
      by (auto simp: host_char_def host_label_def list_all_iff)
  qed
  then show ?thesis by (simp add: list_all_iff)
qed

lemma host_char_props:
  assumes "host_char c"
  shows "ascii_char c" "\<not> upper c" "of_char c < (128 :: nat)" "\<not> IsSpace (of_char c)"
    "c \<notin> set (crlf0 @ ''/@%'')"
  using assms
  by (auto simp: host_char_def go_simps ascii_char_def upper_def IsSpace_def crlf0_def)

lemma ToLower_host:
  assumes "list_all host_char h"
  shows "ToLower h = h"
proof -
  have "list_all ascii_char h" using assms host_char_props(1) by (auto simp: list_all_iff)
  moreover have "lower_segment (Some (of_char c), [c]) = [c]" if "c \<in> set h" for c
  proof -
    have "host_char c" using that assms by (simp add: list_all_iff)
    from host_char_props(2,3) [OF this] show ?thesis by (auto simp: lower_segment_def upper_def in_range_def)
  qed
  ultimately show ?thesis
    by (simp add: ToLower_def utf8_segments_ascii comp_def cong: map_cong)
qed

lemma TrimSpace_host:
  assumes "list_all host_char h"
  shows "TrimSpace h = h"
proof -
  have "list_all ascii_char h" using assms host_char_props(1) by (auto simp: list_all_iff)
  then have seg: "utf8_segments h = map (\<lambda>c. (Some (of_char c), [c])) h" by (rule utf8_segments_ascii)
  have "\<not> space_segment x" if "x \<in> set (utf8_segments h)" for x
    using that assms host_char_props(4) by (auto simp: seg space_segment_def list_all_iff)
  then show ?thesis by (intro TrimSpace_id) auto
qed

lemma Split_snoc: "Split sep (u @ [sep]) = Split sep u @ [[]]"
proof (induction u)
  case (Cons c u)
  then show ?case using Split_nonempty [of sep u] by (auto split: list.splits)
qed simp

lemma HasSuffix_snoc: "HasSuffix s [c] \<longleftrightarrow> (\<exists>t. s = t @ [c])"
  by (auto simp: HasSuffix_def HasPrefix_iff) (metis rev.simps(2) rev_rev_ident)

lemma host_no_dot_suffix: "list_all host_label (Split CHR ''.'' h) \<Longrightarrow> \<not> HasSuffix h ''.''"
  by (auto simp: HasSuffix_snoc Split_snoc host_label_def)

text \<open>A canonical host is its own canonical form.\<close>

lemma CanonicalHost_idem:
  assumes "CanonicalHost raw = Inr h"
  shows "CanonicalHost h = Inr h"
proof -
  note D = CanonicalHostD [OF assms]
  note chars = host_labels_chars [OF D(5)]
  have "\<not> ContainsAny h (crlf0 @ ''/@%'')"
    using chars host_char_props(5) by (auto simp: ContainsAny_def list_all_iff list_ex_iff)
  with D ToLower_host [OF chars] TrimSpace_host [OF chars] host_no_dot_suffix [OF D(5)]
  show ?thesis by (simp add: CanonicalHost_def Let_def)
qed

lemma NormalizeRequestD:
  assumes "NormalizeRequest r = Inr n"
  shows "n = r\<lparr>eg_Host := eg_Host n\<rparr>" "CanonicalHost (eg_Host r) = Inr (eg_Host n)"
    "TrimSpace (eg_Environment n) = eg_Environment n" "eg_Environment n \<noteq> []" "\<not> ContainsAny (eg_Environment n) crlf0"
    "1 \<le> eg_Port n" "eg_Port n \<le> 65535" "eg_Protocol n = ''http'' \<or> eg_Protocol n = ''https''"
  using assms by (auto simp: NormalizeRequest_def split: if_splits sum.splits)

lemma NormalizeRequest_idem:
  assumes "NormalizeRequest r = Inr n"
  shows "NormalizeRequest n = Inr n"
proof -
  note D = NormalizeRequestD [OF assms]
  from D(1) have "eg_Environment n = eg_Environment r" by (metis EgressRequest.ext_inject EgressRequest.surjective EgressRequest.update_convs(2))
  with D(3-8) CanonicalHost_idem [OF D(2)] show ?thesis by (auto simp: NormalizeRequest_def)
qed

text \<open>Two entries of a map of two.\<close>

lemma fcard_two:
  assumes "fcard (fmdom m) = 2" "fmlookup m a = Some x" "fmlookup m b = Some y" "a \<noteq> b"
  shows "m = fmupd a x (fmupd b y fmempty)"
proof -
  have "{|a, b|} |\<subseteq>| fmdom m" using assms by (auto simp: fmlookup_dom_iff)
  moreover have "fcard {|a, b|} = 2" using assms(4) by (simp add: fcard.rep_eq)
  ultimately have "fmdom m = {|a, b|}" using fcard_seteq [of "{|a, b|}" "fmdom m"] assms(1) by simp
  then show ?thesis using assms(2-4)
    by (intro fmap_ext) (metis fmdom_notD fmempty_lookup fmupd_lookup finsert_iff fempty_iff)
qed

text \<open>The provider grants exactly the requests the broker builds from normalised connections.\<close>

lemma egress_Execute_iff:
  "snd (egress_Execute q) = None \<longleftrightarrow>
     (\<exists>n. NormalizeRequest n = Inr n \<and> q = (egress_capability n)\<lparr>q_EnvironmentInstance := q_EnvironmentInstance q\<rparr>)"
proof
  assume ok: "snd (egress_Execute q) = None"
  then obtain port n where cap: "q_Capability q = ''network.egress''" "q_Action q = ''connect''" "q_Parameters q = fmempty"
    and card: "fcard (fmdom (q_Attributes q)) = 2" and port: "Atoi (getd [] (q_Attributes q) ''port'') = Some port"
    and n: "NormalizeRequest \<lparr>eg_Environment = q_Environment q, eg_Host = q_Resource q, eg_Port = port,
             eg_Protocol = getd [] (q_Attributes q) ''protocol''\<rparr> = Inr n"
    and eq: "eg_Environment n = q_Environment q" "eg_Host n = q_Resource q"
      "Itoa (eg_Port n) = getd [] (q_Attributes q) ''port''" "eg_Protocol n = getd [] (q_Attributes q) ''protocol''"
    by (auto simp: egress_Execute_def split: if_splits option.splits sum.splits)
  from port have "getd [] (q_Attributes q) ''port'' \<noteq> []" by (auto simp: Atoi_def Let_def HasPrefix_def)
  moreover from NormalizeRequestD(8) [OF n] eq(4) have "getd [] (q_Attributes q) ''protocol'' \<noteq> []" by auto
  ultimately have "q_Attributes q = fmupd ''port'' (Itoa (eg_Port n)) (fmupd ''protocol'' (eg_Protocol n) fmempty)"
    using card eq(3,4) by (intro fcard_two) (auto simp: getd_def split: option.splits)
  with cap eq(1,2) have "q = (egress_capability n)\<lparr>q_EnvironmentInstance := q_EnvironmentInstance q\<rparr>"
    by (simp add: egress_capability_def no_request_def)
  with NormalizeRequest_idem [OF n] show "\<exists>n. NormalizeRequest n = Inr n \<and>
      q = (egress_capability n)\<lparr>q_EnvironmentInstance := q_EnvironmentInstance q\<rparr>" by blast
next
  assume "\<exists>n. NormalizeRequest n = Inr n \<and> q = (egress_capability n)\<lparr>q_EnvironmentInstance := q_EnvironmentInstance q\<rparr>"
  then obtain n i where n: "NormalizeRequest n = Inr n" and q: "q = (egress_capability n)\<lparr>q_EnvironmentInstance := i\<rparr>" by blast
  from NormalizeRequestD(6,7) [OF n] have "Atoi (Itoa (eg_Port n)) = Some (eg_Port n)" by (intro Atoi_Itoa) auto
  moreover have eta: "\<lparr>eg_Environment = eg_Environment n, eg_Host = eg_Host n, eg_Port = eg_Port n, eg_Protocol = eg_Protocol n\<rparr> = n"
    by simp
  moreover have "q_Capability q = ''network.egress''" "q_Action q = ''connect''" "q_Parameters q = fmempty"
    "q_Environment q = eg_Environment n" "q_Resource q = eg_Host n" "fcard (fmdom (q_Attributes q)) = 2"
    "getd [] (q_Attributes q) ''port'' = Itoa (eg_Port n)" "getd [] (q_Attributes q) ''protocol'' = eg_Protocol n"
    by (simp_all add: q egress_capability_def no_request_def fcard.rep_eq)
  ultimately show "snd (egress_Execute q) = None" using n by (simp add: egress_Execute_def eta)
qed

section \<open>Authorities\<close>

lemma parseAuthority_sound:
  assumes "parseAuthority a d = Inr (h, p)"
  shows "CanonicalHost h = Inr h \<and> (p = d \<or> 1 \<le> p \<and> p \<le> 65535)"
  using assms
  by (auto simp: parseAuthority_def Let_def split: if_splits option.splits sum.splits intro: CanonicalHost_idem)

lemma last_colon_app: "CHR '':'' \<notin> set ds \<Longrightarrow> last_colon (h @ CHR '':'' # ds) = Some (length h)"
proof -
  assume "CHR '':'' \<notin> set ds"
  then have all: "takeWhile (\<lambda>c. c \<noteq> CHR '':'') (rev ds) = rev ds" by (auto simp: takeWhile_eq_all_conv)
  have "length (takeWhile (\<lambda>c. c \<noteq> CHR '':'') (rev ds)) = length ds" by (simp only: all length_rev)
  then show ?thesis by (simp add: last_colon_def takeWhile_tail)
qed

lemma SplitHostPort_plain:
  assumes "list_all host_char h" "h \<noteq> []" "list_all digit ds"
  shows "SplitHostPort (h @ CHR '':'' # ds) = Some (h, ds)"
proof -
  have chars: "c \<noteq> CHR '':'' \<and> c \<noteq> CHR ''['' \<and> c \<noteq> CHR '']''" if "c \<in> set h \<union> set ds" for c
    using that assms(1,3) by (auto simp: list_all_iff host_char_def go_simps)
  then have none: "CHR '':'' \<notin> set ds" "CHR '':'' \<notin> set h" "CHR ''['' \<notin> set (h @ ds)" "CHR '']'' \<notin> set (h @ ds)"
    by auto
  have "\<not> HasPrefix (h @ CHR '':'' # ds) ''[''"
    using chars assms(2) by (cases h) (auto simp: HasPrefix_def)
  with none show ?thesis by (simp add: SplitHostPort_def Let_def last_colon_app)
qed

text \<open>The proxy reads back the authority of a canonical host and port.\<close>

lemma parseAuthority_complete:
  assumes "CanonicalHost h = Inr h" "1 \<le> p" "p \<le> 65535"
  shows "parseAuthority (h @ CHR '':'' # Itoa p) d = Inr (h, p)"
proof -
  note D = CanonicalHostD [OF assms(1)]
  note chars = host_labels_chars [OF D(5)]
  have digits: "list_all digit (Itoa p)" using assms(2) digits_decimal [of "nat p"] by (simp add: Itoa_def)
  have "c \<notin> set (crlf0 @ ''/@'')" if "c \<in> set (h @ CHR '':'' # Itoa p)" for c
    using that chars digits host_char_props(5) by (auto simp: list_all_iff go_simps crlf0_def)
  then have "\<not> ContainsAny (h @ CHR '':'' # Itoa p) (crlf0 @ ''/@'')"
    by (auto simp: ContainsAny_def list_ex_iff)
  moreover have "Atoi (Itoa p) = Some p" using assms(2,3) by (intro Atoi_Itoa) auto
  ultimately show ?thesis
    using assms SplitHostPort_plain [OF chars D(1) digits] by (simp add: parseAuthority_def Let_def)
qed

end
