(* ===== verification/CapabilityHost.thy ===== *)
theory CapabilityHost
  imports Lifecycle Egress "HOL-Library.Sublist"
begin

text \<open>
  The capability service put together from the parts of the controller: the Policy file
  (\<^verbatim>\<open>FilePolicyEvaluator\<close>), the audit log (\<^verbatim>\<open>audit.go\<close>), the store as the resolver of Environment
  identities, and the providers \<^verbatim>\<open>local.echo\<close> (\<^verbatim>\<open>local.go\<close>) and \<^verbatim>\<open>network.egress\<close>.  The world is
  the state of the host.  The locale \<open>request_relation\<close> states what a request respects once, for
  any interfaces; it is interpreted on this host, where it shows that the audit log holds every
  event the service relied on and that a request changes nothing an administrator wrote.
\<close>

section \<open>The audit log\<close>

record sink_faults =
  sf_open :: "error option" \<comment> \<open>directory, open and chmod\<close>
  sf_encode :: "error option"
  sf_sync :: "error option"
  sf_close :: "error option"

definition JSONLAudit_Record ::
  "sink_faults \<Rightarrow> CapabilityAuditEvent \<Rightarrow> CapabilityAuditEvent list \<Rightarrow> CapabilityAuditEvent list \<times> error option" where
  "JSONLAudit_Record f event lines =
     (case sf_open f of Some e \<Rightarrow> (lines, Some e) | None \<Rightarrow>
      case sf_encode f of Some e \<Rightarrow> (lines, Some e) | None \<Rightarrow>
      (lines @ [event], case sf_sync f of Some e \<Rightarrow> Some e | None \<Rightarrow> sf_close f))"

section \<open>The host\<close>

record host =
  h_disk :: disk
  h_policy :: policy_content
  h_audit :: "CapabilityAuditEvent list"
  h_clock :: GoTime
  h_store_faults :: faults
  h_sink_faults :: sink_faults
  h_update :: update_faults
  h_nonce :: "char list"

definition lift_error :: "error + 'a \<Rightarrow> goerr + 'a" where
  "lift_error r = (case r of Inl e \<Rightarrow> Inl (Sentinel e) | Inr a \<Rightarrow> Inr a)"

definition file_policy :: "host policy" where
  "file_policy = \<lparr>po_Evaluate = (\<lambda>q h. (h, lift_error (Evaluate (h_clock h) (h_policy h) q))),
     po_Remember = Some (\<lambda>q choice h. case Remember (h_update h) q choice (h_policy h) of
       (c, err) \<Rightarrow> (h\<lparr>h_policy := c\<rparr>, map_option Sentinel err)),
     po_RememberScope = Some (\<lambda>q choice h. case RememberScope (h_update h) q choice (h_policy h) of
       (c, err) \<Rightarrow> (h\<lparr>h_policy := c\<rparr>, map_option Sentinel err))\<rparr>"

definition store_identities :: "host identities" where
  "store_identities = \<lparr>id_GetEnvironment = (\<lambda>name h. case run (h_store_faults h) (GetEnvironment name) (h_disk h) of
       (D, r) \<Rightarrow> (h\<lparr>h_disk := D\<rparr>, lift_error r)),
     id_EnvironmentInstance = (\<lambda>env h. case EnvironmentInstance (h_store_faults h) (h_nonce h) env (h_disk h) of
       (D, r) \<Rightarrow> (h\<lparr>h_disk := D\<rparr>, lift_error r))\<rparr>"

definition file_audit :: "CapabilityAuditEvent \<Rightarrow> host \<Rightarrow> host \<times> goerr option" where
  "file_audit event h = (case JSONLAudit_Record (h_sink_faults h) event (h_audit h) of
     (lines, err) \<Rightarrow> (h\<lparr>h_audit := lines\<rparr>, map_option Sentinel err))"

definition LocalEcho_Execute :: "CapabilityRequest \<Rightarrow> CapabilityResult \<times> error option" where
  "LocalEcho_Execute q =
     (if q_Action q \<noteq> ''echo'' then (no_result, Some ErrUnsupported)
      else (no_result\<lparr>cr_Provider := ''local.echo'', cr_Output := getd [] (q_Parameters q) ''message''\<rparr>, None))"

definition LocalEcho :: "'w provider" where
  "LocalEcho = \<lparr>pv_Capability = ''local.echo'', pv_NonAuthorityParameters = Some [''message''],
     pv_SavedApprovalScope = None,
     pv_Execute = (\<lambda>_ q w. case LocalEcho_Execute q of (result, err) \<Rightarrow> (w, result, map_option Sentinel err))\<rparr>"

definition ConfigureEnvironmentIdentity :: "'w identities option \<Rightarrow> 'w Service \<Rightarrow> 'w Service" where
  "ConfigureEnvironmentIdentity resolver svc = svc\<lparr>sv_identities := resolver\<rparr>"

text \<open>The human at the terminal: a function of the question.\<close>

definition human :: "(ApprovalRequest \<Rightarrow> goerr + ApprovalDecision) \<Rightarrow> 'w approval" where
  "human answer = DecisionApproval (\<lambda>prompt w. (w, answer prompt))"

definition host_service :: "(ApprovalRequest \<Rightarrow> goerr + ApprovalDecision) \<Rightarrow> host Service" where
  "host_service answer = ConfigureEnvironmentIdentity (Some store_identities)
     \<lparr>sv_identities = None, sv_policy = Some file_policy, sv_approval = Some (human answer),
      sv_audit = Some file_audit,
      sv_providers = fmupd ''network.egress'' egress_Provider (fmupd ''local.echo'' LocalEcho fmempty), sv_now = h_clock\<rparr>"

lemma host_service_New:
  "New (Some file_policy) (Some (human answer)) (Some file_audit) h_clock [Some LocalEcho, Some egress_Provider]
     = Inr ((host_service answer)\<lparr>sv_identities := None\<rparr>)"
proof -
  have "TrimSpace ''local.echo'' = ''local.echo''" "TrimSpace ''network.egress'' = ''network.egress''"
    by (rule TrimSpace_host, simp add: host_char_def go_simps)+
  then show ?thesis
    by (simp add: New_def LocalEcho_def egress_Provider_def host_service_def ConfigureEnvironmentIdentity_def
        ContainsAny_def crlf0_def Let_def)
qed

section \<open>What every call of a request respects\<close>

text \<open>
  A transitive relation that holds across every single call a request makes holds across the
  request.  The laws are one per interface; the client lemma walks through the phases of the
  service once.
\<close>

locale request_relation =
  fixes svc :: "'w Service" and policy :: "'w policy" and approval :: "'w approval option"
    and R :: "'w st \<Rightarrow> 'w st \<Rightarrow> bool"
  assumes refl: "R s s" and trans: "R s t \<Longrightarrow> R t u \<Longrightarrow> R s u"
    and records: "record_event svc i req ev s = (s', err) \<Longrightarrow> R s s'"
    and evaluates: "evaluate policy req s = (s', e) \<Longrightarrow> R s s'"
    and asks: "approval = Some ap \<Longrightarrow> obtain_decision ap prompt s = (s', a) \<Longrightarrow> R s s'"
    and remembers: "po_Remember policy = Some f \<or> po_RememberScope policy = Some f \<Longrightarrow>
      f req c (world s) = (w, err) \<Longrightarrow> R s (log (Saved req c (err = None)) w s)"
    and finds: "sv_identities svc = Some ids \<Longrightarrow> id_GetEnvironment ids name (world s) = (w, found) \<Longrightarrow> R s (s\<lparr>world := w\<rparr>)"
    and identifies: "sv_identities svc = Some ids \<Longrightarrow> id_EnvironmentInstance ids env (world s) = (w, inst) \<Longrightarrow>
      R s (log (Identified (case inst of Inl _ \<Rightarrow> None | Inr i \<Rightarrow> Some i)) w s)"
    and executes: "fmlookup (sv_providers svc) c = Some p \<Longrightarrow> pv_Execute p i req (world s) = (w, res, err) \<Longrightarrow>
      R s (log (Executed req (err = None)) w s)"
begin

lemmas calls = records evaluates

lemma saves:
  "po_Remember policy = Some f \<Longrightarrow> f req c (world s) = (w, err) \<Longrightarrow> R s (log (Saved req c (err = None)) w s)"
  "po_RememberScope policy = Some f \<Longrightarrow> f req c (world s) = (w, err) \<Longrightarrow> R s (log (Saved req c (err = None)) w s)"
  by (auto intro: remembers)

lemma bind_identity_respects:
  assumes "bind_identity svc req s = (s', r)"
  shows "R s s'"
proof (cases "sv_identities svc = None \<or> q_Environment req = []")
  case True
  with assms refl show ?thesis by (auto simp: bind_identity_def split: option.splits)
next
  case False
  then obtain ids where ids: "sv_identities svc = Some ids" by auto
  obtain w g where get: "id_GetEnvironment ids (q_Environment req) (world s) = (w, g)" by fastforce
  note found = finds [OF ids get]
  have logged: "R s (log (Identified (case x of Inl _ \<Rightarrow> None | Inr i \<Rightarrow> Some i)) w' s)"
    if "id_EnvironmentInstance ids env w = (w', x)" for env w' x
    using trans [OF found identifies [OF ids, of env "s\<lparr>world := w\<rparr>" w' x]] that by (simp add: log_def)
  show ?thesis
  proof (cases g)
    case (Inl e)
    with assms False ids get found show ?thesis by (simp add: bind_identity_def)
  next
    case (Inr env)
    obtain w' x where inst: "id_EnvironmentInstance ids env w = (w', x)" by fastforce
    from logged [OF this] show ?thesis using assms False ids get Inr inst
      by (auto simp: bind_identity_def Let_def split: sum.splits if_splits)
  qed
qed

lemma save_choice_respects: "save_choice svc policy i req saved choice base s = (s', r) \<Longrightarrow> R s s'"
  by (auto simp: save_choice_def Let_def refl split: option.splits prod.splits sum.splits if_splits
      dest!: calls saves intro: trans)

lemma approval_phase_respects:
  "approval_phase svc policy approval provider i req e base s = (s', r) \<Longrightarrow> R s s'"
  by (auto simp: approval_phase_def refl split: option.splits prod.splits sum.splits if_splits
      elim!: andThen_cases dest!: asks calls save_choice_respects intro: trans)

lemma authorize_respects: "authorize svc policy approval provider i req e base s = (s', r) \<Longrightarrow> R s s'"
  by (auto simp: authorize_def refl split: if_splits dest: approval_phase_respects)

lemma decide_policy_respects: "decide_policy svc policy i req base s = (s', r) \<Longrightarrow> R s s'"
  by (auto simp: decide_policy_def split: option.splits prod.splits sum.splits if_splits dest!: calls intro: trans)

lemma recheck_respects: "recheck svc policy i req e base s = (s', r) \<Longrightarrow> R s s'"
  by (auto simp: recheck_def split: option.splits prod.splits sum.splits dest!: calls intro: trans)

lemma recheck_identity_respects: "recheck_identity svc req snapshot base s = (s', r) \<Longrightarrow> R s s'"
  by (auto simp: recheck_identity_def Let_def refl split: option.splits prod.splits sum.splits if_splits dest!: identifies)

lemma execute_respects:
  assumes "fmlookup (sv_providers svc) c = Some provider" and "execute svc provider i req base s = (s', out)"
  shows "R s s'"
  using assms(2)
  by (auto simp: execute_def Let_def split: prod.splits option.splits
      dest!: calls executes [OF assms(1)] intro: trans)

lemma perform_respects:
  assumes provider: "fmlookup (sv_providers svc) c = Some provider"
    and "perform svc policy approval provider i req s = (s', r)"
  shows "R s s'"
proof -
  note phases = bind_identity_respects decide_policy_respects authorize_respects recheck_respects
    recheck_identity_respects execute_respects [OF provider]
  from assms(2) show ?thesis unfolding perform_def Let_def
    by (auto split: prod.splits elim!: andThen_cases dest!: phases) (meson trans)+
qed

end

section \<open>The host respects its administrator and its audit log\<close>

fun recorded :: "action list \<Rightarrow> CapabilityAuditEvent list" where
  "recorded (Audited ev True # t) = ev # recorded t"
| "recorded (_ # t) = recorded t"
| "recorded [] = []"

lemma recorded_one [simp]: "recorded [Audited ev ok] = (if ok then [ev] else [])"
  by (cases ok) simp_all

lemma recorded_append [simp]: "recorded (t @ u) = recorded t @ recorded u"
  by (induction t rule: recorded.induct) auto

definition administered :: "policy_content \<Rightarrow> (PolicyRule list \<times> string \<times> NetworkService list) option" where
  "administered c = (case load c of Inl _ \<Rightarrow> None | Inr p \<Rightarrow> Some (Rules p, Default p, NetworkServices p))"

definition denied_by_rule :: "policy_content \<Rightarrow> CapabilityRequest \<Rightarrow> bool" where
  "denied_by_rule c q \<longleftrightarrow> (case administered c of None \<Rightarrow> True
     | Some (rules, _) \<Rightarrow> \<exists>r\<in>set rules. rule_Decision r = ''deny'' \<and> rule_ExpiresAt r = None \<and> ruleMatches r q)"

definition upholds :: "host st \<Rightarrow> host st \<Rightarrow> bool" where
  "upholds s s' \<longleftrightarrow> h_update (world s') = h_update (world s) \<and> deferred s' = deferred s \<and>
     (\<exists>t l. trace s' = trace s @ t \<and> h_audit (world s') = h_audit (world s) @ l \<and> subseq (recorded t) l
        \<and> (u_edit (h_update (world s)) = None \<longrightarrow>
             administered (h_policy (world s')) = administered (h_policy (world s))
           \<and> (\<forall>q d. Evaluated q (Some d) \<in> set t \<and> denied_by_rule (h_policy (world s)) q \<longrightarrow> d = ''deny'')))"

lemma upholds_refl: "upholds s s"
  by (simp add: upholds_def)

lemma upholds_trans:
  assumes "upholds s s1" "upholds s1 s2"
  shows "upholds s s2"
proof -
  from assms obtain t l t' l' where st:
    "trace s1 = trace s @ t" "h_audit (world s1) = h_audit (world s) @ l" "subseq (recorded t) l"
    "trace s2 = trace s1 @ t'" "h_audit (world s2) = h_audit (world s1) @ l'" "subseq (recorded t') l'"
    and adm: "u_edit (h_update (world s)) = None \<longrightarrow> administered (h_policy (world s1)) = administered (h_policy (world s))
           \<and> (\<forall>q d. Evaluated q (Some d) \<in> set t \<and> denied_by_rule (h_policy (world s)) q \<longrightarrow> d = ''deny'')"
      "u_edit (h_update (world s)) = None \<longrightarrow> administered (h_policy (world s2)) = administered (h_policy (world s1))
           \<and> (\<forall>q d. Evaluated q (Some d) \<in> set t' \<and> denied_by_rule (h_policy (world s1)) q \<longrightarrow> d = ''deny'')"
    and upd: "h_update (world s2) = h_update (world s)" "deferred s2 = deferred s"
    by (auto simp: upholds_def)
  have same: "u_edit (h_update (world s)) = None \<longrightarrow> denied_by_rule (h_policy (world s1)) = denied_by_rule (h_policy (world s))"
    using adm(1) by (auto simp: denied_by_rule_def fun_eq_iff)
  have "trace s2 = trace s @ t @ t'" "h_audit (world s2) = h_audit (world s) @ l @ l'"
    "subseq (recorded (t @ t')) (l @ l')"
    using st list_emb_append_mono by (auto simp: list_emb_append_mono)
  moreover have "u_edit (h_update (world s)) = None \<longrightarrow> administered (h_policy (world s2)) = administered (h_policy (world s))
      \<and> (\<forall>q d. Evaluated q (Some d) \<in> set (t @ t') \<and> denied_by_rule (h_policy (world s)) q \<longrightarrow> d = ''deny'')"
    using adm same by (metis Un_iff set_append)
  ultimately show ?thesis using upd unfolding upholds_def
    by (intro conjI exI [of _ "t @ t'"] exI [of _ "l @ l'"])
qed

lemma upholds_calm:
  assumes "h_update w = h_update (world s)" "h_audit w = h_audit (world s)" "h_policy w = h_policy (world s)"
    and "recorded [a] = []" "\<And>q d. a \<noteq> Evaluated q (Some d)"
  shows "upholds s (log a w s)"
  using assms by (auto simp: upholds_def)

lemma Evaluate_denied:
  assumes "Evaluate now c q = Inr e" "denied_by_rule c q"
  shows "ev_Decision e = ''deny''"
proof -
  from assms(1) obtain p where p: "load c = Inr p" and e: "e = evaluate_policy now p q"
    by (auto simp: Evaluate_def split: sum.splits)
  with assms(2) obtain r where "r \<in> set (Rules p)" "rule_Decision r = ''deny''" "rule_ExpiresAt r = None" "ruleMatches r q"
    by (auto simp: denied_by_rule_def administered_def)
  then have "''deny'' \<in> matched now p q"
    by (force simp: matched_def matching_def applies_def expired_def)
  with evaluate_decision [OF p, of now q] e show ?thesis by simp
qed

lemma remember_administered:
  assumes "rememberRule f rule c = (c', err)" "u_edit f = None"
  shows "administered c' = administered c"
  using updatePolicy_cases [OF assms(1) [unfolded rememberRule_def]] assms(2)
  by (auto simp: rememberRule_change_def administered_def load_def split: sum.splits)

lemma Remember_administered:
  "Remember f q choice c = (c', err) \<Longrightarrow> u_edit f = None \<Longrightarrow> administered c' = administered c"
  "RememberScope f q choice c = (c', err) \<Longrightarrow> u_edit f = None \<Longrightarrow> administered c' = administered c"
  by (auto simp: Remember_def RememberScope_def split: sum.splits if_splits dest: remember_administered)

lemma file_audit_upholds:
  assumes "file_audit ev (world s) = (w, err)"
  shows "upholds s (log (Audited ev (err = None)) w s)"
  using assms
  by (auto simp: file_audit_def JSONLAudit_Record_def upholds_def split: option.splits prod.splits)

lemma file_policy_upholds:
  assumes "evaluate file_policy q s = (s', r)"
  shows "upholds s s'"
  using assms
  by (auto simp: evaluate_def file_policy_def lift_error_def upholds_def dest: Evaluate_denied
      split: sum.splits prod.splits)

lemma file_policy_saves_upholds:
  assumes "po_Remember file_policy = Some f \<or> po_RememberScope file_policy = Some f" "f q c (world s) = (w, err)"
  shows "upholds s (log (Saved q c (err = None)) w s)"
  using assms
  by (auto simp: file_policy_def upholds_def split: prod.splits) (erule (1) Remember_administered)+

lemma store_identities_upholds:
  "id_GetEnvironment store_identities name (world s) = (w, found) \<Longrightarrow> upholds s (s\<lparr>world := w\<rparr>)"
  "id_EnvironmentInstance store_identities env (world s) = (w, inst) \<Longrightarrow>
     upholds s (log (Identified i) w s)"
  by (auto simp: store_identities_def upholds_def split: prod.splits)

lemma host_providers_upholds:
  assumes "fmlookup (sv_providers (host_service answer)) c = Some p" "pv_Execute p i q (world s) = (w, res, err)"
  shows "upholds s (log (Executed q b) w s)"
proof -
  have "w = world s" using assms
    by (auto simp: host_service_def ConfigureEnvironmentIdentity_def LocalEcho_def egress_Provider_def
        split: if_splits prod.splits)
  then show ?thesis by (auto intro: upholds_calm)
qed

lemma host_service_parts:
  "sv_policy (host_service answer) = Some file_policy" "sv_audit (host_service answer) = Some file_audit"
  "sv_identities (host_service answer) = Some store_identities" "sv_approval (host_service answer) = Some (human answer)"
  by (simp_all add: host_service_def ConfigureEnvironmentIdentity_def)

interpretation host: request_relation "host_service answer" file_policy "Some (human answer')" upholds
proof
  fix i req ev s s' and err :: "goerr option"
  show "record_event (host_service answer) i req ev s = (s', err) \<Longrightarrow> upholds s s'"
    by (auto simp: record_event_def host_service_parts Let_def split: prod.splits dest: file_audit_upholds)
next
  fix ap prompt and s s' :: "host st" and a :: "goerr + ApprovalDecision"
  assume "Some (human answer') = Some ap" "obtain_decision ap prompt s = (s', a)"
  then have "s' = log (Answered (case a of Inl _ \<Rightarrow> None | Inr d \<Rightarrow> Some d)) (world s) (log (Asked prompt) (world s) s)"
    by (auto simp: human_def obtain_decision_def log_def Let_def split: sum.splits)
  then show "upholds s s'" by (auto intro!: upholds_trans [OF upholds_calm upholds_calm])
qed (auto intro: upholds_refl upholds_trans file_policy_upholds file_policy_saves_upholds
    store_identities_upholds host_providers_upholds simp: host_service_parts)

text \<open>So a request upholds both, whatever it is and however it ends.\<close>

lemma host_request_upholds:
  assumes "request (Some (host_service answer)) (Some (human answer')) ord nonce q w = (s, result, err)"
  shows "upholds \<lparr>world = w, trace = [], deferred = None\<rparr> s"
proof -
  let ?s0 = "\<lparr>world = w, trace = [], deferred = None\<rparr>"
  show ?thesis
  proof (cases "admit (Some (host_service answer)) (normalizeRequest ord q)")
    case (Inl e)
    with assms show ?thesis by (simp add: request_def Let_def upholds_refl)
  next
    case (Inr a)
    obtain svc policy provider where a: "a = (svc, policy, provider)" by (cases a)
    with Inr have parts: "svc = host_service answer" "policy = file_policy"
      and found: "fmlookup (sv_providers (host_service answer)) (q_Capability (normalizeRequest ord q)) = Some provider"
      by (auto simp: admit_def host_service_parts split: option.splits if_splits)
    obtain s1 r where run: "perform (host_service answer) file_policy (Some (human answer')) provider
        (EncodeToString nonce) (normalizeRequest ord q) ?s0 = (s1, r)" by fastforce
    from host.perform_respects [OF found run] have up: "upholds ?s0 s1" .
    then have "deferred s1 = None" by (simp add: upholds_def)
    with assms Inr a parts run up show ?thesis by (auto simp: request_def Let_def split: prod.splits)
  qed
qed

end
