(* ===== verification/ApprovalQueue.thy ===== *)
theory ApprovalQueue
  imports PolicyRules
begin

text \<open>
  Bounded waiting for a human answer (\<^verbatim>\<open>src/internal/policy/approvals/queue.go\<close>) and the join of
  several such sources (\<^verbatim>\<open>src/internal/policy/review/service.go\<close>).

  An admitted request is an object shared by the waiting caller, the reviewer and the queue, so
  entries live in a heap and the queue maps request identifiers to addresses.  The one-element
  channels \<^verbatim>\<open>decision\<close> and \<^verbatim>\<open>completed\<close> are options.  A blocking \<^verbatim>\<open>select\<close> is a function of the
  case that fires, which is \<open>None\<close> when that case is not ready.  The mutex makes every operation
  one step of \<open>queue_step\<close>; time and cancellation are steps of the surroundings.
\<close>

section \<open>The size of a prompt\<close>

text \<open>\<^verbatim>\<open>json.Marshal\<close> of an approval request: strings with HTML escaping, fields in declaration
  order, empty optional fields left out, map keys sorted.\<close>

definition json_escape :: "nat option \<times> string \<Rightarrow> string" where
  "json_escape p =
     (case p of
        (None, _) \<Rightarrow> CHR 0x5C # ''ufffd''
      | (Some r, bytes) \<Rightarrow>
          if r = 34 \<or> r = 92 then CHR 0x5C # bytes
          else if r = 8 then CHR 0x5C # ''b'' else if r = 12 then CHR 0x5C # ''f''
          else if r = 10 then CHR 0x5C # ''n'' else if r = 13 then CHR 0x5C # ''r''
          else if r = 9 then CHR 0x5C # ''t''
          else if r < 32 \<or> r = 60 \<or> r = 62 \<or> r = 38
          then CHR 0x5C # ''u00'' @ [hex_digit (r div 16), hex_digit (r mod 16)]
          else if r = 8232 \<or> r = 8233 then CHR 0x5C # ''u202'' @ [hex_digit (r mod 16)]
          else bytes)"

definition json_string :: "string \<Rightarrow> string" where
  "json_string s = CHR 0x22 # concat (map json_escape (utf8_segments s)) @ [CHR 0x22]"

definition json_object :: "(string \<times> string) list \<Rightarrow> string" where
  "json_object members = CHR ''{'' # Join '','' (map (\<lambda>(k, v). json_string k @ CHR '':'' # v) members) @ ''}''"

definition omitempty :: "string \<Rightarrow> string \<Rightarrow> (string \<times> string) list" where
  "omitempty k v = (if v = [] then [] else [(k, json_string v)])"

definition json_CapabilityRequest :: "CapabilityRequest \<Rightarrow> string" where
  "json_CapabilityRequest q = json_object
     (omitempty ''environment_instance'' (q_EnvironmentInstance q)
      @ [(''capability'', json_string (q_Capability q)), (''action'', json_string (q_Action q))]
      @ omitempty ''resource'' (q_Resource q) @ omitempty ''environment'' (q_Environment q)
      @ (if q_Attributes q = fmempty then []
         else [(''attributes'', json_object (map (\<lambda>(k, v). (k, json_string v)) (sorted_list_of_fmap (q_Attributes q))))]))"

definition json_ApprovalRequest :: "ApprovalRequest \<Rightarrow> string" where
  "json_ApprovalRequest a = json_object
     ([(''request_id'', json_string (ar_RequestID a))]
      @ (case ar_SavedScope a of None \<Rightarrow> [] | Some scope \<Rightarrow> [(''saved_scope'', json_CapabilityRequest scope)])
      @ [(''request'', json_CapabilityRequest (ar_CapabilityRequest a))]
      @ omitempty ''reason'' (ar_Reason a))"

section \<open>The queue\<close>

definition MaxPending :: nat where "MaxPending = 128"
definition MaxPerEnvironment :: nat where "MaxPerEnvironment = 16"
definition MaxPromptBytes :: nat where "MaxPromptBytes = 16 * 1024"
definition ApprovalLifetime :: int where "ApprovalLifetime = 2 * 60 * 10 ^ 9" \<comment> \<open>nanoseconds\<close>

record entry =
  en_request :: ApprovalRequest
  en_ctx :: "error option"
  en_expires :: int
  en_claimed :: bool
  en_decision :: "ApprovalDecision option"
  en_completed :: "(CapabilityResult \<times> goerr option) option"

record Queue =
  qu_entries :: "nat gomap"
  qu_heap :: "entry list"
  qu_lifetime :: int

definition New_Queue :: Queue where
  "New_Queue = \<lparr>qu_entries = fmempty, qu_heap = [], qu_lifetime = ApprovalLifetime\<rparr>"

definition entry_environment :: "Queue \<Rightarrow> nat \<Rightarrow> string" where
  "entry_environment q a = q_Environment (ar_CapabilityRequest (en_request (qu_heap q ! a)))"

definition pending_in :: "Queue \<Rightarrow> string \<Rightarrow> nat" where
  "pending_in q env = fcard (fmdom (fmfilter (\<lambda>k. case fmlookup (qu_entries q) k of
     None \<Rightarrow> False | Some a \<Rightarrow> entry_environment q a = env) (qu_entries q)))"

definition BeginApproval ::
  "error option \<Rightarrow> int \<Rightarrow> ApprovalRequest \<Rightarrow> Queue \<Rightarrow> Queue \<times> (error + nat)" where
  "BeginApproval ctx now request q =
     (case ctx of Some e \<Rightarrow> (q, Inl e) | None \<Rightarrow>
      if ar_RequestID request = [] \<or> length (ar_RequestID request) > 128 then (q, Inl ErrInvalidArgument)
      else let request = CloneApprovalRequest request in
      if length (json_ApprovalRequest request) > MaxPromptBytes then (q, Inl ErrInvalidArgument)
      else if qu_lifetime q \<le> 0 then (q, Inl ErrIncompatibleState)
      else if present (qu_entries q) (ar_RequestID request) then (q, Inl ErrAlreadyExists)
      else if fcard (fmdom (qu_entries q)) \<ge> MaxPending
           \<or> pending_in q (q_Environment (ar_CapabilityRequest request)) \<ge> MaxPerEnvironment
      then (q, Inl ErrApprovalDenied)
      else let a = length (qu_heap q);
               item = \<lparr>en_request = request, en_ctx = None, en_expires = now + qu_lifetime q, en_claimed = False,
                 en_decision = None, en_completed = None\<rparr>
      in (q\<lparr>qu_entries := fmupd (ar_RequestID request) a (qu_entries q), qu_heap := qu_heap q @ [item]\<rparr>, Inr a))"

definition set_entry :: "nat \<Rightarrow> (entry \<Rightarrow> entry) \<Rightarrow> Queue \<Rightarrow> Queue" where
  "set_entry a f q = q\<lparr>qu_heap := (qu_heap q)[a := f (qu_heap q ! a)]\<rparr>"

datatype decide_case = FromDecision | FromContext | FromEntryContext | FromTimer

text \<open>\<^verbatim>\<open>entry.Decide\<close>: the case of the select that fires, at a time at which it is ready.\<close>

definition Decide ::
  "decide_case \<Rightarrow> error option \<Rightarrow> int \<Rightarrow> nat \<Rightarrow> Queue \<Rightarrow> (Queue \<times> (error + ApprovalDecision)) option" where
  "Decide sel ctx now a q =
     (let item = qu_heap q ! a in
      case sel of
        FromDecision \<Rightarrow>
          (case en_decision item of
             None \<Rightarrow> None
           | Some decision \<Rightarrow>
               Some (set_entry a (\<lambda>i. i\<lparr>en_decision := None\<rparr>) q,
                 case ctx of Some e \<Rightarrow> Inl e | None \<Rightarrow>
                 case en_ctx item of Some e \<Rightarrow> Inl e | None \<Rightarrow>
                 if \<not> now < en_expires item then Inl ContextDeadlineExceeded else Inr decision))
      | FromContext \<Rightarrow> map_option (\<lambda>e. (q, Inl e)) ctx
      | FromEntryContext \<Rightarrow> map_option (\<lambda>e. (q, Inl e)) (en_ctx item)
      | FromTimer \<Rightarrow> if en_expires item \<le> now then Some (q, Inl ContextDeadlineExceeded) else None)"

definition answerable :: "int \<Rightarrow> entry \<Rightarrow> bool" where
  "answerable now item \<longleftrightarrow> \<not> en_claimed item \<and> en_ctx item = None \<and> now < en_expires item"

definition PendingApprovals :: "int \<Rightarrow> Queue \<Rightarrow> ApprovalRequest list" where
  "PendingApprovals now q = sort_key ar_RequestID
     (map (\<lambda>(_, a). CloneApprovalRequest (en_request (qu_heap q ! a)))
       (filter (\<lambda>(_, a). answerable now (qu_heap q ! a)) (sorted_list_of_fmap (qu_entries q))))"

text \<open>\<^verbatim>\<open>DecideApproval\<close> up to releasing the mutex, then waiting for the outcome.\<close>

definition claim_approval ::
  "error option \<Rightarrow> int \<Rightarrow> string \<Rightarrow> ApprovalDecision \<Rightarrow> Queue \<Rightarrow> Queue \<times> (error + nat)" where
  "claim_approval ctx now i decision q =
     (case ctx of Some e \<Rightarrow> (q, Inl e) | None \<Rightarrow>
      case fmlookup (qu_entries q) i of None \<Rightarrow> (q, Inl ErrNotFound) | Some a \<Rightarrow>
      if \<not> answerable now (qu_heap q ! a) then (q, Inl ErrNotFound)
      else case ValidateApprovalDecision (en_request (qu_heap q ! a)) decision of
        Some e \<Rightarrow> (q, Inl e)
      | None \<Rightarrow> (set_entry a (\<lambda>item. item\<lparr>en_claimed := True, en_decision := Some decision\<rparr>) q, Inr a))"

definition await_outcome ::
  "bool \<Rightarrow> error option \<Rightarrow> string \<Rightarrow> ApprovalDecision \<Rightarrow> nat \<Rightarrow> Queue \<Rightarrow> (Queue \<times> CapabilityResult \<times> goerr option) option" where
  "await_outcome fromContext ctx i decision a q =
     (if fromContext then map_option (\<lambda>e. (q, no_result\<lparr>cr_RequestID := i\<rparr>, Some (Sentinel e))) ctx
      else case en_completed (qu_heap q ! a) of
        None \<Rightarrow> None
      | Some (result, err) \<Rightarrow>
          Some (set_entry a (\<lambda>item. item\<lparr>en_completed := None\<rparr>) q, result,
            if ad_Save decision \<noteq> [] \<and> cr_SavedChoice result \<noteq> ad_Save decision
            then (if err \<noteq> None then err else Some (Sentinel ErrIncompatibleState))
            else if \<not> ad_Approved decision \<and> (case err of None \<Rightarrow> False
                      | Some e \<Rightarrow> errors_Is e ErrApprovalDenied \<or> e = Sentinel ErrPolicyDenied) then None
            else err))"

definition Complete :: "nat \<Rightarrow> CapabilityResult \<Rightarrow> goerr option \<Rightarrow> Queue \<Rightarrow> Queue" where
  "Complete a result err q =
     (let i = ar_RequestID (en_request (qu_heap q ! a)) in
      if fmlookup (qu_entries q) i \<noteq> Some a then q
      else set_entry a (\<lambda>item. item\<lparr>en_completed :=
             Some (result\<lparr>cr_Output := []\<rparr>, if cr_RequestID result \<noteq> i then Some (Sentinel ErrIncompatibleState) else err)\<rparr>)
           (q\<lparr>qu_entries := fmdrop i (qu_entries q)\<rparr>))"

text \<open>\<^verbatim>\<open>Approve\<close> is refused: an asynchronous provider needs the session.\<close>

definition Approve :: "ApprovalRequest \<Rightarrow> error + bool" where
  "Approve request = Inl ErrUnsupported"

section \<open>Steps of the queue and its surroundings\<close>

inductive queue_step :: "int \<times> Queue \<Rightarrow> int \<times> Queue \<Rightarrow> bool" where
  admit: "BeginApproval ctx now request q = (q', r) \<Longrightarrow> queue_step (now, q) (now, q')"
| answer: "claim_approval ctx now i decision q = (q', r) \<Longrightarrow> queue_step (now, q) (now, q')"
| take_decision: "a < length (qu_heap q) \<Longrightarrow> Decide sel ctx now a q = Some (q', d) \<Longrightarrow> queue_step (now, q) (now, q')"
| take_outcome: "a < length (qu_heap q) \<Longrightarrow> await_outcome c ctx i decision a q = Some (q', out)
    \<Longrightarrow> queue_step (now, q) (now, q')"
| finish: "a < length (qu_heap q) \<Longrightarrow> queue_step (now, q) (now, Complete a result err q)"
| cancel: "a < length (qu_heap q) \<Longrightarrow> queue_step (now, q) (now, set_entry a (\<lambda>item. item\<lparr>en_ctx := Some e\<rparr>) q)"
| tick: "now \<le> now' \<Longrightarrow> queue_step (now, q) (now', q)"

inductive_cases queue_stepE: "queue_step (now, q) (now', q')"

section \<open>The invariant\<close>

definition pending_set :: "Queue \<Rightarrow> string \<Rightarrow> string set" where
  "pending_set q env = {k. \<exists>a. fmlookup (qu_entries q) k = Some a \<and> entry_environment q a = env}"

definition entry_ok :: "entry \<Rightarrow> bool" where
  "entry_ok item \<longleftrightarrow> (en_decision item \<noteq> None \<longrightarrow> en_claimed item)
     \<and> (\<forall>d. en_decision item = Some d \<longrightarrow> ValidateApprovalDecision (en_request item) d = None)
     \<and> length (json_ApprovalRequest (en_request item)) \<le> MaxPromptBytes
     \<and> CloneApprovalRequest (en_request item) = en_request item"

definition queue_ok :: "Queue \<Rightarrow> bool" where
  "queue_ok q \<longleftrightarrow>
     (\<forall>i a. fmlookup (qu_entries q) i = Some a \<longrightarrow> a < length (qu_heap q)
        \<and> ar_RequestID (en_request (qu_heap q ! a)) = i \<and> en_completed (qu_heap q ! a) = None)
     \<and> fcard (fmdom (qu_entries q)) \<le> MaxPending
     \<and> (\<forall>env. card (pending_set q env) \<le> MaxPerEnvironment)
     \<and> (\<forall>item\<in>set (qu_heap q). entry_ok item)"

lemma pending_set_subset: "pending_set q env \<subseteq> fset (fmdom (qu_entries q))"
  by (auto simp: pending_set_def fmlookup_dom_iff)

lemma finite_pending_set [simp]: "finite (pending_set q env)"
  by (rule finite_subset [OF pending_set_subset]) simp

lemma pending_in_card: "pending_in q env = card (pending_set q env)"
proof -
  have "fset (fmdom (fmfilter (\<lambda>k. case fmlookup (qu_entries q) k of
      None \<Rightarrow> False | Some a \<Rightarrow> entry_environment q a = env) (qu_entries q))) = pending_set q env"
    by (auto simp: pending_set_def fmlookup_dom_iff fmlookup_filter split: option.splits if_splits)
  then show ?thesis by (simp add: pending_in_def fcard.rep_eq)
qed

lemma set_entry_simps [simp]:
  "qu_entries (set_entry a f q) = qu_entries q" "length (qu_heap (set_entry a f q)) = length (qu_heap q)"
  "b < length (qu_heap q) \<Longrightarrow> qu_heap (set_entry a f q) ! b = (if a = b then f (qu_heap q ! a) else qu_heap q ! b)"
  by (simp_all add: set_entry_def nth_list_update)

text \<open>Changing an entry but not its request keeps the invariant when it keeps the entry's part and
  does not complete an entry that is still queued.\<close>

lemma set_entry_ok:
  assumes ok: "queue_ok q" and a: "a < length (qu_heap q)"
    and request: "\<And>i. en_request (f i) = en_request i"
    and item: "entry_ok (f (qu_heap q ! a))"
    and open_entry: "fmlookup (qu_entries q) (ar_RequestID (en_request (qu_heap q ! a))) = Some a \<Longrightarrow>
      en_completed (f (qu_heap q ! a)) = None"
  shows "queue_ok (set_entry a f q)"
proof -
  have "entry_environment (set_entry a f q) b = entry_environment q b" if "b < length (qu_heap q)" for b
    using that by (simp add: entry_environment_def request)
  then have "pending_set (set_entry a f q) env = pending_set q env" for env
    using ok by (auto simp: pending_set_def queue_ok_def)
  moreover have "\<forall>item\<in>set (qu_heap (set_entry a f q)). entry_ok item"
    using ok item by (auto simp: queue_ok_def set_entry_def dest!: subsetD [OF set_update_subset_insert])
  moreover have "b < length (qu_heap q) \<and> ar_RequestID (en_request (qu_heap (set_entry a f q) ! b)) = i
      \<and> en_completed (qu_heap (set_entry a f q) ! b) = None" if "fmlookup (qu_entries q) i = Some b" for i b
    using ok that open_entry by (auto simp: queue_ok_def request)
  ultimately show ?thesis using ok by (simp add: queue_ok_def del: set_entry_simps(3))
qed

lemma queue_okD:
  assumes "queue_ok q"
  shows "fmlookup (qu_entries q) i = Some a \<Longrightarrow> a < length (qu_heap q)
      \<and> ar_RequestID (en_request (qu_heap q ! a)) = i \<and> en_completed (qu_heap q ! a) = None"
    "a < length (qu_heap q) \<Longrightarrow> entry_ok (qu_heap q ! a)"
    "fcard (fmdom (qu_entries q)) \<le> MaxPending" "card (pending_set q env) \<le> MaxPerEnvironment"
  using assms by (auto simp: queue_ok_def)

text \<open>Removing an identifier keeps it.\<close>

lemma drop_entry_ok:
  assumes "queue_ok q"
  shows "queue_ok (q\<lparr>qu_entries := fmdrop i (qu_entries q)\<rparr>)"
proof -
  let ?q = "q\<lparr>qu_entries := fmdrop i (qu_entries q)\<rparr>"
  have "pending_set ?q env \<subseteq> pending_set q env" for env
    by (auto simp: pending_set_def entry_environment_def split: if_splits)
  then have "card (pending_set ?q env) \<le> MaxPerEnvironment" for env
    using card_mono [OF finite_pending_set, of "pending_set ?q env" q env] queue_okD(4) [OF assms, of env]
    by (meson order_trans)
  moreover have "fcard (fmdom (qu_entries ?q)) \<le> fcard (fmdom (qu_entries q))" by (rule fcard_mono) auto
  then have "fcard (fmdom (qu_entries ?q)) \<le> MaxPending" using queue_okD(3) [OF assms] by (rule order_trans)
  ultimately show ?thesis using assms by (auto simp: queue_ok_def split: if_splits)
qed

lemma BeginApproval_result:
  assumes "BeginApproval ctx now request q = (q', r)"
  shows "(q' = q \<and> (\<exists>e. r = Inl e)) \<or>
    (let request = CloneApprovalRequest request; a = length (qu_heap q) in
      r = Inr a \<and> \<not> present (qu_entries q) (ar_RequestID request)
      \<and> fcard (fmdom (qu_entries q)) < MaxPending
      \<and> card (pending_set q (q_Environment (ar_CapabilityRequest request))) < MaxPerEnvironment
      \<and> length (json_ApprovalRequest request) \<le> MaxPromptBytes
      \<and> q' = q\<lparr>qu_entries := fmupd (ar_RequestID request) a (qu_entries q),
          qu_heap := qu_heap q @ [\<lparr>en_request = request, en_ctx = None, en_expires = now + qu_lifetime q,
            en_claimed = False, en_decision = None, en_completed = None\<rparr>]\<rparr>)"
  using assms
  by (auto simp: BeginApproval_def Let_def pending_in_card split: option.splits if_splits)

lemma CloneApprovalRequest_idem: "CloneApprovalRequest (CloneApprovalRequest r) = CloneApprovalRequest r"
  by (cases "ar_SavedScope r") (simp_all add: CloneApprovalRequest_def)

lemma BeginApproval_ok:
  assumes ok: "queue_ok q" and run: "BeginApproval ctx now request q = (q', r)"
  shows "queue_ok q'"
proof (cases "q' = q")
  case False
  define req where "req = CloneApprovalRequest request"
  define i where "i = ar_RequestID req"
  define item where "item = \<lparr>en_request = req, en_ctx = None, en_expires = now + qu_lifetime q,
    en_claimed = False, en_decision = None, en_completed = None\<rparr>"
  from BeginApproval_result [OF run] False
  have q': "q' = q\<lparr>qu_entries := fmupd i (length (qu_heap q)) (qu_entries q), qu_heap := qu_heap q @ [item]\<rparr>"
    and new: "fmlookup (qu_entries q) i = None" and size: "fcard (fmdom (qu_entries q)) < MaxPending"
    and env: "card (pending_set q (q_Environment (ar_CapabilityRequest req))) < MaxPerEnvironment"
    and json: "length (json_ApprovalRequest req) \<le> MaxPromptBytes"
    by (auto simp: Let_def req_def i_def item_def)
  have old: "entry_environment q' a = entry_environment q a" if "fmlookup (qu_entries q) k = Some a" for k a
    using queue_okD(1) [OF ok that] by (simp add: q' entry_environment_def nth_append)
  have added: "entry_environment q' (length (qu_heap q)) = q_Environment (ar_CapabilityRequest req)"
    by (simp add: q' entry_environment_def item_def)
  have "pending_set q' e = (if e = q_Environment (ar_CapabilityRequest req) then insert i (pending_set q e) else pending_set q e)" for e
    using new old added by (auto simp: pending_set_def q' split: if_splits)
  then have "card (pending_set q' e) \<le> MaxPerEnvironment" for e
    using env queue_okD(4) [OF ok, of e] by (simp add: card_insert_if)
  moreover have "fcard (fmdom (qu_entries q')) \<le> MaxPending"
    using size new by (simp add: q' fcard_finsert_if fmlookup_dom_iff)
  moreover have "entry_ok item"
    using json by (simp add: entry_ok_def item_def req_def CloneApprovalRequest_idem)
  then have "\<forall>x\<in>set (qu_heap q'). entry_ok x" using ok by (simp add: q' queue_ok_def)
  moreover have "a < length (qu_heap q') \<and> ar_RequestID (en_request (qu_heap q' ! a)) = k
      \<and> en_completed (qu_heap q' ! a) = None" if "fmlookup (qu_entries q') k = Some a" for k a
    using that queue_okD(1) [OF ok, of k a] by (auto simp: q' item_def i_def nth_append split: if_splits)
  ultimately show ?thesis unfolding queue_ok_def by blast
qed (use ok in simp)

lemma entry_ok_frame:
  assumes "entry_ok item" "en_request item' = en_request item" "en_decision item' = en_decision item \<or> en_decision item' = None"
    "en_claimed item \<longrightarrow> en_claimed item'"
  shows "entry_ok item'"
  using assms by (auto simp: entry_ok_def)

lemma claim_approval_result:
  assumes "claim_approval ctx now i decision q = (q', r)"
  shows "(q' = q \<and> (\<exists>e. r = Inl e)) \<or>
    (\<exists>a. r = Inr a \<and> fmlookup (qu_entries q) i = Some a \<and> answerable now (qu_heap q ! a)
       \<and> ValidateApprovalDecision (en_request (qu_heap q ! a)) decision = None
       \<and> q' = set_entry a (\<lambda>item. item\<lparr>en_claimed := True, en_decision := Some decision\<rparr>) q)"
  using assms by (auto simp: claim_approval_def split: option.splits if_splits)

lemma queue_step_ok:
  assumes "queue_step (now, q) (now', q')" "queue_ok q"
  shows "queue_ok q'"
  using assms(1)
proof (cases rule: queue_step.cases)
  case (answer ctx i decision r)
  from claim_approval_result [OF answer(2)] show ?thesis
  proof (elim disjE exE conjE)
    fix a assume a: "fmlookup (qu_entries q) i = Some a"
      and valid: "ValidateApprovalDecision (en_request (qu_heap q ! a)) decision = None"
      and q': "q' = set_entry a (\<lambda>item. item\<lparr>en_claimed := True, en_decision := Some decision\<rparr>) q"
    note D = queue_okD(1) [OF assms(2) a]
    with queue_okD(2) [OF assms(2)] have "entry_ok (qu_heap q ! a)" by blast
    then show ?thesis unfolding q' using D valid
      by (intro set_entry_ok assms) (auto simp: entry_ok_def)
  qed (use assms in simp)
next
  case (take_decision a sel ctx d)
  then show ?thesis using assms(2)
    by (auto simp: Decide_def Let_def split: decide_case.splits option.splits if_splits
        intro!: set_entry_ok entry_ok_frame [OF queue_okD(2)] dest: queue_okD)
next
  case (take_outcome a c ctx i decision out)
  then show ?thesis using assms(2)
    by (auto simp: await_outcome_def split: option.splits if_splits
        intro!: set_entry_ok entry_ok_frame [OF queue_okD(2)])
next
  case (finish a result err)
  then show ?thesis using assms(2)
    by (auto simp: Complete_def Let_def intro!: set_entry_ok drop_entry_ok entry_ok_frame [OF queue_okD(2)])
next
  case (cancel a e)
  then show ?thesis using assms(2)
    by (auto intro!: set_entry_ok entry_ok_frame [OF queue_okD(2)] dest: queue_okD)
qed (use assms BeginApproval_ok in auto)

text \<open>Entries are never freed or reused: an address keeps its request and its deadline, and stays
  claimed once it is.\<close>

lemma queue_step_heap:
  assumes "queue_step (now, q) (now', q')" "a < length (qu_heap q)"
  shows "a < length (qu_heap q') \<and> en_request (qu_heap q' ! a) = en_request (qu_heap q ! a)
    \<and> en_expires (qu_heap q' ! a) = en_expires (qu_heap q ! a)
    \<and> (en_claimed (qu_heap q ! a) \<longrightarrow> en_claimed (qu_heap q' ! a))
    \<and> (en_ctx (qu_heap q ! a) \<noteq> None \<longrightarrow> en_ctx (qu_heap q' ! a) \<noteq> None) \<and> now \<le> now'"
  using assms(1)
proof (cases rule: queue_step.cases)
  case (admit ctx request r)
  then show ?thesis using BeginApproval_result [OF admit(2)] assms(2) by (auto simp: Let_def nth_append)
next
  case (answer ctx i decision r)
  then show ?thesis using claim_approval_result [OF answer(2)] assms(2) by auto
qed (use assms(2) in \<open>auto simp: Decide_def await_outcome_def Complete_def Let_def
      split: decide_case.splits option.splits if_splits\<close>)

lemma queue_steps_heap:
  assumes "queue_step\<^sup>*\<^sup>* s s'" "a < length (qu_heap (snd s))"
  shows "a < length (qu_heap (snd s')) \<and> en_request (qu_heap (snd s') ! a) = en_request (qu_heap (snd s) ! a)
    \<and> en_expires (qu_heap (snd s') ! a) = en_expires (qu_heap (snd s) ! a)
    \<and> (en_claimed (qu_heap (snd s) ! a) \<longrightarrow> en_claimed (qu_heap (snd s') ! a)) \<and> fst s \<le> fst s'"
  using assms
proof (induction rule: rtranclp_induct)
  case (step t u)
  then show ?case
    using queue_step_heap [of "fst t" "snd t" "fst u" "snd u" a] by (auto intro: order_trans)
qed simp

lemma New_Queue_ok: "queue_ok New_Queue"
  by (simp add: queue_ok_def New_Queue_def pending_set_def fcard.rep_eq)

lemma queue_reachable_ok:
  assumes "queue_step\<^sup>*\<^sup>* (t, New_Queue) (now, q)"
  shows "queue_ok q"
proof -
  have "queue_ok (snd s)" if "queue_step\<^sup>*\<^sup>* (t, New_Queue) s" for s
    using that
  proof (induction rule: rtranclp_induct)
    case base
    show ?case by (simp add: New_Queue_ok)
  next
    case (step u v)
    then show ?case using queue_step_ok [of "fst u" "snd u" "fst v" "snd v"] by simp
  qed
  from this [OF assms] show ?thesis by simp
qed

section \<open>Joining sources (\<^verbatim>\<open>review/service.go\<close>)\<close>

text \<open>A source is nil or its pending approvals; a source is identified by its position.\<close>

definition review_step ::
  "nat \<Rightarrow> ApprovalRequest list \<times> nat gomap \<Rightarrow> ApprovalRequest \<Rightarrow> error + ApprovalRequest list \<times> nat gomap" where
  "review_step n acc request =
     (if ar_RequestID request = [] \<or> length (ar_RequestID request) > 128 \<or> present (snd acc) (ar_RequestID request)
      then Inl ErrIncompatibleState
      else if length (fst acc) \<ge> 256 then Inl ErrIncompatibleState
      else Inr (fst acc @ [CloneApprovalRequest request], fmupd (ar_RequestID request) n (snd acc)))"

definition review_source ::
  "ApprovalRequest list \<times> nat gomap \<Rightarrow> nat \<times> ApprovalRequest list option \<Rightarrow> error + ApprovalRequest list \<times> nat gomap" where
  "review_source acc s =
     (case snd s of None \<Rightarrow> Inl ErrIncompatibleState | Some pending \<Rightarrow> forE (review_step (fst s)) acc pending)"

definition snapshot ::
  "error option \<Rightarrow> ApprovalRequest list option list \<Rightarrow> error + ApprovalRequest list \<times> nat gomap" where
  "snapshot ctx sources =
     (case ctx of Some e \<Rightarrow> Inl e | None \<Rightarrow>
      case forE review_source ([], fmempty) (enumerate 0 sources) of Inl e \<Rightarrow> Inl e
      | Inr (requests, owners) \<Rightarrow> Inr (sort_key ar_RequestID requests, owners))"

definition Pending :: "error option \<Rightarrow> ApprovalRequest list option list \<Rightarrow> error + ApprovalRequest list" where
  "Pending ctx sources = (case snapshot ctx sources of Inl e \<Rightarrow> Inl e | Inr (requests, _) \<Rightarrow> Inr requests)"

text \<open>\<^verbatim>\<open>Decide\<close>: the source whose \<^verbatim>\<open>DecideApproval\<close> receives the decision.\<close>

definition review_Decide ::
  "error option \<Rightarrow> ApprovalRequest list option list \<Rightarrow> string \<Rightarrow> ApprovalDecision \<Rightarrow> error + nat" where
  "review_Decide ctx sources i decision =
     (case snapshot ctx sources of Inl e \<Rightarrow> Inl e | Inr (requests, owners) \<Rightarrow>
      case find (\<lambda>r. ar_RequestID r = i) requests of None \<Rightarrow> Inl ErrNotFound | Some request \<Rightarrow>
      case ValidateApprovalDecision request decision of Some e \<Rightarrow> Inl e | None \<Rightarrow>
      case fmlookup owners i of None \<Rightarrow> Inl ErrIncompatibleState | Some n \<Rightarrow> Inr n)"

text \<open>The owner table holds exactly the pending identifiers with their sources, so an identifier
  has one owner.\<close>

lemma review_loop_owners:
  assumes "forE (review_step n) acc pending = Inr acc'"
  shows "fmlookup (snd acc') i = Some k \<longleftrightarrow>
    fmlookup (snd acc) i = Some k \<or> (k = n \<and> i \<in> ar_RequestID ` set pending)"
  using assms
proof (induction pending arbitrary: acc)
  case (Cons r pending)
  from Cons.prems obtain acc1 where one: "review_step n acc r = Inr acc1"
    and rest: "forE (review_step n) acc1 pending = Inr acc'"
    by (auto split: sum.splits)
  from one have "fmlookup (snd acc) (ar_RequestID r) = None" "snd acc1 = fmupd (ar_RequestID r) n (snd acc)"
    by (auto simp: review_step_def split: if_splits)
  with Cons.IH [OF rest] show ?case by (auto split: if_splits)
qed simp

lemma review_sources_owners:
  assumes "forE review_source acc (enumerate m sources) = Inr acc'"
  shows "fmlookup (snd acc') i = Some k \<longleftrightarrow> fmlookup (snd acc) i = Some k \<or>
    (\<exists>j pending. j < length sources \<and> k = m + j \<and> sources ! j = Some pending \<and> i \<in> ar_RequestID ` set pending)"
  using assms
proof (induction sources arbitrary: m acc)
  case (Cons s sources)
  from Cons.prems obtain acc1 where first: "review_source acc (m, s) = Inr acc1"
    and rest: "forE review_source acc1 (enumerate (Suc m) sources) = Inr acc'"
    by (auto split: sum.splits)
  from first obtain pending where s: "s = Some pending" and one: "forE (review_step m) acc pending = Inr acc1"
    by (auto simp: review_source_def split: option.splits)
  show ?case unfolding Cons.IH [OF rest] review_loop_owners [OF one]
    by (auto simp: s less_Suc_eq_0_disj)
qed simp

lemma snapshot_owners:
  assumes "snapshot ctx sources = Inr (requests, owners)"
  shows "fmlookup owners i = Some n \<longleftrightarrow>
    n < length sources \<and> (\<exists>pending. sources ! n = Some pending \<and> i \<in> ar_RequestID ` set pending)"
proof -
  from assms obtain reqs where "forE review_source ([], fmempty) (enumerate 0 sources) = Inr (reqs, owners)"
    by (auto simp: snapshot_def split: option.splits sum.splits)
  from review_sources_owners [OF this, of i n] show ?thesis by auto
qed

text \<open>The snapshot is bounded, sorted, and holds one request per identifier.\<close>

definition review_acc_ok :: "ApprovalRequest list \<times> nat gomap \<Rightarrow> bool" where
  "review_acc_ok acc \<longleftrightarrow> length (fst acc) \<le> 256 \<and> distinct (map ar_RequestID (fst acc))
     \<and> (\<forall>r\<in>set (fst acc). present (snd acc) (ar_RequestID r))"

lemma review_step_acc: "review_acc_ok acc \<Longrightarrow> review_step n acc r = Inr acc' \<Longrightarrow> review_acc_ok acc'"
  by (fastforce simp: review_step_def review_acc_ok_def CloneApprovalRequest_def split: if_splits)

lemma snapshot_ok:
  assumes "snapshot ctx sources = Inr (requests, owners)"
  shows "length requests \<le> 256" "sorted (map ar_RequestID requests)" "distinct (map ar_RequestID requests)"
proof -
  from assms obtain reqs where run: "forE review_source ([], fmempty) (enumerate 0 sources) = Inr (reqs, owners)"
    and sorted: "requests = sort_key ar_RequestID reqs"
    by (auto simp: snapshot_def split: option.splits sum.splits)
  have "review_acc_ok (reqs, owners)"
  proof (rule forE_invariant [OF run])
    show "review_acc_ok acc'" if "review_acc_ok acc" "review_source acc s = Inr acc'" for acc s acc'
      using that by (auto simp: review_source_def split: option.splits intro: forE_invariant review_step_acc)
  qed (simp add: review_acc_ok_def)
  then show "length requests \<le> 256" "sorted (map ar_RequestID requests)" "distinct (map ar_RequestID requests)"
    by (simp_all add: sorted review_acc_ok_def distinct_map inj_on_def)
qed

end
