(* ===== verification/AuthorityExamples.thy ===== *)
theory AuthorityExamples
  imports CapabilityHost ApprovalQueue Examples
begin

text \<open>
  A host on concrete inputs: a Policy that asks before \<^verbatim>\<open>local.echo\<close> may \<^verbatim>\<open>echo\<close> and
  denies it to \<^verbatim>\<open>shout\<close>, an empty catalog and an empty audit log; and a queue with one
  question.  The witnesses of the properties evaluate on them.
\<close>

definition echo_rule :: PolicyRule where
  "echo_rule = \<lparr>rule_ExpiresAt = None, rule_EnvironmentInstance = [], rule_Capability = ''local.echo'',
     rule_Action = ''echo'', rule_Resource = ''*'', rule_Environment = ''*'', rule_Attributes = fmempty,
     rule_Decision = ''require-approval'', rule_Reason = ''ask''\<rparr>"

definition shout_rule :: PolicyRule where
  "shout_rule = echo_rule\<lparr>rule_Action := ''shout'', rule_Decision := ''deny''\<rparr>"

definition echo_policy :: PolicyFile where
  "echo_policy = \<lparr>NetworkServices = [], SavedDecisions = [], Default = ''deny'', Rules = [echo_rule, shout_rule]\<rparr>"

definition calm_update :: update_faults where
  "calm_update = \<lparr>u_absolute = True, u_setup = None, u_ctx = None, u_oversize = (\<lambda>_. False), u_temporary = None,
     u_edit = None, u_ctx_rename = None, u_rename = None, u_sync = None\<rparr>"

definition calm_sink :: sink_faults where
  "calm_sink = \<lparr>sf_open = None, sf_encode = None, sf_sync = None, sf_close = None\<rparr>"

definition host0 :: host where
  "host0 = \<lparr>h_disk = no_file, h_policy = Policy echo_policy, h_audit = [], h_clock = now,
     h_store_faults = no_faults, h_sink_faults = calm_sink, h_update = calm_update, h_nonce = []\<rparr>"

definition echo :: CapabilityRequest where
  "echo = no_request\<lparr>q_Capability := ''local.echo'', q_Action := ''echo'', q_Resource := ''r'',
     q_Parameters := fmupd ''message'' ''hi'' fmempty\<rparr>"

definition shout :: CapabilityRequest where
  "shout = echo\<lparr>q_Action := ''shout''\<rparr>"

definition yes :: "ApprovalRequest \<Rightarrow> goerr + ApprovalDecision" where
  "yes prompt = Inr \<lparr>ad_Approved = True, ad_Save = ''allow-global''\<rparr>"

definition attribute_order :: map_order where
  "attribute_order m = sorted_list_of_fmap m"

lemma attribute_order_range: "range_order attribute_order"
proof -
  have "map fst (sorted_list_of_fmap m) = sorted_list_of_fset (fmdom m)" for m :: "string gomap"
    by (simp add: sorted_list_of_fmap_def comp_def)
  then show ?thesis by (auto simp: range_order_def attribute_order_def fmlookup_of_list sorted_list_of_fset.rep_eq
      intro: fmap_ext)
qed

definition echo_run :: "host st \<times> CapabilityResult \<times> goerr option" where
  "echo_run = Request (host_service yes) attribute_order [] echo host0"


definition saved_echo :: PolicyRule where
  "saved_echo = echo_rule\<lparr>rule_Resource := ''r'', rule_Decision := ''allow'', rule_Reason := []\<rparr>"

definition echo_policy1 :: PolicyFile where
  "echo_policy1 = echo_policy\<lparr>SavedDecisions := [saved_echo]\<rparr>"

lemma words_trimmed [simp]:
  "TrimSpace ''local.echo'' = ''local.echo''" "TrimSpace ''echo'' = ''echo''" "TrimSpace ''shout'' = ''shout''"
  "TrimSpace ''r'' = ''r''" "TrimSpace ''message'' = ''message''" "TrimSpace [] = []"
  by (rule TrimSpace_host, simp add: host_char_def go_simps)+

lemma star_trimmed [simp]: "TrimSpace ''*'' = ''*''"
proof -
  have "utf8_segments ''*'' = [(Some 42, ''*'')]"
    using utf8_segments_ascii [of "''*''"] by (simp add: ascii_char_def)
  then show ?thesis by (intro TrimSpace_id) (auto simp: space_segment_def IsSpace_def)
qed

lemmas rule_values = echo_rule_def shout_rule_def saved_echo_def echo_policy1_def echo_policy_def
lemmas request_values = echo_def shout_def no_request_def attribute_order_def

lemma echo_normal: "normalizeRequest attribute_order echo = echo"
  by (simp add: normalizeRequest_def request_values sorted_list_of_fmap_def sorted_list_of_fset.rep_eq)

lemma echo_valid: "validateRequest echo = None"
  by (simp add: validateRequest_def request_values ContainsAny_def crlf0_def fmex_fmupd_iff)

lemma echo_policy_valid: "validatePolicy echo_policy = None" "validatePolicy echo_policy1 = None"
  by (simp_all add: validatePolicy_def rule_values rule_check_def saved_rule_check_def validDecision_def ContainsAny_def crlf0_def fmex_fmupd_iff)

lemma echo_asks: "Evaluate t (Policy echo_policy) echo = Inr \<lparr>ev_Decision = ''require-approval'', ev_Reason = ''ask''\<rparr>"
 "Evaluate t (Policy echo_policy1) echo = Inr \<lparr>ev_Decision = ''require-approval'', ev_Reason = ''ask''\<rparr>"
  by (simp_all add: Evaluate_def load_def echo_policy_valid) (simp_all add: evaluate_policy_def rule_values select_step_def applies_def expired_def ruleMatches_def request_values matchAttributes_def decisionPriority_def)

abbreviation echo_scope :: CapabilityRequest where
  "echo_scope \<equiv> echo\<lparr>q_Parameters := fmempty\<rparr>"

lemma echo_scope_valid: "validateRequest echo_scope = None"
  by (simp add: validateRequest_def request_values ContainsAny_def crlf0_def)

lemma echo_rule_saved: "RuleForSavedChoice echo_scope ''allow-global'' = Inr saved_echo"
  by (simp add: RuleForSavedChoice_def echo_scope_valid environment_choice_def global_choice_def choice_decision_def)
    (simp add: request_values rule_values Let_def validatePolicy_def rule_check_def validDecision_def ContainsAny_def
      crlf0_def fmex_iff)

lemma echo_saves: "Remember calm_update echo_scope ''allow-global'' (Policy echo_policy) = (Policy echo_policy1, None)"
proof -
  have "echo_policy\<lparr>SavedDecisions := replace_or_append (SavedDecisions echo_policy) saved_echo\<rparr> = echo_policy1"
    by (simp add: echo_policy1_def echo_policy_def)
  then show ?thesis
    by (simp add: Remember_def echo_rule_saved rememberRule_def updatePolicy_def calm_update_def rememberRule_change_def load_def
        echo_policy_valid Let_def)
qed

text \<open>The run: asked, approved for every Environment, saved, rechecked, executed.\<close>

lemma echo_admitted:
  "admit (Some (host_service yes)) echo = Inr (host_service yes, file_policy, LocalEcho)"
  by (simp add: admit_def echo_valid host_service_parts)
    (simp add: host_service_def ConfigureEnvironmentIdentity_def echo_def LocalEcho_def validateNonAuthorityParameters_def fmex_iff)

definition stamped :: "GoTime \<Rightarrow> string \<Rightarrow> CapabilityRequest \<Rightarrow> CapabilityAuditEvent \<Rightarrow> CapabilityAuditEvent" where
  "stamped t i q e = e\<lparr>au_Time := t, au_RequestID := i, au_Capability := q_Capability q, au_Action := q_Action q,
     au_Resource := q_Resource q, au_Environment := q_Environment q,
     au_EnvironmentInstance := q_EnvironmentInstance q, au_Attributes := q_Attributes q\<rparr>"

lemma calm_audit:
  "h_sink_faults (world s) = calm_sink \<Longrightarrow> record_event (host_service yes) i q e s =
     (let ev = stamped (h_clock (world s)) i q e
      in (log (Audited ev True) ((world s)\<lparr>h_audit := h_audit (world s) @ [ev]\<rparr>) s, None))"
  by (simp add: record_event_def host_service_parts file_audit_def JSONLAudit_Record_def calm_sink_def Let_def stamped_def)
    (simp add: host_service_def ConfigureEnvironmentIdentity_def)

lemma echo_evaluates:
  "h_policy (world s) = Policy echo_policy \<or> h_policy (world s) = Policy echo_policy1 \<Longrightarrow>
     evaluate file_policy echo s = (log (Evaluated echo (Some ''require-approval'')) (world s) s,
       Inr \<lparr>ev_Decision = ''require-approval'', ev_Reason = ''ask''\<rparr>)"
  by (auto simp: evaluate_def file_policy_def echo_asks lift_error_def)

lemma echo_executes:
  "h_sink_faults (world s) = calm_sink \<Longrightarrow>
     \<exists>s' result. execute (host_service yes) LocalEcho i echo base s = (s', result, None) \<and> \<not> quiet (trace s')"
  by (simp add: execute_def LocalEcho_def LocalEcho_Execute_def Let_def echo_def calm_audit)

lemma echo_choice:
  "h_sink_faults (world s) = calm_sink \<Longrightarrow> h_update (world s) = calm_update \<Longrightarrow> h_policy (world s) = Policy echo_policy \<Longrightarrow>
   \<exists>s' base'. save_choice (host_service yes) file_policy i echo echo_scope ''allow-global'' base s = (s', Inr base')
     \<and> h_sink_faults (world s') = calm_sink \<and> h_policy (world s') = Policy echo_policy1"
  by (simp add: save_choice_def file_policy_def [THEN arg_cong, of po_Remember] echo_saves calm_audit Let_def echo_evaluates
     validDecision_def)

lemma echo_scope_declared: "savedApprovalScope None echo = Inr echo_scope"
  by (simp add: savedApprovalScope_def Let_def echo_scope_valid) (simp add: request_values fmex_iff)

lemma echo_scope_rule: "RuleForSavedScope echo_scope ''allow-global'' = Inr saved_echo"
proof -
  have literal: "echo_scope\<lparr>q_Attributes := fmmap f (q_Attributes echo_scope)\<rparr> = echo_scope" for f
    by (simp add: request_values)
  show ?thesis unfolding RuleForSavedScope_def Let_def literal echo_rule_saved by (simp add: request_values rule_values)
qed

lemma yes_checked: "checked_answer echo echo_scope (yes prompt) = yes prompt"
  by (simp add: checked_answer_def yes_def ValidateApprovalDecision_def approvalSavedRule_def echo_scope_rule)
    (simp add: saved_echo_def)

lemma echo_approved:
  assumes "h_sink_faults (world s) = calm_sink" "h_update (world s) = calm_update" "h_policy (world s) = Policy echo_policy"
  shows "\<exists>s' base'. approval_phase (host_service yes) file_policy (Some (human yes)) LocalEcho i echo e base s = (s', Inr base')
     \<and> h_sink_faults (world s') = calm_sink \<and> h_policy (world s') = Policy echo_policy1"
proof -
  have ask: "obtain_decision (human yes) prompt s =
      (log (Answered (Some \<lparr>ad_Approved = True, ad_Save = ''allow-global''\<rparr>)) (world s) (log (Asked prompt) (world s) s),
       yes prompt)" for prompt
    by (simp add: obtain_decision_def human_def yes_def log_def)
  let ?prompt = "\<lparr>ar_RequestID = i, ar_SavedScope = Some echo_scope, ar_CapabilityRequest = echo_scope, ar_Reason = ev_Reason e\<rparr>"
  define s1 where "s1 = log (Answered (Some \<lparr>ad_Approved = True, ad_Save = ''allow-global''\<rparr>)) (world s) (log (Asked ?prompt) (world s) s)"
  obtain s2 where s2: "record_event (host_service yes) i echo ((audit_event ''approval-decision'')\<lparr>au_Approved := Some True,
      au_SavedChoice := ''allow-global'', au_Reason := ev_Reason e\<rparr>) s1 = (s2, None)"
    and "h_sink_faults (world s2) = calm_sink" "h_update (world s2) = calm_update" "h_policy (world s2) = Policy echo_policy"
    using assms by (auto simp: calm_audit s1_def Let_def)
  from echo_choice [OF this(2-4), of i base] obtain s3 base' where
    s3: "save_choice (host_service yes) file_policy i echo echo_scope ''allow-global'' base s2 = (s3, Inr base')"
    "h_sink_faults (world s3) = calm_sink" "h_policy (world s3) = Policy echo_policy1" by blast
  have "obtain_decision (human yes) ?prompt s = (s1, yes ?prompt)" by (simp add: ask s1_def)
  with s2 s3(1) have "approval_phase (host_service yes) file_policy (Some (human yes)) LocalEcho i echo e base s = (s3, Inr base')"
    by (simp add: approval_phase_def LocalEcho_def echo_scope_declared yes_checked) (simp add: yes_def andThen_def)
  with s3 show ?thesis by blast
qed

lemma echo_runs: "\<exists>s result. echo_run = (s, result, None) \<and> \<not> quiet (trace s)"
proof -
  let ?svc = "host_service yes" and ?i = "[] :: string" and ?s0 = "\<lparr>world = host0, trace = [], deferred = None\<rparr>"
  let ?base = "no_result\<lparr>cr_RequestID := ?i, cr_ExecutionState := ''not-executed''\<rparr>"
  let ?e = "\<lparr>ev_Decision = ''require-approval'', ev_Reason = ''ask''\<rparr>"
  have env: "q_Environment echo = []" by (simp add: echo_def no_request_def)
  have r0: "bind_identity ?svc echo ?s0 = (?s0, Inr (echo, no_environment))"
    by (simp add: bind_identity_def host_service_parts env)
  obtain s2 where r1: "decide_policy ?svc file_policy ?i echo ?base ?s0 = (s2, Inr ?e)"
    and w: "h_sink_faults (world s2) = calm_sink" "h_update (world s2) = calm_update" "h_policy (world s2) = Policy echo_policy"
    by (simp add: decide_policy_def calm_audit echo_evaluates Let_def validDecision_def host0_def)
  from echo_approved [OF w] obtain s3 base' where
    r2: "approval_phase ?svc file_policy (Some (human yes)) LocalEcho ?i echo ?e ?base s2 = (s3, Inr base')"
    and w3: "h_sink_faults (world s3) = calm_sink" "h_policy (world s3) = Policy echo_policy1" by blast
  let ?s4 = "log (Evaluated echo (Some ''require-approval'')) (world s3) s3"
  have r3: "recheck ?svc file_policy ?i echo ?e base' s3 = (?s4, Inr ())"
    by (simp add: recheck_def echo_evaluates w3 recheck_error_def)
  have r4: "recheck_identity ?svc echo no_environment base' ?s4 = (?s4, Inr ())"
    by (simp add: recheck_identity_def host_service_parts env)
  from echo_executes [of ?s4 ?i base'] w3 obtain s5 result where
    r5: "execute ?svc LocalEcho ?i echo base' ?s4 = (s5, result, None)" "\<not> quiet (trace s5)" by auto
  have run: "perform ?svc file_policy (Some (human yes)) LocalEcho ?i echo ?s0 = (s5, Inr (result, None))"
    by (simp add: perform_def Let_def andThen_def r0 r1 authorize_def r2 r3 r4 r5(1))
  have "upholds ?s0 s5"
    by (rule host.perform_respects [OF _ run, of "''local.echo''"]) (simp add: host_service_def ConfigureEnvironmentIdentity_def)
  then have "deferred s5 = None" by (simp add: upholds_def)
  with run r5(2) show ?thesis
    by (simp add: echo_run_def Request_def request_def host_service_parts echo_normal echo_admitted outcome_def)
qed

section \<open>A queue with two questions\<close>

definition question1 :: ApprovalRequest where
  "question1 = \<lparr>ar_RequestID = ''1'', ar_SavedScope = None, ar_CapabilityRequest = echo_scope, ar_Reason = ''ask''\<rparr>"

definition question2 :: ApprovalRequest where
  "question2 = question1\<lparr>ar_RequestID := ''2''\<rparr>"

definition asked_entry :: "ApprovalRequest \<Rightarrow> entry" where
  "asked_entry r = \<lparr>en_request = r, en_ctx = None, en_expires = ApprovalLifetime, en_claimed = False,
     en_decision = None, en_completed = None\<rparr>"

definition asked_queue :: Queue where
  "asked_queue = \<lparr>qu_entries = fmupd ''1'' 0 fmempty, qu_heap = [asked_entry question1], qu_lifetime = ApprovalLifetime\<rparr>"

definition asked_queue2 :: Queue where
  "asked_queue2 = \<lparr>qu_entries = fmupd ''2'' 1 (fmupd ''1'' 0 fmempty),
     qu_heap = [asked_entry question1, asked_entry question2], qu_lifetime = ApprovalLifetime\<rparr>"

definition no_thanks :: ApprovalDecision where
  "no_thanks = \<lparr>ad_Approved = False, ad_Save = []\<rparr>"

lemmas question_values = question2_def question1_def no_thanks_def ValidateApprovalDecision_def CloneApprovalRequest_def

lemma json_plain:
  assumes "list_all (\<lambda>c. ascii_char c \<and> 39 \<le> (of_char c :: nat) \<and> (of_char c :: nat) < 60 \<or> ascii_char c \<and> 63 \<le> (of_char c :: nat) \<and> (of_char c :: nat) \<noteq> 92) s"
  shows "json_string s = CHR 0x22 # s @ [CHR 0x22]"
proof -
  have ascii: "list_all ascii_char s" using assms by (auto simp: list_all_iff)
  have "concat (map (\<lambda>c. json_escape (Some (of_char c), [c])) s) = s"
    using assms by (induction s) (auto simp: json_escape_def ascii_char_def)
  then show ?thesis by (simp add: json_string_def utf8_segments_ascii [OF ascii] comp_def)
qed

lemma json_words [simp]:
  "json_string ''request_id'' = CHR 0x22 # ''request_id'' @ [CHR 0x22]" "json_string ''request'' = CHR 0x22 # ''request'' @ [CHR 0x22]"
  "json_string ''capability'' = CHR 0x22 # ''capability'' @ [CHR 0x22]" "json_string ''action'' = CHR 0x22 # ''action'' @ [CHR 0x22]"
  "json_string ''resource'' = CHR 0x22 # ''resource'' @ [CHR 0x22]" "json_string ''reason'' = CHR 0x22 # ''reason'' @ [CHR 0x22]"
  "json_string ''local.echo'' = CHR 0x22 # ''local.echo'' @ [CHR 0x22]" "json_string ''echo'' = CHR 0x22 # ''echo'' @ [CHR 0x22]"
  "json_string ''r'' = CHR 0x22 # ''r'' @ [CHR 0x22]" "json_string ''ask'' = CHR 0x22 # ''ask'' @ [CHR 0x22]"
  "json_string ''1'' = CHR 0x22 # ''1'' @ [CHR 0x22]" "json_string ''2'' = CHR 0x22 # ''2'' @ [CHR 0x22]"
  by (rule json_plain, simp add: ascii_char_def)+

lemma question_json: "length (json_ApprovalRequest question1) \<le> MaxPromptBytes" "length (json_ApprovalRequest question2) \<le> MaxPromptBytes"
  by (simp_all add: json_ApprovalRequest_def json_CapabilityRequest_def json_object_def omitempty_def question_values
      request_values MaxPromptBytes_def)

lemma question_clone: "CloneApprovalRequest question1 = question1" "CloneApprovalRequest question2 = question2"
  by (simp_all add: question_values request_values)

lemma pending_in_le: "pending_in q env \<le> fcard (fmdom (qu_entries q))"
  unfolding pending_in_def by (rule fcard_mono) auto

lemma asked_queue_begins:
  "BeginApproval None 0 question1 New_Queue = (asked_queue, Inr 0)"
  "BeginApproval None 0 question2 asked_queue = (asked_queue2, Inr 1)"
proof -
  have sizes: "fcard (fmdom (qu_entries New_Queue)) = 0" "fcard (fmdom (qu_entries asked_queue)) = 1"
    by (simp_all add: New_Queue_def asked_queue_def fcard.rep_eq)
  have "\<not> 16 \<le> pending_in New_Queue env" "\<not> 16 \<le> pending_in asked_queue env" for env
    using pending_in_le [of New_Queue env] pending_in_le [of asked_queue env] sizes by simp_all
  moreover have "ar_RequestID question1 = ''1''" "ar_RequestID question2 = ''2''" by (simp_all add: question_values)
  ultimately show "BeginApproval None 0 question1 New_Queue = (asked_queue, Inr 0)"
    "BeginApproval None 0 question2 asked_queue = (asked_queue2, Inr 1)"
    using question_json sizes
    by (simp_all add: BeginApproval_def question_clone MaxPending_def MaxPerEnvironment_def)
      (simp_all add: New_Queue_def asked_queue_def asked_queue2_def asked_entry_def ApprovalLifetime_def fcard.rep_eq)
qed

lemma asked_queue_claims:
  "\<exists>q1 q2. claim_approval None 0 ''1'' no_thanks asked_queue2 = (q1, Inr 0)
     \<and> claim_approval None 0 ''2'' no_thanks q1 = (q2, Inr 1)"
  by (simp add: claim_approval_def asked_queue2_def asked_entry_def answerable_def ApprovalLifetime_def question_values
      set_entry_def)

end
