(* ===== verification/AuthorityGuarantees.thy ===== *)
theory AuthorityGuarantees
  imports AuthorityExamples
begin

text \<open>
  The properties of the capability boundary: what stands before an execution, what an administrator
  and the audit log can rely on, how the Policy decides, what a saved decision covers, and how the
  approval queue behaves.  Each rests on the lemmas of the components.
\<close>

section \<open>From the phases to the request\<close>

lemma admitD:
  assumes "admit service q = Inr (svc, policy, provider)"
  shows "service = Some svc" "validateRequest q = None" "sv_policy svc = Some policy" "sv_audit svc \<noteq> None"
    "fmlookup (sv_providers svc) (q_Capability q) = Some provider"
  using assms by (auto simp: admit_def split: option.splits if_splits)

lemma request_cases:
  assumes "request service approval ord nonce q w = (s, result, err)"
  obtains (refused) e where "trace s = []" "world s = w" "result = no_result" "err = Some e"
  | (performed) svc policy provider s1 r where
      "admit service (normalizeRequest ord q) = Inr (svc, policy, provider)"
      "perform svc policy approval provider (EncodeToString nonce) (normalizeRequest ord q)
         \<lparr>world = w, trace = [], deferred = None\<rparr> = (s1, r)"
      "outcome r = (result, err)" "trace s = trace s1"
  using assms by (auto simp: request_def Let_def split: sum.splits prod.splits option.splits)

lemma authorized_quiet: "authorized svc i req t \<Longrightarrow> quiet t"
  by (auto simp: authorized_def approval_part_def save_part_def identity_part_def)

lemma request_executes:
  assumes "request service approval ord nonce q w = (s, result, err)" "\<not> quiet (trace s)"
  obtains svc req pre t ok ev rec where "service = Some svc" "trace s = pre @ t @ [Executed req ok, Audited ev rec]"
    "quiet pre" "quiet t" "authorized svc (EncodeToString nonce) req t" "validateRequest (normalizeRequest ord q) = None"
    "req = (normalizeRequest ord q)\<lparr>q_EnvironmentInstance := q_EnvironmentInstance req\<rparr>"
    "q_EnvironmentInstance q \<noteq> [] \<longrightarrow> q_EnvironmentInstance req = q_EnvironmentInstance q"
    "event_for (EncodeToString nonce) req ev" "au_Type ev = ''completed''" "au_Success ev = Some ok"
    "cr_RequestID result = EncodeToString nonce" "cr_ExecutionState result = (if ok then ''succeeded'' else ''failed'')"
    "cr_AuditComplete result = rec" "err = None \<longleftrightarrow> ok \<and> rec"
  using assms(1)
proof (cases rule: request_cases)
  case refused
  with assms(2) show ?thesis by simp
next
  case (performed svc policy provider s1 r)
  note adm = admitD [OF performed(1)]
  show ?thesis
  proof (cases r)
    case (Inl out)
    with perform_early [of svc policy approval provider "EncodeToString nonce" "normalizeRequest ord q"] performed assms(2)
    show ?thesis by (cases out) (fastforce simp: quietly_def)
  next
    case (Inr out)
    then have run: "perform svc policy approval provider (EncodeToString nonce) (normalizeRequest ord q)
        \<lparr>world = w, trace = [], deferred = None\<rparr> = (s1, Inr (result, err))"
      using performed by (cases out) (simp add: outcome_def)
    have same: "q_EnvironmentInstance (normalizeRequest ord q) = q_EnvironmentInstance q" by (simp add: normalizeRequest_def)
    from perform_executes [OF run adm(4)] show ?thesis
    proof (elim exE conjE)
      fix req pre t ok ev rec
      assume P: "authorized svc (EncodeToString nonce) req t"
        "trace s1 = trace \<lparr>world = w, trace = [], deferred = None\<rparr> @ pre @ t @ [Executed req ok, Audited ev rec]"
        "q_EnvironmentInstance (normalizeRequest ord q) \<noteq> [] \<longrightarrow> req = normalizeRequest ord q"
        and Q: "quiet pre" "req = (normalizeRequest ord q)\<lparr>q_EnvironmentInstance := q_EnvironmentInstance req\<rparr>"
          "event_for (EncodeToString nonce) req ev" "au_Type ev = ''completed''" "au_Success ev = Some ok"
          "cr_RequestID result = EncodeToString nonce" "cr_ExecutionState result = (if ok then ''succeeded'' else ''failed'')"
          "cr_AuditComplete result = rec" "err = None \<longleftrightarrow> ok \<and> rec"
      have "trace s = pre @ t @ [Executed req ok, Audited ev rec]"
        "q_EnvironmentInstance q \<noteq> [] \<longrightarrow> q_EnvironmentInstance req = q_EnvironmentInstance q"
        using P(2,3) performed(4) same by simp_all
      then show ?thesis using that adm(1,2) P(1) authorized_quiet [OF P(1)] Q by blast
    qed
  qed
qed

lemma request_unexecuted:
  assumes "request service approval ord nonce q w = (s, result, err)" "quiet (trace s)"
  shows "err \<noteq> None \<and> unexecuted result"
  using assms(1)
proof (cases rule: request_cases)
  case refused
  then show ?thesis by (simp add: unexecuted_def no_result_def)
next
  case (performed svc policy provider s1 r)
  show ?thesis
  proof (cases r)
    case (Inl out)
    with performed perform_early [of svc policy approval provider "EncodeToString nonce" "normalizeRequest ord q"]
    show ?thesis by (cases out) (auto simp: outcome_def)
  next
    case (Inr out)
    obtain res e where "out = (res, e)" by (cases out)
    with Inr performed(2) have "perform svc policy approval provider (EncodeToString nonce) (normalizeRequest ord q)
        \<lparr>world = w, trace = [], deferred = None\<rparr> = (s1, Inr (res, e))" by simp
    from perform_executes [OF this admitD(4) [OF performed(1)]] assms(2) performed(4) show ?thesis by auto
  qed
qed

text \<open>C13. Nothing is executed without authority.  When a request executed its provider, it did so
  exactly once and as its last action but one.  Right before stand, in this order: the durable record of
  the request, an evaluation of the Policy for exactly that request, the durable record of the decision,
  for a decision that requires approval an affirmative answer to the question about this request with its
  record (and a save that the Policy still permits), a second evaluation that still permits it, and for a
  request of an Environment the check that the Environment is still the same creation.  The completion
  event follows, and the result reports what was executed and whether it was recorded.\<close>

theorem execution_is_authorized:
  assumes "request service approval ord nonce q w = (s, result, err)" "\<not> quiet (trace s)"
  defines "i \<equiv> EncodeToString nonce"
  shows "\<exists>svc req pre t ok ev rec. service = Some svc \<and> trace s = pre @ t @ [Executed req ok, Audited ev rec]
    \<and> quiet pre \<and> quiet t \<and> authorized svc i req t \<and> validateRequest (normalizeRequest ord q) = None
    \<and> req = (normalizeRequest ord q)\<lparr>q_EnvironmentInstance := q_EnvironmentInstance req\<rparr>
    \<and> (q_EnvironmentInstance q \<noteq> [] \<longrightarrow> q_EnvironmentInstance req = q_EnvironmentInstance q)
    \<and> event_for i req ev \<and> au_Type ev = ''completed'' \<and> au_Success ev = Some ok
    \<and> cr_RequestID result = i \<and> cr_ExecutionState result = (if ok then ''succeeded'' else ''failed'')
    \<and> cr_AuditComplete result = rec \<and> (err = None \<longleftrightarrow> ok \<and> rec)"
  using assms(1,2) unfolding i_def by (rule request_executes) (intro exI conjI; assumption)

theorem execution_is_authorized_witness:
  "\<exists>s result pre t req ok ev rec. echo_run = (s, result, None) \<and> trace s = pre @ t @ [Executed req ok, Audited ev rec]
     \<and> authorized (host_service yes) [] req t \<and> ok \<and> rec"
proof -
  obtain s result where run: "echo_run = (s, result, None)" and x: "\<not> quiet (trace s)" using echo_runs by blast
  then have "request (Some (host_service yes)) (sv_approval (host_service yes)) attribute_order [] echo host0 = (s, result, None)"
    by (simp add: echo_run_def Request_def)
  from execution_is_authorized [OF this x] run show ?thesis by (elim exE conjE) (intro exI conjI; simp)
qed

text \<open>C14. A request that did not execute says so: it returns an error, and its result claims neither an
  execution, a provider, an output nor a complete audit.\<close>

theorem unexecuted_request_fails:
  assumes "request service approval ord nonce q w = (s, result, err)" "quiet (trace s)"
  shows "err \<noteq> None \<and> unexecuted result"
  using assms by (rule request_unexecuted)

theorem unexecuted_request_fails_witness:
  "quiet (trace (fst (request None None attribute_order [] echo host0)))
     \<and> snd (snd (request None None attribute_order [] echo host0)) \<noteq> None"
proof -
  obtain s result err where run: "request None None attribute_order [] echo host0 = (s, result, err)"
    by (cases "request None None attribute_order [] echo host0")
  moreover from run have "quiet (trace s)" by (auto simp: request_def admit_def echo_normal echo_valid)
  ultimately show ?thesis using unexecuted_request_fails [OF run] by simp
qed

section \<open>The administrator and the audit log\<close>

definition host_request :: "host \<Rightarrow> host \<Rightarrow> bool" where
  "host_request w w' \<longleftrightarrow> (\<exists>answer answer' ord nonce q s result err.
     request (Some (host_service answer)) (Some (human answer')) ord nonce q w = (s, result, err) \<and> world s = w')"

lemma host_requests_administered:
  assumes "host_request\<^sup>*\<^sup>* w w'" "u_edit (h_update w) = None"
  shows "administered (h_policy w') = administered (h_policy w) \<and> u_edit (h_update w') = None"
  using assms
proof (induction rule: rtranclp_induct)
  case (step w1 w2)
  then show ?case by (auto simp: host_request_def upholds_def dest!: host_request_upholds)
qed simp

text \<open>C15. A denial of the administrator is final.  Take a host whose Policy file denies a request by a rule
  of the administrator without expiry.  However many requests are made, whatever humans answer and whatever
  they save, the administrator's part of the Policy stays as it was, and a later attempt at the denied request
  executes nothing and fails (as long as nobody edits the file by hand).\<close>

theorem administrator_deny_final:
  assumes "host_request\<^sup>*\<^sup>* w w'" "u_edit (h_update w) = None"
    and "\<forall>i. denied_by_rule (h_policy w) ((normalizeRequest ord q)\<lparr>q_EnvironmentInstance := i\<rparr>)"
    and "request (Some (host_service answer)) (Some (human answer')) ord nonce q w' = (s, result, err)"
  shows "quiet (trace s) \<and> err \<noteq> None \<and> administered (h_policy (world s)) = administered (h_policy w)"
proof -
  note adm = host_requests_administered [OF assms(1,2)]
  note up = host_request_upholds [OF assms(4), unfolded upholds_def]
  have "quiet (trace s)"
  proof (rule ccontr)
    assume "\<not> quiet (trace s)"
    from assms(4) this obtain req pre t rest i and svc :: "host Service" where
      tr: "trace s = pre @ t @ rest" and auth: "authorized svc i req t"
      and req: "req = (normalizeRequest ord q)\<lparr>q_EnvironmentInstance := q_EnvironmentInstance req\<rparr>"
      by (rule request_executes) (rule that)
    from auth have "Evaluated req (Some ''allow'') \<in> set t \<or> Evaluated req (Some ''require-approval'') \<in> set t"
      by (auto simp: authorized_def)
    then obtain d where "Evaluated req (Some d) \<in> set t" "d \<noteq> ''deny''" by auto
    moreover have "denied_by_rule (h_policy w) req" by (subst req) (rule assms(3) [rule_format])
    then have "denied_by_rule (h_policy w') req" using adm by (simp add: denied_by_rule_def)
    moreover have "\<forall>q d. Evaluated q (Some d) \<in> set (trace s) \<and> denied_by_rule (h_policy w') q \<longrightarrow> d = ''deny''"
      using up adm by auto
    ultimately show False using tr by auto
  qed
  with up adm request_unexecuted [OF assms(4)] show ?thesis by auto
qed

theorem administrator_deny_final_witness:
  "denied_by_rule (h_policy host0) shout \<and>
     quiet (trace (fst (request (Some (host_service yes)) (Some (human yes)) attribute_order [] shout (world (fst echo_run)))))"
proof -
  have d: "denied_by_rule (h_policy host0) (shout\<lparr>q_EnvironmentInstance := i\<rparr>)" for i
    by (simp add: host0_def denied_by_rule_def administered_def load_def echo_policy_valid)
      (simp add: echo_policy_def rule_values request_values ruleMatches_def matchAttributes_def)
  have n: "normalizeRequest attribute_order shout = shout"
    by (simp add: normalizeRequest_def request_values sorted_list_of_fmap_def sorted_list_of_fset.rep_eq)
  have "host_request host0 (world (fst echo_run))"
    unfolding host_request_def echo_run_def Request_def host_service_parts by (metis prod.collapse)
  then have r: "host_request\<^sup>*\<^sup>* host0 (world (fst echo_run))" by blast
  have e: "u_edit (h_update host0) = None" by (simp add: host0_def calm_update_def)
  obtain s result err where run: "request (Some (host_service yes)) (Some (human yes)) attribute_order [] shout
      (world (fst echo_run)) = (s, result, err)" using prod_cases3 by blast
  have "\<forall>i. denied_by_rule (h_policy host0) ((normalizeRequest attribute_order shout)\<lparr>q_EnvironmentInstance := i\<rparr>)"
    using d n by simp
  from administrator_deny_final [OF r e this run] run d [of "[]"] show ?thesis
    by (simp add: request_values)
qed



section \<open>The Policy\<close>

text \<open>C17. The strongest applicable rule decides, and nothing else does.  Evaluation of a Policy file yields
  deny when any rule that applies denies, otherwise an approval requirement when any requires it, otherwise
  allow when any allows, and the default (deny when none is set) when no rule applies; a rule applies when it
  has not expired, matches the request and, for a saved rule that is not global, names this creation of the
  Environment.  The order of the rules in the file therefore does not matter.\<close>

theorem strongest_rule_decides:
  assumes "Evaluate t c q = Inr e"
  shows "\<exists>p. load c = Inr p \<and> (let D = {rule_Decision r |r. r \<in> set (Rules p) \<and> applies t q False r
        \<or> r \<in> set (SavedDecisions p) \<and> applies t q True r}
      in ev_Decision e = (if ''deny'' \<in> D then ''deny'' else if ''require-approval'' \<in> D then ''require-approval''
           else if ''allow'' \<in> D then ''allow'' else if Default p = [] then ''deny'' else Default p))"
proof -
  from assms obtain p where p: "load c = Inr p" "e = evaluate_policy t p q"
    by (auto simp: Evaluate_def split: sum.splits)
  have D: "{rule_Decision r |r. r \<in> set (Rules p) \<and> applies t q False r \<or> r \<in> set (SavedDecisions p) \<and> applies t q True r}
      = matched t p q"
    by (auto simp: matched_def matching_def)
  show ?thesis
    by (intro exI [of _ p] conjI p(1)) (unfold D Let_def p(2), rule evaluate_decision [OF p(1)])
qed

theorem strongest_rule_decides_witness:
  "Evaluate now (Policy echo_policy1) echo = Inr \<lparr>ev_Decision = ''require-approval'', ev_Reason = ''ask''\<rparr>
     \<and> (\<exists>p. load (Policy echo_policy1) = Inr p)"
  using strongest_rule_decides [OF echo_asks(2) [of now]] echo_asks(2) [of now] by blast

text \<open>C18. A saved decision covers exactly the authority that was shown.  The rule built for a choice carries
  the decision of the choice and matches another request if and only if that request has the same capability,
  action, resource and attributes and, unless the choice was for all Environments, the same Environment and the
  same creation of it.\<close>

theorem saved_choice_exact:
  assumes "RuleForSavedChoice q choice = Inr rule"
  shows "rule_Decision rule = choice_decision choice
    \<and> (ruleMatches rule q' \<longleftrightarrow> q_Capability q' = q_Capability q \<and> q_Action q' = q_Action q \<and> q_Resource q' = q_Resource q
         \<and> q_Attributes q' = q_Attributes q
         \<and> (global_choice choice \<or> q_Environment q' = q_Environment q \<and> q_EnvironmentInstance q' = q_EnvironmentInstance q))"
  using saved_choice_matches [OF assms, of q'] RuleForSavedChoiceD(7) [OF assms] by (auto simp: same_authority_def)

theorem saved_choice_exact_witness:
  "ruleMatches saved_echo echo \<and> \<not> ruleMatches saved_echo shout"
  using saved_choice_exact [OF echo_rule_saved, of echo] saved_choice_exact [OF echo_rule_saved, of shout]
  by (simp add: request_values global_choice_def)

text \<open>C19. A declared scope never widens more than its wildcards.  The rule saved for the scope a provider
  declared matches the request it was declared for; whatever else it matches has the same capability, action
  and resource, the same Environment creation unless the choice was global, the same attribute names, and the
  same value for each attribute that the scope does not declare as a wildcard.\<close>

theorem saved_scope_bounded:
  assumes "savedApprovalScope declarer q = Inr scope" "RuleForSavedScope scope choice = Inr rule"
  shows "ruleMatches rule q \<and> (ruleMatches rule q' \<longrightarrow>
      q_Capability q' = q_Capability q \<and> q_Action q' = q_Action q \<and> q_Resource q' = q_Resource q
    \<and> (global_choice choice \<or> q_Environment q' = q_Environment q \<and> q_EnvironmentInstance q' = q_EnvironmentInstance q)
    \<and> fmdom (q_Attributes q') = fmdom (q_Attributes q)
    \<and> (\<forall>k. fmlookup (q_Attributes scope) k \<noteq> Some ''*'' \<longrightarrow> fmlookup (q_Attributes q') k = fmlookup (q_Attributes q) k))"
proof -
  note D = savedApprovalScopeD [OF assms(1)]
  have same: "q_Capability scope = q_Capability q" "q_Action scope = q_Action q" "q_Resource scope = q_Resource q"
    "q_Environment scope = q_Environment q" "q_EnvironmentInstance scope = q_EnvironmentInstance q"
    using D(1) [THEN arg_cong, of q_Capability] D(1) [THEN arg_cong, of q_Action] D(1) [THEN arg_cong, of q_Resource]
      D(1) [THEN arg_cong, of q_Environment] D(1) [THEN arg_cong, of q_EnvironmentInstance] by simp_all
  have keep: "fmlookup (q_Attributes q') k = fmlookup (q_Attributes q) k"
    if m: "matchAttributes (q_Attributes scope) (q_Attributes q')" and v: "fmlookup (q_Attributes scope) k \<noteq> Some ''*''" for k
  proof -
    have doms: "k |\<in>| fmdom (q_Attributes q') \<longleftrightarrow> k |\<in>| fmdom (q_Attributes q)"
      using m D(2) by (simp add: matchAttributes_iff widens_def)
    show ?thesis
    proof (cases "fmlookup (q_Attributes q') k")
      case None
      with doms show ?thesis by (metis fmdom_notD fmdom_notI)
    next
      case (Some a)
      with doms obtain b where "fmlookup (q_Attributes q) k = Some b" by (metis fmdomI fmlookup_dom_iff)
      then show ?thesis using m v D(2) Some unfolding matchAttributes_iff widens_def by (metis option.inject)
    qed
  qed
  have doms: "fmdom (q_Attributes q') = fmdom (q_Attributes q)" if "matchAttributes (q_Attributes scope) (q_Attributes q')"
    using that D(2) by (simp add: matchAttributes_iff widens_def)
  show ?thesis
    using savedApprovalScope_matches [OF assms] saved_scope_matches [OF assms(2), of q'] keep doms same
    by (auto simp: same_authority_def)
qed

theorem saved_scope_bounded_witness:
  "ruleMatches saved_echo echo \<and> savedApprovalScope None echo = Inr echo_scope"
  using saved_scope_bounded [OF echo_scope_declared echo_scope_rule] echo_scope_declared by simp

text \<open>C20. A saved choice takes effect and touches nothing of the administrator.  After a successful save the
  administrator's rules, default and services are unchanged, every other saved rule is kept except one for the
  same scope, the file stays valid, and for every request with the authority that was shown the new rule is
  among those that decide: a saved denial denies from then on.\<close>

theorem remember_takes_effect:
  assumes "Remember f q choice c = (c', None)"
  shows "\<exists>rule p p'. RuleForSavedChoice q choice = Inr rule \<and> load c = Inr p \<and> load c' = Inr p'
    \<and> Rules p' = Rules p \<and> Default p' = Default p \<and> NetworkServices p' = NetworkServices p
    \<and> (\<forall>r\<in>set (SavedDecisions p). \<not> same_scope r rule \<longrightarrow> r \<in> set (SavedDecisions p'))
    \<and> set (SavedDecisions p') \<subseteq> insert rule (set (SavedDecisions p))
    \<and> (\<forall>t q'. same_authority q choice q' \<longrightarrow> choice_decision choice \<in> matched t p' q'
         \<and> (choice_decision choice = ''deny'' \<longrightarrow> ev_Decision (evaluate_policy t p' q') = ''deny''))"
proof -
  from assms obtain rule where rule: "RuleForSavedChoice q choice = Inr rule" and saved: "rememberRule f rule c = (c', None)"
    by (auto simp: Remember_def split: sum.splits if_splits)
  from remember_result [OF saved] obtain p where p: "load c = Inr p"
    and c': "c' = Policy (p\<lparr>SavedDecisions := replace_or_append (SavedDecisions p) rule\<rparr>)"
    and ok: "validatePolicy (p\<lparr>SavedDecisions := replace_or_append (SavedDecisions p) rule\<rparr>) = None" .
  let ?p = "p\<lparr>SavedDecisions := replace_or_append (SavedDecisions p) rule\<rparr>"
  have p': "load c' = Inr ?p" using c' ok by (simp add: load_def)
  note D = RuleForSavedChoiceD [OF rule]
  have eff: "choice_decision choice \<in> matched t ?p q'" if "same_authority q choice q'" for t q'
    using remembered_matching [of rule q' t p] saved_choice_matches [OF rule, of q'] that D(7)
    by (auto simp: same_authority_def)
  have "ev_Decision (evaluate_policy t ?p q') = ''deny''"
    if "same_authority q choice q'" "choice_decision choice = ''deny''" for t q'
    using evaluate_decision [OF p', of t q'] eff [OF that(1), of t] that(2) by simp
  then show ?thesis
    using rule p p' eff replace_or_append_keeps replace_or_append_only by (intro exI [of _ rule] exI [of _ p] exI [of _ ?p]) simp
qed

theorem remember_takes_effect_witness:
  "Remember calm_update echo_scope ''allow-global'' (Policy echo_policy) = (Policy echo_policy1, None)
     \<and> (\<exists>p'. load (Policy echo_policy1) = Inr p')"
  using remember_takes_effect [OF echo_saves] echo_saves by blast


section \<open>The approval queue\<close>

text \<open>C22. The queue is bounded and never mixes up its entries.  In every reachable state at most 128 requests
  are pending and at most 16 for one Environment, each pending identifier leads to the entry of that very
  request, which is at most 16 KiB long when shown and not completed, and a decision that waits in an entry was
  claimed once and is valid for the request shown there.\<close>

theorem queue_bounded:
  assumes "queue_step\<^sup>*\<^sup>* (t, New_Queue) (t', q)"
  shows "fcard (fmdom (qu_entries q)) \<le> MaxPending \<and> pending_in q env \<le> MaxPerEnvironment
    \<and> (fmlookup (qu_entries q) i = Some a \<longrightarrow> a < length (qu_heap q) \<and> ar_RequestID (en_request (qu_heap q ! a)) = i
         \<and> en_completed (qu_heap q ! a) = None)
    \<and> (\<forall>item\<in>set (qu_heap q). length (json_ApprovalRequest (en_request item)) \<le> MaxPromptBytes
         \<and> (\<forall>d. en_decision item = Some d \<longrightarrow> en_claimed item \<and> ValidateApprovalDecision (en_request item) d = None))"
  using queue_reachable_ok [OF assms] queue_okD [OF queue_reachable_ok [OF assms]] pending_in_card
  by (auto simp: queue_ok_def entry_ok_def)

theorem queue_bounded_witness:
  "queue_step\<^sup>*\<^sup>* (0, New_Queue) (0, asked_queue) \<and> fcard (fmdom (qu_entries asked_queue)) \<le> MaxPending"
proof -
  have "queue_step\<^sup>*\<^sup>* (0, New_Queue) (0, asked_queue)"
    using asked_queue_begins queue_step.admit by blast
  with queue_bounded [OF this] show ?thesis by blast
qed

text \<open>C23. Every question is answered at most once, and only while it is open.  A decision that is accepted
  reaches an entry that nobody has claimed, whose request is not cancelled and whose time is not over; the
  decision is valid for the request; and in any later state no decision is accepted for the same entry.\<close>

theorem answered_at_most_once:
  assumes "queue_step\<^sup>*\<^sup>* (t, New_Queue) (t1, q1)" "claim_approval ctx t1 i d q1 = (q2, Inr a)"
    and "queue_step\<^sup>*\<^sup>* (t1, q2) (t3, q3)" "claim_approval ctx' t3 i' d' q3 = (q4, Inr b)"
  shows "a \<noteq> b \<and> t1 < en_expires (qu_heap q1 ! a) \<and> en_ctx (qu_heap q1 ! a) = None
    \<and> ar_RequestID (en_request (qu_heap q1 ! a)) = i
    \<and> ValidateApprovalDecision (en_request (qu_heap q1 ! a)) d = None"
proof -
  from claim_approval_result [OF assms(2)] have a: "fmlookup (qu_entries q1) i = Some a" "answerable t1 (qu_heap q1 ! a)"
    "ValidateApprovalDecision (en_request (qu_heap q1 ! a)) d = None"
    and q2: "q2 = set_entry a (\<lambda>item. item\<lparr>en_claimed := True, en_decision := Some d\<rparr>) q1" by auto
  note ok = queue_okD(1) [OF queue_reachable_ok [OF assms(1)] a(1)]
  have "en_claimed (qu_heap q3 ! a)" using queue_steps_heap [OF assms(3), of a] ok by (simp add: q2)
  moreover from claim_approval_result [OF assms(4)] have "\<not> en_claimed (qu_heap q3 ! b)" by (auto simp: answerable_def)
  ultimately show ?thesis using a ok by (auto simp: answerable_def)
qed

theorem answered_at_most_once_witness:
  "\<exists>q1 q2. claim_approval None 0 ''1'' no_thanks asked_queue2 = (q1, Inr 0)
     \<and> claim_approval None 0 ''2'' no_thanks q1 = (q2, Inr 1) \<and> (0 :: nat) \<noteq> 1"
proof -
  have r: "queue_step\<^sup>*\<^sup>* (0, New_Queue) (0, asked_queue2)"
    using asked_queue_begins queue_step.admit by (meson converse_rtranclp_into_rtranclp rtranclp.rtrancl_refl)
  obtain q1 q2 where c: "claim_approval None 0 ''1'' no_thanks asked_queue2 = (q1, Inr 0)"
    "claim_approval None 0 ''2'' no_thanks q1 = (q2, Inr 1)" using asked_queue_claims by blast
  from answered_at_most_once [OF r c(1) rtranclp.rtrancl_refl c(2)] c show ?thesis by blast
qed

text \<open>C24. The outcome reaches whoever answered.  When the service completes a queued request, the entry leaves
  the queue and the answer that waits for it returns with the result (without its output) and the error; a
  completion after that changes nothing.\<close>

theorem completion_delivers:
  assumes "queue_step\<^sup>*\<^sup>* (t, New_Queue) (t', q)" "fmlookup (qu_entries q) i = Some a"
  shows "let q' = Complete a result err q in fmlookup (qu_entries q') i = None \<and> Complete a result' err' q' = q' \<and>
    (\<exists>q'' res out. await_outcome False ctx i d a q' = Some (q'', res, out) \<and> res = result\<lparr>cr_Output := []\<rparr>
       \<and> (cr_RequestID result = i \<longrightarrow> ad_Save d = cr_SavedChoice result \<longrightarrow> ad_Approved d \<longrightarrow> out = err))"
proof -
  note ok = queue_okD(1) [OF queue_reachable_ok [OF assms(1)] assms(2)]
  have q': "Complete a result err q = set_entry a (\<lambda>item. item\<lparr>en_completed :=
      Some (result\<lparr>cr_Output := []\<rparr>, if cr_RequestID result \<noteq> i then Some (Sentinel ErrIncompatibleState) else err)\<rparr>)
      (q\<lparr>qu_entries := fmdrop i (qu_entries q)\<rparr>)"
    using ok assms(2) by (simp add: Complete_def Let_def)
  show ?thesis unfolding q' using ok
    by (auto simp: Complete_def Let_def await_outcome_def set_entry_def)
qed

theorem completion_delivers_witness:
  "fmlookup (qu_entries (Complete 0 no_result None asked_queue)) ''1'' = None"
proof -
  have r: "queue_step\<^sup>*\<^sup>* (0, New_Queue) (0, asked_queue)"
    using asked_queue_begins queue_step.admit by blast
  have "fmlookup (qu_entries asked_queue) ''1'' = Some 0" by (simp add: asked_queue_def)
  from completion_delivers [OF r this] show ?thesis by (simp add: Let_def)
qed

text \<open>C25. A decision from the joined review goes to the one source that asked.  When the review accepts a
  decision for an identifier and names a source, that source has the request pending, no other source has a
  request with this identifier, and the decision is valid for the request shown.\<close>

theorem review_routes_to_owner:
  assumes "review_Decide ctx sources i d = Inr n"
  shows "n < length sources \<and> (\<exists>pending. sources ! n = Some pending \<and> i \<in> ar_RequestID ` set pending)
    \<and> (\<forall>m pending. m < length sources \<longrightarrow> sources ! m = Some pending \<longrightarrow> i \<in> ar_RequestID ` set pending \<longrightarrow> m = n)
    \<and> (\<exists>requests r. Pending ctx sources = Inr requests \<and> r \<in> set requests \<and> ar_RequestID r = i
         \<and> ValidateApprovalDecision r d = None)"
proof -
  from assms obtain requests owners r where snap: "snapshot ctx sources = Inr (requests, owners)"
    and r: "find (\<lambda>r. ar_RequestID r = i) requests = Some r" "ValidateApprovalDecision r d = None"
    and n: "fmlookup owners i = Some n"
    by (auto simp: review_Decide_def split: sum.splits option.splits)
  from n have "n < length sources \<and> (\<exists>pending. sources ! n = Some pending \<and> i \<in> ar_RequestID ` set pending)"
    by (simp add: snapshot_owners [OF snap])
  moreover have "m = n" if "m < length sources" "sources ! m = Some pending" "i \<in> ar_RequestID ` set pending" for m pending
    using snapshot_owners [OF snap, of i m] n that by auto
  moreover have "r \<in> set requests \<and> ar_RequestID r = i" using r(1) by (auto simp: find_Some_iff)
  ultimately show ?thesis using snap r(2) by (auto simp: Pending_def)
qed

theorem review_routes_to_owner_witness: "review_Decide None [Some [], Some [question1]] ''1'' no_thanks = Inr 1 \<and> (1 :: nat) < 2"
proof -
  have run: "review_Decide None [Some [], Some [question1]] ''1'' no_thanks = Inr 1"
    by (simp add: review_Decide_def snapshot_def review_source_def review_step_def question_values)
  with review_routes_to_owner [OF run] show ?thesis by simp
qed

end
