(* ===== verification/ClientHello.thy ===== *)
theory ClientHello
  imports GoText
begin

text \<open>
  The proxy's bounded reader of a TLS ClientHello
  (\<^verbatim>\<open>src/internal/adapters/network/proxy/client_hello.go\<close>).  A byte slice is a \<open>char list\<close>.  Indexing
  out of range is a value of its own, \<open>Panic\<close>, so that its absence is a theorem.  The reader is the
  sequence of bytes it will deliver before it reports an error.
\<close>

datatype 'a go = Panic | Ret "error + 'a"

definition denied :: "'a go" where
  "denied = Ret (Inl ErrPolicyDenied)"

definition byte_at :: "string \<Rightarrow> nat \<Rightarrow> (nat \<Rightarrow> 'a go) \<Rightarrow> 'a go" where
  "byte_at b i k = (if i < length b then k (of_char (b ! i)) else Panic)"

definition uint16_at :: "string \<Rightarrow> nat \<Rightarrow> (nat \<Rightarrow> 'a go) \<Rightarrow> 'a go" where
  "uint16_at b i k = byte_at b i (\<lambda>hi. byte_at b (Suc i) (\<lambda>lo. k (hi * 256 + lo)))"

definition slice :: "string \<Rightarrow> nat \<Rightarrow> nat \<Rightarrow> (string \<Rightarrow> 'a go) \<Rightarrow> 'a go" where
  "slice b i j k = (if i \<le> j \<and> j \<le> length b then k (take (j - i) (drop i b)) else Panic)"

subsection \<open>The server name extension\<close>

function server_names :: "string \<Rightarrow> nat \<Rightarrow> string go" where
  "server_names v pos =
     (if pos + 3 \<le> length v then
        byte_at v pos (\<lambda>nameType. uint16_at v (pos + 1) (\<lambda>nameLen.
          if nameLen < 1 \<or> pos + 3 + nameLen > length v then denied
          else if nameType = 0 then slice v (pos + 3) (pos + 3 + nameLen) (\<lambda>name. Ret (Inr name))
          else server_names v (pos + 3 + nameLen)))
      else denied)"
  by pat_completeness auto
termination by (relation "measure (\<lambda>(v, pos). length v - pos)") auto

declare server_names.simps [simp del]

definition parseServerNameExtension :: "string \<Rightarrow> string go" where
  "parseServerNameExtension v =
     (if length v < 2 then denied
      else uint16_at v 0 (\<lambda>listLen. if listLen + 2 \<noteq> length v then denied else server_names v 2))"

subsection \<open>The ClientHello body\<close>

function extensions :: "string \<Rightarrow> nat \<Rightarrow> nat \<Rightarrow> string go" where
  "extensions b pos last_pos =
     (if pos + 4 \<le> last_pos then
        uint16_at b pos (\<lambda>typeID. uint16_at b (pos + 2) (\<lambda>len.
          if pos + 4 + len > last_pos then denied
          else if typeID = 0 then slice b (pos + 4) (pos + 4 + len) parseServerNameExtension
          else extensions b (pos + 4 + len) last_pos))
      else denied)"
  by pat_completeness auto
termination by (relation "measure (\<lambda>(b, pos, last_pos). last_pos - pos)") auto

declare extensions.simps [simp del]

definition parseClientHelloServerName :: "string \<Rightarrow> string go" where
  "parseClientHelloServerName b =
     (if length b < 35 then denied
      else byte_at b 34 (\<lambda>sessionLen.
        let pos = 35 in
        if pos + sessionLen + 2 > length b then denied
        else let pos = pos + sessionLen in uint16_at b pos (\<lambda>cipherLen.
        let pos = pos + 2 in
        if cipherLen < 2 \<or> pos + cipherLen + 1 > length b then denied
        else let pos = pos + cipherLen in byte_at b pos (\<lambda>compressionLen.
        let pos = pos + 1 in
        if pos + compressionLen = length b then denied
        else if pos + compressionLen + 2 > length b then denied
        else let pos = pos + compressionLen in uint16_at b pos (\<lambda>extensionsLen.
        let pos = pos + 2 in
        if pos + extensionsLen \<noteq> length b then denied
        else extensions b pos (pos + extensionsLen))))))"

subsection \<open>Records\<close>

definition maxClientHelloBytes :: nat where "maxClientHelloBytes = 128 * 1024"

definition uint24_at :: "string \<Rightarrow> nat \<Rightarrow> (nat \<Rightarrow> 'a go) \<Rightarrow> 'a go" where
  "uint24_at b i k = byte_at b i (\<lambda>x. byte_at b (Suc i) (\<lambda>y. byte_at b (Suc (Suc i)) (\<lambda>z.
     k (x * 65536 + y * 256 + z))))"

text \<open>\<^verbatim>\<open>io.ReadFull\<close> of \<open>n\<close> bytes, of which there is at least one.\<close>

definition ReadFull :: "nat \<Rightarrow> string \<Rightarrow> error + string \<times> string" where
  "ReadFull n input =
     (if n \<le> length input then Inr (take n input, drop n input)
      else Inl (ErrOther (if input = [] then ''EOF'' else ''unexpected EOF'')))"

text \<open>One record: its bytes, its payload and what follows.\<close>

definition next_record :: "nat \<Rightarrow> string \<Rightarrow> (string \<times> string \<times> string) go" where
  "next_record consumed input =
     (case ReadFull 5 input of Inl e \<Rightarrow> Ret (Inl e)
      | Inr (header, rest) \<Rightarrow> byte_at header 0 (\<lambda>contentType.
          if contentType \<noteq> 22 then denied
          else uint16_at header 3 (\<lambda>len.
            if len < 1 \<or> consumed + 5 + len > maxClientHelloBytes then denied
            else case ReadFull len rest of Inl e \<Rightarrow> Ret (Inl e)
            | Inr (payload, rest) \<Rightarrow> Ret (Inr (header @ payload, payload, rest)))))"

text \<open>The handshake bytes so far: \<open>None\<close> asks for another record.\<close>

definition hello_name :: "string \<Rightarrow> string option go" where
  "hello_name handshake =
     (if length handshake < 4 then Ret (Inr None)
      else byte_at handshake 0 (\<lambda>messageType.
        if messageType \<noteq> 1 then denied
        else uint24_at handshake 1 (\<lambda>messageLen.
          if messageLen < 1 \<or> messageLen + 4 > maxClientHelloBytes then denied
          else if length handshake < messageLen + 4 then Ret (Inr None)
          else slice handshake 4 (messageLen + 4) (\<lambda>body.
            case parseClientHelloServerName body of
              Panic \<Rightarrow> Panic | Ret r \<Rightarrow> Ret (map_sum id Some r)))))"

function read_records :: "string \<Rightarrow> string \<Rightarrow> string \<Rightarrow> (string \<times> string) go" where
  "read_records raw handshake input =
     (if \<not> length raw < maxClientHelloBytes then denied
      else case next_record (length raw) input of Panic \<Rightarrow> Panic | Ret (Inl e) \<Rightarrow> Ret (Inl e)
      | Ret (Inr (bytes, payload, rest)) \<Rightarrow>
          (case hello_name (handshake @ payload) of Panic \<Rightarrow> Panic | Ret (Inl e) \<Rightarrow> Ret (Inl e)
           | Ret (Inr None) \<Rightarrow> read_records (raw @ bytes) (handshake @ payload) rest
           | Ret (Inr (Some name)) \<Rightarrow> Ret (Inr (raw @ bytes, name))))"
  by pat_completeness auto
termination
  by (relation "measure (\<lambda>(raw, handshake, input). length input)")
    (auto simp: next_record_def ReadFull_def byte_at_def uint16_at_def denied_def split: if_splits)

declare read_records.simps [simp del]

definition readClientHelloServerName :: "string \<Rightarrow> (string \<times> string) go" where
  "readClientHelloServerName input = read_records [] [] input"

section \<open>No index is out of range\<close>

lemma denied_not_Panic [simp]: "denied \<noteq> Panic"
  by (simp add: denied_def)

lemma byte_at_Panic: "byte_at b i k = Panic \<longleftrightarrow> length b \<le> i \<or> k (of_char (b ! i)) = Panic"
  by (auto simp: byte_at_def)

lemma uint16_at_Panic:
  "uint16_at b i k = Panic \<longleftrightarrow> length b \<le> Suc i \<or> k (of_char (b ! i) * 256 + of_char (b ! Suc i)) = Panic"
  by (auto simp: uint16_at_def byte_at_Panic)

lemma slice_Panic: "slice b i j k = Panic \<longleftrightarrow> j < i \<or> length b < j \<or> k (take (j - i) (drop i b)) = Panic"
  by (auto simp: slice_def)

lemma uint24_at_Panic:
  "uint24_at b i k = Panic \<longleftrightarrow> length b \<le> Suc (Suc i) \<or>
     k (of_char (b ! i) * 65536 + of_char (b ! Suc i) * 256 + of_char (b ! Suc (Suc i))) = Panic"
  by (auto simp: uint24_at_def byte_at_Panic)

lemmas go_Panic = byte_at_Panic uint16_at_Panic uint24_at_Panic slice_Panic

lemma server_names_safe: "server_names v pos \<noteq> Panic"
proof (induction v pos rule: server_names.induct)
  case (1 v pos)
  then show ?case by (subst server_names.simps) (auto simp: go_Panic)
qed

lemma parseServerNameExtension_safe: "parseServerNameExtension v \<noteq> Panic"
  by (auto simp: parseServerNameExtension_def server_names_safe go_Panic)

lemma extensions_safe: "last_pos \<le> length b \<Longrightarrow> extensions b pos last_pos \<noteq> Panic"
proof (induction b pos last_pos rule: extensions.induct)
  case (1 b pos last_pos)
  then show ?case by (subst extensions.simps) (auto simp: go_Panic parseServerNameExtension_safe)
qed

lemma parseClientHelloServerName_safe: "parseClientHelloServerName b \<noteq> Panic"
  by (auto simp: parseClientHelloServerName_def Let_def go_Panic extensions_safe)

lemma next_record_safe: "next_record n input \<noteq> Panic"
  by (auto simp: next_record_def ReadFull_def go_Panic)

lemma hello_name_safe: "hello_name handshake \<noteq> Panic"
  using parseClientHelloServerName_safe by (auto simp: hello_name_def go_Panic split: go.split)

lemma read_records_safe: "read_records raw handshake input \<noteq> Panic"
proof (induction raw handshake input rule: read_records.induct)
  case (1 raw handshake input)
  then show ?case
    by (subst read_records.simps)
      (auto simp: hello_name_safe next_record_safe split: sum.split option.split go.split prod.split)
qed

section \<open>What the reader returns\<close>

lemma ReadFull_split: "ReadFull n input = Inr (bytes, rest) \<Longrightarrow> input = bytes @ rest \<and> length bytes = n"
  by (auto simp: ReadFull_def split: if_splits)

lemma next_record_split:
  "next_record n input = Ret (Inr (bytes, payload, rest)) \<Longrightarrow>
     input = bytes @ rest \<and> n + length bytes \<le> maxClientHelloBytes"
  by (auto simp: next_record_def byte_at_def uint16_at_def denied_def split: if_splits sum.splits prod.splits
      dest!: ReadFull_split)

text \<open>The bytes it forwards are the ones it consumed, within the bound.\<close>

lemma read_records_prefix:
  assumes "read_records raw handshake input = Ret (Inr (raw', name))"
  shows "\<exists>bytes rest. raw' = raw @ bytes \<and> input = bytes @ rest \<and> length raw' \<le> maxClientHelloBytes"
  using assms
proof (induction raw handshake input rule: read_records.induct)
  case (1 raw handshake input)
  from "1.prems" obtain bytes payload rest where len: "length raw < maxClientHelloBytes"
    and rec: "next_record (length raw) input = Ret (Inr (bytes, payload, rest))"
    and cont: "(hello_name (handshake @ payload) = Ret (Inr None) \<and>
        read_records (raw @ bytes) (handshake @ payload) rest = Ret (Inr (raw', name)))
      \<or> raw' = raw @ bytes"
    by (subst (asm) read_records.simps)
      (auto simp: denied_def split: if_splits sum.splits option.splits go.splits prod.splits)
  from cont show ?case
  proof
    assume *: "hello_name (handshake @ payload) = Ret (Inr None) \<and>
        read_records (raw @ bytes) (handshake @ payload) rest = Ret (Inr (raw', name))"
    with "1.IH" len rec next_record_split [OF rec] show ?thesis by fastforce
  qed (use next_record_split [OF rec] in auto)
qed

section \<open>A well-formed ClientHello is read\<close>

text \<open>The wire format: big-endian lengths before each vector.\<close>

definition put16 :: "nat \<Rightarrow> string" where
  "put16 n = [char_of (n div 256), char_of n]"

definition put24 :: "nat \<Rightarrow> string" where
  "put24 n = [char_of (n div 65536), char_of (n div 256), char_of n]"

definition extension :: "nat \<times> string \<Rightarrow> string" where
  "extension e = put16 (fst e) @ put16 (length (snd e)) @ snd e"

definition server_name_data :: "string \<Rightarrow> string \<Rightarrow> string" where
  "server_name_data name tailing =
     put16 (3 + length name + length tailing) @ char_of (0 :: nat) # put16 (length name) @ name @ tailing"

record hello =
  hl_intro :: string \<comment> \<open>version and random\<close>
  hl_session :: string
  hl_ciphers :: string
  hl_compression :: string
  hl_before :: "(nat \<times> string) list" \<comment> \<open>extensions before the server name\<close>
  hl_name :: string
  hl_names :: string \<comment> \<open>further entries of the server name list\<close>
  hl_after :: string \<comment> \<open>extensions after it\<close>

definition hello_extensions :: "hello \<Rightarrow> string" where
  "hello_extensions h = concat (map extension (hl_before h))
     @ extension (0, server_name_data (hl_name h) (hl_names h)) @ hl_after h"

definition hello_body :: "hello \<Rightarrow> string" where
  "hello_body h = hl_intro h @ char_of (length (hl_session h)) # hl_session h
     @ put16 (length (hl_ciphers h)) @ hl_ciphers h
     @ char_of (length (hl_compression h)) # hl_compression h
     @ put16 (length (hello_extensions h)) @ hello_extensions h"

definition hello_ok :: "hello \<Rightarrow> bool" where
  "hello_ok h \<longleftrightarrow> length (hl_intro h) = 34 \<and> length (hl_session h) < 256
     \<and> 2 \<le> length (hl_ciphers h) \<and> length (hl_ciphers h) < 65536 \<and> length (hl_compression h) < 256
     \<and> (\<forall>(t, d)\<in>set (hl_before h). 0 < t \<and> t < 65536 \<and> length d < 65536)
     \<and> hl_name h \<noteq> [] \<and> length (hello_extensions h) < 65536"

lemma of_char_of [simp]: "of_char (char_of n :: char) = (n mod 256 :: nat)"
  by (simp add: of_char_of)

lemma byte_at_app:
  "i = length xs \<Longrightarrow> byte_at (xs @ c # ys) i k = k (of_char c)"
  by (simp add: byte_at_def)

lemma uint16_at_app:
  assumes "i = length xs" "n < 65536"
  shows "uint16_at (xs @ put16 n @ ys) i k = k n"
proof -
  have "n div 256 mod 256 = n div 256" using assms(2) by simp
  then show ?thesis using assms(1) by (simp add: uint16_at_def byte_at_def put16_def nth_append)
qed

lemma slice_app: "i = length xs \<Longrightarrow> j = i + length ys \<Longrightarrow> slice (xs @ ys @ zs) i j k = k ys"
  by (simp add: slice_def)

lemma parseServerNameExtension_ok:
  assumes "name \<noteq> []" "length name + length tailing + 3 < 65536"
  shows "parseServerNameExtension (server_name_data name tailing) = Ret (Inr name)"
proof -
  let ?v = "server_name_data name tailing" and ?l = "put16 (3 + length name + length tailing)"
  have len: "length ?v = 5 + length name + length tailing" by (simp add: server_name_data_def put16_def)
  have "uint16_at ?v 0 k = k (3 + length name + length tailing)" for k :: "nat \<Rightarrow> string go"
    using uint16_at_app [of 0 "[]" "3 + length name + length tailing" _ k] assms(2)
    by (simp add: server_name_data_def)
  moreover have "byte_at ?v 2 k = k 0" for k :: "nat \<Rightarrow> string go"
    using byte_at_app [of 2 ?l "char_of (0::nat)" _ k] by (simp add: server_name_data_def put16_def)
  moreover have "uint16_at ?v 3 k = k (length name)" for k :: "nat \<Rightarrow> string go"
    using uint16_at_app [of 3 "?l @ [char_of (0::nat)]" "length name" "name @ tailing" k] assms(2)
    by (simp add: server_name_data_def put16_def)
  moreover have "slice ?v 5 (5 + length name) k = k name" for k :: "string \<Rightarrow> string go"
    using slice_app [of 5 "?l @ char_of (0::nat) # put16 (length name)" "5 + length name" name tailing k]
    by (simp add: server_name_data_def put16_def)
  ultimately show ?thesis using len assms(1)
    by (simp add: parseServerNameExtension_def server_names.simps [of ?v 2])
qed

lemma extensions_ok:
  assumes "\<forall>(t, d)\<in>set before. 0 < t \<and> t < 65536 \<and> length d < 65536"
    and "length v < 65536" and "last_pos = length (pre @ concat (map extension before) @ extension (0, v) @ tailing)"
  shows "extensions (pre @ concat (map extension before) @ extension (0, v) @ tailing) (length pre) last_pos
    = parseServerNameExtension v"
  using assms
proof (induction before arbitrary: pre)
  case Nil
  let ?b = "pre @ extension (0, v) @ tailing"
  have "uint16_at ?b (length pre) k = k 0" for k :: "nat \<Rightarrow> string go"
    using uint16_at_app [of "length pre" pre 0 _ k] by (simp add: extension_def)
  moreover have "uint16_at ?b (length pre + 2) k = k (length v)" for k :: "nat \<Rightarrow> string go"
    using uint16_at_app [of "length pre + 2" "pre @ put16 0" "length v" "v @ tailing" k] Nil
    by (simp add: extension_def put16_def)
  moreover have "slice ?b (length pre + 4) (length pre + 4 + length v) k = k v" for k :: "string \<Rightarrow> string go"
    using slice_app [of "length pre + 4" "pre @ put16 0 @ put16 (length v)" "length pre + 4 + length v" v tailing k]
    by (simp add: extension_def put16_def)
  moreover have "last_pos = length pre + 4 + length v + length tailing" using Nil by (simp add: extension_def put16_def)
  ultimately show ?case by (subst extensions.simps) simp
next
  case (Cons e before)
  obtain t d where e: "e = (t, d)" by fastforce
  let ?tail = "concat (map extension before) @ extension (0, v) @ tailing"
  let ?b = "pre @ extension e @ ?tail"
  from Cons.prems e have t: "0 < t" "t < 65536" "length d < 65536" by auto
  have "uint16_at ?b (length pre) k = k t" for k :: "nat \<Rightarrow> string go"
    using uint16_at_app [of "length pre" pre t _ k] t by (simp add: extension_def e)
  moreover have "uint16_at ?b (length pre + 2) k = k (length d)" for k :: "nat \<Rightarrow> string go"
    using uint16_at_app [of "length pre + 2" "pre @ put16 t" "length d" "d @ ?tail" k] t
    by (simp add: extension_def put16_def e)
  moreover have "length (pre @ extension e) = length pre + 4 + length d" by (simp add: extension_def put16_def e)
  moreover have "extensions ((pre @ extension e) @ ?tail) (length (pre @ extension e)) last_pos = parseServerNameExtension v"
    using Cons.prems by (intro Cons.IH) auto
  moreover have "length pre + 4 + length d \<le> last_pos" using Cons.prems(3) by (simp add: extension_def put16_def e)
  ultimately show ?case using t by (subst extensions.simps) (simp add: add.assoc)
qed

lemma parseClientHelloServerName_ok:
  assumes "hello_ok h"
  shows "parseClientHelloServerName (hello_body h) = Ret (Inr (hl_name h))"
proof -
  note ok = assms [unfolded hello_ok_def]
  let ?b = "hello_body h" and ?s = "hl_session h" and ?c = "hl_ciphers h" and ?z = "hl_compression h"
    and ?E = "hello_extensions h" and ?v = "server_name_data (hl_name h) (hl_names h)"
  define p1 where "p1 = hl_intro h @ char_of (length ?s) # ?s"
  define p2 where "p2 = p1 @ put16 (length ?c) @ ?c"
  define p3 where "p3 = p2 @ char_of (length ?z) # ?z"
  have lens: "length p1 = 35 + length ?s" "length p2 = 37 + length ?s + length ?c"
    "length p3 = 38 + length ?s + length ?c + length ?z" "length ?b = 40 + length ?s + length ?c + length ?z + length ?E"
    using ok by (simp_all add: p1_def p2_def p3_def hello_body_def put16_def)
  have "length ?v \<le> length ?E" by (simp add: hello_extensions_def extension_def)
  then have v: "length ?v < 65536" "length (hl_name h) + length (hl_names h) + 3 < 65536"
    using ok by (auto simp: server_name_data_def put16_def)
  have b1: "byte_at ?b 34 k = k (length ?s)" for k :: "nat \<Rightarrow> string go"
    using byte_at_app [of 34 "hl_intro h" "char_of (length ?s)" _ k] ok by (simp add: hello_body_def)
  have b2: "uint16_at ?b i k = k (length ?c)" if "i = 35 + length ?s" for i and k :: "nat \<Rightarrow> string go"
    using uint16_at_app [of i p1 "length ?c" _ k] that ok lens(1) by (simp add: hello_body_def p1_def)
  have b3: "byte_at ?b i k = k (length ?z)" if "i = 37 + length ?s + length ?c" for i and k :: "nat \<Rightarrow> string go"
    using byte_at_app [of i p2 "char_of (length ?z)" _ k] that ok lens(2) by (simp add: hello_body_def p1_def p2_def)
  have b4: "uint16_at ?b i k = k (length ?E)" if "i = 38 + length ?s + length ?c + length ?z"
    for i and k :: "nat \<Rightarrow> string go"
    using uint16_at_app [of i p3 "length ?E" ?E k] that ok lens(3) by (simp add: hello_body_def p1_def p2_def p3_def)
  have body: "?b = (p3 @ put16 (length ?E)) @ concat (map extension (hl_before h)) @ extension (0, ?v) @ hl_after h"
    by (simp add: hello_body_def p1_def p2_def p3_def) (simp add: hello_extensions_def)
  have "extensions ((p3 @ put16 (length ?E)) @ concat (map extension (hl_before h)) @ extension (0, ?v) @ hl_after h)
      (length (p3 @ put16 (length ?E))) (length ?b) = parseServerNameExtension ?v"
    using ok v(1) body by (intro extensions_ok) auto
  moreover have "length (p3 @ put16 (length ?E)) = 40 + length ?s + length ?c + length ?z"
    using lens(3) by (simp add: put16_def)
  moreover have "parseServerNameExtension ?v = Ret (Inr (hl_name h))"
    using ok v(2) by (intro parseServerNameExtension_ok) auto
  ultimately have "extensions ?b (40 + length ?s + length ?c + length ?z) (length ?b) = Ret (Inr (hl_name h))"
    by (simp only: body [symmetric])
  then have b5: "extensions ?b i j = Ret (Inr (hl_name h))"
    if "i = 40 + length ?s + length ?c + length ?z" "j = length ?b" for i j using that by simp
  show ?thesis using ok by (simp add: parseClientHelloServerName_def Let_def lens(4) b1 b2 b3 b4 b5)
qed

definition handshake_message :: "hello \<Rightarrow> string" where
  "handshake_message h = char_of (1 :: nat) # put24 (length (hello_body h)) @ hello_body h"

definition tls_record :: "string \<times> string \<Rightarrow> string" where
  "tls_record r = char_of (22 :: nat) # fst r @ put16 (length (snd r)) @ snd r"

definition record_ok :: "string \<times> string \<Rightarrow> bool" where
  "record_ok r \<longleftrightarrow> length (fst r) = 2 \<and> snd r \<noteq> [] \<and> length (snd r) < 65536"

lemma tls_record_length: "record_ok r \<Longrightarrow> length (tls_record r) = 5 + length (snd r)"
  by (simp add: tls_record_def record_ok_def put16_def)

lemma ReadFull_app: "length xs = n \<Longrightarrow> ReadFull n (xs @ ys) = Inr (xs, ys)"
  by (auto simp: ReadFull_def)

lemma next_record_ok:
  assumes "record_ok r" "n + length (tls_record r) \<le> maxClientHelloBytes"
  shows "next_record n (tls_record r @ rest) = Ret (Inr (tls_record r, snd r, rest))"
proof -
  let ?header = "char_of (22 :: nat) # fst r @ put16 (length (snd r))"
  have header: "length ?header = 5" "tls_record r @ rest = ?header @ snd r @ rest" "tls_record r = ?header @ snd r"
    using assms(1) by (simp_all add: record_ok_def tls_record_def put16_def)
  have "uint16_at ?header 3 k = k (length (snd r))" for k :: "nat \<Rightarrow> (string \<times> string \<times> string) go"
    using uint16_at_app [of 3 "char_of (22 :: nat) # fst r" "length (snd r)" "[]" k] assms(1) by (simp add: record_ok_def)
  moreover have "byte_at ?header 0 k = k 22" for k :: "nat \<Rightarrow> (string \<times> string \<times> string) go"
    by (simp add: byte_at_def)
  moreover have "snd r \<noteq> []" using assms(1) by (simp add: record_ok_def)
  ultimately show ?thesis
    using assms(2) tls_record_length [OF assms(1)] header(1)
    unfolding next_record_def header(2) by (simp add: ReadFull_app header(3) del: append_Cons append.append_Cons)
qed

lemma uint24_digits:
  fixes n :: nat
  assumes "n < 256 * 65536"
  shows "n div 65536 mod 256 * 65536 + n div 256 mod 256 * 256 + n mod 256 = n"
proof -
  have "n div 65536 < 256" using assms by (simp add: less_mult_imp_div_less)
  then have "n div 65536 mod 256 * 65536 = n div 256 div 256 * 256 * 256" by (simp flip: div_mult2_eq)
  moreover have "n div 256 div 256 * 256 + n div 256 mod 256 = n div 256" "n div 256 * 256 + n mod 256 = n" by simp_all
  ultimately show ?thesis by (metis add_mult_distrib)
qed

lemma uint24_at_app:
  assumes "i = length xs" "n < 256 * 65536"
  shows "uint24_at (xs @ put24 n @ ys) i k = k n"
proof -
  have "n div 65536 mod 256 = n div 65536" using assms(2) by (simp add: less_mult_imp_div_less)
  with uint24_digits [OF assms(2)] assms(1) show ?thesis
    by (simp add: uint24_at_def byte_at_def put24_def nth_append)
qed

lemma hello_name_prefix:
  assumes "handshake_message h = p @ q" "0 < length (hello_body h)" "length (hello_body h) + 4 \<le> maxClientHelloBytes"
    and "parseClientHelloServerName (hello_body h) = Ret (Inr name)"
  shows "hello_name p = Ret (Inr (if q = [] then Some name else None))"
proof (cases "length p < 4")
  case True
  then have "q \<noteq> []" using assms(1) by (auto simp: handshake_message_def put24_def)
  with True show ?thesis by (simp add: hello_name_def)
next
  case False
  let ?n = "length (hello_body h)" and ?t = "char_of (1 :: nat) :: char"
  have len: "length p + length q = 4 + ?n"
    using arg_cong [OF assms(1), of length] by (simp add: handshake_message_def put24_def)
  have "take 4 p = ?t # put24 ?n"
    using arg_cong [OF assms(1), of "take 4"] False by (simp add: handshake_message_def put24_def)
  then have p: "p = [?t] @ put24 ?n @ drop 4 p" using append_take_drop_id [of 4 p] by simp
  have t: "byte_at p 0 k = k 1" for k :: "nat \<Rightarrow> string option go" by (subst p) (simp add: byte_at_def)
  have "?n < 256 * 65536" using assms(3) by (simp add: maxClientHelloBytes_def)
  then have l: "uint24_at p 1 k = k ?n" for k :: "nat \<Rightarrow> string option go" by (subst p) (rule uint24_at_app, simp_all)
  have "drop 4 p = hello_body h" if "q = []"
    using that arg_cong [OF assms(1), of "drop 4"] by (simp add: handshake_message_def put24_def)
  then have s: "slice p 4 (?n + 4) k = k (hello_body h)" if "q = []" for k :: "string \<Rightarrow> string option go"
    using that len by (simp add: slice_def)
  show ?thesis using False len assms(2-4) by (cases q) (auto simp: hello_name_def t l [simplified] s)
qed

text \<open>The name is found however the message is cut into records, and exactly the records are
  consumed.\<close>

lemma read_records_ok:
  assumes ok: "hello_ok h" and size: "length (hello_body h) + 4 \<le> maxClientHelloBytes"
  assumes "\<forall>r\<in>set records. record_ok r" "handshake @ concat (map snd records) = handshake_message h"
    and "records \<noteq> []" "length raw + length (concat (map tls_record records)) \<le> maxClientHelloBytes"
  shows "read_records raw handshake (concat (map tls_record records) @ rest)
    = Ret (Inr (raw @ concat (map tls_record records), hl_name h))"
  using assms(3-6)
proof (induction records arbitrary: raw handshake)
  case (Cons r records)
  let ?input = "concat (map tls_record (r # records)) @ rest"
  have body: "0 < length (hello_body h)" by (simp add: hello_body_def)
  have r: "record_ok r" using Cons.prems by simp
  have rec: "next_record (length raw) ?input = Ret (Inr (tls_record r, snd r, concat (map tls_record records) @ rest))"
    using next_record_ok [OF r, of "length raw" "concat (map tls_record records) @ rest"] Cons.prems(4) by simp
  have small: "length raw < maxClientHelloBytes" using Cons.prems(4) tls_record_length [OF r] by simp
  have name: "hello_name (handshake @ snd r) = Ret (Inr (if concat (map snd records) = [] then Some (hl_name h) else None))"
    by (rule hello_name_prefix [OF _ body size parseClientHelloServerName_ok [OF ok]]) (use Cons.prems(2) in simp)
  show ?case
  proof (cases "records = []")
    case True
    with name show ?thesis
      by (subst read_records.simps) (simp add: rec [unfolded True, simplified] small)
  next
    case False
    then obtain r' rs where "records = r' # rs" by (cases records) auto
    with Cons.prems(1) have "concat (map snd records) \<noteq> []" by (simp add: record_ok_def)
    with name have none: "hello_name (handshake @ snd r) = Ret (Inr None)" by simp
    have "read_records (raw @ tls_record r) (handshake @ snd r) (concat (map tls_record records) @ rest)
        = Ret (Inr ((raw @ tls_record r) @ concat (map tls_record records), hl_name h))"
      using Cons.prems False by (intro Cons.IH) auto
    then show ?thesis by (subst read_records.simps) (simp add: rec [simplified] small none)
  qed
qed simp

end
