(* ===== verification/EdgeGuarantees.thy ===== *)
theory EdgeGuarantees
  imports AuthorityGuarantees ClientHello
begin

text \<open>
  The properties of the network edge: what an egress grant means, that names and addresses have one
  spelling, and that the bytes an Environment sends cannot derail the parsers that read them.
\<close>

section \<open>Egress grants\<close>

lemma fmadd_fmupd_swap: "fmlookup n k = None \<Longrightarrow> fmupd k v m ++\<^sub>f n = m ++\<^sub>f fmupd k v n"
  by (intro fmap_ext) (auto simp: fmlookup_add fmlookup_dom_iff)

lemma foldl_fmupd_distinct:
  assumes "distinct (map fst xs)" "\<forall>(k, v)\<in>set xs. f k = k \<and> g v = v"
  shows "foldl (\<lambda>m (k, v). fmupd (f k) (g v) m) m xs = m ++\<^sub>f fmap_of_list xs"
  using assms
proof (induction xs arbitrary: m)
  case (Cons x xs)
  then have "fmlookup (fmap_of_list xs) (fst x) = None" by (simp add: fmlookup_of_list map_of_eq_None_iff)
  with Cons show ?case by (cases x) (simp add: fmap_of_list_simps fmadd_fmupd_swap)
qed simp

text \<open>Normalisation keeps a request whose texts are trimmed, whatever the order of the map.\<close>

lemma normalizeRequest_trimmed:
  assumes "range_order ord" "TrimSpace (q_Capability q) = q_Capability q" "TrimSpace (q_Action q) = q_Action q"
    "TrimSpace (q_Resource q) = q_Resource q" "TrimSpace (q_Environment q) = q_Environment q"
    and attributes: "\<And>k v. fmlookup (q_Attributes q) k = Some v \<Longrightarrow> TrimSpace k = k \<and> TrimSpace v = v"
  shows "normalizeRequest ord q = q"
proof -
  have o: "distinct (map fst (ord (q_Attributes q)))" "fmap_of_list (ord (q_Attributes q)) = q_Attributes q"
    using assms(1) by (auto simp: range_order_def)
  have "\<forall>(k, v)\<in>set (ord (q_Attributes q)). TrimSpace k = k \<and> TrimSpace v = v"
    using attributes o(2) map_of_is_SomeI [OF o(1)] by (auto simp: fmlookup_of_list [symmetric])
  from foldl_fmupd_distinct [OF o(1) this, of fmempty] o(2) assms(2-5) show ?thesis
    by (simp add: normalizeRequest_def)
qed

lemma TrimSpace_words: "TrimSpace ''network.egress'' = ''network.egress''" "TrimSpace ''connect'' = ''connect''"
  "TrimSpace ''port'' = ''port''" "TrimSpace ''protocol'' = ''protocol''" "TrimSpace ''http'' = ''http''"
  "TrimSpace ''https'' = ''https''"
  by (rule TrimSpace_host, simp add: host_char_def go_simps)+

lemma egress_capability_normal:
  assumes "range_order ord" "NormalizeRequest r = Inr n"
  shows "normalizeRequest ord (egress_capability n) = egress_capability n"
proof -
  note D = NormalizeRequestD [OF assms(2)]
  have "list_all host_char (eg_Host n)" using host_labels_chars [OF CanonicalHostD(5) [OF D(2)]] .
  moreover have "list_all host_char (Itoa (eg_Port n))"
    using digits_decimal [of "nat (eg_Port n)"] D(6) by (auto simp: Itoa_def list_all_iff host_char_def go_simps)
  ultimately show ?thesis using D TrimSpace_words
    by (intro normalizeRequest_trimmed assms(1)) (auto simp: egress_capability_def TrimSpace_host split: if_splits)
qed

text \<open>C27. An egress grant stands for an authorised connection.  When the controller grants a connection through a
  capability service, the grant names the canonical connection and nothing else, the capability request that was executed
  and recorded is the one for exactly that host, port, protocol and Environment, and everything that must stand
  before an execution stood before it.\<close>

theorem grant_is_authorized:
  assumes "range_order ord"
    and "Authorize (Some (\<lambda>q w. case Request svc ord nonce q w of (s, res, err) \<Rightarrow> (world s, res, err))) r w
      = (w', Inr g)"
  shows "\<exists>n s res pre t req ev. NormalizeRequest r = Inr n
    \<and> g = \<lparr>gr_RequestID = EncodeToString nonce, gr_Environment = eg_Environment n, gr_Host = eg_Host n,
           gr_Port = eg_Port n, gr_Protocol = eg_Protocol n\<rparr>
    \<and> Request svc ord nonce (egress_capability n) w = (s, res, None) \<and> world s = w'
    \<and> trace s = pre @ t @ [Executed req True, Audited ev True]
    \<and> authorized svc (EncodeToString nonce) req t
    \<and> req = (egress_capability n)\<lparr>q_EnvironmentInstance := q_EnvironmentInstance req\<rparr>"
proof -
  from assms(2) obtain n s res where n: "NormalizeRequest r = Inr n"
    and run: "Request svc ord nonce (egress_capability n) w = (s, res, None)" "world s = w'"
    and g: "g = \<lparr>gr_RequestID = cr_RequestID res, gr_Environment = eg_Environment n, gr_Host = eg_Host n,
           gr_Port = eg_Port n, gr_Protocol = eg_Protocol n\<rparr>"
    by (auto simp: Authorize_def split: sum.splits prod.splits option.splits)
  note request = run(1) [unfolded Request_def]
  have "\<not> quiet (trace s)" using request_unexecuted [OF request] by auto
  from request this obtain req pre t ev where
    "trace s = pre @ t @ [Executed req True, Audited ev True]" "authorized svc (EncodeToString nonce) req t"
    "req = (normalizeRequest ord (egress_capability n))\<lparr>q_EnvironmentInstance := q_EnvironmentInstance req\<rparr>"
    "cr_RequestID res = EncodeToString nonce"
    by (rule request_executes) (rule that; simp)
  with n run g show ?thesis unfolding egress_capability_normal [OF assms(1) n] by blast
qed

definition open_policy :: PolicyFile where
  "open_policy = \<lparr>NetworkServices = [], SavedDecisions = [], Default = ''allow'', Rules = []\<rparr>"

definition open_host :: host where
  "open_host = host0\<lparr>h_policy := Policy open_policy\<rparr>"

definition open_service :: "host Service" where
  "open_service = (host_service yes)\<lparr>sv_identities := None\<rparr>"

definition web :: EgressRequest where
  "web = \<lparr>eg_Environment = ''a'', eg_Host = ''b.c'', eg_Port = 443, eg_Protocol = ''https''\<rparr>"

lemma open_audit:
  "h_sink_faults (world s) = calm_sink \<Longrightarrow> record_event open_service i q e s =
     (let ev = stamped (h_clock (world s)) i q e
      in (log (Audited ev True) ((world s)\<lparr>h_audit := h_audit (world s) @ [ev]\<rparr>) s, None))"
  using calm_audit [of s i q e] by (simp add: record_event_def open_service_def)

lemma open_evaluates:
  "h_policy (world s) = Policy open_policy \<Longrightarrow> evaluate file_policy q s =
     (log (Evaluated q (Some ''allow'')) (world s) s, Inr \<lparr>ev_Decision = ''allow'', ev_Reason = ''default policy''\<rparr>)"
  by (simp add: evaluate_def file_policy_def lift_error_def Evaluate_def load_def validatePolicy_def open_policy_def
      evaluate_policy_def validDecision_def)

lemma web_host: "CanonicalHost ''b.c'' = Inr ''b.c''"
proof -
  have c: "list_all host_char ''b.c''" by (simp add: host_char_def go_simps)
  have ip: "ParseIP (Trim ''b.c'' ''[]'') = None" by code_simp
  show ?thesis
    by (simp add: CanonicalHost_def TrimSpace_host [OF c] ToLower_host [OF c] ip ContainsAny_def crlf0_def HasSuffix_def HasPrefix_def Let_def
        host_label_def go_simps)
qed

lemma web_normal: "NormalizeRequest web = Inr web"
proof -
  have "TrimSpace ''a'' = ''a''" by (rule TrimSpace_host) (simp add: host_char_def go_simps)
  then show ?thesis by (simp add: NormalizeRequest_def web_def web_host ContainsAny_def crlf0_def)
qed

lemma web_valid: "validateRequest (egress_capability web) = None"
proof -
  have "Itoa 443 = ''443''" by code_simp
  then show ?thesis
    by (auto simp: validateRequest_def egress_capability_def web_def no_request_def ContainsAny_def crlf0_def fmex_iff
        split: if_splits)
qed

lemma web_executes: "egress_Execute (egress_capability web) = (no_result\<lparr>cr_Provider := ''standard.egress.authorization''\<rparr>, None)"
proof -
  have "snd (egress_Execute (egress_capability web)) = None"
    unfolding egress_Execute_iff using web_normal by (intro exI [of _ web]) simp
  then show ?thesis by (auto simp: egress_Execute_def split: if_splits option.splits sum.splits)
qed

lemma web_granted:
  "\<exists>w' g. Authorize (Some (\<lambda>q w. case Request open_service attribute_order [] q w of (s, res, err) \<Rightarrow> (world s, res, err))) web open_host
     = (w', Inr g)"
proof -
  have svc: "sv_policy open_service = Some file_policy" "sv_audit open_service = Some file_audit"
    "sv_identities open_service = None" "sv_approval open_service = Some (human yes)"
    "fmlookup (sv_providers open_service) ''network.egress'' = Some egress_Provider"
    by (simp_all add: open_service_def host_service_parts) (simp add: host_service_def ConfigureEnvironmentIdentity_def)
  have admitted: "admit (Some open_service) (egress_capability web) = Inr (open_service, file_policy, egress_Provider)"
    by (simp add: admit_def web_valid svc) (simp add: egress_capability_def svc egress_Provider_def
      validateNonAuthorityParameters_def no_request_def)
  have w: "h_sink_faults open_host = calm_sink" "h_policy open_host = Policy open_policy"
    by (simp_all add: open_host_def host0_def)
  have "\<exists>s res. Request open_service attribute_order [] (egress_capability web) open_host = (s, res, None)"
    using w
    by (simp add: Request_def request_def egress_capability_normal [OF attribute_order_range web_normal] admitted
        perform_def bind_identity_def svc Let_def andThen_def decide_policy_def open_audit open_evaluates validDecision_def
        authorize_def recheck_def recheck_error_def recheck_identity_def execute_def egress_Provider_def web_executes
        outcome_def)
  then show ?thesis by (auto simp: Authorize_def web_normal)
qed

theorem grant_is_authorized_witness:
  "\<exists>w' g. Authorize (Some (\<lambda>q w. case Request open_service attribute_order [] q w of (s, res, err) \<Rightarrow> (world s, res, err))) web open_host
     = (w', Inr g) \<and> gr_Host g = ''b.c''"
proof -
  from web_granted obtain w' g where run: "Authorize (Some (\<lambda>q w. case Request open_service attribute_order [] q w of
      (s, res, err) \<Rightarrow> (world s, res, err))) web open_host = (w', Inr g)" by blast
  from grant_is_authorized [OF attribute_order_range run] have "gr_Host g = eg_Host web"
    by (auto simp: web_normal)
  with run show ?thesis by (simp add: web_def)
qed

text \<open>C28. The provider of egress grants accepts exactly the canonical capability requests.  It succeeds if and
  only if the request is the one the controller builds for some connection that is its own normal form (up to the
  creation of the Environment it is bound to); any other spelling of a host, port or attribute is refused.\<close>

theorem egress_accepts_canonical:
  "snd (egress_Execute q) = None \<longleftrightarrow>
     (\<exists>n. NormalizeRequest n = Inr n \<and> q = (egress_capability n)\<lparr>q_EnvironmentInstance := q_EnvironmentInstance q\<rparr>)"
  by (rule egress_Execute_iff)

text \<open>C29. Normal forms are stable.  A connection request that is accepted keeps its Environment, port and
  protocol; its host becomes a name of at most 253 bytes whose labels are nonempty, at most 63 bytes long, made of
  lower-case letters, digits and inner dashes, and that is not an IP address; normalising again changes nothing.\<close>

theorem normal_form_stable:
  assumes "NormalizeRequest r = Inr n"
  shows "NormalizeRequest n = Inr n \<and> n = r\<lparr>eg_Host := eg_Host n\<rparr> \<and> length (eg_Host n) \<le> 253
    \<and> list_all host_label (Split CHR ''.'' (eg_Host n)) \<and> ParseIP (Trim (eg_Host n) ''[]'') = None
    \<and> 1 \<le> eg_Port n \<and> eg_Port n \<le> 65535"
  using NormalizeRequest_idem [OF assms] NormalizeRequestD [OF assms] CanonicalHostD [OF NormalizeRequestD(2) [OF assms]]
  by blast

theorem normal_form_stable_witness: "NormalizeRequest web = Inr web \<and> eg_Port web \<le> 65535"
  using normal_form_stable [OF web_normal] web_normal by blast

section \<open>Authorities\<close>

text \<open>C30. Authorities in proxy requests read back as they are written.  The text of a canonical host, a colon and
  a port between 1 and 65535 parses to exactly that host and port, whatever the default port; and whatever parses
  has a canonical host and a port in that range, or the default.\<close>

theorem authority_roundtrip:
  assumes "CanonicalHost h = Inr h" "1 \<le> p" "p \<le> 65535"
  shows "parseAuthority (h @ CHR '':'' # Itoa p) d = Inr (h, p) \<and>
    (\<forall>a h' p'. parseAuthority a d = Inr (h', p') \<longrightarrow> CanonicalHost h' = Inr h' \<and> (p' = d \<or> 1 \<le> p' \<and> p' \<le> 65535))"
  using parseAuthority_complete [OF assms] parseAuthority_sound by blast

theorem authority_roundtrip_witness: "parseAuthority (''b.c'' @ CHR '':'' # Itoa 443) 80 = Inr (''b.c'', 443)"
  using authority_roundtrip [OF web_host, of 443 80] by simp

section \<open>TLS handshakes\<close>

text \<open>C31. No bytes can make the reader of TLS client hellos panic.  On every input the reader returns: an error,
  or a server name together with the exact prefix of the input it consumed, of at most 128 KiB, so that the proxy can
  replay what it read.\<close>

theorem client_hello_total:
  "\<exists>r. readClientHelloServerName input = Ret r \<and>
     (case r of Inl e \<Rightarrow> True | Inr (raw, name) \<Rightarrow> length raw \<le> maxClientHelloBytes \<and> (\<exists>rest. input = raw @ rest))"
proof (cases "readClientHelloServerName input")
  case Panic
  with read_records_safe [of "[]" "[]" input] show ?thesis by (simp add: readClientHelloServerName_def)
next
  case (Ret r)
  show ?thesis
  proof (cases r)
    case (Inr p)
    obtain raw name where "p = (raw, name)" by (cases p)
    with Ret Inr read_records_prefix [of "[]" "[]" input raw name] show ?thesis
      by (auto simp: readClientHelloServerName_def)
  qed (use Ret in simp)
qed

text \<open>C32. The server name is found however the handshake is split.  A well-formed client hello that fits the limit,
  divided into TLS handshake records in any way, is read completely: the reader returns the name it carries and the
  bytes of its records, and leaves what follows untouched.\<close>

theorem client_hello_any_fragmentation:
  assumes "hello_ok h" "length (hello_body h) + 4 \<le> maxClientHelloBytes"
    and "\<forall>r\<in>set records. record_ok r" "records \<noteq> []" "concat (map snd records) = handshake_message h"
    and "length (concat (map tls_record records)) \<le> maxClientHelloBytes"
  shows "readClientHelloServerName (concat (map tls_record records) @ rest)
    = Ret (Inr (concat (map tls_record records), hl_name h))"
  using read_records_ok [OF assms(1,2,3) _ assms(4), of "[]" "[]"] assms(5,6)
  by (simp add: readClientHelloServerName_def)

definition small_hello :: hello where
  "small_hello = \<lparr>hl_intro = replicate 34 (char_of (0 :: nat)), hl_session = [], hl_ciphers = ''xx'', hl_compression = ''x'',
     hl_before = [(1, ''q'')], hl_name = ''b.c'', hl_names = [], hl_after = []\<rparr>"

theorem client_hello_any_fragmentation_witness:
  "\<exists>u v. handshake_message small_hello = u @ v \<and> u \<noteq> [] \<and> v \<noteq> [] \<and>
     readClientHelloServerName (concat (map tls_record [(''ab'', u), (''ab'', v)]) @ ''rest'')
       = Ret (Inr (concat (map tls_record [(''ab'', u), (''ab'', v)]), ''b.c''))"
proof -
  have size: "length (hello_body small_hello) = 60"
    by (simp add: hello_body_def hello_extensions_def extension_def server_name_data_def put16_def small_hello_def)
  have ok: "hello_ok small_hello"
    by (simp add: hello_ok_def hello_extensions_def extension_def server_name_data_def put16_def small_hello_def)
  define u v where "u = take 10 (handshake_message small_hello)" and "v = drop 10 (handshake_message small_hello)"
  have m: "handshake_message small_hello = u @ v" by (simp add: u_def v_def)
  have "length (handshake_message small_hello) = 64" using size by (simp add: handshake_message_def put24_def)
  then have l: "length u = 10" "length v = 54" by (simp_all add: u_def v_def)
  let ?records = "[(''ab'', u), (''ab'', v)]"
  have r: "\<forall>r\<in>set ?records. record_ok r" using l by (auto simp: record_ok_def)
  have "length (concat (map tls_record ?records)) \<le> maxClientHelloBytes"
    using r l by (simp add: tls_record_length maxClientHelloBytes_def)
  with client_hello_any_fragmentation [OF ok _ r, of "''rest''"] size m
  have "readClientHelloServerName (concat (map tls_record ?records) @ ''rest'')
      = Ret (Inr (concat (map tls_record ?records), hl_name small_hello))"
    by (simp add: maxClientHelloBytes_def)
  moreover have "u \<noteq> []" "v \<noteq> []" using l by auto
  ultimately show ?thesis using m by (intro exI [of _ u] exI [of _ v]) (simp add: small_hello_def)
qed

end
