(* ===== verification/GoAddr.thy ===== *)
theory GoAddr
  imports GoNet
begin

text \<open>
  Printing and parsing of IP addresses agree: \<^verbatim>\<open>netip.ParseAddr\<close> reads what \<^verbatim>\<open>Addr.String\<close>
  prints, the compressed form of IPv6 included, and every address it returns is well formed.
\<close>

definition addr_ok :: "Addr \<Rightarrow> bool" where
  "addr_ok a = (case a of NoAddr \<Rightarrow> True
     | IPv4 os \<Rightarrow> length os = 4 \<and> (\<forall>n\<in>set os. n < 256)
     | IPv6 gs z \<Rightarrow> length gs = 8 \<and> (\<forall>n\<in>set gs. n < 65536))"

section \<open>Splitting and joining\<close>

lemma Split_append: "sep \<notin> set w \<Longrightarrow> Split sep (w @ sep # s) = w # Split sep s"
  by (induction w) auto

lemma Split_word: "sep \<notin> set w \<Longrightarrow> Split sep w = [w]"
  by (induction w) auto

lemma Split_Join: "ws \<noteq> [] \<Longrightarrow> (\<And>w. w \<in> set ws \<Longrightarrow> sep \<notin> set w) \<Longrightarrow> Split sep (Join [sep] ws) = ws"
proof (induction "[sep]" ws rule: Join.induct)
  case (3 w v ws)
  then show ?case by (simp add: Split_append)
qed (simp_all add: Split_word)

section \<open>Numerals\<close>

lemma hex_digit_16:
  assumes "n < 16"
  shows "hex_char (hex_digit n) \<and> hex_value (hex_digit n) = n"
proof -
  have "list_all (\<lambda>n. hex_char (hex_digit n) \<and> hex_value (hex_digit n) = n) [0..<16]" by code_simp
  with assms show ?thesis by (simp add: list_all_iff)
qed

lemma digits_hex:
  "list_all hex_char (digits 16 n) \<and> foldl (\<lambda>n c. n * 16 + hex_value c) 0 (digits 16 n) = n"
proof (induction n rule: less_induct)
  case (less n)
  show ?case
  proof (cases "n < 16")
    case True
    then show ?thesis by (simp add: digits.simps [of 16 n] hex_digit_16)
  next
    case False
    then have "list_all hex_char (digits 16 (n div 16))
        \<and> foldl (\<lambda>n c. n * 16 + hex_value c) 0 (digits 16 (n div 16)) = n div 16"
      by (intro less.IH) simp
    with False show ?thesis using hex_digit_16 [of "n mod 16"] by (simp add: digits.simps [of 16 n])
  qed
qed

lemma digits_length: "2 \<le> b \<Longrightarrow> n < b ^ Suc k \<Longrightarrow> length (digits b n) \<le> Suc k"
proof (induction k arbitrary: n)
  case 0
  then show ?case by (simp add: digits.simps [of b n])
next
  case (Suc k)
  show ?case
  proof (cases "n < b")
    case True
    with Suc show ?thesis by (simp add: digits.simps [of b n])
  next
    case False
    have "n div b < b ^ Suc k" using Suc.prems by (simp add: less_mult_imp_div_less mult.commute)
    with Suc False show ?thesis by (simp add: digits.simps [of b n])
  qed
qed

lemma digits_lead: "b \<le> n \<Longrightarrow> 2 \<le> b \<Longrightarrow> b \<le> 16 \<Longrightarrow> hd (digits b n) \<noteq> CHR ''0''"
proof (induction n rule: less_induct)
  case (less n)
  have zero: "hex_digit m = CHR ''0'' \<Longrightarrow> m < 16 \<Longrightarrow> m = 0" for m using hex_digit_16 [of m] hex_digit_16 [of 0]
    by (auto simp: hex_digit_def)
  show ?case
  proof (cases "n div b < b")
    case True
    moreover have "0 < n div b" using less.prems by (simp add: div_greater_zero_iff)
    ultimately show ?thesis using less.prems zero [of "n div b"]
      by (auto simp: digits.simps [of b n] digits.simps [of b "n div b"])
  next
    case False
    have "n div b < n" using less.prems by (intro div_less_dividend) auto
    with less False have "hd (digits b (n div b)) \<noteq> CHR ''0''" by simp
    with less.prems show ?thesis by (simp add: digits.simps [of b n] digits_nonempty hd_append)
  qed
qed

lemma octet_digits: "n < 256 \<Longrightarrow> octet (digits 10 n) = Some n"
proof -
  assume n: "n < 256"
  have "\<not> (1 < length (digits 10 n) \<and> hd (digits 10 n) = CHR ''0'')"
    using digits_lead [of 10 n] by (cases "n < 10") (simp_all add: digits.simps [of 10 n])
  with n digits_decimal [of n] digits_nonempty [of 10 n] show ?thesis by simp
qed

section \<open>IPv4\<close>

lemma digits_no_char: "\<not> hex_char c \<Longrightarrow> c \<notin> set (digits 16 n)" "\<not> digit c \<Longrightarrow> c \<notin> set (digits 10 n)"
  using digits_hex [of n] digits_decimal [of n] by (auto simp: list_all_iff)

lemma special_chars: "\<not> hex_char CHR '':''" "\<not> hex_char CHR ''.''" "\<not> hex_char CHR ''%''" "\<not> digit CHR ''.''"
  "\<not> digit CHR '':''" "\<not> digit CHR ''%''" "\<not> digit CHR '',''" "\<not> hex_char CHR '',''"
  by (simp_all add: hex_char_def go_simps)

lemma ParseAddr_from_skip:
  "(\<forall>c\<in>set p. c \<noteq> CHR ''.'' \<and> c \<noteq> CHR '':'' \<and> c \<noteq> CHR ''%'') \<Longrightarrow> ParseAddr_from s (p @ q) = ParseAddr_from s q"
  by (induction p) auto

lemma ParseAddr_IPv4:
  assumes "addr_ok (IPv4 os)"
  shows "ParseAddr (Addr_String (IPv4 os)) = Some (IPv4 os)"
proof -
  from assms obtain a b c d where os: "os = [a, b, c, d]"
    by (auto simp: addr_ok_def numeral_eq_Suc length_Suc_conv)
  have lt: "a < 256" "b < 256" "c < 256" "d < 256" using assms by (auto simp: addr_ok_def os)
  let ?s = "Join ''.'' (map (digits 10) os)"
  have "Split CHR ''.'' ?s = map (digits 10) os"
    using digits_no_char(2) [OF special_chars(4)] by (intro Split_Join) (auto simp: os)
  then have "parseIPv4Fields ?s = Some os" using lt by (simp add: parseIPv4Fields_def os octet_digits del: octet.simps)
  moreover have "ParseAddr_from ?s (digits 10 a @ ''.'' @ Join ''.'' (map (digits 10) [b, c, d])) = map_option IPv4 (parseIPv4Fields ?s)"
    using digits_no_char(2) special_chars by (subst ParseAddr_from_skip) auto
  ultimately show ?thesis by (simp add: ParseAddr_def Addr_String_def os)
qed

section \<open>IPv6\<close>

lemma hex_group_digits:
  assumes "n < 65536" "rest = [] \<or> \<not> hex_char (hd rest)"
  shows "hex_group (digits 16 n @ rest) = Some (n, rest)"
proof -
  have h: "list_all hex_char (digits 16 n)" using digits_hex by blast
  then have "takeWhile hex_char (digits 16 n @ rest) = digits 16 n" "dropWhile hex_char (digits 16 n @ rest) = rest"
    using assms(2) by (cases rest; simp add: list_all_iff takeWhile_append2 dropWhile_append2)+
  moreover have "length (digits 16 n) \<le> 4" using digits_length [of 16 n 3] assms(1) by simp
  ultimately show ?thesis using digits_hex [of n] digits_nonempty [of 16 n] by (simp add: hex_group_def Let_def)
qed

lemma digits_hd: "hd (digits 16 n @ s) \<noteq> CHR '':''" "digits 16 n @ s \<noteq> []"
  using digits_no_char(1) [OF special_chars(1), of n] digits_nonempty [of 16 n]
  by (auto simp: hd_append) (metis list.set_sel(1))

abbreviation words :: "nat list \<Rightarrow> string" where
  "words vs \<equiv> Join '':'' (map (digits 16) vs)"

lemma Join_Cons: "Join sep (w # ws) = w @ (if ws = [] then [] else sep @ Join sep ws)"
  by (cases ws) simp_all

lemma words_start: "vs \<noteq> [] \<Longrightarrow> words vs @ s \<noteq> [] \<and> hd (words vs @ s) \<noteq> CHR '':''"
  using digits_hd by (cases vs) (auto simp: Join_Cons)

lemma parse_words:
  assumes "vs \<noteq> []" "length vs \<le> k" "\<forall>v\<in>set vs. v < 65536"
  shows "parse_groups k gs e (words vs) = Some (gs @ vs, e, [])"
  using assms
proof (induction vs arbitrary: k gs)
  case (Cons v vs)
  obtain k' where k: "k = Suc k'" using Cons.prems(2) by (cases k) auto
  show ?case
  proof (cases "vs = []")
    case True
    with hex_group_digits [of v "[]"] Cons.prems show ?thesis by (simp add: k HasPrefix_def)
  next
    case False
    then have "hex_group (words (v # vs)) = Some (v, CHR '':'' # words vs)"
      using Cons.prems special_chars(1) by (simp add: Join_Cons hex_group_digits)
    moreover have "words vs \<noteq> []" "hd (words vs) \<noteq> CHR '':''" using words_start [OF False, of "[]"] by simp_all
    moreover have "parse_groups k' (gs @ [v]) e (words vs) = Some ((gs @ [v]) @ vs, e, [])"
      using Cons False by (intro Cons.IH) (auto simp: k)
    ultimately show ?thesis by (simp add: k HasPrefix_def)
  qed
qed simp

lemma parse_ellipsis:
  assumes "vs \<noteq> []" "length vs + length ws \<le> k" "\<forall>v\<in>set (vs @ ws). v < 65536"
  shows "parse_groups k gs None (words vs @ ''::'' @ words ws) = Some (gs @ vs @ ws, Some (length gs + length vs), [])"
  using assms
proof (induction vs arbitrary: k gs)
  case (Cons v vs)
  obtain k' where k: "k = Suc k'" using Cons.prems(2) by (cases k) auto
  show ?case
  proof (cases "vs = []")
    case True
    have g: "hex_group (words [v] @ ''::'' @ words ws) = Some (v, ''::'' @ words ws)"
      using Cons.prems special_chars(1) by (simp add: hex_group_digits)
    show ?thesis
    proof (cases "ws = []")
      case True
      with g \<open>vs = []\<close> show ?thesis by (simp add: k HasPrefix_def)
    next
      case False
      with parse_words [of ws k' "gs @ [v]" "Some (Suc (length gs))"] Cons.prems \<open>vs = []\<close> g words_start [OF False, of "[]"]
      show ?thesis by (simp add: k HasPrefix_def)
    qed
  next
    case False
    let ?s = "words vs @ ''::'' @ words ws"
    have "hex_group (words (v # vs) @ ''::'' @ words ws) = Some (v, CHR '':'' # ?s)"
      using Cons.prems False special_chars(1) by (simp add: Join_Cons hex_group_digits)
    moreover have "?s \<noteq> []" "hd ?s \<noteq> CHR '':''" using words_start [OF False] by blast+
    moreover have "parse_groups k' (gs @ [v]) None ?s = Some ((gs @ [v]) @ vs @ ws, Some (length (gs @ [v]) + length vs), [])"
      using Cons False by (intro Cons.IH) (auto simp: k)
    ultimately show ?thesis by (simp add: k HasPrefix_def)
  qed
qed simp

lemma zero_run_split:
  "gs = take i gs @ replicate (zero_run gs i) 0 @ drop (i + zero_run gs i) gs"
proof -
  have "takeWhile (\<lambda>g. g = 0) (drop i gs) = replicate (zero_run gs i) 0"
    unfolding zero_run_def by (rule replicate_length_same [symmetric]) (auto dest: set_takeWhileD)
  moreover have "dropWhile (\<lambda>g. g = 0) (drop i gs) = drop (i + zero_run gs i) gs"
    by (simp add: dropWhile_eq_drop zero_run_def add.commute)
  ultimately show ?thesis using takeWhile_dropWhile_id [of "\<lambda>g. g = 0" "drop i gs"] append_take_drop_id [of i gs] by metis
qed

lemma longest_zero_run_cases:
  obtains "snd (longest_zero_run gs) = 0"
  | start len where "longest_zero_run gs = (start, len)" "2 \<le> len"
      "gs = take start gs @ replicate len 0 @ drop (start + len) gs"
proof -
  define P where "P = (\<lambda>p :: nat \<times> nat. snd p = 0 \<or> 2 \<le> snd p \<and> snd p = zero_run gs (fst p))"
  define f where "f = (\<lambda>(start, len) i. if 2 \<le> zero_run gs i \<and> len < zero_run gs i then (i, zero_run gs i) else (start, len))"
  have step: "P acc \<Longrightarrow> P (f acc i)" for acc i by (auto simp: P_def f_def split: prod.splits)
  have "P acc \<Longrightarrow> P (foldl f acc is)" for acc "is" by (induction "is" arbitrary: acc) (simp_all add: step)
  from this [of "(0, 0)" "[0..<8]"] have "P (longest_zero_run gs)" by (simp add: longest_zero_run_def P_def f_def)
  then show ?thesis using that zero_run_split [of gs "fst (longest_zero_run gs)"]
    by (cases "longest_zero_run gs") (auto simp: P_def)
qed

lemma Join_word_chars: "c \<notin> set sep \<Longrightarrow> (\<And>w. w \<in> set ws \<Longrightarrow> c \<notin> set w) \<Longrightarrow> c \<notin> set (Join sep ws)"
  by (induction sep ws rule: Join.induct) auto

lemma string6_chars: "c \<noteq> CHR '':'' \<Longrightarrow> \<not> hex_char c \<Longrightarrow> c \<notin> set (string6 gs)"
proof -
  assume c: "c \<noteq> CHR '':''" "\<not> hex_char c"
  have words: "c \<notin> set (words vs)" for vs using c digits_no_char(1) [OF c(2)] by (intro Join_word_chars) auto
  show "c \<notin> set (string6 gs)"
    using c words [of gs] words [of "take n gs" for n] words [of "drop n gs" for n]
    by (auto simp: string6_def Let_def take_map drop_map split: prod.splits)
qed

lemma parseIPv6_groups:
  assumes "CHR ''%'' \<notin> set s"
  shows "parseIPv6 s = (if s = ''::'' then Some (IPv6 (replicate 8 0) [])
    else case (if HasPrefix s ''::'' then parse_groups 8 [] (Some 0) (drop 2 s) else parse_groups 8 [] None s) of
      None \<Rightarrow> None | Some p \<Rightarrow> map_option (\<lambda>gs. IPv6 gs []) (expand_groups p))"
proof -
  have parts: "takeWhile (\<lambda>c. c \<noteq> CHR ''%'') s = s" "dropWhile (\<lambda>c. c \<noteq> CHR ''%'') s = []"
    using assms by (auto simp: takeWhile_eq_all_conv dropWhile_eq_Nil_conv)
  show ?thesis unfolding parseIPv6_def Let_def parts list.sel(2) by simp
qed

lemma string6_parse:
  assumes "length gs = 8" "\<forall>g\<in>set gs. g < 65536"
  shows "parseIPv6 (string6 gs) = Some (IPv6 gs [])"
proof -
  have percent: "CHR ''%'' \<notin> set (string6 gs)" by (rule string6_chars) (simp_all add: special_chars)
  have start: "\<not> HasPrefix (words vs @ s) ''::''" "words vs @ s \<noteq> ''::''" if "vs \<noteq> []" for vs s
    using words_start [OF that, of s] by (cases "words vs @ s"; auto simp: HasPrefix_def)+
  note eq = parseIPv6_groups [OF percent]
  show ?thesis
  proof (cases rule: longest_zero_run_cases [of gs])
    case 1
    then have s: "string6 gs = words gs" by (cases "longest_zero_run gs") (simp add: string6_def)
    have "gs \<noteq> []" using assms(1) by auto
    with start [of gs "[]"] parse_words [of gs 8 "[]" None] assms s eq show ?thesis by (simp add: expand_groups_def)
  next
    case (2 st len)
    define a b where "a = take st gs" and "b = drop (st + len) gs"
    with 2 have gs: "gs = a @ replicate len 0 @ b" by simp
    have s: "string6 gs = words a @ ''::'' @ words b"
      using 2 by (simp add: string6_def a_def b_def take_map drop_map)
    have l: "length a + len + length b = 8" using arg_cong [OF gs, of length] assms(1) by simp
    have lt: "\<forall>v\<in>set (a @ b). v < 65536" using assms(2) gs by auto
    show ?thesis
    proof (cases "a = []")
      case True
      then have e: "gs = replicate len 0 @ b" using gs by simp
      show ?thesis
      proof (cases "b = []")
        case True
        with e l \<open>a = []\<close> s eq show ?thesis by simp
      next
        case False
        with parse_words [of b 8 "[]" "Some 0"] l lt True s words_start [OF False, of "[]"] 2(2) e eq show ?thesis
          by (simp add: HasPrefix_def expand_groups_def)
      qed
    next
      case False
      have "8 - (length a + length b) = len" "length a + length b < 8" using l 2(2) by auto
      with parse_ellipsis [of a b 8 "[]"] l lt False s start [OF False, of "''::'' @ words b"] gs eq show ?thesis
        by (simp add: expand_groups_def)
    qed
  qed
qed

lemma string6_colon: "length gs = 8 \<Longrightarrow> CHR '':'' \<in> set (string6 gs)"
proof -
  assume "length gs = 8"
  then obtain v w vs where "gs = v # w # vs" by (auto simp: numeral_eq_Suc length_Suc_conv)
  then show "CHR '':'' \<in> set (string6 gs)" by (cases "longest_zero_run gs") (auto simp: string6_def Join_Cons Let_def)
qed

lemma ParseAddr_colon:
  assumes "CHR '':'' \<in> set s" "CHR ''.'' \<notin> set s" "CHR ''%'' \<notin> set s"
  shows "ParseAddr s = parseIPv6 s"
proof -
  from split_list_first [OF assms(1)] obtain p q where "s = p @ CHR '':'' # q" "CHR '':'' \<notin> set p" by blast
  then have "ParseAddr_from s s = ParseAddr_from s (CHR '':'' # q)"
    using assms ParseAddr_from_skip [of p s "CHR '':'' # q"] by auto
  then show ?thesis by (simp add: ParseAddr_def)
qed

lemma ParseAddr_String:
  assumes "addr_ok a" "IsValid a" "\<not> Is4In6 a" "Zone a = []"
  shows "ParseAddr (Addr_String a) = Some a"
proof (cases a)
  case (IPv4 os)
  with assms ParseAddr_IPv4 show ?thesis by simp
next
  case (IPv6 gs z)
  with assms have z: "z = []" and gs: "length gs = 8" "\<forall>g\<in>set gs. g < 65536" by (auto simp: Zone_def addr_ok_def)
  have "ParseAddr (string6 gs) = parseIPv6 (string6 gs)"
    using string6_colon [OF gs(1)] by (rule ParseAddr_colon) (rule string6_chars; simp add: special_chars)+
  with IPv6 assms(3) z string6_parse [OF gs] show ?thesis by (simp add: Addr_String_def)
qed (use assms in \<open>simp add: IsValid_def\<close>)

section \<open>What parsing returns\<close>

lemma hex_value_bound: "hex_char c \<Longrightarrow> hex_value c < 16"
  by (auto simp: hex_char_def hex_value_def go_simps)

lemma hex_fold_bound: "list_all hex_char ds \<Longrightarrow> foldl (\<lambda>n c. n * 16 + hex_value c) 0 ds < 16 ^ length ds"
proof (induction ds rule: rev_induct)
  case (snoc c ds)
  then have "foldl (\<lambda>n c. n * 16 + hex_value c) 0 ds + 1 \<le> 16 ^ length ds" "hex_value c < 16" by (auto simp: hex_value_bound Suc_le_eq)
  then have "(foldl (\<lambda>n c. n * 16 + hex_value c) 0 ds + 1) * 16 \<le> 16 ^ length ds * 16" by (rule_tac mult_le_mono1)
  with \<open>hex_value c < 16\<close> show ?case by (simp del: mult_le_cancel2)
qed simp

lemma hex_group_bound:
  assumes "hex_group s = Some (v, rest)"
  shows "v < 65536"
proof -
  have "v = foldl (\<lambda>n c. n * 16 + hex_value c) 0 (takeWhile hex_char s)" "length (takeWhile hex_char s) \<le> 4"
    using assms by (auto simp: hex_group_def Let_def split: if_splits)
  moreover have "list_all hex_char (takeWhile hex_char s)" by (auto simp: list_all_iff dest: set_takeWhileD)
  moreover have "(16 :: nat) ^ length (takeWhile hex_char s) \<le> 16 ^ 4" using calculation(2) by (rule power_increasing) simp
  ultimately show ?thesis using hex_fold_bound [of "takeWhile hex_char s"] by simp
qed

lemma parseIPv4Fields_ok: "parseIPv4Fields s = Some os \<Longrightarrow> length os = 4 \<and> (\<forall>n\<in>set os. n < 256)"
  by (auto simp: parseIPv4Fields_def split: list.splits option.splits if_splits)

definition groups_ok :: "nat list \<Rightarrow> nat option \<Rightarrow> bool" where
  "groups_ok gs e \<longleftrightarrow> (\<forall>g\<in>set gs. g < 65536) \<and> length gs \<le> 8 \<and> (e = None \<or> (\<exists>i. e = Some i \<and> i \<le> length gs))"

lemma parse_groups_ok:
  assumes "parse_groups k gs e s = Some (gs', e', s')" "\<forall>g\<in>set gs. g < 65536" "length gs + k = 8"
    and "e = None \<or> (\<exists>i. e = Some i \<and> i \<le> length gs)"
  shows "groups_ok gs' e'"
  using assms
proof (induction k arbitrary: gs e s)
  case (Suc k)
  from Suc.prems(1) obtain v rest where g: "hex_group s = Some (v, rest)" by (auto split: option.splits)
  note v = hex_group_bound [OF g]
  show ?case
  proof (cases "HasPrefix rest ''.''")
    case True
    with Suc.prems(1) g obtain a b c d where f: "parseIPv4Fields s = Some [a, b, c, d]" and l: "length gs \<le> 6"
      and r: "gs' = gs @ [a * 256 + b, c * 256 + d]" "e' = e"
      by (auto split: if_splits option.splits list.splits)
    from parseIPv4Fields_ok [OF f] Suc.prems(2,4) l show ?thesis by (auto simp: r groups_ok_def)
  next
    case False
    have next_groups: ?thesis if "parse_groups k (gs @ [v]) e1 s1 = Some (gs', e', s')"
      "e1 = None \<or> (\<exists>i. e1 = Some i \<and> i \<le> length (gs @ [v]))" for e1 s1
      using Suc.IH [OF that(1) _ _ that(2)] Suc.prems(2,3) v by auto
    show ?thesis
    proof (cases rest)
      case Nil
      with Suc.prems False g v show ?thesis by (auto simp: groups_ok_def)
    next
      case (Cons c s1)
      show ?thesis
      proof (cases "tl s1 = [] \<and> hd s1 = CHR '':''")
        case True
        with Suc.prems False g v Cons show ?thesis by (auto simp: groups_ok_def split: if_splits)
      next
        case rec: False
        with Suc.prems False g v Cons show ?thesis by (auto split: if_splits intro: next_groups)
      qed
    qed
  qed
qed (auto simp: groups_ok_def)

lemma ParseAddr_from_ok: "ParseAddr_from s t = Some a \<Longrightarrow> addr_ok a \<and> IsValid a"
proof (induction t)
  case (Cons c t)
  have v6: "addr_ok a \<and> IsValid a" if "parseIPv6 s = Some a"
  proof -
    let ?s = "takeWhile (\<lambda>c. c \<noteq> CHR ''%'') s"
    from that consider gs z where "a = IPv6 (replicate 8 0) z"
      | gs z p where "a = IPv6 gs z" "expand_groups p = Some gs"
          "(if HasPrefix ?s ''::'' then parse_groups 8 [] (Some 0) (drop 2 ?s) else parse_groups 8 [] None ?s) = Some p"
      by (auto simp: parseIPv6_def Let_def split: if_splits option.splits)
    then show ?thesis
    proof cases
      case (2 gs z p)
      obtain gs' e' s' where p: "p = (gs', e', s')" by (cases p)
      have "groups_ok gs' e'"
        using 2(3) parse_groups_ok [of 8 "[]" "Some 0" "drop 2 ?s" gs' e' s'] parse_groups_ok [of 8 "[]" None ?s gs' e' s']
        by (simp add: p split: if_splits)
      with 2(1,2) show ?thesis
        by (auto simp: p groups_ok_def expand_groups_def addr_ok_def IsValid_def split: if_splits option.splits
            dest!: in_set_takeD in_set_dropD)
    qed (simp add: addr_ok_def IsValid_def)
  qed
  from Cons show ?case
    using v6 by (auto simp: addr_ok_def IsValid_def dest: parseIPv4Fields_ok split: if_splits)
qed simp

lemma ParseAddr_ok: "ParseAddr s = Some a \<Longrightarrow> addr_ok a \<and> IsValid a"
  unfolding ParseAddr_def by (rule ParseAddr_from_ok)

end
