(* ===== verification/NetworkAuthority.thy ===== *)
theory NetworkAuthority
  imports Egress GoAddr "HOL-Library.Multiset"
begin

text \<open>
  The authority of a network connection (\<^verbatim>\<open>internal/network/authority.go\<close>): which connections may
  be asked for, the capability request that stands for exactly one source, destination and
  duration, and the provider that accepts it.
\<close>

section \<open>Data (\<^verbatim>\<open>model.go\<close>)\<close>

record Spec =
  sp_Kind :: string
  sp_Target :: string
  sp_Protocol :: string
  sp_Port :: int
  sp_DurationSeconds :: int

record Source =
  so_Environment :: string
  so_Instance :: string

record Target =
  tg_Kind :: string
  tg_Name :: string
  tg_Protocol :: string
  tg_Port :: int
  tg_Addresses :: "Addr list"
  tg_Owner :: string

definition MaxDuration :: int where "MaxDuration = 3600"
definition MaxUDPDurations :: int where "MaxUDPDurations = 300"

section \<open>Validation\<close>

definition validName :: "string \<Rightarrow> bool" where
  "validName s \<longleftrightarrow> \<not> (length s < 1 \<or> length s > 63 \<or> hd s = CHR ''-'') \<and> list_all alnumdash s"

definition validateSpec :: "Spec \<Rightarrow> error option" where
  "validateSpec s =
     (if sp_DurationSeconds s < 1 \<or> sp_DurationSeconds s > MaxDuration
         \<or> (sp_Protocol s \<noteq> ''tcp'' \<and> sp_Protocol s \<noteq> ''udp'') then Some ErrInvalidArgument
      else if sp_Protocol s = ''udp'' \<and> sp_DurationSeconds s > MaxUDPDurations then Some ErrInvalidArgument
      else if sp_Target s = [] \<or> length (sp_Target s) > 253 \<or> TrimSpace (sp_Target s) \<noteq> sp_Target s
         \<or> ContainsAny (sp_Target s) (crlf0 @ ''/@%'') then Some ErrInvalidArgument
      else if sp_Kind s = ''external'' then
        (if sp_Port s < 1 \<or> sp_Port s > 65535 then Some ErrInvalidArgument
         else case ParseAddr (sp_Target s) of
           Some a \<Rightarrow> if Zone a \<noteq> [] \<or> \<not> IsGlobalUnicast a \<or> IsLoopback a \<or> IsLinkLocalUnicast a
                    then Some ErrPolicyDenied else None
         | None \<Rightarrow> if CanonicalHost (sp_Target s) \<noteq> Inr (sp_Target s) then Some ErrInvalidArgument else None)
      else if sp_Kind s = ''host'' \<or> sp_Kind s = ''environment'' then
        (if \<not> validName (sp_Target s) \<or> sp_Port s < 0 \<or> sp_Port s > 65535
            \<or> (sp_Kind s = ''environment'' \<and> sp_Port s = 0) then Some ErrInvalidArgument else None)
      else Some ErrInvalidArgument)"

section \<open>The capability request\<close>

text \<open>\<^verbatim>\<open>authority.go\<close> 65--88: what the kind of destination demands.\<close>

definition target_check :: "Target \<Rightarrow> int \<Rightarrow> error option" where
  "target_check t duration =
     (if tg_Kind t = ''external'' then
        (if tg_Owner t \<noteq> [] then Some ErrInvalidArgument
         else validateSpec \<lparr>sp_Kind = tg_Kind t, sp_Target = tg_Name t, sp_Protocol = tg_Protocol t,
                sp_Port = tg_Port t, sp_DurationSeconds = duration\<rparr>)
      else if tg_Kind t = ''host'' then
        (case tg_Addresses t of
           [a] \<Rightarrow> (if ValidateNetworkService \<lparr>ns_Name = tg_Name t, ns_Instance = tg_Owner t, ns_Protocol = tg_Protocol t,
                     ns_Address = Addr_String a, ns_Port = tg_Port t\<rparr> \<noteq> None then Some ErrInvalidArgument else None)
         | _ \<Rightarrow> Some ErrInvalidArgument)
      else if tg_Kind t = ''environment'' then
        (if \<not> validName (tg_Name t) \<or> \<not> ValidEnvironmentInstanceID (tg_Owner t) then Some ErrInvalidArgument else None)
      else Some ErrInvalidArgument)"

text \<open>91--103: the addresses, each once.\<close>

definition address_step :: "string \<Rightarrow> Addr list \<Rightarrow> Addr \<Rightarrow> error + Addr list" where
  "address_step kind seen a =
     (if \<not> IsValid a \<or> Zone a \<noteq> [] \<or> IsUnspecified a \<or> IsMulticast a \<or> IsLinkLocalUnicast a \<or> a \<in> set seen
      then Inl ErrInvalidArgument
      else if Is4In6 a then Inl ErrInvalidArgument
      else if kind = ''external'' \<and> IsLoopback a then Inl ErrPolicyDenied
      else Inr (seen @ [a]))"

definition connection_attributes :: "Target \<Rightarrow> Addr list \<Rightarrow> int \<Rightarrow> string gomap" where
  "connection_attributes t addresses duration = fmap_of_list
     [(''destination_kind'', tg_Kind t), (''destination_instance'', tg_Owner t), (''protocol'', tg_Protocol t),
      (''port'', Itoa (tg_Port t)), (''addresses'', Join '','' (sort (map Addr_String addresses))),
      (''duration_seconds'', Itoa duration)]"

definition requestFor :: "Source \<Rightarrow> Target \<Rightarrow> int \<Rightarrow> error + CapabilityRequest" where
  "requestFor s t duration =
     (if \<not> validName (so_Environment s) \<or> \<not> ValidEnvironmentInstanceID (so_Instance s) \<or> duration < 1 \<or> duration > MaxDuration
         \<or> (tg_Protocol t \<noteq> ''tcp'' \<and> tg_Protocol t \<noteq> ''udp'') \<or> tg_Port t < 1 \<or> tg_Port t > 65535
         \<or> length (tg_Addresses t) = 0 \<or> length (tg_Addresses t) > 32
      then Inl ErrInvalidArgument
      else if tg_Protocol t = ''udp'' \<and> duration > MaxUDPDurations then Inl ErrInvalidArgument
      else case target_check t duration of Some e \<Rightarrow> Inl e | None \<Rightarrow>
      case forE (address_step (tg_Kind t)) [] (tg_Addresses t) of Inl e \<Rightarrow> Inl e | Inr addresses \<Rightarrow>
      Inr \<lparr>q_EnvironmentInstance = so_Instance s, q_Capability = ''network.connect'', q_Action = ''connect'',
           q_Resource = tg_Name t, q_Environment = so_Environment s,
           q_Attributes = connection_attributes t addresses duration, q_Parameters = fmempty\<rparr>)"

section \<open>The provider\<close>

definition parse_addresses :: "string \<Rightarrow> Addr list option" where
  "parse_addresses s =
     (let parsed = map ParseAddr (Split CHR '','' s)
      in if None \<in> set parsed then None else Some (map the parsed))"

definition relay_Execute :: "CapabilityRequest \<Rightarrow> CapabilityResult \<times> error option" where
  "relay_Execute q =
     (if q_Capability q \<noteq> ''network.connect'' \<or> q_Action q \<noteq> ''connect'' \<or> fcard (fmdom (q_Attributes q)) \<noteq> 6
         \<or> fcard (fmdom (q_Parameters q)) \<noteq> 0 then (no_result, Some ErrInvalidArgument)
      else case Atoi (getd [] (q_Attributes q) ''port'') of None \<Rightarrow> (no_result, Some ErrInvalidArgument) | Some port \<Rightarrow>
      case Atoi (getd [] (q_Attributes q) ''duration_seconds'') of
        None \<Rightarrow> (no_result, Some ErrInvalidArgument) | Some duration \<Rightarrow>
      case parse_addresses (getd [] (q_Attributes q) ''addresses'') of
        None \<Rightarrow> (no_result, Some ErrInvalidArgument) | Some addresses \<Rightarrow>
      case requestFor \<lparr>so_Environment = q_Environment q, so_Instance = q_EnvironmentInstance q\<rparr>
             \<lparr>tg_Kind = getd [] (q_Attributes q) ''destination_kind'', tg_Name = q_Resource q,
              tg_Protocol = getd [] (q_Attributes q) ''protocol'', tg_Port = port, tg_Addresses = addresses,
              tg_Owner = getd [] (q_Attributes q) ''destination_instance''\<rparr> duration of
        Inl e \<Rightarrow> (no_result, Some e)
      | Inr canonical \<Rightarrow>
          if fmex (\<lambda>k v. getd [] (q_Attributes q) k \<noteq> v) (q_Attributes canonical)
          then (no_result, Some ErrInvalidArgument)
          else (no_result\<lparr>cr_Provider := ''standard.network.authorization''\<rparr>, None))"

definition relay_Provider :: "'w provider" where
  "relay_Provider = \<lparr>pv_Capability = ''network.connect'', pv_NonAuthorityParameters = None,
     pv_SavedApprovalScope = None,
     pv_Execute = (\<lambda>_ q w. case relay_Execute q of (result, err) \<Rightarrow> (w, result, map_option Sentinel err))\<rparr>"

section \<open>Laws\<close>

text \<open>The loop keeps the addresses: it succeeds on distinct ones of an admissible class.\<close>

definition admissible :: "string \<Rightarrow> Addr \<Rightarrow> bool" where
  "admissible kind a \<longleftrightarrow> IsValid a \<and> Zone a = [] \<and> \<not> IsUnspecified a \<and> \<not> IsMulticast a \<and> \<not> IsLinkLocalUnicast a
     \<and> \<not> Is4In6 a \<and> \<not> (kind = ''external'' \<and> IsLoopback a)"

lemma address_loop:
  "forE (address_step kind) seen as = Inr out \<longleftrightarrow>
     out = seen @ as \<and> list_all (admissible kind) as \<and> distinct as \<and> set seen \<inter> set as = {}"
proof (induction as arbitrary: seen)
  case (Cons a as)
  show ?case
  proof (cases "admissible kind a \<and> a \<notin> set seen")
    case True
    then have "address_step kind seen a = Inr (seen @ [a])" by (auto simp: address_step_def admissible_def)
    with Cons.IH [of "seen @ [a]"] True show ?thesis by auto
  next
    case False
    then have "\<exists>e. address_step kind seen a = Inl e" by (auto simp: address_step_def admissible_def)
    with False show ?thesis by auto
  qed
qed auto

definition target_ok :: "Source \<Rightarrow> Target \<Rightarrow> int \<Rightarrow> bool" where
  "target_ok s t duration \<longleftrightarrow> validName (so_Environment s) \<and> ValidEnvironmentInstanceID (so_Instance s)
     \<and> 1 \<le> duration \<and> duration \<le> MaxDuration \<and> (tg_Protocol t = ''tcp'' \<or> tg_Protocol t = ''udp'' \<and> duration \<le> MaxUDPDurations)
     \<and> 1 \<le> tg_Port t \<and> tg_Port t \<le> 65535 \<and> tg_Addresses t \<noteq> [] \<and> length (tg_Addresses t) \<le> 32
     \<and> target_check t duration = None \<and> list_all (admissible (tg_Kind t)) (tg_Addresses t) \<and> distinct (tg_Addresses t)"

lemma requestFor_iff:
  "requestFor s t duration = Inr q \<longleftrightarrow> target_ok s t duration \<and>
     q = \<lparr>q_EnvironmentInstance = so_Instance s, q_Capability = ''network.connect'', q_Action = ''connect'',
           q_Resource = tg_Name t, q_Environment = so_Environment s,
           q_Attributes = connection_attributes t (tg_Addresses t) duration, q_Parameters = fmempty\<rparr>"
  (is "?l \<longleftrightarrow> ?r")
proof -
  let ?loop = "forE (address_step (tg_Kind t)) [] (tg_Addresses t)"
  show ?thesis
  proof (cases "list_all (admissible (tg_Kind t)) (tg_Addresses t) \<and> distinct (tg_Addresses t)")
    case True
    then have "?loop = Inr (tg_Addresses t)" by (simp add: address_loop)
    with True show ?thesis by (auto simp: requestFor_def target_ok_def split: option.splits)
  next
    case False
    then obtain e where "?loop = Inl e" using address_loop [of "tg_Kind t" "[]" "tg_Addresses t"] by (cases ?loop) auto
    with False show ?thesis by (auto simp: requestFor_def target_ok_def split: option.splits)
  qed
qed

abbreviation connection_keys :: "string fset" where
  "connection_keys \<equiv> {|''destination_kind'', ''destination_instance'', ''protocol'', ''port'', ''addresses'', ''duration_seconds''|}"

lemma connection_attributes_lookup [simp]:
  "fmlookup (connection_attributes t as d) ''destination_kind'' = Some (tg_Kind t)"
  "fmlookup (connection_attributes t as d) ''destination_instance'' = Some (tg_Owner t)"
  "fmlookup (connection_attributes t as d) ''protocol'' = Some (tg_Protocol t)"
  "fmlookup (connection_attributes t as d) ''port'' = Some (Itoa (tg_Port t))"
  "fmlookup (connection_attributes t as d) ''addresses'' = Some (Join '','' (sort (map Addr_String as)))"
  "fmlookup (connection_attributes t as d) ''duration_seconds'' = Some (Itoa d)"
  by (simp_all add: connection_attributes_def fmlookup_of_list)

lemma connection_attributes_dom [simp]: "fmdom (connection_attributes t as d) = connection_keys"
  by (auto simp: connection_attributes_def fmap_of_list_simps)

lemma connection_keys_card: "fcard connection_keys = 6"
  by (simp add: fcard.rep_eq)

lemma admissibleD:
  "admissible kind a \<Longrightarrow> addr_ok a \<Longrightarrow> ParseAddr (Addr_String a) = Some a"
  by (rule ParseAddr_String) (auto simp: admissible_def)

lemma Addr_String_chars:
  assumes "admissible kind a"
  shows "CHR '','' \<notin> set (Addr_String a)"
proof (cases a)
  case (IPv4 os)
  have "CHR '','' \<notin> set (Join ''.'' (map (digits 10) os))"
    using digits_no_char(2) [OF special_chars(7)] by (intro Join_word_chars) auto
  with IPv4 show ?thesis by (simp add: Addr_String_def)
next
  case (IPv6 gs z)
  with assms have "z = []" "\<not> Is4In6 a" by (auto simp: admissible_def Zone_def)
  with IPv6 string6_chars [of "CHR '',''" gs] special_chars(8) show ?thesis by (simp add: Addr_String_def)
qed (use assms in \<open>simp add: admissible_def IsValid_def\<close>)

text \<open>The addresses come back, in the order of their texts.\<close>

lemma parse_addresses_sorted:
  assumes "as \<noteq> []" "list_all (admissible kind) as" "\<forall>a\<in>set as. addr_ok a"
  obtains as' where "parse_addresses (Join '','' (sort (map Addr_String as))) = Some as'" "mset as' = mset as"
proof -
  let ?ws = "sort (map Addr_String as)"
  have pieces: "Split CHR '','' (Join '','' ?ws) = ?ws"
    using assms(1,2) Addr_String_chars by (intro Split_Join) (auto simp: list_all_iff dest: arg_cong [of _ _ length])
  have parses: "ParseAddr w \<noteq> None" if "w \<in> set ?ws" for w
    using that assms(2,3) admissibleD by (fastforce simp: list_all_iff)
  then have "None \<notin> set (map ParseAddr ?ws)" by (metis (no_types, lifting) imageE list.set_map)
  then have "parse_addresses (Join '','' ?ws) = Some (map (\<lambda>w. the (ParseAddr w)) ?ws)"
    unfolding parse_addresses_def pieces Let_def by (simp add: comp_def)
  moreover have "mset (map (\<lambda>w. the (ParseAddr w)) ?ws) = image_mset (\<lambda>a. the (ParseAddr (Addr_String a))) (mset as)"
    by (simp add: multiset.map_comp comp_def)
  moreover have "image_mset (\<lambda>a. the (ParseAddr (Addr_String a))) (mset as) = image_mset (\<lambda>a. a) (mset as)"
    using assms(2,3) by (intro image_mset_cong) (simp add: list_all_iff admissibleD [of kind])
  ultimately show ?thesis using that by simp
qed

lemma target_ok_perm:
  assumes "target_ok s t d" "mset as = mset (tg_Addresses t)"
  shows "target_ok s (t\<lparr>tg_Addresses := as\<rparr>) d"
    and "connection_attributes (t\<lparr>tg_Addresses := as\<rparr>) as d = connection_attributes t (tg_Addresses t) d"
proof -
  have same: "set as = set (tg_Addresses t)" "length as = length (tg_Addresses t)" "distinct as = distinct (tg_Addresses t)"
    using assms(2) mset_eq_setD mset_eq_length mset_eq_imp_distinct_iff by blast+
  have check: "target_check (t\<lparr>tg_Addresses := as\<rparr>) d = None"
  proof (cases "tg_Kind t = ''host''")
    case True
    with assms(1) obtain a where "tg_Addresses t = [a]"
      by (auto simp: target_ok_def target_check_def split: list.splits)
    with assms(2) have "as = tg_Addresses t" by simp
    then have "t\<lparr>tg_Addresses := as\<rparr> = t" by simp
    with assms(1) show ?thesis by (simp add: target_ok_def)
  next
    case False
    then have "target_check (t\<lparr>tg_Addresses := as\<rparr>) d = target_check t d" by (simp add: target_check_def)
    with assms(1) show ?thesis by (simp add: target_ok_def)
  qed
  then show "target_ok s (t\<lparr>tg_Addresses := as\<rparr>) d"
    using assms(1) same by (auto simp: target_ok_def list_all_iff)
  have "sort (map Addr_String as) = sort (map Addr_String (tg_Addresses t))"
    by (rule properties_for_sort) (simp_all add: assms(2))
  then show "connection_attributes (t\<lparr>tg_Addresses := as\<rparr>) as d = connection_attributes t (tg_Addresses t) d"
    by (simp add: connection_attributes_def)
qed

text \<open>Every request that stands for a connection is accepted.\<close>

lemma Atoi_small: "1 \<le> n \<Longrightarrow> n \<le> 65535 \<Longrightarrow> Atoi (Itoa n) = Some n"
  by (rule Atoi_Itoa) simp_all

lemma relay_accepts:
  assumes run: "requestFor s t d = Inr q" and ok: "\<forall>a\<in>set (tg_Addresses t). addr_ok a"
  shows "snd (relay_Execute q) = None"
proof -
  from run have t: "target_ok s t d" and q: "q_Capability q = ''network.connect''" "q_Action q = ''connect''"
    "q_Environment q = so_Environment s" "q_EnvironmentInstance q = so_Instance s" "q_Resource q = tg_Name t"
    "q_Attributes q = connection_attributes t (tg_Addresses t) d" "q_Parameters q = fmempty"
    by (auto simp: requestFor_iff)
  from t ok obtain as where as: "parse_addresses (Join '','' (sort (map Addr_String (tg_Addresses t)))) = Some as"
    "mset as = mset (tg_Addresses t)"
    using parse_addresses_sorted [of "tg_Addresses t" "tg_Kind t"] by (auto simp: target_ok_def)
  have n: "Atoi (Itoa (tg_Port t)) = Some (tg_Port t)" "Atoi (Itoa d) = Some d"
    using t by (auto simp: target_ok_def MaxDuration_def intro: Atoi_small)
  let ?t = "\<lparr>tg_Kind = tg_Kind t, tg_Name = tg_Name t, tg_Protocol = tg_Protocol t, tg_Port = tg_Port t,
    tg_Addresses = as, tg_Owner = tg_Owner t\<rparr>" and ?s = "\<lparr>so_Environment = so_Environment s, so_Instance = so_Instance s\<rparr>"
  have eta: "?t = t\<lparr>tg_Addresses := as\<rparr>" "?s = s" by simp_all
  have "requestFor ?s ?t d = Inr q"
    unfolding eta requestFor_iff using target_ok_perm [OF t as(2)] run requestFor_iff [of s t d q] by simp
  moreover have "\<not> fmex (\<lambda>k v. getd [] (q_Attributes q) k \<noteq> v) (q_Attributes q)"
    by (auto simp: fmex_iff getd_def)
  ultimately show ?thesis
    unfolding relay_Execute_def q by (simp add: getd_def as(1) n connection_keys_card) (simp add: q getd_def fcard.rep_eq)
qed

text \<open>Six attributes that agree with a connection's, a missing one counting as empty, are the
  connection's; or the owner is empty and its attribute is replaced by some other one.\<close>

lemma attributes_agree:
  assumes card: "fcard (fmdom m) = 6"
    and agree: "\<And>k v. fmlookup (connection_attributes t as d) k = Some v \<Longrightarrow> getd [] m k = v"
    and full: "tg_Kind t \<noteq> []" "tg_Protocol t \<noteq> []" "Join '','' (sort (map Addr_String as)) \<noteq> []"
  shows "m = connection_attributes t as d \<or> tg_Owner t = [] \<and>
    (\<exists>k v. k |\<notin>| connection_keys \<and> m = fmupd k v (fmdrop ''destination_instance'' (connection_attributes t as d)))"
proof -
  let ?c = "connection_attributes t as d" and ?K = "fset connection_keys" and ?i = "''destination_instance''"
  have Itoa: "Itoa n \<noteq> []" for n using digits_nonempty by (simp add: Itoa_def)
  have same: "fmlookup m k = fmlookup ?c k" if "k \<in> ?K - {?i}" for k
  proof -
    from that obtain v where "fmlookup ?c k = Some v" "v \<noteq> []" using full Itoa by auto
    with agree [of k v] show ?thesis by (auto simp: getd_def split: option.splits)
  qed
  have inside: "?K - {?i} \<subseteq> fset (fmdom m)"
  proof
    fix k assume k: "k \<in> ?K - {?i}"
    then have "k |\<in>| fmdom ?c" by auto
    with same [OF k] show "k \<in> fset (fmdom m)" by (metis fmdom_notI fmdom_notD)
  qed
  have six: "card (fset (fmdom m)) = 6" "card ?K = 6" "finite (fset (fmdom m))" using card by (simp_all add: fcard.rep_eq)
  show ?thesis
  proof (cases "fmlookup m ?i")
    case (Some x)
    with agree [of ?i "tg_Owner t"] have own: "fmlookup m ?i = fmlookup ?c ?i" by (simp add: getd_def)
    have "?K \<subseteq> fset (fmdom m)" using inside Some by (auto intro: fmdomI)
    with six have dom: "fset (fmdom m) = ?K" by (metis card_subset_eq)
    have "fmlookup m k = fmlookup ?c k" for k
    proof (cases "k \<in> ?K")
      case True
      with own same show ?thesis by (cases "k = ?i") auto
    next
      case False
      with dom have "k |\<notin>| fmdom m" "k |\<notin>| fmdom ?c" by auto
      then show ?thesis by (simp add: fmdom_notD)
    qed
    then have "m = ?c" by (rule fmap_ext)
    then show ?thesis ..
  next
    case None
    then have owner: "tg_Owner t = []" using agree [of ?i "tg_Owner t"] by (simp add: getd_def)
    define S where "S = ?K - {?i}"
    have "card (fset (fmdom m) - S) = 1" using inside six unfolding S_def by (subst card_Diff_subset) auto
    then obtain k where k: "fset (fmdom m) - S = {k}" by (auto simp: card_1_singleton_iff)
    then have km: "k |\<in>| fmdom m" "k \<notin> S" by blast+
    moreover have "k \<noteq> ?i" using km None by (metis fmdom_notI)
    ultimately have kK: "k |\<notin>| connection_keys" by (simp add: S_def)
    obtain v where v: "fmlookup m k = Some v" using km by (auto simp: fmlookup_dom_iff)
    have "fmlookup m j = fmlookup (fmupd k v (fmdrop ?i ?c)) j" for j
    proof -
      consider "j = k" | "j = ?i" "j \<noteq> k" | "j \<in> S" "j \<noteq> k" "j \<noteq> ?i" | "j \<notin> S" "j \<noteq> k" "j \<noteq> ?i"
        by (auto simp: S_def)
      then show ?thesis
      proof cases
        case 3
        with same [of j] show ?thesis by (simp add: S_def)
      next
        case 4
        then have "j |\<notin>| fmdom m" "j |\<notin>| fmdom ?c" using k by (blast, simp add: S_def)
        with 4 show ?thesis by (simp add: fmdom_notD)
      qed (simp_all add: v None)
    qed
    then have "m = fmupd k v (fmdrop ?i ?c)" by (rule fmap_ext)
    with owner kK show ?thesis by (intro disjI2 conjI exI)
  qed
qed

lemma relay_ExecuteD:
  assumes "snd (relay_Execute q) = None"
  obtains s t d c where "requestFor s t d = Inr c" "\<forall>a\<in>set (tg_Addresses t). addr_ok a"
    "q_Capability q = ''network.connect''" "q_Action q = ''connect''" "q_Parameters q = fmempty" "fcard (fmdom (q_Attributes q)) = 6"
    "q_Environment q = so_Environment s" "q_EnvironmentInstance q = so_Instance s" "q_Resource q = tg_Name t"
    "\<And>k v. fmlookup (q_Attributes c) k = Some v \<Longrightarrow> getd [] (q_Attributes q) k = v"
proof -
  let ?g = "getd [] (q_Attributes q)"
  from assms obtain port d as c where run: "parse_addresses (?g ''addresses'') = Some as"
    "requestFor \<lparr>so_Environment = q_Environment q, so_Instance = q_EnvironmentInstance q\<rparr>
       \<lparr>tg_Kind = ?g ''destination_kind'', tg_Name = q_Resource q, tg_Protocol = ?g ''protocol'', tg_Port = port,
        tg_Addresses = as, tg_Owner = ?g ''destination_instance''\<rparr> d = Inr c"
    "\<not> fmex (\<lambda>k v. ?g k \<noteq> v) (q_Attributes c)"
    and head: "q_Capability q = ''network.connect''" "q_Action q = ''connect''" "fcard (fmdom (q_Attributes q)) = 6"
      "fcard (fmdom (q_Parameters q)) = 0"
    by (auto simp: relay_Execute_def split: if_splits option.splits sum.splits)
  from run(1) have "\<forall>a\<in>set as. addr_ok a"
    using ParseAddr_ok by (auto simp: parse_addresses_def Let_def image_iff split: if_splits; metis option.collapse)
  moreover from head(4) have "q_Parameters q = fmempty" by (simp add: fmap_ext fmdom_notD)
  moreover have "?g k = v" if "fmlookup (q_Attributes c) k = Some v" for k v
    using run(3) that by (auto simp: fmex_iff)
  ultimately show ?thesis by (intro that [OF run(2)]) (simp_all add: head)
qed

lemma parse_addresses_empty: "parse_addresses [] = None"
  by code_simp

lemma owner_nonempty: "\<not> networkServiceInstance []" "\<not> ValidEnvironmentInstanceID []"
  by code_simp+

lemma requestFor_dom: "requestFor s t d = Inr c \<Longrightarrow> fmdom (q_Attributes c) = connection_keys"
  by (auto simp: requestFor_iff)

lemma relay_Execute_cong:
  assumes card: "fcard (fmdom a) = fcard (fmdom a')"
    and same: "\<And>k. k |\<in>| connection_keys \<Longrightarrow> getd [] a k = getd [] a' k"
  shows "relay_Execute (q\<lparr>q_Attributes := a\<rparr>) = relay_Execute (q\<lparr>q_Attributes := a'\<rparr>)"
proof -
  have eqs: "getd [] a ''port'' = getd [] a' ''port''" "getd [] a ''duration_seconds'' = getd [] a' ''duration_seconds''"
    "getd [] a ''addresses'' = getd [] a' ''addresses''" "getd [] a ''protocol'' = getd [] a' ''protocol''"
    "getd [] a ''destination_kind'' = getd [] a' ''destination_kind''"
    "getd [] a ''destination_instance'' = getd [] a' ''destination_instance''"
    by (rule same, simp)+
  have mem: "fmex (\<lambda>k v. getd [] a k \<noteq> v) (q_Attributes c) = fmex (\<lambda>k v. getd [] a' k \<noteq> v) (q_Attributes c)"
    if run: "requestFor s t d = Inr c" for s t d c
  proof -
    have "getd [] a k = getd [] a' k" if "fmlookup (q_Attributes c) k = Some v" for k v
      using same [OF fmdomI [OF that, unfolded requestFor_dom [OF run]]] .
    then show ?thesis unfolding fmex_iff by metis
  qed
  show ?thesis
    unfolding relay_Execute_def by (simp add: card eqs mem split: option.split sum.split)
qed

text \<open>The provider accepts what stands for a connection; and, for an external destination, also the
  same request with its (empty) owner attribute replaced by one of any other name.\<close>

definition stands_for :: "CapabilityRequest \<Rightarrow> Target \<Rightarrow> CapabilityRequest \<Rightarrow> bool" where
  "stands_for q t c \<longleftrightarrow> q = c \<or> tg_Kind t = ''external'' \<and> (\<exists>k v. k |\<notin>| connection_keys \<and>
     q = c\<lparr>q_Attributes := fmupd k v (fmdrop ''destination_instance'' (q_Attributes c))\<rparr>)"

lemma relay_sound:
  assumes "snd (relay_Execute q) = None"
  obtains s t d c where "requestFor s t d = Inr c" "\<forall>a\<in>set (tg_Addresses t). addr_ok a" "stands_for q t c"
proof (rule relay_ExecuteD [OF assms])
  fix s t d c
  assume run: "requestFor s t d = Inr c" and ok: "\<forall>a\<in>set (tg_Addresses t). addr_ok a"
    and q: "q_Capability q = ''network.connect''" "q_Action q = ''connect''" "q_Parameters q = fmempty"
      "q_Environment q = so_Environment s" "q_EnvironmentInstance q = so_Instance s" "q_Resource q = tg_Name t"
    and six: "fcard (fmdom (q_Attributes q)) = 6"
    and agree: "\<And>k v. fmlookup (q_Attributes c) k = Some v \<Longrightarrow> getd [] (q_Attributes q) k = v"
  from run have t: "target_ok s t d" and c: "q_Attributes c = connection_attributes t (tg_Addresses t) d"
    "c = q\<lparr>q_Attributes := q_Attributes c\<rparr>" using q by (auto simp: requestFor_iff)
  have some: "Join '','' (sort (map Addr_String (tg_Addresses t))) \<noteq> []"
    by (rule parse_addresses_sorted [of "tg_Addresses t" "tg_Kind t"])
      (use t ok parse_addresses_empty in \<open>auto simp: target_ok_def\<close>)
  have kind: "tg_Owner t = [] \<Longrightarrow> tg_Kind t = ''external''" "tg_Kind t \<noteq> []" "tg_Protocol t \<noteq> []"
    using t by (auto simp: target_ok_def target_check_def ValidateNetworkService_def owner_nonempty
        split: if_splits list.splits)
  have "q_Attributes q = q_Attributes c \<or> tg_Owner t = [] \<and> (\<exists>k v. k |\<notin>| connection_keys \<and>
      q_Attributes q = fmupd k v (fmdrop ''destination_instance'' (q_Attributes c)))"
    unfolding c(1) by (rule attributes_agree [OF six _ kind(2,3) some]) (rule agree [unfolded c(1)])
  then have "stands_for q t c"
  proof (elim disjE conjE exE)
    assume "q_Attributes q = q_Attributes c"
    then have "q = c" by (subst c(2)) simp
    then show ?thesis unfolding stands_for_def ..
  next
    fix k v
    assume "tg_Owner t = []" "k |\<notin>| connection_keys"
      and a: "q_Attributes q = fmupd k v (fmdrop ''destination_instance'' (q_Attributes c))"
    moreover from a have "q = c\<lparr>q_Attributes := fmupd k v (fmdrop ''destination_instance'' (q_Attributes c))\<rparr>"
      by (subst c(2)) simp
    ultimately show ?thesis unfolding stands_for_def using kind(1) by (intro disjI2 conjI exI)
  qed
  with run ok show thesis by (rule that)
qed

lemma relay_complete:
  assumes run: "requestFor s t d = Inr c" and ok: "\<forall>a\<in>set (tg_Addresses t). addr_ok a" and form: "stands_for q t c"
  shows "snd (relay_Execute q) = None"
proof -
  have c: "snd (relay_Execute (c\<lparr>q_Attributes := q_Attributes c\<rparr>)) = None" using relay_accepts [OF run ok] by simp
  from form show ?thesis
    unfolding stands_for_def
  proof (elim disjE conjE exE)
    fix k v
    assume kind: "tg_Kind t = ''external''" and k: "k |\<notin>| connection_keys"
      and q: "q = c\<lparr>q_Attributes := fmupd k v (fmdrop ''destination_instance'' (q_Attributes c))\<rparr>"
    from run kind have "tg_Owner t = []" and a: "q_Attributes c = connection_attributes t (tg_Addresses t) d"
      by (auto simp: requestFor_iff target_ok_def target_check_def split: if_splits)
    then show ?thesis
      unfolding q using c k by (subst relay_Execute_cong [where a' = "q_Attributes c"]) (auto simp: getd_def fcard.rep_eq)
  qed (use c in simp)
qed

text \<open>A request stands for one connection only.\<close>

lemma requestFor_injective:
  assumes "requestFor s t d = Inr q" "requestFor s' t' d' = Inr q"
    and ok: "\<forall>a\<in>set (tg_Addresses t). addr_ok a" "\<forall>a\<in>set (tg_Addresses t'). addr_ok a"
  shows "s' = s" "d' = d" "mset (tg_Addresses t') = mset (tg_Addresses t)" "t' = t\<lparr>tg_Addresses := tg_Addresses t'\<rparr>"
proof -
  have r: "target_ok s t d" "target_ok s' t' d'" and
    q: "so_Instance s' = so_Instance s" "so_Environment s' = so_Environment s" "tg_Name t' = tg_Name t"
      "connection_attributes t' (tg_Addresses t') d' = connection_attributes t (tg_Addresses t) d"
    using assms(1,2) by (auto simp: requestFor_iff)
  have n: "Atoi (Itoa (tg_Port t)) = Some (tg_Port t)" "Atoi (Itoa d) = Some d"
    "Atoi (Itoa (tg_Port t')) = Some (tg_Port t')" "Atoi (Itoa d') = Some d'"
    using r by (auto simp: target_ok_def MaxDuration_def intro: Atoi_small)
  show "s' = s" using q by simp
  have at: "fmlookup (connection_attributes t' (tg_Addresses t') d') k = fmlookup (connection_attributes t (tg_Addresses t) d) k" for k
    using q(4) by simp
  show "d' = d" using at [of "''duration_seconds''"] n by (metis connection_attributes_lookup(6) option.inject)
  have "tg_Port t' = tg_Port t" using at [of "''port''"] n by (metis connection_attributes_lookup(4) option.inject)
  then show "t' = t\<lparr>tg_Addresses := tg_Addresses t'\<rparr>"
    using q(3) at [of "''destination_kind''"] at [of "''destination_instance''"] at [of "''protocol''"] by simp
  have sorted: "Join '','' (sort (map Addr_String (tg_Addresses t'))) = Join '','' (sort (map Addr_String (tg_Addresses t)))"
    using at [of "''addresses''"] by simp
  obtain as where "parse_addresses (Join '','' (sort (map Addr_String (tg_Addresses t)))) = Some as" "mset as = mset (tg_Addresses t)"
    using parse_addresses_sorted [of "tg_Addresses t" "tg_Kind t"] r(1) ok(1) by (auto simp: target_ok_def)
  moreover obtain as' where "parse_addresses (Join '','' (sort (map Addr_String (tg_Addresses t')))) = Some as'" "mset as' = mset (tg_Addresses t')"
    using parse_addresses_sorted [of "tg_Addresses t'" "tg_Kind t'"] r(2) ok(2) by (auto simp: target_ok_def)
  ultimately show "mset (tg_Addresses t') = mset (tg_Addresses t)" using sorted by simp
qed

end
