(* ===== verification/NetworkRelay.thy ===== *)
theory NetworkRelay
  imports NetworkAuthority CapabilityService "HOL-Library.Sublist"
begin

text \<open>
  The relay's sessions (\<^verbatim>\<open>internal/network/service.go\<close>).

  A session is an object shared by the call of \<^verbatim>\<open>Open\<close>, the monitor, the function that runs when
  its context ends, and whoever revokes or closes it; sessions live in a heap and the service maps
  identifiers to addresses.  Every section under the mutex is one step.  A call of an interface
  (\<^verbatim>\<open>Targets\<close>, \<^verbatim>\<open>Authority\<close>, \<^verbatim>\<open>Capabilities\<close>, the dialer) is one step too, a function of what the call
  returned; so \<^verbatim>\<open>Open\<close> and \<^verbatim>\<open>finish\<close> are cut at exactly those points, and a value of \<open>open_pc\<close> or
  \<open>finish_pc\<close> says where they stand, with their local variables.  Between two steps anything else
  may run.  \<open>ac_trace\<close> lists what the interfaces returned; no step reads it.
  A result is either an error or a value, as is the convention of Go.
  Times are instants, and both times of a session are UTC.
\<close>

section \<open>Data\<close>

record Session =
  se_ID :: string
  se_RequestID :: string
  se_Source :: Source
  se_Target :: Target
  se_Peer :: string
  se_PolicyRevision :: string
  se_Phase :: string
  se_State :: string
  se_Reason :: string
  se_CreatedAt :: int
  se_ExpiresAt :: int

type_synonym conn = nat

definition errDNSResolution :: error where "errDNSResolution = ErrOther ''name resolution failed''"
definition errPolicyChanged :: error where "errPolicyChanged = ErrOther ''connection Policy expired or changed''"

text \<open>What one run of \<^verbatim>\<open>verifyContext\<close> sees, in the order of its calls.\<close>

record checks =
  ck_ctx :: "error option"
  ck_Instance :: "goerr + string"
  ck_Revision :: "goerr + string"
  ck_Evaluation :: "goerr + PolicyEvaluation"
  ck_Target :: "goerr option"

datatype relay_action =
    Resolved Target
  | Revised string
  | Requested CapabilityRequest CapabilityResult "goerr option"
  | Verified checks
  | Dialled Addr conn
  | Recorded CapabilityAuditEvent "goerr option"

datatype open_pc =
    Resolving
  | Revising Target CapabilityRequest
  | Requesting Target
  | Saving Target
  | Verifying Target
  | Admitted Target
  | Dialling Target "Addr list" "goerr list"
  | Connected conn
  | Reverifying
  | Announcing
  | Announced
  | Failing goerr
  | Returned "goerr option"

datatype finish_pc =
    Unfinished
  | Cancelled string bool
  | Closing "conn option" "conn option" string
  | Reporting string
  | Finished

datatype monitor_pc = Unwatched | Watching | Stopped

record active =
  ac_view :: Session
  ac_spec :: Spec
  ac_request :: CapabilityRequest
  ac_ctx :: "error option"
  ac_upstream :: "conn option"
  ac_client :: "conn option"
  ac_open :: open_pc
  ac_finish :: finish_pc
  ac_monitor :: monitor_pc
  ac_trace :: "relay_action list"

record relay =
  rl_heap :: "active list"
  rl_sessions :: "nat gomap"
  rl_now :: int
  rl_conns :: conn
  rl_closed :: "conn list"

abbreviation state :: "active \<Rightarrow> string" where "state a \<equiv> se_State (ac_view a)"

definition live :: "active \<Rightarrow> bool" where
  "live a \<longleftrightarrow> \<not> (state a = ''closed'' \<or> state a = ''failed'')"

definition zero_request :: CapabilityRequest where
  "zero_request = \<lparr>q_EnvironmentInstance = [], q_Capability = [], q_Action = [], q_Resource = [], q_Environment = [],
     q_Attributes = fmempty, q_Parameters = fmempty\<rparr>"

section \<open>Admission\<close>

definition second :: int where "second = 10 ^ 9"

definition new_active :: "error option \<Rightarrow> int \<Rightarrow> char list \<Rightarrow> Source \<Rightarrow> Spec \<Rightarrow> active" where
  "new_active ctx now token source spec =
     \<lparr>ac_view = \<lparr>se_ID = EncodeToString token, se_RequestID = [], se_Source = source,
        se_Target = \<lparr>tg_Kind = sp_Kind spec, tg_Name = sp_Target spec, tg_Protocol = sp_Protocol spec,
          tg_Port = sp_Port spec, tg_Addresses = [], tg_Owner = []\<rparr>,
        se_Peer = [], se_PolicyRevision = [], se_Phase = ''resolve'', se_State = ''pending'', se_Reason = [],
        se_CreatedAt = now, se_ExpiresAt = now + sp_DurationSeconds spec * second\<rparr>,
      ac_spec = spec, ac_request = zero_request, ac_ctx = ctx, ac_upstream = None, ac_client = None,
      ac_open = Resolving, ac_finish = Unfinished, ac_monitor = Unwatched, ac_trace = []\<rparr>"

text \<open>The order in which Go ranges over the sessions is an argument.\<close>

type_synonym session_order = "nat gomap \<Rightarrow> (string \<times> nat) list"

definition older :: "active list \<Rightarrow> nat option \<Rightarrow> nat \<Rightarrow> nat option" where
  "older heap oldest i =
     (if live (heap ! i) then oldest
      else case oldest of None \<Rightarrow> Some i
        | Some j \<Rightarrow> if se_CreatedAt (ac_view (heap ! i)) < se_CreatedAt (ac_view (heap ! j)) then Some i else oldest)"

definition live_sessions :: "session_order \<Rightarrow> relay \<Rightarrow> nat list" where
  "live_sessions ord r = filter (\<lambda>i. live (rl_heap r ! i)) (map snd (ord (rl_sessions r)))"

definition own_sessions :: "session_order \<Rightarrow> Source \<Rightarrow> relay \<Rightarrow> nat list" where
  "own_sessions ord source r = filter (\<lambda>i. se_Source (ac_view (rl_heap r ! i)) = source) (live_sessions ord r)"

definition evict :: "session_order \<Rightarrow> relay \<Rightarrow> nat gomap" where
  "evict ord r =
     (if fcard (fmdom (rl_sessions r)) \<ge> 1024
      then case foldl (older (rl_heap r)) None (map snd (ord (rl_sessions r))) of
             None \<Rightarrow> rl_sessions r
           | Some i \<Rightarrow> fmdrop (se_ID (ac_view (rl_heap r ! i))) (rl_sessions r)
      else rl_sessions r)"

definition reserve :: "session_order \<Rightarrow> error option \<Rightarrow> char list \<Rightarrow> Source \<Rightarrow> Spec \<Rightarrow> relay \<Rightarrow> error + relay" where
  "reserve ord ctx token source spec r =
     (if length (live_sessions ord r) \<ge> 128 \<or> length (own_sessions ord source r) \<ge> 16 then Inl ErrStorageBusy
      else Inr (r\<lparr>rl_heap := rl_heap r @ [new_active ctx (rl_now r) token source spec],
                  rl_sessions := fmupd (EncodeToString token) (length (rl_heap r)) (evict ord r)\<rparr>))"

text \<open>\<^verbatim>\<open>Open\<close> up to its reservation; \<open>ready\<close>: none of the service's interfaces is nil.\<close>

definition open_reserved ::
  "session_order \<Rightarrow> bool \<Rightarrow> goerr + string \<Rightarrow> error option \<Rightarrow> char list \<Rightarrow> Source \<Rightarrow> Spec \<Rightarrow> relay \<Rightarrow> error + relay" where
  "open_reserved ord ready instance ctx token source spec r =
     (if \<not> ready then Inl ErrPolicyDenied
      else case validateSpec spec of Some e \<Rightarrow> Inl e | None \<Rightarrow>
      if \<not> validName (so_Environment source) \<or> \<not> ValidEnvironmentInstanceID (so_Instance source) then Inl ErrInvalidArgument
      else case instance of Inl _ \<Rightarrow> Inl ErrCapabilityStale
        | Inr i \<Rightarrow>
            if i \<noteq> so_Instance source \<or> \<not> ValidEnvironmentInstanceID i then Inl ErrCapabilityStale
            else reserve ord ctx token source spec r)"

section \<open>Reasons\<close>

text \<open>\<open>dns\<close> and \<open>timeout\<close> tell what \<^verbatim>\<open>errors.As\<close> finds in an error: a \<^verbatim>\<open>*net.DNSError\<close>, and a
  \<^verbatim>\<open>net.Error\<close> that reports a timeout.\<close>

definition failure_reasons :: "(error \<times> string) list" where
  "failure_reasons =
     [(ErrNotFound, ''target_not_found''), (errDNSResolution, ''dns_failed''), (ErrStorageBusy, ''limit_reached''),
      (ErrInvalidArgument, ''invalid_request''), (errPolicyChanged, ''policy_expired_or_changed''),
      (ErrApprovalDenied, ''approval_denied''), (ErrPolicyDenied, ''policy_denied''),
      (ErrCapabilityStale, ''identity_changed''), (ContextDeadlineExceeded, ''timeout''), (ContextCanceled, ''canceled''),
      (ErrOther ''ECONNREFUSED'', ''connection_refused''),
      (ErrOther ''ENETUNREACH'', ''unreachable''), (ErrOther ''EHOSTUNREACH'', ''unreachable'')]"

definition failureReason :: "(goerr \<Rightarrow> bool) \<Rightarrow> (goerr \<Rightarrow> bool) \<Rightarrow> goerr \<Rightarrow> string" where
  "failureReason dns timeout err =
     (case find (\<lambda>(t, _). errors_Is err t) failure_reasons of
        Some (_, reason) \<Rightarrow> reason
      | None \<Rightarrow> if dns err then ''dns_failed'' else if timeout err then ''timeout'' else ''connection_failed'')"

definition ctx_reason :: "error option \<Rightarrow> string" where
  "ctx_reason ctx = (if ctx = Some ContextDeadlineExceeded then ''expired'' else ''canceled'')"

section \<open>Verification\<close>

definition verifyContext :: "active \<Rightarrow> checks \<Rightarrow> goerr option" where
  "verifyContext a ck =
     (case ck_ctx ck of Some e \<Rightarrow> Some (Sentinel e) | None \<Rightarrow>
      case ck_Instance ck of Inl _ \<Rightarrow> Some (Sentinel ErrCapabilityStale) | Inr i \<Rightarrow>
      if i \<noteq> so_Instance (se_Source (ac_view a)) then Some (Sentinel ErrCapabilityStale)
      else case ck_Revision ck of Inl _ \<Rightarrow> Some (Sentinel ErrPolicyDenied) | Inr revision \<Rightarrow>
      if revision \<noteq> se_PolicyRevision (ac_view a) then Some (Sentinel errPolicyChanged)
      else case ck_Evaluation ck of Inl _ \<Rightarrow> Some (Sentinel ErrPolicyDenied) | Inr evaluation \<Rightarrow>
      if ev_Decision evaluation = ''deny''
         \<or> (ev_Decision evaluation \<noteq> ''allow'' \<and> ev_Decision evaluation \<noteq> ''require-approval'')
      then Some (Sentinel ErrPolicyDenied)
      else ck_Target ck)"

section \<open>Audit\<close>

definition connectionAuditAttributes :: "string gomap \<Rightarrow> string \<Rightarrow> string gomap" where
  "connectionAuditAttributes attributes i = fmupd ''connection_id'' i attributes"

text \<open>The event \<^verbatim>\<open>record\<close> hands to \<^verbatim>\<open>Authority.Record\<close>.\<close>

definition connection_event :: "int \<Rightarrow> string \<Rightarrow> string \<Rightarrow> active \<Rightarrow> CapabilityAuditEvent" where
  "connection_event now kind reason a =
     (audit_event kind)\<lparr>au_Time := \<lparr>instant = now, location = 0\<rparr>,
       au_RequestID := if se_RequestID (ac_view a) = [] then se_ID (ac_view a) else se_RequestID (ac_view a),
       au_Capability := ''network.connect'', au_Action := ''connect'',
       au_Environment := so_Environment (se_Source (ac_view a)),
       au_EnvironmentInstance := so_Instance (se_Source (ac_view a)),
       au_Resource := tg_Name (se_Target (ac_view a)),
       au_Attributes := connectionAuditAttributes (q_Attributes (ac_request a)) (se_ID (ac_view a)), au_Reason := reason\<rparr>"

section \<open>Opening\<close>

text \<open>\<^verbatim>\<open>return nil, err\<close>: the deferred call of \<^verbatim>\<open>finish\<close> follows.\<close>

definition failing :: "goerr \<Rightarrow> active \<Rightarrow> active" where
  "failing err a = a\<lparr>ac_open := Failing err\<rparr>"

definition told :: "relay_action \<Rightarrow> active \<Rightarrow> active" where
  "told x a = a\<lparr>ac_trace := ac_trace a @ [x]\<rparr>"

definition open_resolved :: "goerr + Target \<Rightarrow> active \<Rightarrow> active" where
  "open_resolved reply a =
     (case reply of Inl e \<Rightarrow> failing e a
      | Inr target \<Rightarrow>
          let spec = ac_spec a; a = told (Resolved target) a in
          if tg_Kind target \<noteq> sp_Kind spec \<or> tg_Name target \<noteq> sp_Target spec \<or> tg_Protocol target \<noteq> sp_Protocol spec
             \<or> (sp_Port spec \<noteq> 0 \<and> tg_Port target \<noteq> sp_Port spec) then failing (Sentinel ErrIncompatibleState) a
          else case requestFor (se_Source (ac_view a)) target (sp_DurationSeconds spec) of
            Inl e \<Rightarrow> failing (Sentinel e) a
          | Inr q \<Rightarrow> a\<lparr>ac_open := Revising target q\<rparr>)"

definition open_revised :: "Target \<Rightarrow> CapabilityRequest \<Rightarrow> goerr + string \<Rightarrow> active \<Rightarrow> active" where
  "open_revised target q reply a =
     (case reply of Inl _ \<Rightarrow> failing (Sentinel ErrPolicyDenied) a
      | Inr revision \<Rightarrow> told (Revised revision) (a\<lparr>
          ac_view := ac_view a\<lparr>se_Target := target, se_PolicyRevision := revision, se_Phase := ''authorize''\<rparr>,
          ac_request := q, ac_open := Requesting target\<rparr>))"

definition open_requested :: "Target \<Rightarrow> CapabilityResult \<times> goerr option \<Rightarrow> active \<Rightarrow> active" where
  "open_requested target reply a =
     (case reply of (res, err) \<Rightarrow>
        let a = told (Requested (ac_request a) res err) (a\<lparr>ac_view := ac_view a\<lparr>se_RequestID := cr_RequestID res\<rparr>\<rparr>) in
        case err of Some e \<Rightarrow> failing e a
        | None \<Rightarrow>
            if \<not> cr_AuditComplete res \<or> cr_ExecutionState res \<noteq> ''succeeded'' \<or> cr_RequestID res = []
            then failing (Sentinel ErrPolicyDenied) a
            else a\<lparr>ac_open := if cr_SavedChoice res \<noteq> [] then Saving target else Verifying target\<rparr>)"

definition open_saved :: "Target \<Rightarrow> goerr + string \<Rightarrow> active \<Rightarrow> active" where
  "open_saved target reply a =
     (case reply of Inl _ \<Rightarrow> failing (Sentinel ErrPolicyDenied) a
      | Inr revision \<Rightarrow> told (Revised revision)
          (a\<lparr>ac_view := ac_view a\<lparr>se_PolicyRevision := revision\<rparr>, ac_open := Verifying target\<rparr>))"

definition open_verified :: "Target \<Rightarrow> checks \<Rightarrow> active \<Rightarrow> active" where
  "open_verified target ck a =
     (let err = verifyContext a ck; a = told (Verified ck) a in
      case err of Some e \<Rightarrow> failing e a | None \<Rightarrow> a\<lparr>ac_open := Admitted target\<rparr>)"

definition open_connecting :: "Target \<Rightarrow> active \<Rightarrow> active" where
  "open_connecting target a =
     (case ac_ctx a of Some e \<Rightarrow> failing (Sentinel e) a
      | None \<Rightarrow> a\<lparr>ac_view := ac_view a\<lparr>se_State := ''connecting'', se_Phase := ''connect''\<rparr>,
                  ac_open := Dialling target (tg_Addresses target) []\<rparr>)"

text \<open>The loop over the addresses: a failed dial, a connection, or no addresses left.\<close>

definition open_unreached :: "goerr list \<Rightarrow> active \<Rightarrow> active" where
  "open_unreached failures a =
     failing (if length failures = 0 then Sentinel ErrIncompatibleState else Joined failures) a"

definition open_dialled :: "Target \<Rightarrow> Addr \<Rightarrow> Addr list \<Rightarrow> goerr list \<Rightarrow> goerr + conn option \<Rightarrow> active \<Rightarrow> active" where
  "open_dialled target address rest failures reply a =
     (case reply of
        Inl e \<Rightarrow> a\<lparr>ac_open := Dialling target rest (failures @ [e])\<rparr>
      | Inr None \<Rightarrow> open_unreached failures a
      | Inr (Some upstream) \<Rightarrow> told (Dialled address upstream) (a\<lparr>ac_open := Connected upstream\<rparr>))"

definition open_connected :: "conn \<Rightarrow> string \<Rightarrow> active \<Rightarrow> active \<times> conn list" where
  "open_connected upstream peer a =
     (case ac_ctx a of Some e \<Rightarrow> (failing (Sentinel e) a, [upstream])
      | None \<Rightarrow> (a\<lparr>ac_upstream := Some upstream, ac_view := ac_view a\<lparr>se_Peer := peer\<rparr>, ac_open := Reverifying\<rparr>, []))"

definition open_reverified :: "checks \<Rightarrow> active \<Rightarrow> active" where
  "open_reverified ck a =
     (let err = verifyContext a ck; a = told (Verified ck) a in
      case err of Some e \<Rightarrow> failing e a | None \<Rightarrow> a\<lparr>ac_open := Announcing\<rparr>)"

definition open_announced :: "int \<Rightarrow> goerr option \<Rightarrow> active \<Rightarrow> active" where
  "open_announced now err a =
     (let a = told (Recorded (connection_event now ''connection-opened'' [] a) err) a in
      if err \<noteq> None then failing (Sentinel ErrIncompatibleState) a else a\<lparr>ac_open := Announced\<rparr>)"

definition open_active :: "active \<Rightarrow> active" where
  "open_active a =
     (case ac_ctx a of Some e \<Rightarrow> failing (Sentinel e) a
      | None \<Rightarrow> a\<lparr>ac_view := ac_view a\<lparr>se_State := ''active'', se_Phase := ''active''\<rparr>,
                  ac_open := Returned None, ac_monitor := Watching\<rparr>)"

section \<open>Finishing\<close>

definition cancel_ctx :: "error \<Rightarrow> active \<Rightarrow> active" where
  "cancel_ctx e a = (if ac_ctx a = None then a\<lparr>ac_ctx := Some e\<rparr> else a)"

text \<open>\<^verbatim>\<open>a.once.Do\<close>: only the first call starts; it cancels the context.\<close>

definition finish :: "string \<Rightarrow> bool \<Rightarrow> active \<Rightarrow> active" where
  "finish reason failed a =
     (if ac_finish a = Unfinished then (cancel_ctx ContextCanceled a)\<lparr>ac_finish := Cancelled reason failed\<rparr> else a)"

definition finish_marked :: "string \<Rightarrow> bool \<Rightarrow> int \<Rightarrow> active \<Rightarrow> active" where
  "finish_marked reason failed now a =
     (let (reason, failed) = if \<not> now < se_ExpiresAt (ac_view a) then (''expired'', False) else (reason, failed) in
      a\<lparr>ac_view := ac_view a\<lparr>se_State := if failed then ''failed'' else ''closed'', se_Reason := reason\<rparr>,
        ac_finish := Closing (ac_upstream a) (ac_client a) reason\<rparr>)"

definition finish_closed :: "conn option \<Rightarrow> conn option \<Rightarrow> string \<Rightarrow> active \<Rightarrow> active \<times> conn list" where
  "finish_closed upstream client reason a =
     (a\<lparr>ac_finish := Reporting reason\<rparr>,
      (case upstream of None \<Rightarrow> [] | Some c \<Rightarrow> [c]) @ (case client of None \<Rightarrow> [] | Some c \<Rightarrow> [c]))"

definition finish_recorded :: "string \<Rightarrow> int \<Rightarrow> goerr option \<Rightarrow> active \<Rightarrow> active" where
  "finish_recorded reason now err a =
     (let a = told (Recorded (connection_event now ''connection-closed'' reason a) err) (a\<lparr>ac_finish := Finished\<rparr>) in
      if err \<noteq> None then a\<lparr>ac_view := ac_view a\<lparr>se_State := ''failed'', se_Reason := ''audit_failed''\<rparr>\<rparr> else a)"

definition BindClient :: "conn \<Rightarrow> active \<Rightarrow> active \<times> conn list \<times> error option" where
  "BindClient client a =
     (if ac_ctx a \<noteq> None then (a, [client], Some ErrCapabilityStale)
      else (a\<lparr>ac_client := Some client\<rparr>, [], None))"

definition monitor_done :: "active \<Rightarrow> active" where
  "monitor_done a = (finish (ctx_reason (ac_ctx a)) False a)\<lparr>ac_monitor := Stopped\<rparr>"

definition monitor_tick :: "(goerr \<Rightarrow> string) \<Rightarrow> goerr option \<Rightarrow> active \<Rightarrow> active" where
  "monitor_tick why err a =
     (case err of None \<Rightarrow> a | Some e \<Rightarrow> (finish (why e) False a)\<lparr>ac_monitor := Stopped\<rparr>)"

section \<open>Steps\<close>

text \<open>
  The steps of one session at the instant \<open>now\<close>, with the connections they close; \<open>c\<close> is the next
  connection, \<open>why\<close> is \<open>failureReason\<close>.  What verification saw of the context may be older than the
  step.  A call that finds \<^verbatim>\<open>finish\<close> started waits for it and changes nothing.  The context ends with
  the caller's (\<open>cancels\<close>), at its own deadline (\<open>expires\<close>), or in \<^verbatim>\<open>finish\<close>.
\<close>

inductive session_step :: "(goerr \<Rightarrow> string) \<Rightarrow> int \<Rightarrow> conn \<Rightarrow> active \<Rightarrow> active \<Rightarrow> conn list \<Rightarrow> bool"
  for why now c a where
  resolved: "ac_open a = Resolving \<Longrightarrow> session_step why now c a (open_resolved target a) []"
| revised: "ac_open a = Revising t q \<Longrightarrow> session_step why now c a (open_revised t q revision a) []"
| requested: "ac_open a = Requesting t \<Longrightarrow> session_step why now c a (open_requested t reply a) []"
| saved: "ac_open a = Saving t \<Longrightarrow> session_step why now c a (open_saved t revision a) []"
| verified: "ac_open a = Verifying t \<Longrightarrow> ck_ctx ck \<in> {None, ac_ctx a}
    \<Longrightarrow> session_step why now c a (open_verified t ck a) []"
| connecting: "ac_open a = Admitted t \<Longrightarrow> session_step why now c a (open_connecting t a) []"
| dialled: "ac_open a = Dialling t (x # xs) fs \<Longrightarrow> reply \<in> {Inl e, Inr None, Inr (Some c)}
    \<Longrightarrow> session_step why now c a (open_dialled t x xs fs reply a) []"
| unreached: "ac_open a = Dialling t [] fs \<Longrightarrow> session_step why now c a (open_unreached fs a) []"
| connected: "ac_open a = Connected d \<Longrightarrow> open_connected d peer a = (a', cs) \<Longrightarrow> session_step why now c a a' cs"
| reverified: "ac_open a = Reverifying \<Longrightarrow> ck_ctx ck \<in> {None, ac_ctx a}
    \<Longrightarrow> session_step why now c a (open_reverified ck a) []"
| announced: "ac_open a = Announcing \<Longrightarrow> session_step why now c a (open_announced now err a) []"
| activated: "ac_open a = Announced \<Longrightarrow> session_step why now c a (open_active a) []"
| fails: "ac_open a = Failing e \<Longrightarrow> session_step why now c a (finish (why e) True a) []"
| returns: "ac_open a = Failing e \<Longrightarrow> ac_finish a = Finished
    \<Longrightarrow> session_step why now c a (a\<lparr>ac_open := Returned (Some e)\<rparr>) []"
| marked: "ac_finish a = Cancelled reason failed
    \<Longrightarrow> session_step why now c a (finish_marked reason failed now a) []"
| closes: "ac_finish a = Closing upstream client reason \<Longrightarrow> finish_closed upstream client reason a = (a', cs)
    \<Longrightarrow> session_step why now c a a' cs"
| reported: "ac_finish a = Reporting reason \<Longrightarrow> session_step why now c a (finish_recorded reason now err a) []"
| ends: "ac_ctx a \<noteq> None \<Longrightarrow> session_step why now c a (finish (ctx_reason (ac_ctx a)) False a) []"
| watches: "ac_monitor a = Watching \<Longrightarrow> ac_ctx a \<noteq> None \<Longrightarrow> session_step why now c a (monitor_done a) []"
| ticks: "ac_monitor a = Watching
    \<Longrightarrow> err = verifyContext a ck \<or> err = Some (Sentinel ContextCanceled) \<or> err = Some (Sentinel ContextDeadlineExceeded)
    \<Longrightarrow> session_step why now c a (monitor_tick why err a) []"
| binds: "ac_open a = Returned None \<Longrightarrow> BindClient c a = (a', cs, err) \<Longrightarrow> session_step why now c a a' cs"
| user: "ac_open a = Returned None \<Longrightarrow> session_step why now c a (finish reason failed a) []"
| cancels: "e \<in> {ContextCanceled, ContextDeadlineExceeded} \<Longrightarrow> session_step why now c a (cancel_ctx e a) []"
| expires: "se_ExpiresAt (ac_view a) \<le> now \<Longrightarrow> session_step why now c a (cancel_ctx ContextDeadlineExceeded a) []"

definition set_session :: "nat \<Rightarrow> active \<Rightarrow> relay \<Rightarrow> relay" where
  "set_session i a r = r\<lparr>rl_heap := (rl_heap r)[i := a]\<rparr>"

definition Revoke :: "string \<Rightarrow> relay \<Rightarrow> relay \<times> error option" where
  "Revoke s r =
     (case fmlookup (rl_sessions r) s of None \<Rightarrow> (r, Some ErrNotFound)
      | Some i \<Rightarrow> (set_session i (finish ''revoked'' False (rl_heap r ! i)) r, None))"

text \<open>One iteration of \<^verbatim>\<open>Service.Close\<close>, for a session it listed.\<close>

definition stop_session :: "nat \<Rightarrow> relay \<Rightarrow> relay" where
  "stop_session i r = set_session i (finish ''controller_stopped'' False (rl_heap r ! i)) r"

definition List_sessions :: "session_order \<Rightarrow> relay \<Rightarrow> Session list" where
  "List_sessions ord r = map (\<lambda>(_, i). ac_view (rl_heap r ! i)) (ord (rl_sessions r))"

text \<open>Two tokens of sixteen random bytes are taken to differ.\<close>

inductive relay_step :: "session_order \<Rightarrow> (goerr \<Rightarrow> string) \<Rightarrow> relay \<Rightarrow> relay \<Rightarrow> bool" for ord why r where
  opens: "open_reserved ord ready inst ctx token source spec r = Inr r'
    \<Longrightarrow> EncodeToString token \<notin> (\<lambda>a. se_ID (ac_view a)) ` set (rl_heap r) \<Longrightarrow> relay_step ord why r r'"
| session: "i < length (rl_heap r) \<Longrightarrow> session_step why (rl_now r) (rl_conns r) (rl_heap r ! i) a cs
    \<Longrightarrow> relay_step ord why r ((set_session i a r)\<lparr>rl_conns := Suc (rl_conns r), rl_closed := cs @ rl_closed r\<rparr>)"
| revokes: "Revoke s r = (r', None) \<Longrightarrow> relay_step ord why r r'"
| stops: "i < length (rl_heap r) \<Longrightarrow> relay_step ord why r (stop_session i r)"
| time: "rl_now r \<le> now \<Longrightarrow> relay_step ord why r (r\<lparr>rl_now := now\<rparr>)"

definition relay0 :: "int \<Rightarrow> relay" where
  "relay0 now = \<lparr>rl_heap = [], rl_sessions = fmempty, rl_now = now, rl_conns = 0, rl_closed = []\<rparr>"

definition relay_reachable :: "session_order \<Rightarrow> (goerr \<Rightarrow> string) \<Rightarrow> relay \<Rightarrow> bool" where
  "relay_reachable ord why r \<longleftrightarrow> (\<exists>now. (relay_step ord why)\<^sup>*\<^sup>* (relay0 now) r)"

end
