(* ===== verification/NetworkSessions.thy ===== *)
theory NetworkSessions
  imports NetworkRelay
begin

text \<open>
  What holds of every session of the relay, whatever the interleaving: a connection is dialled only
  after the capability service executed exactly its request and a verification passed, a session
  that ended stays ended and closes what it held, and the table of sessions is bounded.
\<close>

section \<open>What \<^verbatim>\<open>Open\<close> has behind it\<close>

definition granted :: "CapabilityResult \<Rightarrow> bool" where
  "granted res \<longleftrightarrow> cr_AuditComplete res \<and> cr_ExecutionState res = ''succeeded'' \<and> cr_RequestID res \<noteq> []"

definition answers :: "Spec \<Rightarrow> Target \<Rightarrow> bool" where
  "answers spec t \<longleftrightarrow> tg_Kind t = sp_Kind spec \<and> tg_Name t = sp_Target spec \<and> tg_Protocol t = sp_Protocol spec
     \<and> (sp_Port spec \<noteq> 0 \<longrightarrow> tg_Port t = sp_Port spec)"

definition named :: "active \<Rightarrow> Target \<Rightarrow> bool" where
  "named a t \<longleftrightarrow> se_Target (ac_view a) = t \<and> answers (ac_spec a) t
     \<and> requestFor (se_Source (ac_view a)) t (sp_DurationSeconds (ac_spec a)) = Inr (ac_request a)"

text \<open>The milestones of a session that ends up with the connection \<open>u\<close>, in their order.\<close>

fun is_granted :: "active \<Rightarrow> relay_action \<Rightarrow> bool" where
  "is_granted a (Requested q res err) \<longleftrightarrow> q = ac_request a \<and> err = None \<and> granted res \<and> cr_RequestID res = se_RequestID (ac_view a)"
| "is_granted a _ = False"

fun is_verified :: "active \<Rightarrow> relay_action \<Rightarrow> bool" where
  "is_verified a (Verified ck) \<longleftrightarrow> verifyContext a ck = None"
| "is_verified a _ = False"

fun is_dialled :: "conn option \<Rightarrow> active \<Rightarrow> relay_action \<Rightarrow> bool" where
  "is_dialled u a (Dialled x c) \<longleftrightarrow> u = Some c \<and> x \<in> set (tg_Addresses (se_Target (ac_view a)))"
| "is_dialled u a _ = False"

fun is_opened :: "active \<Rightarrow> relay_action \<Rightarrow> bool" where
  "is_opened a (Recorded ev err) \<longleftrightarrow> err = None \<and> (\<exists>now. ev = connection_event now ''connection-opened'' [] a)"
| "is_opened a _ = False"

definition milestones :: "conn option \<Rightarrow> (active \<Rightarrow> relay_action \<Rightarrow> bool) list" where
  "milestones u = [is_granted, is_verified, is_dialled u, is_verified, is_opened]"

definition passed :: "nat \<Rightarrow> conn option \<Rightarrow> active \<Rightarrow> bool" where
  "passed n u a \<longleftrightarrow> named a (se_Target (ac_view a)) \<and>
     (\<exists>xs. subseq xs (ac_trace a) \<and> list_all2 (\<lambda>p. p a) (take n (milestones u)) xs)"

text \<open>Nothing a milestone reads changes any more.\<close>

definition frozen :: "active \<Rightarrow> active \<Rightarrow> bool" where
  "frozen a a' \<longleftrightarrow> se_Source (ac_view a') = se_Source (ac_view a) \<and> se_Target (ac_view a') = se_Target (ac_view a)
     \<and> se_PolicyRevision (ac_view a') = se_PolicyRevision (ac_view a) \<and> se_RequestID (ac_view a') = se_RequestID (ac_view a)
     \<and> se_ID (ac_view a') = se_ID (ac_view a) \<and> ac_request a' = ac_request a \<and> ac_spec a' = ac_spec a
     \<and> subseq (ac_trace a) (ac_trace a')"

lemma subseq_snoc: "subseq xs (xs @ ys)"
  by (simp add: subseq_rev_drop_many)

lemma frozen_told: "frozen a (told x a)"
  by (simp add: frozen_def told_def subseq_snoc)

lemma frozen_verifyContext: "frozen a a' \<Longrightarrow> verifyContext a' ck = verifyContext a ck"
  by (auto simp: frozen_def verifyContext_def split: option.split sum.split)

lemma frozen_connection_event: "frozen a a' \<Longrightarrow> connection_event now kind reason a' = connection_event now kind reason a"
  by (simp add: frozen_def connection_event_def)

lemma milestones_frozen:
  assumes "frozen a a'" "list_all2 (\<lambda>p. p a) (take n (milestones u)) xs"
  shows "list_all2 (\<lambda>p. p a') (take n (milestones u)) xs"
proof (rule list.rel_mono_strong [OF assms(2)])
  fix p x assume "p \<in> set (take n (milestones u))" "p a x"
  with assms(1) show "p a' x"
    by (cases x) (auto dest!: in_set_takeD
        simp: milestones_def frozen_verifyContext [OF assms(1)] frozen_connection_event [OF assms(1)] frozen_def)
qed

lemma passed_frozen:
  assumes "passed n u a" "frozen a a'"
  shows "passed n u a'"
proof -
  from assms(1) obtain xs where n: "named a (se_Target (ac_view a))" and xs: "subseq xs (ac_trace a)"
    "list_all2 (\<lambda>p. p a) (take n (milestones u)) xs" by (auto simp: passed_def)
  have "subseq xs (ac_trace a')" using xs(1) assms(2) subseq_order.trans by (auto simp: frozen_def)
  moreover have "named a' (se_Target (ac_view a'))" using n assms(2) by (auto simp: named_def frozen_def)
  ultimately show ?thesis using milestones_frozen [OF assms(2) xs(2)] by (auto simp: passed_def)
qed

lemma passed_next:
  assumes "passed n u a" "n < 5" "(milestones u ! n) a x"
  shows "passed (Suc n) u (told x a)"
proof -
  from assms(1) obtain xs where n: "named a (se_Target (ac_view a))" and xs: "subseq xs (ac_trace a)"
    "list_all2 (\<lambda>p. p a) (take n (milestones u)) xs" by (auto simp: passed_def)
  have f: "frozen a (told x a)" by (simp add: frozen_told)
  have "list_all2 (\<lambda>p. p a) (take (Suc n) (milestones u)) (xs @ [x])"
    using xs(2) assms(2,3) by (subst take_Suc_conv_app_nth) (auto simp: milestones_def intro: list_all2_appendI)
  moreover have "subseq (xs @ [x]) (ac_trace (told x a))" using xs(1) by (simp add: told_def list_emb_append_mono)
  moreover have "named (told x a) (se_Target (ac_view (told x a)))" using n by (simp add: named_def told_def)
  ultimately show ?thesis unfolding passed_def using milestones_frozen [OF f] by blast
qed

lemma passed_any:
  assumes "passed n u a" "n \<le> 2"
  shows "passed n v a"
proof -
  have "take n (milestones u) = take n (milestones v)" using assms(2) by (auto simp: milestones_def take_Cons' )
  with assms(1) show ?thesis by (simp add: passed_def)
qed

section \<open>The invariant of a session\<close>

fun open_ok :: "open_pc \<Rightarrow> active \<Rightarrow> bool" where
  "open_ok Resolving a \<longleftrightarrow> ac_upstream a = None"
| "open_ok (Revising t q) a \<longleftrightarrow> ac_upstream a = None \<and> answers (ac_spec a) t
     \<and> requestFor (se_Source (ac_view a)) t (sp_DurationSeconds (ac_spec a)) = Inr q"
| "open_ok (Requesting t) a \<longleftrightarrow> ac_upstream a = None \<and> named a t \<and> passed 0 None a"
| "open_ok (Saving t) a \<longleftrightarrow> ac_upstream a = None \<and> named a t \<and> passed 1 None a"
| "open_ok (Verifying t) a \<longleftrightarrow> ac_upstream a = None \<and> named a t \<and> passed 1 None a"
| "open_ok (Admitted t) a \<longleftrightarrow> ac_upstream a = None \<and> named a t \<and> passed 2 None a"
| "open_ok (Dialling t xs fs) a \<longleftrightarrow> ac_upstream a = None \<and> named a t \<and> passed 2 None a \<and> set xs \<subseteq> set (tg_Addresses t)"
| "open_ok (Connected c) a \<longleftrightarrow> ac_upstream a = None \<and> passed 3 (Some c) a"
| "open_ok Reverifying a \<longleftrightarrow> ac_upstream a \<noteq> None \<and> passed 3 (ac_upstream a) a"
| "open_ok Announcing a \<longleftrightarrow> ac_upstream a \<noteq> None \<and> passed 4 (ac_upstream a) a"
| "open_ok Announced a \<longleftrightarrow> ac_upstream a \<noteq> None \<and> passed 5 (ac_upstream a) a"
| "open_ok (Returned None) a \<longleftrightarrow> ac_upstream a \<noteq> None \<and> passed 5 (ac_upstream a) a"
| "open_ok (Returned (Some e)) a \<longleftrightarrow> ac_finish a = Finished"
| "open_ok (Failing e) a \<longleftrightarrow> True"

definition shut :: "conn option \<Rightarrow> conn list \<Rightarrow> bool" where
  "shut u closed \<longleftrightarrow> (\<forall>c. u = Some c \<longrightarrow> c \<in> set closed)"

fun finish_ok :: "finish_pc \<Rightarrow> active \<Rightarrow> conn list \<Rightarrow> bool" where
  "finish_ok Unfinished a closed \<longleftrightarrow> live a"
| "finish_ok (Cancelled reason failed) a closed \<longleftrightarrow> live a \<and> ac_ctx a \<noteq> None"
| "finish_ok (Closing u c reason) a closed \<longleftrightarrow> \<not> live a \<and> ac_ctx a \<noteq> None \<and> u = ac_upstream a \<and> c = ac_client a"
| "finish_ok (Reporting reason) a closed \<longleftrightarrow>
     \<not> live a \<and> ac_ctx a \<noteq> None \<and> shut (ac_upstream a) closed \<and> shut (ac_client a) closed"
| "finish_ok Finished a closed \<longleftrightarrow>
     \<not> live a \<and> ac_ctx a \<noteq> None \<and> shut (ac_upstream a) closed \<and> shut (ac_client a) closed"

fun undialled :: "open_pc \<Rightarrow> bool" where
  "undialled Resolving = True" | "undialled (Revising t q) = True" | "undialled (Requesting t) = True"
| "undialled (Saving t) = True" | "undialled (Verifying t) = True" | "undialled (Admitted t) = True"
| "undialled (Dialling t xs fs) = True" | "undialled _ = False"

definition dials_ok :: "active \<Rightarrow> conn list \<Rightarrow> bool" where
  "dials_ok a closed \<longleftrightarrow> (\<forall>x c. Dialled x c \<in> set (ac_trace a) \<longrightarrow>
     (c \<in> set closed \<or> ac_upstream a = Some c \<or> ac_open a = Connected c)
     \<and> passed 3 (Some c) a \<and> \<not> undialled (ac_open a))"

definition session_ok :: "active \<Rightarrow> conn list \<Rightarrow> bool" where
  "session_ok a closed \<longleftrightarrow> open_ok (ac_open a) a \<and> finish_ok (ac_finish a) a closed \<and> dials_ok a closed
     \<and> (state a = ''active'' \<longrightarrow> ac_open a = Returned None) \<and> (ac_monitor a \<noteq> Unwatched \<longrightarrow> ac_open a = Returned None)"

text \<open>A step of the session keeps who it is, never revives it, and keeps the milestones of an
  opened connection.\<close>

definition succeeds :: "active \<Rightarrow> active \<Rightarrow> bool" where
  "succeeds a a' \<longleftrightarrow> se_ID (ac_view a') = se_ID (ac_view a) \<and> se_Source (ac_view a') = se_Source (ac_view a)
     \<and> ac_spec a' = ac_spec a \<and> se_CreatedAt (ac_view a') = se_CreatedAt (ac_view a)
     \<and> se_ExpiresAt (ac_view a') = se_ExpiresAt (ac_view a)
     \<and> prefix (ac_trace a) (ac_trace a') \<and> (live a' \<longrightarrow> live a)
     \<and> (ac_finish a = Finished \<longrightarrow> ac_finish a' = Finished \<and> state a' = state a \<and> se_Reason (ac_view a') = se_Reason (ac_view a))"


lemma passed_eq:
  assumes "frozen a a'" "ac_trace a' = ac_trace a"
  shows "passed n u a' = passed n u a"
proof -
  have "frozen a' a" using assms by (auto simp: frozen_def)
  with assms(1) show ?thesis using passed_frozen by blast
qed

lemma passed_fields [simp]:
  "passed n u (a\<lparr>ac_ctx := x1\<rparr>) = passed n u a" "passed n u (a\<lparr>ac_upstream := x2\<rparr>) = passed n u a"
  "passed n u (a\<lparr>ac_client := x2\<rparr>) = passed n u a" "passed n u (a\<lparr>ac_open := x3\<rparr>) = passed n u a"
  "passed n u (a\<lparr>ac_finish := x4\<rparr>) = passed n u a" "passed n u (a\<lparr>ac_monitor := x5\<rparr>) = passed n u a"
  by (rule passed_eq; simp add: frozen_def)+

lemma passed_view [simp]:
  assumes "se_Source v = se_Source (ac_view a)" "se_Target v = se_Target (ac_view a)"
    "se_PolicyRevision v = se_PolicyRevision (ac_view a)" "se_RequestID v = se_RequestID (ac_view a)" "se_ID v = se_ID (ac_view a)"
  shows "passed n u (a\<lparr>ac_view := v\<rparr>) = passed n u a"
  by (rule passed_eq) (use assms in \<open>simp_all add: frozen_def\<close>)

lemma passed_told [simp]: "passed n u a \<Longrightarrow> passed n u (told x a)"
  by (rule passed_frozen [OF _ frozen_told])

lemma shut_mono [simp]: "shut u closed \<Longrightarrow> shut u (cs @ closed)"
  by (auto simp: shut_def)

lemma open_ok_frozen:
  assumes "open_ok p a" "frozen a a'" "ac_upstream a' = ac_upstream a" "ac_finish a = Finished \<longrightarrow> ac_finish a' = Finished"
  shows "open_ok p a'"
proof -
  have "named a' t" if "named a t" for t using that assms(2) by (auto simp: named_def frozen_def)
  moreover have "passed n u a'" if "passed n u a" for n u using that assms(2) by (rule passed_frozen)
  ultimately show ?thesis using assms by (cases "(p, a)" rule: open_ok.cases) (auto simp: frozen_def)
qed

lemma succeeds_refl [simp]: "succeeds a a"
  by (simp add: succeeds_def)

lemma finish_keeps:
  assumes "session_ok a closed"
  shows "session_ok (finish reason failed a) closed" "succeeds a (finish reason failed a)"
proof -
  let ?a = "finish reason failed a"
  have f: "frozen a ?a" by (simp add: frozen_def finish_def cancel_ctx_def)
  have "open_ok (ac_open a) ?a"
    by (rule open_ok_frozen [OF _ f]) (use assms in \<open>auto simp: session_ok_def finish_def cancel_ctx_def\<close>)
  then show "session_ok ?a closed" "succeeds a ?a"
    using assms by (auto simp: session_ok_def finish_def cancel_ctx_def dials_ok_def live_def succeeds_def)
qed

lemma finish_ok_same:
  assumes "finish_ok p a closed" "state a' = state a" "ac_ctx a \<noteq> None \<longrightarrow> ac_ctx a' \<noteq> None" "ac_upstream a' = ac_upstream a"
    "ac_client a' = ac_client a \<or> ac_ctx a = None"
  shows "finish_ok p a' (cs @ closed)"
  using assms by (cases p) (auto simp: live_def)

text \<open>Steps that leave \<^verbatim>\<open>Open\<close> where it stands.\<close>

lemma beside_open:
  assumes "session_ok a closed" "frozen a a'" "ac_open a' = ac_open a" "ac_upstream a' = ac_upstream a"
    "ac_finish a = Finished \<longrightarrow> ac_finish a' = Finished" "finish_ok (ac_finish a') a' (cs @ closed)"
    "state a' = ''active'' \<longrightarrow> state a = ''active''" "ac_monitor a' \<noteq> Unwatched \<longrightarrow> ac_monitor a \<noteq> Unwatched"
    "\<And>x c. Dialled x c \<in> set (ac_trace a') \<Longrightarrow> Dialled x c \<in> set (ac_trace a)"
  shows "session_ok a' (cs @ closed)"
proof -
  have "open_ok (ac_open a) a'" by (rule open_ok_frozen [OF _ assms(2,4,5)]) (use assms(1) in \<open>simp add: session_ok_def\<close>)
  moreover have "dials_ok a closed" using assms(1) by (simp add: session_ok_def)
  then have "dials_ok a' (cs @ closed)"
    unfolding dials_ok_def using assms(3,4) assms(9) passed_frozen [OF _ assms(2)] by fastforce
  ultimately show ?thesis using assms(1,3,6-8) by (auto simp: session_ok_def)
qed

lemma beside_steps:
  assumes ok: "session_ok a closed"
  shows "ac_finish a = Cancelled reason failed \<Longrightarrow> session_ok (finish_marked reason failed now a) ([] @ closed)"
    and "ac_finish a = Closing u c reason \<Longrightarrow> finish_closed u c reason a = (a', cs) \<Longrightarrow> session_ok a' (cs @ closed)"
    and "ac_finish a = Reporting reason \<Longrightarrow> session_ok (finish_recorded reason now err a) ([] @ closed)"
    and "session_ok (cancel_ctx e a) ([] @ closed)"
    and "BindClient d a = (a', cs, err') \<Longrightarrow> session_ok a' (cs @ closed)"
proof -
  have fin: "finish_ok (ac_finish a) a closed" using ok by (simp add: session_ok_def)
  show "session_ok (finish_marked reason failed now a) ([] @ closed)" if "ac_finish a = Cancelled reason failed"
    by (rule beside_open [OF ok]) (use that fin in \<open>auto simp: finish_marked_def frozen_def live_def Let_def split: if_splits\<close>)
  show "session_ok a' (cs @ closed)" if "ac_finish a = Closing u c reason" "finish_closed u c reason a = (a', cs)"
    by (rule beside_open [OF ok]) (use that fin in \<open>auto simp: finish_closed_def frozen_def live_def shut_def\<close>)
  show "session_ok (finish_recorded reason now err a) ([] @ closed)" if "ac_finish a = Reporting reason"
    by (rule beside_open [OF ok])
      (use that fin in \<open>auto simp: finish_recorded_def frozen_def live_def told_def Let_def subseq_snoc split: if_splits\<close>)
  have "finish_ok (ac_finish (cancel_ctx e a)) (cancel_ctx e a) ([] @ closed)"
    using finish_ok_same [OF fin, of "cancel_ctx e a" "[]"] by (cases "ac_ctx a") (simp_all add: cancel_ctx_def)
  then show "session_ok (cancel_ctx e a) ([] @ closed)"
    by (intro beside_open [OF ok]) (auto simp: cancel_ctx_def frozen_def split: if_splits)
  show "session_ok a' (cs @ closed)" if bind: "BindClient d a = (a', cs, err')"
  proof (rule beside_open [OF ok])
    show "finish_ok (ac_finish a') a' (cs @ closed)"
      using finish_ok_same [OF fin, of a' cs] bind by (auto simp: BindClient_def split: if_splits)
  qed (use bind in \<open>auto simp: BindClient_def frozen_def split: if_splits\<close>)
qed

lemma beside_succeeds:
  assumes ok: "session_ok a closed"
  shows "ac_finish a = Cancelled reason failed \<Longrightarrow> succeeds a (finish_marked reason failed now a)"
    and "ac_finish a = Closing u c reason \<Longrightarrow> finish_closed u c reason a = (a', cs) \<Longrightarrow> succeeds a a'"
    and "ac_finish a = Reporting reason \<Longrightarrow> succeeds a (finish_recorded reason now err a)"
    and "succeeds a (cancel_ctx e a)"
    and "BindClient d a = (a', cs, err') \<Longrightarrow> succeeds a a'"
proof -
  have fin: "finish_ok (ac_finish a) a closed" using ok by (simp add: session_ok_def)
  show "succeeds a (finish_marked reason failed now a)" if "ac_finish a = Cancelled reason failed"
    using that fin by (auto simp: succeeds_def finish_marked_def live_def Let_def split: if_splits)
  show "succeeds a a'" if "ac_finish a = Closing u c reason" "finish_closed u c reason a = (a', cs)"
    using that by (auto simp: succeeds_def finish_closed_def live_def)
  show "succeeds a (finish_recorded reason now err a)" if "ac_finish a = Reporting reason"
    using that fin by (auto simp: succeeds_def finish_recorded_def live_def told_def Let_def)
  show "succeeds a (cancel_ctx e a)" by (simp add: succeeds_def cancel_ctx_def live_def)
  show "succeeds a a'" if "BindClient d a = (a', cs, err')"
    using that by (auto simp: succeeds_def BindClient_def live_def split: if_splits)
qed

text \<open>Steps of \<^verbatim>\<open>Open\<close>.\<close>

lemma finish_ok_open [simp]: "finish_ok p (a\<lparr>ac_open := q\<rparr>) closed = finish_ok p a closed"
  "finish_ok p (told x a) closed = finish_ok p a closed"
  by (cases p; simp add: live_def told_def)+

lemma told_open [simp]: "ac_open (told x a) = ac_open a" "ac_view (told x a) = ac_view a" "ac_spec (told x a) = ac_spec a"
  "ac_request (told x a) = ac_request a" "ac_upstream (told x a) = ac_upstream a" "ac_ctx (told x a) = ac_ctx a"
  "ac_finish (told x a) = ac_finish a" "ac_monitor (told x a) = ac_monitor a" "ac_client (told x a) = ac_client a"
  "ac_trace (told x a) = ac_trace a @ [x]"
  by (simp_all add: told_def)

lemma told_ok:
  assumes "session_ok a closed" "\<And>x c. y \<noteq> Dialled x c"
  shows "session_ok (told y a) closed"
proof -
  have "session_ok (told y a) ([] @ closed)"
  proof (rule beside_open [OF assms(1) frozen_told])
    show "finish_ok (ac_finish (told y a)) (told y a) ([] @ closed)" using assms(1) by (simp add: session_ok_def)
    show "Dialled x c \<in> set (ac_trace a)" if "Dialled x c \<in> set (ac_trace (told y a))" for x c
      using that assms(2) [of x c] by auto
  qed simp_all
  then show ?thesis by simp
qed

lemma move_ok:
  assumes "session_ok a closed" "ac_open a \<noteq> Returned None" "\<And>c. ac_open a \<noteq> Connected c"
    "open_ok p (a\<lparr>ac_open := p\<rparr>)" "undialled p \<Longrightarrow> undialled (ac_open a)"
  shows "session_ok (a\<lparr>ac_open := p\<rparr>) closed"
  using assms by (auto simp: session_ok_def dials_ok_def)

lemma failing_ok:
  assumes "session_ok a closed" "ac_open a \<noteq> Returned None" "\<And>c. ac_open a \<noteq> Connected c"
  shows "session_ok (failing e a) closed"
  unfolding failing_def using assms by (intro move_ok) auto

lemma open_resolved_ok:
  assumes ok: "session_ok a closed" and pc: "ac_open a = Resolving"
  shows "session_ok (open_resolved reply a) closed"
proof (cases reply)
  case (Inl e)
  then show ?thesis using failing_ok [OF ok] pc by (simp add: open_resolved_def)
next
  case (Inr t)
  have t: "session_ok (told (Resolved t) a) closed" using ok by (rule told_ok) simp
  have "ac_upstream a = None" using ok pc by (simp add: session_ok_def)
  with Inr pc show ?thesis
    by (auto simp: open_resolved_def answers_def Let_def split: sum.split intro!: failing_ok [OF t] move_ok [OF t])
qed

lemma open_revised_ok:
  assumes ok: "session_ok a closed" and pc: "ac_open a = Revising t q"
  shows "session_ok (open_revised t q reply a) closed"
proof (cases reply)
  case (Inl e)
  then show ?thesis using failing_ok [OF ok] pc by (simp add: open_revised_def)
next
  case (Inr revision)
  let ?a = "a\<lparr>ac_view := ac_view a\<lparr>se_Target := t, se_PolicyRevision := revision, se_Phase := ''authorize''\<rparr>,
    ac_request := q, ac_open := Requesting t\<rparr>"
  have "named ?a t" "ac_upstream ?a = None" using ok pc by (auto simp: session_ok_def named_def)
  then have "open_ok (Requesting t) ?a" by (simp add: passed_def)
  moreover have "finish_ok (ac_finish ?a) ?a ([] @ closed)"
    by (rule finish_ok_same [where a = a]) (use ok in \<open>auto simp: session_ok_def\<close>)
  ultimately have "session_ok ?a closed" using ok pc by (auto simp: session_ok_def dials_ok_def)
  then show ?thesis unfolding open_revised_def Inr by (auto intro!: told_ok)
qed

lemma open_requested_ok:
  assumes ok: "session_ok a closed" and pc: "ac_open a = Requesting t"
  shows "session_ok (open_requested t reply a) closed"
proof -
  obtain res err where reply: "reply = (res, err)" by fastforce
  let ?b = "a\<lparr>ac_view := ac_view a\<lparr>se_RequestID := cr_RequestID res\<rparr>\<rparr>"
  let ?a = "told (Requested (ac_request a) res err) ?b"
  have b: "named ?b t" "ac_upstream ?b = None" using ok pc by (auto simp: session_ok_def named_def)
  then have zero: "passed 0 None ?b" by (simp add: passed_def named_def)
  have "finish_ok (ac_finish ?b) ?b ([] @ closed)"
    by (rule finish_ok_same [where a = a]) (use ok in \<open>auto simp: session_ok_def\<close>)
  with b zero have "session_ok ?b closed" using ok pc by (auto simp: session_ok_def dials_ok_def)
  then have a: "session_ok ?a closed" by (rule told_ok) simp
  have "passed 1 None ?a" if "err = None" "granted res"
    using passed_next [OF zero, of "Requested (ac_request a) res err"] that by (simp add: milestones_def)
  then obtain A where A: "A = ?a" "session_ok A closed" "ac_open A = Requesting t" "named A t" "ac_upstream A = None"
    "err = None \<and> granted res \<longrightarrow> passed 1 None A"
    using a b pc by (simp add: named_def)
  have "open_requested t reply a = (case err of Some e \<Rightarrow> failing e A | None \<Rightarrow> if \<not> granted res
      then failing (Sentinel ErrPolicyDenied) A
      else A\<lparr>ac_open := if cr_SavedChoice res \<noteq> [] then Saving t else Verifying t\<rparr>)"
    unfolding reply open_requested_def A(1) granted_def Let_def by (cases err) auto
  then show ?thesis using A(2-)
    by (auto simp: named_def split: option.split intro!: failing_ok move_ok)
qed

lemma passed_revision:
  assumes "passed 1 u a"
  shows "passed 1 u (a\<lparr>ac_view := ac_view a\<lparr>se_PolicyRevision := revision\<rparr>\<rparr>)"
proof -
  let ?a = "a\<lparr>ac_view := ac_view a\<lparr>se_PolicyRevision := revision\<rparr>\<rparr>"
  have "is_granted a x = is_granted ?a x" for x by (cases x) simp_all
  with assms show ?thesis by (auto simp: passed_def milestones_def list_all2_Cons1 named_def)
qed

lemma open_saved_ok:
  assumes ok: "session_ok a closed" and pc: "ac_open a = Saving t"
  shows "session_ok (open_saved t reply a) closed"
proof (cases reply)
  case (Inl e)
  then show ?thesis using failing_ok [OF ok] pc by (simp add: open_saved_def)
next
  case (Inr revision)
  let ?b = "a\<lparr>ac_view := ac_view a\<lparr>se_PolicyRevision := revision\<rparr>\<rparr>"
  have "named ?b t" "ac_upstream ?b = None" "passed 1 None ?b"
    using ok pc passed_revision [of None a revision] by (auto simp: session_ok_def named_def)
  then have "open_ok (Saving t) ?b" "open_ok (Verifying t) (?b\<lparr>ac_open := Verifying t\<rparr>)" by (simp_all add: named_def)
  moreover have "finish_ok (ac_finish ?b) ?b ([] @ closed)"
    by (rule finish_ok_same [where a = a]) (use ok in \<open>auto simp: session_ok_def\<close>)
  ultimately have "session_ok (?b\<lparr>ac_open := Verifying t\<rparr>) closed"
    using ok pc by (intro move_ok) (auto simp: session_ok_def dials_ok_def)
  then have "session_ok (told (Revised revision) (?b\<lparr>ac_open := Verifying t\<rparr>)) closed" by (rule told_ok) simp
  then show ?thesis by (simp add: open_saved_def Inr)
qed

lemma checked_ok:
  assumes ok: "session_ok a closed" and pc: "ac_open a = Verifying t \<or> ac_open a = Reverifying"
    and n: "passed n u a" "n < 5" "milestones u ! n = is_verified"
    and early: "undialled p \<Longrightarrow> undialled (ac_open a)"
    and step: "passed (Suc n) u (told (Verified ck) a) \<Longrightarrow> open_ok p (told (Verified ck) a\<lparr>ac_open := p\<rparr>)"
  shows "session_ok (let err = verifyContext a ck; a = told (Verified ck) a in
    case err of Some e \<Rightarrow> failing e a | None \<Rightarrow> a\<lparr>ac_open := p\<rparr>) closed"
proof -
  have t: "session_ok (told (Verified ck) a) closed" using ok by (rule told_ok) simp
  show ?thesis
  proof (cases "verifyContext a ck")
    case None
    then have "passed (Suc n) u (told (Verified ck) a)" using n by (intro passed_next) simp_all
    with None step early pc show ?thesis by (auto intro!: move_ok [OF t])
  next
    case (Some e)
    with pc show ?thesis by (auto intro!: failing_ok [OF t])
  qed
qed

lemma open_verified_ok:
  assumes ok: "session_ok a closed" and pc: "ac_open a = Verifying t"
  shows "session_ok (open_verified t ck a) closed"
  unfolding open_verified_def
  by (rule checked_ok [OF ok, where n = 1 and u = None and t = t])
    (use ok pc in \<open>auto simp: session_ok_def named_def milestones_def numeral_2_eq_2\<close>)

lemma open_reverified_ok:
  assumes ok: "session_ok a closed" and pc: "ac_open a = Reverifying"
  shows "session_ok (open_reverified ck a) closed"
  unfolding open_reverified_def
  by (rule checked_ok [OF ok, where n = 3 and u = "ac_upstream a"])
    (use ok pc in \<open>auto simp: session_ok_def milestones_def\<close>)

lemma unfinished_live: "session_ok a closed \<Longrightarrow> ac_ctx a = None \<Longrightarrow> ac_finish a = Unfinished \<and> live a"
  by (cases "ac_finish a") (auto simp: session_ok_def)

lemma open_connecting_ok:
  assumes ok: "session_ok a closed" and pc: "ac_open a = Admitted t"
  shows "session_ok (open_connecting t a) closed"
proof (cases "ac_ctx a")
  case None
  with unfinished_live [OF ok] show ?thesis
    using ok pc by (auto simp: open_connecting_def session_ok_def dials_ok_def named_def live_def)
qed (use failing_ok [OF ok] pc in \<open>simp add: open_connecting_def\<close>)

lemma open_dialled_ok:
  assumes ok: "session_ok a closed" and pc: "ac_open a = Dialling t (x # xs) fs"
  shows "session_ok (open_dialled t x xs fs reply a) closed"
proof -
  have a: "ac_upstream a = None" "named a t" "passed 2 None a" "set (x # xs) \<subseteq> set (tg_Addresses t)"
    using ok pc by (auto simp: session_ok_def)
  have reach: "session_ok (told (Dialled x c) (a\<lparr>ac_open := Connected c\<rparr>)) closed" for c
  proof -
    have "passed 2 (Some c) (a\<lparr>ac_open := Connected c\<rparr>)" using passed_any [OF a(3)] by simp
    then have "passed (Suc 2) (Some c) (told (Dialled x c) (a\<lparr>ac_open := Connected c\<rparr>))"
      using a(2,4) by (intro passed_next) (auto simp: milestones_def named_def)
    then have "open_ok (Connected c) (told (Dialled x c) (a\<lparr>ac_open := Connected c\<rparr>))" using a(1) by simp
    then show ?thesis using ok pc by (auto simp: session_ok_def dials_ok_def)
  qed
  show ?thesis
  proof (cases "\<exists>c. reply = Inr (Some c)")
    case False
    then show ?thesis
      using a pc by (auto simp: open_dialled_def open_unreached_def named_def split: sum.split option.split
          intro!: failing_ok [OF ok] move_ok [OF ok])
  qed (use reach in \<open>auto simp: open_dialled_def\<close>)
qed

lemma open_unreached_ok:
  "session_ok a closed \<Longrightarrow> ac_open a = Dialling t [] fs \<Longrightarrow> session_ok (open_unreached fs a) closed"
  unfolding open_unreached_def by (intro failing_ok) auto

lemma open_connected_ok:
  assumes ok: "session_ok a closed" and pc: "ac_open a = Connected d" and run: "open_connected d peer a = (a', cs)"
  shows "session_ok a' (cs @ closed)"
proof (cases "ac_ctx a")
  case None
  have "ac_upstream a = None" "passed 3 (Some d) a" using ok pc by (auto simp: session_ok_def)
  with None run unfinished_live [OF ok] show ?thesis
    using ok pc by (auto simp: open_connected_def session_ok_def dials_ok_def live_def; blast)
next
  case (Some e)
  have "finish_ok (ac_finish a) a ([d] @ closed)"
    by (rule finish_ok_same [where a = a]) (use ok in \<open>auto simp: session_ok_def\<close>)
  with Some run show ?thesis
    using ok pc by (auto simp: open_connected_def session_ok_def dials_ok_def failing_def; blast)
qed

lemma open_announced_ok:
  assumes ok: "session_ok a closed" and pc: "ac_open a = Announcing"
  shows "session_ok (open_announced now err a) closed"
proof -
  let ?x = "Recorded (connection_event now ''connection-opened'' [] a) err"
  have t: "session_ok (told ?x a) closed" using ok by (rule told_ok) simp
  have "passed 4 (ac_upstream a) a" "ac_upstream a \<noteq> None" using ok pc by (auto simp: session_ok_def)
  then have "passed (Suc 4) (ac_upstream a) (told ?x a)" if "err = None"
    using that by (intro passed_next) (auto simp: milestones_def)
  with \<open>ac_upstream a \<noteq> None\<close> pc t show ?thesis
    by (cases err) (auto simp: open_announced_def Let_def intro!: failing_ok move_ok)
qed

lemma open_active_ok:
  assumes ok: "session_ok a closed" and pc: "ac_open a = Announced"
  shows "session_ok (open_active a) closed"
proof (cases "ac_ctx a")
  case None
  with unfinished_live [OF ok] show ?thesis
    using ok pc by (auto simp: open_active_def session_ok_def dials_ok_def live_def)
qed (use failing_ok [OF ok] pc in \<open>simp add: open_active_def\<close>)

lemma monitor_ok:
  assumes ok: "session_ok a closed" and "ac_monitor a = Watching"
  shows "session_ok ((finish reason failed a)\<lparr>ac_monitor := Stopped\<rparr>) closed"
proof -
  let ?a = "finish reason failed a"
  have f: "session_ok ?a closed" "ac_monitor ?a = Watching"
    using finish_keeps(1) [OF ok] assms(2) by (auto simp: finish_def cancel_ctx_def)
  have "session_ok (?a\<lparr>ac_monitor := Stopped\<rparr>) ([] @ closed)"
  proof (rule beside_open [OF f(1)])
    show "finish_ok (ac_finish (?a\<lparr>ac_monitor := Stopped\<rparr>)) (?a\<lparr>ac_monitor := Stopped\<rparr>) ([] @ closed)"
      by (rule finish_ok_same [where a = ?a]) (use f(1) in \<open>auto simp: session_ok_def\<close>)
  qed (use f(2) in \<open>simp_all add: frozen_def\<close>)
  then show ?thesis by simp
qed

text \<open>Every step keeps the invariant and succeeds its session.\<close>

lemma session_step_ok:
  assumes "session_step why now c a a' cs" "session_ok a closed"
  shows "session_ok a' (cs @ closed)"
  using assms(1)
proof cases
  case (returns e)
  then have "session_ok (a\<lparr>ac_open := Returned (Some e)\<rparr>) closed" using assms(2) by (intro move_ok) auto
  with returns show ?thesis by simp
next
  case watches
  with monitor_ok [OF assms(2)] show ?thesis by (simp add: monitor_done_def)
next
  case (ticks err ck)
  with monitor_ok [OF assms(2)] assms(2) show ?thesis by (simp add: monitor_tick_def split: option.split)
qed (use assms(2) finish_keeps(1) [OF assms(2)] beside_steps [OF assms(2)] open_resolved_ok open_revised_ok open_requested_ok
      open_saved_ok open_verified_ok open_connecting_ok open_dialled_ok open_unreached_ok open_connected_ok open_reverified_ok
      open_announced_ok open_active_ok in \<open>simp; fail\<close>)+

lemma failing_fields [simp]: "ac_view (failing e a) = ac_view a" "ac_spec (failing e a) = ac_spec a"
  "ac_trace (failing e a) = ac_trace a" "ac_finish (failing e a) = ac_finish a"
  by (simp_all add: failing_def)

lemma open_succeeds:
  "succeeds a (open_resolved target a)" "succeeds a (open_revised t q revision a)"
  "succeeds a (open_requested t reply a)" "succeeds a (open_saved t revision a)" "succeeds a (open_verified t ck a)"
  "succeeds a (open_dialled t x xs fs dial a)" "succeeds a (open_unreached fs a)"
  "succeeds a (open_reverified ck a)" "succeeds a (open_announced now err a)"
  by (simp_all add: succeeds_def live_def open_resolved_def open_revised_def open_requested_def open_saved_def
      open_verified_def open_dialled_def open_unreached_def open_reverified_def open_announced_def Let_def
      split: sum.split option.split prod.split)

lemma open_connected_succeeds: "open_connected d peer a = (a', cs) \<Longrightarrow> succeeds a a'"
  by (auto simp: succeeds_def live_def open_connected_def split: option.splits)

lemma open_guarded_succeeds:
  assumes "session_ok a closed"
  shows "succeeds a (open_connecting t a)" "succeeds a (open_active a)"
  using unfinished_live [OF assms]
  by (auto simp: succeeds_def open_connecting_def open_active_def live_def split: option.split)

lemma succeeds_open [simp]: "succeeds a (a\<lparr>ac_open := p\<rparr>)" "succeeds a (b\<lparr>ac_monitor := m\<rparr>) = succeeds a b"
  by (simp_all add: succeeds_def live_def)

lemma session_step_succeeds:
  assumes "session_step why now c a a' cs" "session_ok a closed"
  shows "succeeds a a'"
  using assms(1)
proof cases
  case (ticks err ck)
  with finish_keeps(2) [OF assms(2)] show ?thesis by (simp add: monitor_tick_def split: option.split)
qed (use finish_keeps(2) [OF assms(2)] beside_succeeds [OF assms(2)] open_succeeds open_connected_succeeds
      open_guarded_succeeds [OF assms(2)] in \<open>simp add: monitor_done_def; fail\<close>)+

lemma succeeds_trans: "succeeds a b \<Longrightarrow> succeeds b c \<Longrightarrow> succeeds a c"
  unfolding succeeds_def by (auto intro: prefix_order.trans)

section \<open>The invariant of the relay\<close>

abbreviation sid :: "relay \<Rightarrow> nat \<Rightarrow> string" where "sid r i \<equiv> se_ID (ac_view (rl_heap r ! i))"

abbreviation src :: "relay \<Rightarrow> nat \<Rightarrow> Source" where "src r i \<equiv> se_Source (ac_view (rl_heap r ! i))"

definition live_at :: "relay \<Rightarrow> nat set" where
  "live_at r = {i. i < length (rl_heap r) \<and> live (rl_heap r ! i)}"

definition table_ok :: "relay \<Rightarrow> bool" where
  "table_ok r \<longleftrightarrow> (\<forall>s i. fmlookup (rl_sessions r) s = Some i \<longrightarrow> i < length (rl_heap r) \<and> sid r i = s)
     \<and> (\<forall>i\<in>live_at r. fmlookup (rl_sessions r) (sid r i) = Some i)
     \<and> fcard (fmdom (rl_sessions r)) \<le> 1024 \<and> card (live_at r) \<le> 128
     \<and> (\<forall>s. card {i \<in> live_at r. src r i = s} \<le> 16)"

definition relay_ok :: "relay \<Rightarrow> bool" where
  "relay_ok r \<longleftrightarrow> table_ok r \<and> (\<forall>i<length (rl_heap r). session_ok (rl_heap r ! i) (rl_closed r))"

definition all_keys :: "session_order \<Rightarrow> bool" where
  "all_keys ord \<longleftrightarrow> (\<forall>m. distinct (map fst (ord m)) \<and> fmap_of_list (ord m) = m)"

text \<open>Ranging over the table finds exactly the live sessions, each once.\<close>

lemma ranged:
  assumes "all_keys ord"
  shows "set (ord m) = {(s, i). fmlookup m s = Some i}" "distinct (map fst (ord m))"
proof -
  have d: "distinct (map fst (ord m))" "fmap_of_list (ord m) = m" using assms by (auto simp: all_keys_def)
  show "distinct (map fst (ord m))" by (rule d)
  have "map_of (ord m) s = fmlookup m s" for s using d(2) by (metis fmlookup_of_list)
  then show "set (ord m) = {(s, i). fmlookup m s = Some i}" using map_of_eq_Some_iff [OF d(1)] by auto
qed

lemma live_sessions_all:
  assumes "all_keys ord" "table_ok r"
  shows "set (live_sessions ord r) = live_at r" "distinct (live_sessions ord r)"
proof -
  let ?es = "ord (rl_sessions r)"
  have es: "set ?es = {(s, i). fmlookup (rl_sessions r) s = Some i}" "distinct (map fst ?es)" using ranged [OF assms(1)] by blast+
  have "i \<in> snd ` set ?es \<longleftrightarrow> (\<exists>s. fmlookup (rl_sessions r) s = Some i)" for i unfolding es(1) by (auto simp: image_iff)
  then show "set (live_sessions ord r) = live_at r"
    using assms(2) unfolding live_sessions_def table_ok_def live_at_def by auto
  have "map fst ?es = map (sid r) (map snd ?es)" using es(1) assms(2) by (auto simp: table_ok_def)
  with es(2) have "distinct (map snd ?es)" by (metis distinct_map)
  then show "distinct (live_sessions ord r)" by (simp add: live_sessions_def)
qed

lemma oldest_found:
  assumes "foldl (older heap) acc is = Some i"
  shows "i \<in> set is \<and> \<not> live (heap ! i) \<or> acc = Some i"
  using assms by (induction "is" arbitrary: acc) (auto simp: older_def split: if_splits option.splits)

lemma oldest_missing:
  "foldl (older heap) acc is = None \<longleftrightarrow> acc = None \<and> (\<forall>i\<in>set is. live (heap ! i))"
proof (induction "is" arbitrary: acc)
  case (Cons i "is")
  have "older heap acc i = None \<longleftrightarrow> acc = None \<and> live (heap ! i)" by (auto simp: older_def split: option.split)
  with Cons show ?case by auto
qed simp

lemma finished_found:
  assumes ok: "table_ok r" and room: "card (live_at r) < 128" and full: "1024 \<le> fcard (fmdom (rl_sessions r))"
    and js: "set js = {i. \<exists>s. fmlookup (rl_sessions r) s = Some i}"
  shows "\<exists>i\<in>set js. \<not> live (rl_heap r ! i)"
proof (rule ccontr)
  assume no: "\<not> ?thesis"
  have "s \<in> sid r ` live_at r" if "s |\<in>| fmdom (rl_sessions r)" for s
  proof -
    from that obtain i where "fmlookup (rl_sessions r) s = Some i" by (auto simp: fmlookup_dom_iff)
    with ok js no have "i \<in> live_at r" "sid r i = s" by (auto simp: live_at_def table_ok_def)
    then show ?thesis by blast
  qed
  then have "fset (fmdom (rl_sessions r)) \<subseteq> sid r ` live_at r" by blast
  moreover have "finite (live_at r)" by (simp add: live_at_def)
  ultimately have "card (fset (fmdom (rl_sessions r))) \<le> card (live_at r)"
    by (meson card_image_le card_mono finite_imageI order_trans)
  with full room show False by (simp add: fcard.rep_eq)
qed

lemma evict_cases:
  assumes ord: "all_keys ord" and ok: "table_ok r" and room: "card (live_at r) < 128"
  obtains "fcard (fmdom (rl_sessions r)) < 1024" "evict ord r = rl_sessions r"
    | i s where "fmlookup (rl_sessions r) s = Some i" "\<not> live (rl_heap r ! i)" "evict ord r = fmdrop s (rl_sessions r)"
proof (cases "fcard (fmdom (rl_sessions r)) < 1024")
  case False
  define js where "js = map snd (ord (rl_sessions r))"
  have js: "set js = {i. \<exists>s. fmlookup (rl_sessions r) s = Some i}"
    unfolding js_def using ranged(1) [OF ord, of "rl_sessions r"] by (auto simp: image_iff)
  with finished_found [OF ok room _ js] False oldest_missing [of "rl_heap r" None js]
  obtain i where i: "foldl (older (rl_heap r)) None js = Some i" by fastforce
  with oldest_found [OF i] js obtain s where s: "fmlookup (rl_sessions r) s = Some i" "\<not> live (rl_heap r ! i)" by auto
  moreover have "evict ord r = fmdrop s (rl_sessions r)" using False i s(1) ok by (auto simp: evict_def table_ok_def js_def)
  ultimately show ?thesis using that(2) by blast
qed (use that(1) in \<open>simp add: evict_def\<close>)

lemma evict_props:
  assumes ord: "all_keys ord" and ok: "table_ok r" and room: "card (live_at r) < 128"
  shows "fcard (fmdom (evict ord r)) < 1024"
    and "fmlookup (evict ord r) s = Some i \<Longrightarrow> fmlookup (rl_sessions r) s = Some i"
    and "i \<in> live_at r \<Longrightarrow> fmlookup (evict ord r) (sid r i) = Some i"
proof -
  note cases = evict_cases [OF ord ok room]
  show "fcard (fmdom (evict ord r)) < 1024"
  proof (rule cases)
    fix i s assume e: "fmlookup (rl_sessions r) s = Some i" "evict ord r = fmdrop s (rl_sessions r)"
    then have "card (fset (fmdom (rl_sessions r)) - {s}) < card (fset (fmdom (rl_sessions r)))"
      by (intro card_Diff1_less) (auto simp: fmlookup_dom_iff)
    with e ok show ?thesis by (simp add: table_ok_def fcard.rep_eq)
  qed simp
  show "fmlookup (rl_sessions r) s = Some i" if "fmlookup (evict ord r) s = Some i"
    by (rule cases) (use that in \<open>auto split: if_splits\<close>)
  show "fmlookup (evict ord r) (sid r i) = Some i" if "i \<in> live_at r"
    by (rule cases) (use ok that in \<open>auto simp: table_ok_def live_at_def\<close>)
qed
end
