(* ===== verification/NetworkInvariant.thy ===== *)
theory NetworkInvariant
  imports NetworkSessions
begin

text \<open>
  The relay as a whole: every step keeps the invariant of the table and of each session, no session is
  revived, and a session at work can always advance, by a bounded number of steps.
\<close>

section \<open>Steps of the relay\<close>

lemma new_active_fields [simp]:
  "live (new_active ctx now token source spec)" "se_ID (ac_view (new_active ctx now token source spec)) = EncodeToString token"
  "se_Source (ac_view (new_active ctx now token source spec)) = source"
  "session_ok (new_active ctx now token source spec) closed"
  by (simp_all add: new_active_def live_def session_ok_def dials_ok_def)

lemma reserve_table:
  assumes ord: "all_keys ord" and ok: "table_ok r" and run: "reserve ord ctx token source spec r = Inr r'"
    and fresh: "EncodeToString token \<notin> (\<lambda>a. se_ID (ac_view a)) ` set (rl_heap r)"
  shows "table_ok r'"
proof -
  let ?n = "length (rl_heap r)" and ?a = "new_active ctx (rl_now r) token source spec"
  have r': "rl_heap r' = rl_heap r @ [?a]" "rl_sessions r' = fmupd (EncodeToString token) ?n (evict ord r)"
    and few: "length (live_sessions ord r) < 128" "length (own_sessions ord source r) < 16"
    using run by (auto simp: reserve_def split: if_splits)
  note live = live_sessions_all [OF ord ok]
  have card: "card (live_at r) < 128" using few(1) live distinct_card by metis
  have "set (own_sessions ord source r) = {i \<in> live_at r. src r i = source}" "distinct (own_sessions ord source r)"
    using live by (auto simp: own_sessions_def)
  with few(2) have own: "card {i \<in> live_at r. src r i = source} < 16" using distinct_card by metis
  have fin: "finite (live_at r)" by (simp add: live_at_def)
  have at: "live_at r' = insert ?n (live_at r)" by (auto simp: live_at_def r' nth_append less_Suc_eq)
  have old: "rl_heap r' ! i = rl_heap r ! i" if "i \<in> live_at r" for i using that by (simp add: r' nth_append live_at_def)
  have sub: "{i \<in> live_at r'. src r' i = s} \<subseteq> (if s = source then {?n} else {}) \<union> {i \<in> live_at r. src r i = s}" for s
    using old by (auto simp: at r')
  have "card {i \<in> live_at r'. src r' i = s} \<le> 16" for s
  proof -
    have "card {i \<in> live_at r'. src r' i = s} \<le> card ((if s = source then {?n} else {}) \<union> {i \<in> live_at r. src r i = s})"
      by (rule card_mono [OF _ sub]) (simp add: fin)
    also have "\<dots> \<le> card (if s = source then {?n} else {}) + card {i \<in> live_at r. src r i = s}" by (rule card_Un_le)
    also have "\<dots> \<le> 16" using own ok by (auto simp: table_ok_def)
    finally show ?thesis .
  qed
  moreover have "card (live_at r') \<le> 128" using card fin by (simp add: at card_insert_if)
  moreover note ev = evict_props [OF ord ok card]
  have "fcard (fmdom (rl_sessions r')) \<le> 1024"
    using ev(1) by (simp add: r' fcard.rep_eq card_insert_if)
  moreover have "i < length (rl_heap r') \<and> sid r' i = s" if "fmlookup (rl_sessions r') s = Some i" for s i
    using that ev(2) [of s i] ok by (auto simp: r' table_ok_def nth_append split: if_splits)
  moreover have "fmlookup (rl_sessions r') (sid r' i) = Some i" if "i \<in> live_at r'" for i
  proof (cases "i = ?n")
    case False
    with that have i: "i \<in> live_at r" by (simp add: at)
    then have "rl_heap r ! i \<in> set (rl_heap r)" by (simp add: live_at_def)
    with fresh have "sid r i \<noteq> EncodeToString token" by (metis image_eqI)
    with ev(3) [OF i] old [OF i] show ?thesis by (simp add: r')
  qed (simp add: r')
  ultimately show ?thesis by (auto simp: table_ok_def)
qed

lemma set_session_table:
  assumes ok: "table_ok r" and i: "i < length (rl_heap r)" and suc: "succeeds (rl_heap r ! i) a"
  shows "table_ok (set_session i a r)"
proof -
  let ?r = "set_session i a r"
  have same: "sid ?r j = sid r j" "src ?r j = src r j" for j
    using i suc by (cases "j = i"; simp add: set_session_def succeeds_def)+
  have sub: "live_at ?r \<subseteq> live_at r"
    using i suc by (auto simp: live_at_def set_session_def succeeds_def nth_list_update split: if_splits)
  have fin: "finite (live_at r)" by (simp add: live_at_def)
  have "card (live_at ?r) \<le> card (live_at r)" by (rule card_mono [OF fin sub])
  moreover have "card {j \<in> live_at ?r. src r j = s} \<le> card {j \<in> live_at r. src r j = s}" for s
    by (rule card_mono) (use fin sub in auto)
  ultimately show ?thesis
    using ok sub unfolding table_ok_def same by (auto simp: set_session_def; meson order_trans)
qed

lemma session_ok_mono: "session_ok a closed \<Longrightarrow> session_ok a (cs @ closed)"
  by (rule beside_open) (auto simp: frozen_def session_ok_def intro: finish_ok_same)

text \<open>What one step of the relay does to the sessions it finds.\<close>

definition relay_succeeds :: "relay \<Rightarrow> relay \<Rightarrow> bool" where
  "relay_succeeds r r' \<longleftrightarrow> length (rl_heap r) \<le> length (rl_heap r') \<and> set (rl_closed r) \<subseteq> set (rl_closed r')
     \<and> (\<forall>i<length (rl_heap r). succeeds (rl_heap r ! i) (rl_heap r' ! i))"

lemma set_session_ok:
  assumes ok: "relay_ok r" and i: "i < length (rl_heap r)" and suc: "succeeds (rl_heap r ! i) a"
    and a: "session_ok a (cs @ rl_closed r)" and r': "r' = (set_session i a r)\<lparr>rl_conns := n, rl_closed := cs @ rl_closed r\<rparr>"
  shows "relay_ok r'" "relay_succeeds r r'"
proof -
  have "table_ok (set_session i a r)" using ok i suc by (auto simp: relay_ok_def intro: set_session_table)
  then have "table_ok r'" by (simp add: r' table_ok_def live_at_def)
  then show "relay_ok r'"
    using ok a i session_ok_mono by (auto simp: relay_ok_def r' set_session_def nth_list_update)
  show "relay_succeeds r r'" using suc i by (auto simp: relay_succeeds_def r' set_session_def nth_list_update)
qed

lemma finish_relay:
  assumes ok: "relay_ok r" and i: "i < length (rl_heap r)"
  shows "relay_ok (set_session i (finish reason failed (rl_heap r ! i)) r)
    \<and> relay_succeeds r (set_session i (finish reason failed (rl_heap r ! i)) r)"
proof -
  have "session_ok (rl_heap r ! i) (rl_closed r)" using assms by (simp add: relay_ok_def)
  note keeps = finish_keeps [OF this, of reason failed]
  show ?thesis
    using set_session_ok [OF ok i keeps(2), of "[]" _ "rl_conns r"] keeps(1) by (simp add: set_session_def)
qed

lemma relay_step_ok:
  assumes "all_keys ord" "relay_step ord why r r'" "relay_ok r"
  shows "relay_ok r' \<and> relay_succeeds r r'"
  using assms(2)
proof cases
  case (opens ready inst ctx token source spec)
  then have run: "reserve ord ctx token source spec r = Inr r'"
    by (auto simp: open_reserved_def split: if_splits option.splits sum.splits)
  with reserve_table [OF assms(1) _ run] opens(2) assms(3) have "table_ok r'" by (simp add: relay_ok_def)
  with run assms(3) show ?thesis
    by (auto simp: relay_ok_def relay_succeeds_def reserve_def nth_append less_Suc_eq split: if_splits)
next
  case (session i a cs)
  have ok: "session_ok (rl_heap r ! i) (rl_closed r)" using assms(3) session(2) by (simp add: relay_ok_def)
  show ?thesis
    using set_session_ok [OF assms(3) session(2) session_step_succeeds [OF session(3) ok] session_step_ok [OF session(3) ok] session(1)]
    by simp
next
  case (revokes s)
  then obtain i where i: "fmlookup (rl_sessions r) s = Some i" "r' = set_session i (finish ''revoked'' False (rl_heap r ! i)) r"
    by (auto simp: Revoke_def split: option.splits)
  with assms(3) have "i < length (rl_heap r)" by (auto simp: relay_ok_def table_ok_def)
  with i(2) finish_relay [OF assms(3)] show ?thesis by simp
next
  case (stops i)
  with finish_relay [OF assms(3)] show ?thesis by (simp add: stop_session_def)
next
  case (time now)
  with assms(3) show ?thesis by (simp add: relay_ok_def relay_succeeds_def table_ok_def live_at_def)
qed

lemma relay_steps_ok:
  assumes "all_keys ord" "(relay_step ord why)\<^sup>*\<^sup>* r r'" "relay_ok r"
  shows "relay_ok r' \<and> relay_succeeds r r'"
  using assms(2)
proof induction
  case base
  then show ?case using assms(3) by (simp add: relay_succeeds_def)
next
  case (step r1 r2)
  with relay_step_ok [OF assms(1) step(2)] have two: "relay_ok r2" "relay_succeeds r1 r2" "relay_succeeds r r1" by blast+
  then have "relay_succeeds r r2"
    by (auto simp: relay_succeeds_def intro: succeeds_trans)
  with two show ?case by blast
qed

lemma relay_reachable_ok:
  assumes "all_keys ord" "relay_reachable ord why r"
  shows "relay_ok r"
proof -
  from assms(2) obtain now where "(relay_step ord why)\<^sup>*\<^sup>* (relay0 now) r" by (auto simp: relay_reachable_def)
  moreover have "relay_ok (relay0 now)" by (simp add: relay_ok_def table_ok_def relay0_def live_at_def fcard.rep_eq)
  ultimately show ?thesis using relay_steps_ok [OF assms(1)] by blast
qed

section \<open>Progress\<close>

fun open_rank :: "open_pc \<Rightarrow> nat" where
  "open_rank Resolving = 44" | "open_rank (Revising t q) = 11 + length (tg_Addresses t)"
| "open_rank (Requesting t) = 10 + length (tg_Addresses t)" | "open_rank (Saving t) = 9 + length (tg_Addresses t)"
| "open_rank (Verifying t) = 8 + length (tg_Addresses t)" | "open_rank (Admitted t) = 7 + length (tg_Addresses t)"
| "open_rank (Dialling t xs fs) = 6 + length xs" | "open_rank (Connected c) = 5" | "open_rank Reverifying = 4"
| "open_rank Announcing = 3" | "open_rank Announced = 2" | "open_rank (Failing e) = 1" | "open_rank (Returned e) = 0"

fun finish_rank :: "finish_pc \<Rightarrow> nat" where
  "finish_rank Unfinished = 4" | "finish_rank (Cancelled r f) = 3" | "finish_rank (Closing u c r) = 2"
| "finish_rank (Reporting r) = 1" | "finish_rank Finished = 0"

definition remaining :: "active \<Rightarrow> nat" where
  "remaining a = open_rank (ac_open a) + finish_rank (ac_finish a)"

definition at_work :: "active \<Rightarrow> bool" where
  "at_work a \<longleftrightarrow> \<not> (\<exists>e. ac_open a = Returned e) \<or> ac_ctx a \<noteq> None \<and> ac_finish a \<noteq> Finished"

lemma failing_rank [simp]: "ac_open (failing e a) = Failing e"
  by (simp add: failing_def)

lemma finish_rank_finish: "ac_open (finish r f a) = ac_open a \<and> finish_rank (ac_finish (finish r f a)) \<le> finish_rank (ac_finish a)"
  by (simp add: finish_def cancel_ctx_def)

lemma open_resolved_rank:
  assumes "ac_open a = Resolving"
  shows "open_rank (ac_open (open_resolved reply a)) < 44" "ac_finish (open_resolved reply a) = ac_finish a"
  using assms
  by (auto simp: open_resolved_def Let_def requestFor_iff target_ok_def split: sum.split)

lemma session_step_rank:
  assumes "session_step why now c a a' cs"
  shows "open_rank (ac_open a') \<le> open_rank (ac_open a) \<and> finish_rank (ac_finish a') \<le> finish_rank (ac_finish a)"
  using assms
proof cases
  case (resolved target)
  then show ?thesis using open_resolved_rank [of a target] by simp
next
  case (connected d peer)
  then show ?thesis by (auto simp: open_connected_def split: option.splits)
next
  case (closes upstream client reason)
  then show ?thesis by (auto simp: finish_closed_def)
next
  case (binds err)
  then show ?thesis by (auto simp: BindClient_def split: if_splits)
qed (simp_all add: finish_rank_finish cancel_ctx_def monitor_done_def open_revised_def open_requested_def open_saved_def
    open_verified_def open_connecting_def open_dialled_def open_unreached_def open_reverified_def open_announced_def
    open_active_def finish_marked_def finish_recorded_def monitor_tick_def Let_def split: sum.split option.split prod.split)

abbreviation advances :: "(goerr \<Rightarrow> string) \<Rightarrow> int \<Rightarrow> conn \<Rightarrow> active \<Rightarrow> bool" where
  "advances why now c a \<equiv> \<exists>a' cs. session_step why now c a a' cs \<and> remaining a' < remaining a"

lemma advancesI: "session_step why now c a a' cs \<Longrightarrow> remaining a' < remaining a \<Longrightarrow> advances why now c a"
  by blast

lemma finish_advances:
  assumes "ac_finish a \<noteq> Unfinished" "ac_finish a \<noteq> Finished"
  shows "advances why now c a"
proof (cases "ac_finish a")
  case (Cancelled reason failed)
  then show ?thesis by (intro advancesI [OF session_step.marked [OF Cancelled]]) (simp add: remaining_def finish_marked_def Let_def)
next
  case (Closing u d reason)
  then show ?thesis
    by (intro advancesI [OF session_step.closes [OF Closing prod.collapse [symmetric]]]) (simp add: remaining_def finish_closed_def)
next
  case (Reporting reason)
  then show ?thesis
    by (intro advancesI [OF session_step.reported [OF Reporting, where err = None]])
      (simp add: remaining_def finish_recorded_def Let_def)
qed (use assms in simp_all)

lemma finish_begins:
  "ac_finish a = Unfinished \<Longrightarrow> remaining (finish reason failed a) < remaining a"
  by (simp add: remaining_def finish_def cancel_ctx_def)

text \<open>Whatever \<^verbatim>\<open>Open\<close> waits for may be refused.\<close>

definition blind :: checks where
  "blind = \<lparr>ck_ctx = None, ck_Instance = Inl (Opaque []), ck_Revision = Inl (Opaque []), ck_Evaluation = Inl (Opaque []), ck_Target = None\<rparr>"

lemmas open_refused = open_revised_def open_requested_def open_saved_def open_verified_def open_connecting_def open_unreached_def
  open_dialled_def open_connected_def open_reverified_def open_announced_def open_active_def blind_def failing_def remaining_def Let_def

lemma open_advances:
  assumes "\<not> (\<exists>e. ac_open a = Returned e)"
  shows "advances why now c a"
proof (cases "ac_open a")
  case Resolving
  with open_resolved_rank [OF this, of "Inl (Opaque [])"] show ?thesis
    by (intro advancesI [OF session_step.resolved [OF Resolving, where target = "Inl (Opaque [])"]]) (simp add: remaining_def)
next
  case (Revising t q)
  then show ?thesis by (intro advancesI [OF session_step.revised [OF Revising, where revision = "Inl (Opaque [])"]]) (simp add: open_refused)
next
  case (Requesting t)
  then show ?thesis
    by (intro advancesI [OF session_step.requested [OF Requesting, where reply = "(no_result, Some (Opaque []))"]]) (simp add: open_refused)
next
  case (Saving t)
  then show ?thesis by (intro advancesI [OF session_step.saved [OF Saving, where revision = "Inl (Opaque [])"]]) (simp add: open_refused)
next
  case (Verifying t)
  then show ?thesis by (intro advancesI [OF session_step.verified [OF Verifying, where ck = blind]]) (simp_all add: open_refused split: option.split)
next
  case (Admitted t)
  then show ?thesis by (intro advancesI [OF session_step.connecting [OF Admitted]]) (simp add: open_refused split: option.split)
next
  case (Dialling t xs fs)
  show ?thesis
  proof (cases xs)
    case Nil
    show ?thesis by (intro advancesI [OF session_step.unreached [OF Dialling [unfolded Nil]]]) (simp add: open_refused Dialling)
  next
    case (Cons x ys)
    show ?thesis
      by (intro advancesI [OF session_step.dialled [OF Dialling [unfolded Cons], where reply = "Inr None"]]) (simp_all add: open_refused Dialling Cons)
  qed
next
  case (Connected d)
  then show ?thesis
    by (intro advancesI [OF session_step.connected [OF Connected prod.collapse [symmetric], where peer = "[]"]])
      (simp add: open_refused split: option.split)
next
  case Reverifying
  then show ?thesis by (intro advancesI [OF session_step.reverified [OF Reverifying, where ck = blind]]) (simp_all add: open_refused split: option.split)
next
  case Announcing
  then show ?thesis by (intro advancesI [OF session_step.announced [OF Announcing, where err = None]]) (simp add: open_refused)
next
  case Announced
  then show ?thesis by (intro advancesI [OF session_step.activated [OF Announced]]) (simp add: open_refused split: option.split)
next
  case (Failing e)
  consider "ac_finish a = Unfinished" | "ac_finish a = Finished" | "ac_finish a \<noteq> Unfinished" "ac_finish a \<noteq> Finished" by blast
  then show ?thesis
  proof cases
    case 1
    with finish_begins session_step.fails [OF Failing] show ?thesis by blast
  next
    case 2
    with Failing show ?thesis by (intro advancesI [OF session_step.returns [OF Failing 2]]) (simp add: remaining_def)
  qed (rule finish_advances)
qed (use assms in blast)

lemma session_advances:
  assumes "at_work a"
  shows "advances why now c a"
proof (cases "\<exists>e. ac_open a = Returned e")
  case True
  with assms have ended: "ac_ctx a \<noteq> None" "ac_finish a \<noteq> Finished" by (auto simp: at_work_def)
  show ?thesis
  proof (cases "ac_finish a = Unfinished")
    case True
    with finish_begins session_step.ends [OF ended(1)] show ?thesis by blast
  qed (use finish_advances ended in blast)
qed (rule open_advances)

section \<open>Reading the milestones\<close>

lemma is_grantedE:
  assumes "is_granted a x"
  obtains res where "x = Requested (ac_request a) res None" "granted res"
  using assms by (cases x) auto

lemma is_verifiedE:
  assumes "is_verified a x"
  obtains ck where "x = Verified ck" "verifyContext a ck = None"
  using assms by (cases x) auto

lemma is_dialledE:
  assumes "is_dialled (Some c) a x"
  obtains y where "x = Dialled y c" "y \<in> set (tg_Addresses (se_Target (ac_view a)))"
  using assms by (cases x) auto

lemma is_openedE:
  assumes "is_opened a x"
  obtains at where "x = Recorded (connection_event at ''connection-opened'' [] a) None"
  using assms by (cases x) auto

lemma passed_three:
  assumes "passed 3 (Some c) a"
  shows "\<exists>res ck y. requestFor (se_Source (ac_view a)) (se_Target (ac_view a)) (sp_DurationSeconds (ac_spec a)) = Inr (ac_request a)
    \<and> granted res \<and> verifyContext a ck = None \<and> y \<in> set (tg_Addresses (se_Target (ac_view a)))
    \<and> subseq [Requested (ac_request a) res None, Verified ck, Dialled y c] (ac_trace a)"
proof -
  from assms obtain x1 x2 x3 where n: "named a (se_Target (ac_view a))" and sub: "subseq [x1, x2, x3] (ac_trace a)"
    and xs: "is_granted a x1" "is_verified a x2" "is_dialled (Some c) a x3"
    by (auto simp: passed_def milestones_def numeral_3_eq_3 list_all2_Cons1)
  show ?thesis
    by (rule is_grantedE [OF xs(1)], rule is_verifiedE [OF xs(2)], rule is_dialledE [OF xs(3)]) (use n sub in \<open>auto simp: named_def\<close>)
qed

lemma passed_five:
  assumes "passed 5 (Some c) a"
  shows "\<exists>res ck y ck' at. requestFor (se_Source (ac_view a)) (se_Target (ac_view a)) (sp_DurationSeconds (ac_spec a)) = Inr (ac_request a)
    \<and> granted res \<and> verifyContext a ck = None \<and> verifyContext a ck' = None
    \<and> subseq [Requested (ac_request a) res None, Verified ck, Dialled y c, Verified ck',
         Recorded (connection_event at ''connection-opened'' [] a) None] (ac_trace a)"
proof -
  from assms obtain x1 x2 x3 x4 x5 where n: "named a (se_Target (ac_view a))" and sub: "subseq [x1, x2, x3, x4, x5] (ac_trace a)"
    and xs: "is_granted a x1" "is_verified a x2" "is_dialled (Some c) a x3" "is_verified a x4" "is_opened a x5"
    by (auto simp: passed_def milestones_def list_all2_Cons1)
  show ?thesis
    by (rule is_grantedE [OF xs(1)], rule is_verifiedE [OF xs(2)], rule is_dialledE [OF xs(3)], rule is_verifiedE [OF xs(4)],
        rule is_openedE [OF xs(5)]) (use n sub in \<open>simp add: named_def, blast\<close>)
qed

lemma session_dialled: "session_ok a closed \<Longrightarrow> Dialled x c \<in> set (ac_trace a) \<Longrightarrow> passed 3 (Some c) a"
  by (auto simp: session_ok_def dials_ok_def)

lemma session_opened:
  assumes "session_ok a closed" "ac_open a = Returned None"
  shows "\<exists>c. ac_upstream a = Some c \<and> passed 5 (Some c) a"
  using assms by (auto simp: session_ok_def)

lemma relay_session: "all_keys ord \<Longrightarrow> relay_reachable ord why r \<Longrightarrow> i < length (rl_heap r) \<Longrightarrow> session_ok (rl_heap r ! i) (rl_closed r)"
  using relay_reachable_ok by (auto simp: relay_ok_def)

section \<open>The rank never rises\<close>

lemma finish_session_rank:
  "remaining (rl_heap (set_session j (finish reason failed (rl_heap r ! j)) r) ! i) \<le> remaining (rl_heap r ! i)"
proof (cases "i = j \<and> j < length (rl_heap r)")
  case True
  then show ?thesis using finish_rank_finish by (auto simp: set_session_def remaining_def)
next
  case False
  then have "(rl_heap r)[j := a] ! i = rl_heap r ! i" for a by (cases "j < length (rl_heap r)") (auto simp: list_update_beyond)
  then show ?thesis by (simp add: set_session_def)
qed

lemma relay_step_rank:
  assumes "relay_step ord why r r'" "i < length (rl_heap r)"
  shows "remaining (rl_heap r' ! i) \<le> remaining (rl_heap r ! i)"
  using assms(1)
proof cases
  case (opens ready inst ctx token source spec)
  then show ?thesis
    using assms(2) by (auto simp: open_reserved_def reserve_def nth_append split: if_splits option.splits sum.splits)
next
  case (session j a cs)
  then show ?thesis
    using session_step_rank [OF session(3)] by (auto simp: set_session_def remaining_def nth_list_update intro: add_mono)
next
  case (revokes s)
  then show ?thesis using finish_session_rank by (auto simp: Revoke_def split: option.splits)
next
  case (stops j)
  then show ?thesis using finish_session_rank by (simp add: stop_session_def)
qed simp

lemma relay_rank_bounded:
  assumes "relay_reachable ord why r" "i < length (rl_heap r)"
  shows "remaining (rl_heap r ! i) \<le> 48"
proof -
  from assms(1) obtain now where "(relay_step ord why)\<^sup>*\<^sup>* (relay0 now) r" by (auto simp: relay_reachable_def)
  then have "\<forall>i<length (rl_heap r). remaining (rl_heap r ! i) \<le> 48"
  proof induction
    case (step r1 r2)
    show ?case
    proof (intro allI impI)
      fix i assume i: "i < length (rl_heap r2)"
      show "remaining (rl_heap r2 ! i) \<le> 48"
      proof (cases "i < length (rl_heap r1)")
        case True
        with relay_step_rank [OF step(2)] step(3) show ?thesis by (meson order_trans)
      next
        case False
        from step(2) False i show ?thesis
          by cases (auto simp: open_reserved_def reserve_def set_session_def stop_session_def Revoke_def new_active_def remaining_def
              nth_append split: if_splits option.splits sum.splits)
      qed
    qed
  qed (simp add: relay0_def)
  with assms(2) show ?thesis by blast
qed

lemma relay_advances:
  assumes "i < length (rl_heap r)" "at_work (rl_heap r ! i)"
  shows "\<exists>r'. relay_step ord why r r' \<and> remaining (rl_heap r' ! i) < remaining (rl_heap r ! i)"
proof -
  from session_advances [OF assms(2)] obtain a cs where
    a: "session_step why (rl_now r) (rl_conns r) (rl_heap r ! i) a cs" "remaining a < remaining (rl_heap r ! i)" by blast
  with relay_step.session [OF assms(1) a(1)] assms(1) show ?thesis by (intro exI conjI) (auto simp: set_session_def)
qed

end
