(* ===== verification/PolicyConfiguration.thy ===== *)
theory PolicyConfiguration
  imports CapabilityService
begin

text \<open>
  Reading and replacing the Policy file as a whole (\<^verbatim>\<open>internal/policy/configuration.go\<close>,
  \<^verbatim>\<open>configuration_linux.go\<close>).

  As elsewhere in this library the file is its decoded content.  \<open>hash\<close> is \<^verbatim>\<open>policyRevision\<close>, the hash of the
  file's bytes; what an edit relies on is that it tells different contents apart.  What the
  file system, the context and the audit report are arguments.
\<close>

record PolicySnapshot =
  ps_Revision :: string
  ps_Policy :: "PolicyFile option" \<comment> \<open>\<open>None\<close>: the text does not decode\<close>

definition Configuration_Snapshot :: "update_faults \<Rightarrow> (policy_content \<Rightarrow> string) \<Rightarrow> policy_content \<Rightarrow> error + PolicySnapshot" where
  "Configuration_Snapshot f hash c =
     (if \<not> u_absolute f then Inl ErrInvalidArgument
      else case u_ctx f of Some e \<Rightarrow> Inl e | None \<Rightarrow>
      case u_setup f of Some e \<Rightarrow> Inl e | None \<Rightarrow>
      if c = UnreadablePolicy then Inl (ErrOther ''unsafe Policy file'')
      else case load c of
        Inl _ \<Rightarrow> Inl ErrInvalidArgument
      | Inr p \<Rightarrow> Inr \<lparr>ps_Revision = hash c, ps_Policy = Some p\<rparr>)"

record replace_reports =
  rr_oversize :: bool \<comment> \<open>of the edit as sent\<close>
  rr_requested :: "error option" \<comment> \<open>recording \<^verbatim>\<open>configuration-change-requested\<close>\<close>
  rr_changed :: "error option" \<comment> \<open>recording \<^verbatim>\<open>configuration-changed\<close>\<close>

definition replace_change ::
  "(policy_content \<Rightarrow> string) \<Rightarrow> error option \<Rightarrow> string \<Rightarrow> PolicyFile \<Rightarrow> policy_content \<Rightarrow> error + PolicyFile" where
  "replace_change hash requested revision policy before =
     (if hash before \<noteq> revision then Inl ErrIncompatibleState
      else case requested of Some e \<Rightarrow> Inl e | None \<Rightarrow> Inr policy)"

definition Configuration_Replace ::
  "update_faults \<Rightarrow> (policy_content \<Rightarrow> string) \<Rightarrow> replace_reports \<Rightarrow> PolicySnapshot \<Rightarrow> policy_content
   \<Rightarrow> policy_content \<times> (error + PolicySnapshot)" where
  "Configuration_Replace f hash reports edit c =
     (if \<not> u_absolute f \<or> rr_oversize reports \<or> length (ps_Revision edit) \<noteq> 71 then (c, Inl ErrInvalidArgument)
      else case ps_Policy edit of None \<Rightarrow> (c, Inl ErrInvalidArgument) | Some policy \<Rightarrow>
      if validatePolicy policy \<noteq> None \<or> u_oversize f policy then (c, Inl ErrInvalidArgument)
      else case updatePolicy f (replace_change hash (rr_requested reports) (ps_Revision edit) policy) c of
        (c, Some e) \<Rightarrow> (c, Inl e)
      | (c, None) \<Rightarrow>
          if rr_changed reports \<noteq> None then (c, Inl ErrRecoveryRequired)
          else (c, Inr \<lparr>ps_Revision = hash (Policy policy), ps_Policy = Some policy\<rparr>))"

text \<open>An edit takes effect only over the content it was made from.\<close>

lemma Configuration_ReplaceD:
  assumes "Configuration_Replace f hash reports edit c = (c', Inr after)"
  obtains policy where "ps_Policy edit = Some policy" "validatePolicy policy = None" "hash c = ps_Revision edit"
    "c' = Policy policy" "rr_requested reports = None" "rr_changed reports = None"
proof -
  from assms obtain policy where policy: "ps_Policy edit = Some policy" "validatePolicy policy = None"
    "updatePolicy f (replace_change hash (rr_requested reports) (ps_Revision edit) policy) c = (c', None)"
    "rr_changed reports = None"
    by (auto simp: Configuration_Replace_def split: if_splits option.splits prod.splits)
  with updatePolicy_cases [OF policy(3)] show ?thesis
    by (auto simp: replace_change_def split: if_splits option.splits intro!: that)
qed

lemma Configuration_Snapshot_load: "Configuration_Snapshot f hash c = Inr snap \<Longrightarrow> ps_Revision snap = hash c \<and> (\<exists>p. load c = Inr p \<and> ps_Policy snap = Some p)"
  by (auto simp: Configuration_Snapshot_def split: if_splits option.splits sum.splits)

end
