(* ===== verification/NetworkTargets.thy ===== *)
theory NetworkTargets
  imports NetworkSessions PolicyConfiguration
begin

text \<open>
  The relay's destinations and rules over the Policy configuration (\<^verbatim>\<open>internal/network/configured.go\<close>,
  \<^verbatim>\<open>rules.go\<close>).  What the catalog, the configuration, the DNS broker and the two address filters
  answer are arguments; two calls of one of them may answer differently.
\<close>

record replies =
  rp_Instance :: "goerr + string"
  rp_Snapshot :: "goerr + PolicySnapshot"
  rp_DNS :: "goerr + Addr list"
  rp_HostAllowed :: "(Addr \<Rightarrow> goerr option) option"
  rp_ExternalAllowed :: "(Addr \<Rightarrow> goerr option) option"

definition PolicyRevision :: "(string \<Rightarrow> string) \<Rightarrow> GoTime \<Rightarrow> goerr + PolicySnapshot \<Rightarrow> goerr + string" where
  "PolicyRevision sha256 now reply =
     (case reply of Inl e \<Rightarrow> Inl e
      | Inr snapshot \<Rightarrow>
          case ps_Policy snapshot of None \<Rightarrow> Inl (Sentinel ErrPolicyDenied)
          | Some policy \<Rightarrow> Inr (EncodeToString (sha256
              (ps_Revision snapshot @ map (\<lambda>r. if expired now r then CHR 0x01 else CHR 0x00) (Rules policy @ SavedDecisions policy)))))"

definition target_host :: "goerr + PolicySnapshot \<Rightarrow> string \<Rightarrow> goerr + NetworkService" where
  "target_host reply name =
     (case reply of Inl e \<Rightarrow> Inl e
      | Inr snapshot \<Rightarrow>
          case ps_Policy snapshot of None \<Rightarrow> Inl (Sentinel ErrPolicyDenied)
          | Some policy \<Rightarrow>
              case find (\<lambda>s. ns_Name s = name) (NetworkServices policy) of
                None \<Rightarrow> Inl (Sentinel ErrNotFound)
              | Some service \<Rightarrow> if ValidateNetworkService service \<noteq> None then Inl (Sentinel ErrPolicyDenied) else Inr service)"

definition first_refusal :: "(Addr \<Rightarrow> goerr option) \<Rightarrow> Addr list \<Rightarrow> goerr option" where
  "first_refusal allowed as = (case find (\<lambda>a. allowed a \<noteq> None) as of None \<Rightarrow> None | Some a \<Rightarrow> allowed a)"

definition Verify_host :: "replies \<Rightarrow> Target \<Rightarrow> goerr option" where
  "Verify_host rp t =
     (case target_host (rp_Snapshot rp) (tg_Name t) of Inl _ \<Rightarrow> Some (Sentinel ErrCapabilityStale)
      | Inr s \<Rightarrow>
          case tg_Addresses t of
            [a] \<Rightarrow>
              if ns_Instance s \<noteq> tg_Owner t \<or> ns_Protocol s \<noteq> tg_Protocol t \<or> ns_Port s \<noteq> tg_Port t \<or> ns_Address s \<noteq> Addr_String a
              then Some (Sentinel ErrCapabilityStale)
              else (case rp_HostAllowed rp of None \<Rightarrow> Some (Sentinel ErrPolicyDenied)
                | Some allowed \<Rightarrow>
                    case allowed a of Some e \<Rightarrow> Some e
                    | None \<Rightarrow> if ns_Port s \<in> {18080, 8443, 2375, 2376} then Some (Sentinel ErrPolicyDenied) else None)
          | _ \<Rightarrow> Some (Sentinel ErrCapabilityStale))"

definition Verify :: "replies \<Rightarrow> Target \<Rightarrow> goerr option" where
  "Verify rp t =
     (if tg_Kind t = ''environment'' then
        (if rp_Instance rp \<noteq> Inr (tg_Owner t) then Some (Sentinel ErrCapabilityStale) else None)
      else if tg_Kind t = ''host'' then Verify_host rp t
      else if tg_Kind t = ''external'' then
        (case rp_ExternalAllowed rp of None \<Rightarrow> Some (Sentinel ErrPolicyDenied)
         | Some allowed \<Rightarrow>
             if length (tg_Addresses t) = 0 then Some (Sentinel ErrPolicyDenied) else first_refusal allowed (tg_Addresses t))
      else Some (Sentinel ErrInvalidArgument))"

text \<open>\<^verbatim>\<open>netip.MustParseAddr\<close> panics on a text that is no address.\<close>

definition MustParseAddr :: "string \<Rightarrow> goerr + Addr" where
  "MustParseAddr s = (case ParseAddr s of None \<Rightarrow> Inl (Opaque ''panic'') | Some a \<Rightarrow> Inr a)"

definition resolve_external :: "replies \<Rightarrow> Spec \<Rightarrow> goerr + Addr list" where
  "resolve_external rp spec =
     (case ParseAddr (sp_Target spec) of Some a \<Rightarrow> Inr [a]
      | None \<Rightarrow>
          case rp_DNS rp of Inr as \<Rightarrow> Inr as
          | Inl e \<Rightarrow> if errors_Is e ErrPolicyDenied \<or> errors_Is e ErrApprovalDenied \<or> errors_Is e ErrCapabilityStale then Inl e
                     else Inl (Sentinel errDNSResolution))"

definition resolve_target :: "replies \<Rightarrow> Spec \<Rightarrow> goerr + Target" where
  "resolve_target rp spec =
     (let target = \<lparr>tg_Kind = sp_Kind spec, tg_Name = sp_Target spec, tg_Protocol = sp_Protocol spec, tg_Port = sp_Port spec,
                    tg_Addresses = [], tg_Owner = []\<rparr> in
      if sp_Kind spec = ''host'' then
        (case target_host (rp_Snapshot rp) (sp_Target spec) of Inl e \<Rightarrow> Inl e
         | Inr service \<Rightarrow>
             if ns_Protocol service \<noteq> sp_Protocol spec \<or> (sp_Port spec \<noteq> 0 \<and> ns_Port service \<noteq> sp_Port spec)
             then Inl (Sentinel ErrPolicyDenied)
             else case MustParseAddr (ns_Address service) of Inl e \<Rightarrow> Inl e
               | Inr a \<Rightarrow> Inr (target\<lparr>tg_Owner := ns_Instance service, tg_Port := ns_Port service, tg_Addresses := [a]\<rparr>))
      else if sp_Kind spec = ''environment'' then
        (case rp_Instance rp of Inl _ \<Rightarrow> Inl (Sentinel ErrCapabilityStale)
         | Inr i \<Rightarrow> (case MustParseAddr ''127.0.0.1'' of Inl e \<Rightarrow> Inl e
             | Inr a \<Rightarrow> Inr (target\<lparr>tg_Owner := i, tg_Addresses := [a]\<rparr>)))
      else if sp_Kind spec = ''external'' then
        (case resolve_external rp spec of Inl e \<Rightarrow> Inl e | Inr as \<Rightarrow> Inr (target\<lparr>tg_Addresses := as\<rparr>))
      else Inl (Sentinel ErrInvalidArgument))"

text \<open>\<open>rp'\<close> is what the final verification is told.\<close>

definition Resolve :: "replies \<Rightarrow> replies \<Rightarrow> Spec \<Rightarrow> goerr + Target" where
  "Resolve rp rp' spec =
     (case resolve_target rp spec of Inl e \<Rightarrow> Inl e
      | Inr target \<Rightarrow> (case Verify rp' target of Some e \<Rightarrow> Inl e | None \<Rightarrow> Inr target))"

section \<open>Rules for a connection (\<^verbatim>\<open>rules.go\<close>)\<close>

record RuleSpec =
  rs_Environment :: string
  rs_Connection :: Spec
  rs_Decision :: string
  rs_Scope :: string
  rs_ExpiresAt :: GoTime

definition connection_rule :: "RuleSpec \<Rightarrow> Source \<Rightarrow> Target \<Rightarrow> CapabilityRequest \<Rightarrow> PolicyRule" where
  "connection_rule spec source target q =
     \<lparr>rule_ExpiresAt = Some (rs_ExpiresAt spec),
      rule_EnvironmentInstance = if rs_Scope spec \<noteq> ''instance'' then [] else so_Instance source,
      rule_Capability = ''network.connect'', rule_Action = ''connect'', rule_Resource = tg_Name target,
      rule_Environment = if rs_Scope spec = ''global'' then ''*'' else so_Environment source,
      rule_Attributes = q_Attributes q, rule_Decision = rs_Decision spec, rule_Reason = []\<rparr>"

text \<open>The instants the two checks of the expiry read; the file's content \<open>c0\<close> when the snapshot is taken
  and \<open>c\<close> when it is replaced; the replies to \<^verbatim>\<open>CurrentInstance\<close> and to \<^verbatim>\<open>Resolve\<close>.\<close>

definition rule_spec_ok :: "int \<Rightarrow> int \<Rightarrow> RuleSpec \<Rightarrow> bool" where
  "rule_spec_ok now now' spec \<longleftrightarrow> validateSpec (rs_Connection spec) = None \<and> validName (rs_Environment spec)
     \<and> (rs_Decision spec = ''allow'' \<or> rs_Decision spec = ''deny'' \<or> rs_Decision spec = ''require-approval'')
     \<and> (rs_Scope spec = ''instance'' \<or> rs_Scope spec = ''environment'' \<or> rs_Scope spec = ''global'')
     \<and> now < instant (rs_ExpiresAt spec) \<and> instant (rs_ExpiresAt spec) \<le> now' + 31 * 24 * 3600 * second"

definition AddRule ::
  "int \<Rightarrow> int \<Rightarrow> update_faults \<Rightarrow> update_faults \<Rightarrow> (policy_content \<Rightarrow> string) \<Rightarrow> replace_reports \<Rightarrow> goerr + string \<Rightarrow> goerr + Target
   \<Rightarrow> RuleSpec \<Rightarrow> policy_content \<Rightarrow> policy_content \<Rightarrow> policy_content \<times> PolicyRule option \<times> goerr option" where
  "AddRule now now' f0 f hash reports inst resolved spec c0 c =
     (if \<not> rule_spec_ok now now' spec then (c, None, Some (Sentinel ErrInvalidArgument))
      else case Configuration_Snapshot f0 hash c0 of Inl e \<Rightarrow> (c, None, Some (Sentinel e)) | Inr snapshot \<Rightarrow>
      case inst of Inl e \<Rightarrow> (c, None, Some e) | Inr i \<Rightarrow>
      let source = \<lparr>so_Environment = rs_Environment spec, so_Instance = i\<rparr> in
      case resolved of Inl e \<Rightarrow> (c, None, Some e) | Inr target \<Rightarrow>
      case requestFor source target (sp_DurationSeconds (rs_Connection spec)) of
        Inl e \<Rightarrow> (c, None, Some (Sentinel e)) | Inr q \<Rightarrow>
      let rule = connection_rule spec source target q in
      case ps_Policy snapshot of None \<Rightarrow> (c, None, Some (Sentinel ErrIncompatibleState)) | Some policy \<Rightarrow>
      case Configuration_Replace f hash reports (snapshot\<lparr>ps_Policy := Some (policy\<lparr>Rules := Rules policy @ [rule]\<rparr>)\<rparr>) c of
        (c, Inl e) \<Rightarrow> (c, Some rule, Some (Sentinel e))
      | (c, Inr _) \<Rightarrow> (c, Some rule, None))"

section \<open>Laws\<close>

text \<open>A resolved target is the one that was asked for, and resolving never panics.\<close>

lemma Resolve_answers:
  assumes "Resolve rp rp' spec = Inr t"
  shows "answers spec t" "Verify rp' t = None"
  using assms
  by (auto simp: Resolve_def resolve_target_def answers_def Let_def split: if_splits sum.splits option.splits)

lemma target_host_address:
  assumes "target_host reply name = Inr service"
  shows "\<exists>a. MustParseAddr (ns_Address service) = Inr a"
  using assms by (auto simp: target_host_def ValidateNetworkService_def MustParseAddr_def split: if_splits sum.splits option.splits)

text \<open>No attribute of a connection is a wildcard, so a rule made of them matches that connection only.\<close>

lemma star_not: "Atoi ''*'' = None" "parse_addresses ''*'' = None" "\<not> networkServiceInstance ''*''"
  "\<not> ValidEnvironmentInstanceID ''*''" "\<not> networkServiceName ''*''" "\<not> validName ''*''" "ParseAddr ''*'' = None"
  by code_simp+

lemma star_not_host: "CanonicalHost ''*'' \<noteq> Inr ''*''"
proof
  assume "CanonicalHost ''*'' = Inr ''*''"
  from host_labels_chars [OF CanonicalHostD(5) [OF this]] have "host_char CHR ''*''" by simp
  then show False by code_simp
qed

lemma connection_attributes_literal:
  assumes t: "target_ok s t d" and ok: "\<forall>a\<in>set (tg_Addresses t). addr_ok a"
  shows "\<not> fmex (\<lambda>k v. v = ''*'') (connection_attributes t (tg_Addresses t) d)"
proof -
  have "Atoi (Itoa (tg_Port t)) = Some (tg_Port t)" "Atoi (Itoa d) = Some d"
    using t by (auto simp: target_ok_def MaxDuration_def intro: Atoi_small)
  then have ints: "Itoa (tg_Port t) \<noteq> ''*''" "Itoa d \<noteq> ''*''" using star_not(1) by force+
  have addresses: "Join '','' (sort (map Addr_String (tg_Addresses t))) \<noteq> ''*''"
    by (rule parse_addresses_sorted [of "tg_Addresses t" "tg_Kind t"])
      (use t ok star_not(2) in \<open>auto simp: target_ok_def\<close>)
  have words: "tg_Kind t \<noteq> ''*''" "tg_Protocol t \<noteq> ''*''" "tg_Owner t \<noteq> ''*''"
    using t star_not(3,4) by (auto simp: target_ok_def target_check_def ValidateNetworkService_def
        split: if_splits list.splits)
  have "v \<noteq> ''*''" if "fmlookup (connection_attributes t (tg_Addresses t) d) k = Some v" for k v
  proof -
    have "k |\<in>| connection_keys" using fmdomI [OF that] by simp
    then show ?thesis using that ints addresses words by auto
  qed
  then show ?thesis by (auto simp: fmex_iff)
qed

lemma target_named:
  assumes "target_check t d = None"
  shows "tg_Name t \<noteq> ''*''"
proof -
  have "validName (tg_Name t) \<or> networkServiceName (tg_Name t) \<or> ParseAddr (tg_Name t) \<noteq> None
      \<or> CanonicalHost (tg_Name t) = Inr (tg_Name t)"
    using assms by (auto simp: target_check_def ValidateNetworkService_def validateSpec_def split: if_splits list.splits option.splits)
  then show ?thesis using star_not star_not_host by metis
qed

text \<open>The sources a rule is for.\<close>

definition in_scope :: "RuleSpec \<Rightarrow> Source \<Rightarrow> Source \<Rightarrow> bool" where
  "in_scope spec source s \<longleftrightarrow> (rs_Scope spec = ''instance'' \<longrightarrow> so_Instance s = so_Instance source)
     \<and> (rs_Scope spec \<noteq> ''global'' \<longrightarrow> so_Environment s = so_Environment source)"

lemma connection_rule_matches:
  assumes q: "requestFor source t d = Inr q" "\<forall>a\<in>set (tg_Addresses t). addr_ok a"
    and q': "requestFor s' t' d' = Inr q'" "\<forall>a\<in>set (tg_Addresses t'). addr_ok a"
    and scope: "rs_Scope spec = ''instance'' \<or> rs_Scope spec = ''environment'' \<or> rs_Scope spec = ''global''"
  shows "ruleMatches (connection_rule spec source t q) q' \<longleftrightarrow>
    in_scope spec source s' \<and> d' = d \<and> mset (tg_Addresses t') = mset (tg_Addresses t) \<and> t' = t\<lparr>tg_Addresses := tg_Addresses t'\<rparr>"
    (is "?m \<longleftrightarrow> ?r")
proof -
  have t: "target_ok source t d" "target_ok s' t' d'" using q(1) q'(1) by (simp_all add: requestFor_iff)
  have names: "so_Instance source \<noteq> []" "so_Environment s' \<noteq> ''*''" "so_Environment source \<noteq> ''*''" "tg_Name t \<noteq> ''*''"
    using t star_not(6) owner_nonempty(2) target_named [of t d] unfolding target_ok_def by metis+
  let ?same = "tg_Name t' = tg_Name t \<and> q_Attributes q' = q_Attributes q"
  have fields: "q_Capability q' = ''network.connect''" "q_Action q' = ''connect''" "q_Resource q' = tg_Name t'"
    "q_Environment q' = so_Environment s'" "q_EnvironmentInstance q' = so_Instance s'" using q'(1) by (auto simp: requestFor_iff)
  have "q_Attributes q = connection_attributes t (tg_Addresses t) d" using q(1) by (simp add: requestFor_iff)
  with matchAttributes_literal [OF connection_attributes_literal [OF t(1) q(2)]]
  have lit: "matchAttributes (q_Attributes q) x \<longleftrightarrow> x = q_Attributes q" for x by auto
  have m: "?m \<longleftrightarrow> in_scope spec source s' \<and> ?same"
    using scope
  proof (elim disjE)
    assume "rs_Scope spec = ''instance''"
    then show ?thesis using names by (simp add: ruleMatches_iff connection_rule_def in_scope_def fields lit) metis
  next
    assume "rs_Scope spec = ''environment''"
    then show ?thesis using names by (simp add: ruleMatches_iff connection_rule_def in_scope_def fields lit) metis
  next
    assume "rs_Scope spec = ''global''"
    then show ?thesis using names by (simp add: ruleMatches_iff connection_rule_def in_scope_def fields lit) metis
  qed
  show ?thesis
  proof
    assume ?m
    with m have sc: "in_scope spec source s'" and same: "?same" by blast+
    have "target_ok s' t d" using t by (simp add: target_ok_def)
    with q(1) q'(1) same have "requestFor s' t d = Inr q'" by (simp add: requestFor_iff)
    then show ?r using sc requestFor_injective [OF _ q'(1) q(2) q'(2)] by blast
  next
    assume r: ?r
    then have "tg_Name t' = tg_Name t" by (metis Target.ext_inject Target.surjective Target.update_convs(5))
    moreover have "q_Attributes q' = q_Attributes q"
      using q(1) q'(1) r target_ok_perm(2) [OF t(1), of "tg_Addresses t'"] by (simp add: requestFor_iff)
    ultimately show ?m unfolding m using r by blast
  qed
qed

text \<open>What a successful \<^verbatim>\<open>AddRule\<close> leaves, when the revision tells contents apart.\<close>

lemma AddRuleD:
  assumes "AddRule now now' f0 f hash reports inst resolved spec c0 c = (c', Some rule, None)" "hash c = hash c0 \<longrightarrow> c = c0"
  obtains i target q p where "inst = Inr i" "resolved = Inr target" "rule_spec_ok now now' spec" "load c = Inr p"
    "requestFor \<lparr>so_Environment = rs_Environment spec, so_Instance = i\<rparr> target (sp_DurationSeconds (rs_Connection spec)) = Inr q"
    "rule = connection_rule spec \<lparr>so_Environment = rs_Environment spec, so_Instance = i\<rparr> target q"
    "c' = Policy (p\<lparr>Rules := Rules p @ [rule]\<rparr>)" "load c' = Inr (p\<lparr>Rules := Rules p @ [rule]\<rparr>)" "c = c0"
proof -
  from assms(1) obtain snapshot i target q policy after where run: "rule_spec_ok now now' spec"
    "Configuration_Snapshot f0 hash c0 = Inr snapshot" "inst = Inr i" "resolved = Inr target"
    "requestFor \<lparr>so_Environment = rs_Environment spec, so_Instance = i\<rparr> target (sp_DurationSeconds (rs_Connection spec)) = Inr q"
    "rule = connection_rule spec \<lparr>so_Environment = rs_Environment spec, so_Instance = i\<rparr> target q"
    "ps_Policy snapshot = Some policy"
    "Configuration_Replace f hash reports (snapshot\<lparr>ps_Policy := Some (policy\<lparr>Rules := Rules policy @ [rule]\<rparr>)\<rparr>) c = (c', Inr after)"
    by (auto simp: AddRule_def Let_def split: if_splits sum.splits option.splits prod.splits)
  from Configuration_Snapshot_load [OF run(2)] run(7) have snap: "ps_Revision snapshot = hash c0" "load c0 = Inr policy" by auto
  from Configuration_ReplaceD [OF run(8)] snap(1) have "hash c = hash c0" "c' = Policy (policy\<lparr>Rules := Rules policy @ [rule]\<rparr>)"
    "validatePolicy (policy\<lparr>Rules := Rules policy @ [rule]\<rparr>) = None" by auto
  moreover from this(1) have "c = c0" using assms(2) by blast
  ultimately show ?thesis using that run snap by (simp add: load_def)
qed

lemma evaluate_appended:
  assumes "load c = Inr p" "load c' = Inr (p\<lparr>Rules := Rules p @ [rule]\<rparr>)"
  shows "\<not> ruleMatches rule q \<Longrightarrow> Evaluate now c' q = Evaluate now c q"
    and "ruleMatches rule q \<Longrightarrow> \<not> expired now rule \<Longrightarrow>
      \<exists>ev. Evaluate now c' q = Inr ev \<and> decisionPriority (rule_Decision rule) \<le> decisionPriority (ev_Decision ev)"
proof -
  let ?p = "p\<lparr>Rules := Rules p @ [rule]\<rparr>"
  show "Evaluate now c' q = Evaluate now c q" if "\<not> ruleMatches rule q"
    using that assms by (simp add: Evaluate_def evaluate_policy_pick matching_def applies_def Let_def)
  show "\<exists>ev. Evaluate now c' q = Inr ev \<and> decisionPriority (rule_Decision rule) \<le> decisionPriority (ev_Decision ev)"
    if "ruleMatches rule q" "\<not> expired now rule"
  proof -
    have "rule \<in> set (matching now ?p q)" using that by (simp add: matching_def applies_def)
    with pick_bound have "decisionPriority (rule_Decision rule)
        \<le> decisionPriority (ev_Decision (foldl pick \<lparr>ev_Decision = [], ev_Reason = []\<rparr> (matching now ?p q)))" by blast
    moreover have "validDecision (rule_Decision rule)" using load_decisions [OF assms(2)] by simp
    then have "0 < decisionPriority (rule_Decision rule)" by (auto simp: validDecision_def decisionPriority_def)
    ultimately have "decisionPriority (rule_Decision rule) \<le> decisionPriority (ev_Decision (evaluate_policy now ?p q))"
      by (auto simp: evaluate_policy_pick Let_def decisionPriority_def split: if_splits)
    then show ?thesis using assms(2) by (simp add: Evaluate_def)
  qed
qed

end
