(* ===== verification/Datagrams.thy ===== *)
theory Datagrams
  imports Core
begin

text \<open>
  Datagrams over the relay's byte streams (\<^verbatim>\<open>internal/network/http.go\<close>): a big-endian length of two
  bytes and the payload.

  A reader is the bytes it will deliver before its end; what \<^verbatim>\<open>io.ReadFull\<close> returns does not depend on
  how they are cut into reads.  A writer is an argument: a function of its own state, which returns
  how many bytes it took.  Slicing past the end of the frame is a panic.
\<close>

definition MaxDatagram :: nat where "MaxDatagram = 65507"

definition io_EOF :: error where "io_EOF = ErrOther ''EOF''"
definition io_ErrUnexpectedEOF :: error where "io_ErrUnexpectedEOF = ErrOther ''unexpected EOF''"
definition io_ErrShortWrite :: error where "io_ErrShortWrite = ErrOther ''short put''"
definition slice_panic :: error where "slice_panic = ErrOther ''slice bounds out of range''"

definition PutUint16 :: "16 word \<Rightarrow> string" where
  "PutUint16 v = [char_of (unat v div 256), char_of (unat v mod 256)]"

definition Uint16 :: "string \<Rightarrow> 16 word" where
  "Uint16 b = of_nat (of_char (b ! 0) * 256 + of_char (b ! 1))"

definition ReadFull :: "nat \<Rightarrow> string \<Rightarrow> error + string \<times> string" where
  "ReadFull n s =
     (if n \<le> length s then Inr (take n s, drop n s)
      else if s = [] then Inl io_EOF else Inl io_ErrUnexpectedEOF)"

definition readDatagram :: "string \<Rightarrow> error + string \<times> string" where
  "readDatagram s =
     (case ReadFull 2 s of Inl e \<Rightarrow> Inl e
      | Inr (header, s) \<Rightarrow>
          let n = unat (Uint16 header) in
          if n > MaxDatagram then Inl ErrInvalidArgument else ReadFull n s)"

type_synonym 'w writer = "string \<Rightarrow> 'w \<Rightarrow> 'w \<times> nat \<times> error option"

function write_frame :: "'w writer \<Rightarrow> string \<Rightarrow> 'w \<Rightarrow> 'w \<times> error option" where
  "write_frame put frame w =
     (if length frame > 0 then
        (case put frame w of (w, n, err) \<Rightarrow>
           case err of Some e \<Rightarrow> (w, Some e)
           | None \<Rightarrow>
               if n = 0 then (w, Some io_ErrShortWrite)
               else if n > length frame then (w, Some slice_panic)
               else write_frame put (drop n frame) w)
      else (w, None))"
  by pat_completeness auto

termination by (relation "measure (\<lambda>(_, frame, _). length frame)") auto

declare write_frame.simps [simp del]

definition frame_of :: "string \<Rightarrow> string" where
  "frame_of data = PutUint16 (of_nat (length data)) @ data"

definition writeDatagram :: "'w writer \<Rightarrow> string \<Rightarrow> 'w \<Rightarrow> 'w \<times> error option" where
  "writeDatagram put data w =
     (if length data > MaxDatagram then (w, Some ErrInvalidArgument) else write_frame put (frame_of data) w)"

text \<open>The loops of \<^verbatim>\<open>relayDatagramsWithIdle\<close> and \<^verbatim>\<open>ServeUDP\<close>, as long as nothing fails: one datagram after
  the other.\<close>

fun writeDatagrams :: "'w writer \<Rightarrow> string list \<Rightarrow> 'w \<Rightarrow> 'w \<times> error option" where
  "writeDatagrams put [] w = (w, None)"
| "writeDatagrams put (d # ds) w =
     (case writeDatagram put d w of (w, Some e) \<Rightarrow> (w, Some e) | (w, None) \<Rightarrow> writeDatagrams put ds w)"

fun readDatagrams :: "nat \<Rightarrow> string \<Rightarrow> error + string list \<times> string" where
  "readDatagrams 0 s = Inr ([], s)"
| "readDatagrams (Suc n) s =
     (case readDatagram s of Inl e \<Rightarrow> Inl e
      | Inr (d, s) \<Rightarrow> (case readDatagrams n s of Inl e \<Rightarrow> Inl e | Inr (ds, s) \<Rightarrow> Inr (d # ds, s)))"

section \<open>Laws\<close>

text \<open>What \<^verbatim>\<open>io.Writer\<close> documents: it takes a prefix of what it is given.\<close>

definition writer_law :: "'w writer \<Rightarrow> ('w \<Rightarrow> string) \<Rightarrow> bool" where
  "writer_law put sent \<longleftrightarrow> (\<forall>p w w' n err. put p w = (w', n, err) \<longrightarrow> n \<le> length p \<and> sent w' = sent w @ take n p)"

lemma Uint16_PutUint16: "Uint16 (PutUint16 v @ s) = v"
proof -
  have "unat v < 65536" using unsigned_less [of v] by simp
  then have "(of_char (char_of (unat v div 256) :: char) :: nat) = unat v div 256"
    "(of_char (char_of (unat v mod 256) :: char) :: nat) = unat v mod 256"
    by (simp_all add: of_char_of take_bit_eq_mod)
  then have "Uint16 (PutUint16 v @ s) = of_nat (unat v div 256 * 256 + unat v mod 256)"
    by (simp add: Uint16_def PutUint16_def del: of_nat_add of_nat_mult)
  then show ?thesis by (simp only: div_mult_mod_eq) simp
qed

lemma readDatagram_frame:
  assumes "length data \<le> MaxDatagram"
  shows "readDatagram (frame_of data @ rest) = Inr (data, rest)"
proof -
  have n: "unat (of_nat (length data) :: 16 word) = length data"
    using assms by (simp add: unat_of_nat MaxDatagram_def)
  have "ReadFull 2 (frame_of data @ rest) = Inr (PutUint16 (of_nat (length data)), data @ rest)"
    by (simp add: ReadFull_def frame_of_def PutUint16_def)
  then show ?thesis
    using assms n Uint16_PutUint16 [of "of_nat (length data)" "[]"] by (simp add: readDatagram_def ReadFull_def Let_def)
qed

lemma write_frame_sends:
  assumes law: "writer_law put sent"
  shows "write_frame put frame w = (w', None) \<Longrightarrow> sent w' = sent w @ frame"
proof (induction "length frame" arbitrary: frame w rule: less_induct)
  case less
  show ?case
  proof (cases "frame = []")
    case False
    obtain w1 n err where run: "put frame w = (w1, n, err)" by (cases "put frame w") auto
    with less.prems False have n: "0 < n" "n \<le> length frame" "write_frame put (drop n frame) w1 = (w', None)"
      by (auto simp: write_frame.simps [of put frame w] split: option.splits if_splits)
    with less.hyps [OF _ n(3)] have "sent w' = sent w1 @ drop n frame" by simp
    moreover have "sent w1 = sent w @ take n frame" using law run by (simp add: writer_law_def)
    ultimately show ?thesis by simp
  qed (use less.prems in \<open>simp add: write_frame.simps\<close>)
qed

lemma writeDatagrams_sends:
  assumes "writer_law put sent" "writeDatagrams put ds w = (w', None)"
  shows "sent w' = sent w @ concat (map frame_of ds) \<and> (\<forall>d\<in>set ds. length d \<le> MaxDatagram)"
  using assms(2)
proof (induction ds arbitrary: w)
  case (Cons d ds)
  then obtain w1 where w1: "writeDatagram put d w = (w1, None)" "writeDatagrams put ds w1 = (w', None)"
    by (auto split: prod.splits option.splits)
  then have "length d \<le> MaxDatagram" "write_frame put (frame_of d) w = (w1, None)"
    by (auto simp: writeDatagram_def split: if_splits)
  with write_frame_sends [OF assms(1)] Cons.IH [OF w1(2)] show ?case by simp
qed simp

lemma readDatagrams_frames:
  "\<forall>d\<in>set ds. length d \<le> MaxDatagram \<Longrightarrow> readDatagrams (length ds) (concat (map frame_of ds) @ rest) = Inr (ds, rest)"
  by (induction ds) (simp_all add: readDatagram_frame)

end
