(* ===== verification/NetworkExamples.thy ===== *)
theory NetworkExamples
  imports NetworkInvariant NetworkTargets Datagrams
begin

text \<open>A connection from one Environment to another, from its request to its end, for the witnesses.\<close>

definition web_source :: Source where
  "web_source = \<lparr>so_Environment = ''web'', so_Instance = ''env-0123456789abcdef0123456789abcdef''\<rparr>"

definition db_spec :: Spec where
  "db_spec = \<lparr>sp_Kind = ''environment'', sp_Target = ''db'', sp_Protocol = ''tcp'', sp_Port = 5432, sp_DurationSeconds = 60\<rparr>"

definition db_target :: Target where
  "db_target = \<lparr>tg_Kind = ''environment'', tg_Name = ''db'', tg_Protocol = ''tcp'', tg_Port = 5432,
     tg_Addresses = [IPv4 [127, 0, 0, 1]], tg_Owner = ''env-fedcba9876543210fedcba9876543210''\<rparr>"

definition db_request :: CapabilityRequest where
  "db_request = \<lparr>q_EnvironmentInstance = so_Instance web_source, q_Capability = ''network.connect'', q_Action = ''connect'',
     q_Resource = ''db'', q_Environment = ''web'', q_Attributes = connection_attributes db_target (tg_Addresses db_target) 60,
     q_Parameters = fmempty\<rparr>"

definition session_keys :: session_order where "session_keys = sorted_list_of_fmap"

definition token1 :: "char list" where "token1 = replicate 16 CHR 0x07"

definition approved_result :: CapabilityResult where
  "approved_result = no_result\<lparr>cr_RequestID := ''r1'', cr_ExecutionState := ''succeeded'', cr_AuditComplete := True\<rparr>"

definition good_checks :: checks where
  "good_checks = \<lparr>ck_ctx = None, ck_Instance = Inr (so_Instance web_source), ck_Revision = Inr ''v1'',
     ck_Evaluation = Inr \<lparr>ev_Decision = ''allow'', ev_Reason = []\<rparr>, ck_Target = None\<rparr>"

definition db0 :: active where "db0 = new_active None 0 token1 web_source db_spec"
definition db1 :: active where "db1 = open_resolved (Inr db_target) db0"
definition db2 :: active where "db2 = open_revised db_target db_request (Inr ''v1'') db1"
definition db3 :: active where "db3 = open_requested db_target (approved_result, None) db2"
definition db4 :: active where "db4 = open_verified db_target good_checks db3"
definition db5 :: active where "db5 = open_connecting db_target db4"
definition db6 :: active where "db6 = open_dialled db_target (IPv4 [127, 0, 0, 1]) [] [] (Inr (Some 5)) db5"
definition db7 :: active where "db7 = fst (open_connected 5 ''peer'' db6)"
definition db8 :: active where "db8 = open_reverified good_checks db7"
definition db9 :: active where "db9 = open_announced 0 None db8"
definition db10 :: active where "db10 = open_active db9"
definition db11 :: active where "db11 = finish ''completed'' False db10"
definition db12 :: active where "db12 = finish_marked ''completed'' False 0 db11"
definition db13 :: active where "db13 = fst (finish_closed (Some 5) None ''completed'' db12)"
definition db14 :: active where "db14 = finish_recorded ''completed'' 0 None db13"

lemmas db_defs = db0_def db1_def db2_def db3_def db4_def db5_def db6_def db7_def db8_def db9_def db10_def db11_def db12_def
  db13_def db14_def

definition relay_with :: "active \<Rightarrow> nat \<Rightarrow> conn list \<Rightarrow> relay" where
  "relay_with a n closed = \<lparr>rl_heap = [a], rl_sessions = fmupd (EncodeToString token1) 0 fmempty, rl_now = 0, rl_conns = n,
     rl_closed = closed\<rparr>"

text \<open>A writer that takes one byte at a time.\<close>

definition byte_writer :: "string writer" where
  "byte_writer p w = (w @ take 1 p, min 1 (length p), None)"

lemma byte_writer_law: "writer_law byte_writer (\<lambda>w. w)"
  by (auto simp: writer_law_def byte_writer_def min_def)

lemma byte_writer_sends: "\<exists>w. writeDatagrams byte_writer [''ab'', [], ''c''] [] = (w, None)"
  by (simp add: writeDatagram_def frame_of_def PutUint16_def MaxDatagram_def write_frame.simps byte_writer_def)

lemma session_keys_all: "all_keys session_keys"
proof -
  have "map fst (sorted_list_of_fmap m) = sorted_list_of_fset (fmdom m)" for m :: "nat gomap"
    by (simp add: sorted_list_of_fmap_def comp_def)
  then show ?thesis by (auto simp: all_keys_def session_keys_def fmlookup_of_list sorted_list_of_fset.rep_eq intro: fmap_ext)
qed

lemma web_ok: "validName (so_Environment web_source)" "ValidEnvironmentInstanceID (so_Instance web_source)"
  "ValidEnvironmentInstanceID (tg_Owner db_target)" "validName ''db''"
  by code_simp+

lemma db_target_ok: "target_ok web_source db_target 60"
proof -
  have "admissible ''environment'' (IPv4 [127, 0, 0, 1])" by code_simp
  moreover have "target_check db_target 60 = None" using web_ok(3,4) by (simp add: target_check_def db_target_def)
  ultimately show ?thesis
    using web_ok(1,2) by (simp add: target_ok_def db_target_def MaxDuration_def)
qed

lemma db_requestFor: "requestFor web_source db_target 60 = Inr db_request"
  unfolding requestFor_iff using db_target_ok by (simp add: db_request_def db_target_def web_source_def)

lemma db_fields: "tg_Kind db_target = ''environment''" "tg_Name db_target = ''db''" "tg_Protocol db_target = ''tcp''"
  "tg_Port db_target = 5432" "tg_Addresses db_target = [IPv4 [127, 0, 0, 1]]"
  by (simp_all add: db_target_def)

lemmas db_run = open_resolved_def open_revised_def open_requested_def open_verified_def open_connecting_def open_dialled_def
  open_connected_def open_reverified_def open_announced_def open_active_def Let_def db_requestFor db_fields
  db_spec_def approved_result_def no_result_def

lemma db1_eq: "db1 = (told (Resolved db_target) db0)\<lparr>ac_open := Revising db_target db_request\<rparr>"
  by (simp add: db1_def db0_def new_active_def db_run told_def)

lemma db3_eq: "db3 = (told (Requested db_request approved_result None) (db2\<lparr>ac_view := ac_view db2\<lparr>se_RequestID := ''r1''\<rparr>\<rparr>))
    \<lparr>ac_open := Verifying db_target\<rparr>"
  by (simp add: db3_def db2_def db_run told_def)

lemma db_view: "ac_request db3 = db_request" "ac_view db3 = ac_view db0\<lparr>se_Target := db_target, se_PolicyRevision := ''v1'',
    se_Phase := ''authorize'', se_RequestID := ''r1''\<rparr>"
  by (simp_all add: db3_eq db2_def db1_eq open_revised_def)

lemma db_points:
  "ac_open db0 = Resolving" "ac_open db1 = Revising db_target db_request" "ac_open db2 = Requesting db_target"
  "ac_open db3 = Verifying db_target"
  by (simp_all add: db3_eq db1_eq db2_def open_revised_def) (simp add: db0_def new_active_def)

lemma db_ctx: "ac_ctx db0 = None" "ac_ctx db3 = None" "ac_finish db3 = Unfinished" "ac_upstream db3 = None" "ac_client db3 = None"
  "ac_monitor db3 = Unwatched" "ac_trace db3 = [Resolved db_target, Revised ''v1'', Requested db_request approved_result None]"
  by (simp_all add: db3_eq db1_eq db2_def open_revised_def db0_def new_active_def told_def)

lemma db_checks: "verifyContext db3 good_checks = None"
  by (simp add: verifyContext_def good_checks_def db_view db0_def new_active_def)

lemma db4_eq: "db4 = (told (Verified good_checks) db3)\<lparr>ac_open := Admitted db_target\<rparr>"
  by (simp add: db4_def open_verified_def db_checks)

lemma db7_eq: "db7 = (told (Dialled (IPv4 [127, 0, 0, 1]) 5) db4)\<lparr>ac_upstream := Some 5,
    ac_view := ac_view db3\<lparr>se_State := ''connecting'', se_Phase := ''connect'', se_Peer := ''peer''\<rparr>, ac_open := Reverifying\<rparr>"
  by (simp add: db7_def db6_def db5_def db4_eq open_connecting_def open_dialled_def open_connected_def db_ctx told_def)

lemma db_rechecks: "verifyContext db7 good_checks = None"
  by (simp add: verifyContext_def good_checks_def db7_eq db_view db0_def new_active_def)

lemma db8_eq: "db8 = (told (Verified good_checks) db7)\<lparr>ac_open := Announcing\<rparr>"
  by (simp add: db8_def open_reverified_def db_rechecks)

lemma db9_eq: "db9 = (told (Recorded (connection_event 0 ''connection-opened'' [] db8) None) db8)\<lparr>ac_open := Announced\<rparr>"
  by (simp add: db9_def open_announced_def)

lemma db9_ctx: "ac_ctx db9 = None"
  by (simp add: db9_eq db8_eq db7_eq db4_eq db_ctx)

lemma db10_eq: "db10 = db9\<lparr>ac_view := ac_view db9\<lparr>se_State := ''active'', se_Phase := ''active''\<rparr>,
    ac_open := Returned None, ac_monitor := Watching\<rparr>"
  by (simp add: db10_def open_active_def db9_ctx)

lemma db_later_points:
  "ac_open db4 = Admitted db_target" "ac_open db5 = Dialling db_target [IPv4 [127, 0, 0, 1]] []" "ac_open db6 = Connected 5"
  "ac_open db7 = Reverifying" "ac_open db8 = Announcing" "ac_open db9 = Announced" "ac_open db10 = Returned None"
  by (simp_all add: db10_eq db9_eq db8_eq db7_eq db6_def db5_def db4_eq open_connecting_def open_dialled_def db_ctx db_fields)

lemma TrimSpace_plain:
  assumes "list_all (\<lambda>c. ascii_char c \<and> \<not> IsSpace (of_char c)) s"
  shows "TrimSpace s = s"
proof -
  have "list_all ascii_char s" using assms by (auto simp: list_all_iff)
  then have seg: "utf8_segments s = map (\<lambda>c. (Some (of_char c), [c])) s" by (rule utf8_segments_ascii)
  have "\<not> space_segment x" if "x \<in> set (utf8_segments s)" for x
    using that assms by (auto simp: seg space_segment_def list_all_iff)
  then show ?thesis by (intro TrimSpace_id) auto
qed

lemma connection_words_trimmed:
  "TrimSpace ''network.connect'' = ''network.connect''" "TrimSpace ''connect'' = ''connect''" "TrimSpace ''db'' = ''db''"
  "TrimSpace ''destination_kind'' = ''destination_kind''" "TrimSpace ''destination_instance'' = ''destination_instance''"
  "TrimSpace ''protocol'' = ''protocol''" "TrimSpace ''port'' = ''port''" "TrimSpace ''addresses'' = ''addresses''"
  "TrimSpace ''duration_seconds'' = ''duration_seconds''"
  by (rule TrimSpace_plain, simp add: ascii_char_def IsSpace_def)+

lemma db_spec_valid: "validateSpec db_spec = None"
  using web_ok(4) connection_words_trimmed(3)
  by (simp add: validateSpec_def db_spec_def MaxDuration_def ContainsAny_def crlf0_def)

lemma relay_opens: "relay_reachable session_keys why (relay_with db0 0 [])"
proof -
  have "open_reserved session_keys True (Inr (so_Instance web_source)) None token1 web_source db_spec (relay0 0) = Inr (relay_with db0 0 [])"
    using web_ok db_spec_valid by (simp add: open_reserved_def reserve_def live_sessions_def own_sessions_def evict_def relay0_def relay_with_def
        db0_def session_keys_def fcard.rep_eq)
  then have "relay_step session_keys why (relay0 0) (relay_with db0 0 [])" by (rule relay_step.opens) (simp add: relay0_def)
  then show ?thesis by (auto simp: relay_reachable_def)
qed

lemma relay_moves:
  assumes "relay_reachable session_keys why (relay_with a n closed)" "session_step why 0 n a a' cs"
  shows "relay_reachable session_keys why (relay_with a' (Suc n) (cs @ closed))"
proof -
  have "relay_step session_keys why (relay_with a n closed) (relay_with a' (Suc n) (cs @ closed))"
    using relay_step.session [of 0 "relay_with a n closed" why a' cs session_keys] assms(2)
    by (simp add: relay_with_def set_session_def)
  with assms(1) show ?thesis by (auto simp: relay_reachable_def intro: rtranclp.rtrancl_into_rtrancl)
qed

lemma relay_db10: "relay_reachable session_keys why (relay_with db10 10 [])"
proof -
  have free: "ck_ctx good_checks \<in> {None, x}" for x by (simp add: good_checks_def)
  note move = relay_moves [where cs = "[]", simplified]
  have "relay_reachable session_keys why (relay_with db1 1 [])"
    using move [OF relay_opens session_step.resolved [OF db_points(1), where target = "Inr db_target"]] by (simp add: db1_def)
  from move [OF this session_step.revised [OF db_points(2), where revision = "Inr ''v1''"]]
  have "relay_reachable session_keys why (relay_with db2 2 [])" by (simp add: db2_def numeral_2_eq_2)
  from move [OF this session_step.requested [OF db_points(3), where reply = "(approved_result, None)"]]
  have "relay_reachable session_keys why (relay_with db3 3 [])" by (simp add: db3_def)
  from move [OF this session_step.verified [OF db_points(4) free]]
  have "relay_reachable session_keys why (relay_with db4 4 [])" by (simp add: db4_def)
  from move [OF this session_step.connecting [OF db_later_points(1)]]
  have "relay_reachable session_keys why (relay_with db5 5 [])" by (simp add: db5_def)
  from move [OF this session_step.dialled [OF db_later_points(2), where reply = "Inr (Some 5)"]]
  have "relay_reachable session_keys why (relay_with db6 6 [])" by (simp add: db6_def)
  moreover have "open_connected 5 ''peer'' db6 = (db7, [])"
    by (simp add: db7_def open_connected_def db6_def db5_def db4_eq open_connecting_def open_dialled_def db_ctx)
  ultimately have "relay_reachable session_keys why (relay_with db7 7 [])"
    using move [OF _ session_step.connected [OF db_later_points(3)]] by fastforce
  from move [OF this session_step.reverified [OF db_later_points(4) free]]
  have "relay_reachable session_keys why (relay_with db8 8 [])" by (simp add: db8_def)
  from move [OF this session_step.announced [OF db_later_points(5), where err = None]]
  have "relay_reachable session_keys why (relay_with db9 9 [])" by (simp add: db9_def)
  from move [OF this session_step.activated [OF db_later_points(6)]] show ?thesis by (simp add: db10_def)
qed

lemma db_ends: "ac_finish db11 = Cancelled ''completed'' False" "ac_finish db12 = Closing (Some 5) None ''completed''"
  "ac_finish db13 = Reporting ''completed''" "finish_closed (Some 5) None ''completed'' db12 = (db13, [5])"
  by (simp_all add: db13_def db12_def db11_def finish_def cancel_ctx_def finish_marked_def finish_closed_def second_def
      db10_eq db9_eq db8_eq db7_eq db4_eq db_ctx db_view db0_def new_active_def db_spec_def)

lemma relay_db14: "(relay_step session_keys why)\<^sup>*\<^sup>* (relay_with db10 10 []) (relay_with db14 14 [5])"
proof -
  have step: "relay_step session_keys why (relay_with a n closed) (relay_with a' (Suc n) (cs @ closed))"
    if "session_step why 0 n a a' cs" for a a' n cs closed
    using relay_step.session [of 0 "relay_with a n closed" why a' cs session_keys] that by (simp add: relay_with_def set_session_def)
  have "relay_step session_keys why (relay_with db10 10 []) (relay_with db11 11 [])"
    using step [where closed = "[]" and n = 10, OF session_step.user [OF db_later_points(7), where reason = "''completed''" and failed = False]] by (simp add: db11_def)
  moreover have "relay_step session_keys why (relay_with db11 11 []) (relay_with db12 12 [])"
    using step [where closed = "[]" and n = 11, OF session_step.marked [OF db_ends(1)]] by (simp add: db12_def)
  moreover have "relay_step session_keys why (relay_with db12 12 []) (relay_with db13 13 [5])"
    using step [where closed = "[]" and n = 12, OF session_step.closes [OF db_ends(2,4)]] by simp
  moreover have "relay_step session_keys why (relay_with db13 13 [5]) (relay_with db14 14 [5])"
    using step [where closed = "[5]" and n = 13, OF session_step.reported [OF db_ends(3), where err = None]] by (simp add: db14_def)
  ultimately show ?thesis by (meson converse_rtranclp_into_rtranclp rtranclp.rtrancl_refl)
qed

section \<open>A rule for that connection\<close>

definition db_rule_spec :: RuleSpec where
  "db_rule_spec = \<lparr>rs_Environment = ''web'', rs_Connection = db_spec, rs_Decision = ''allow'', rs_Scope = ''instance'',
     rs_ExpiresAt = \<lparr>instant = 3600 * second, location = 0\<rparr>\<rparr>"

definition db_rule :: PolicyRule where "db_rule = connection_rule db_rule_spec web_source db_target db_request"

definition no_faults :: update_faults where
  "no_faults = \<lparr>u_absolute = True, u_setup = None, u_ctx = None, u_oversize = (\<lambda>_. False), u_temporary = None, u_edit = None,
     u_ctx_rename = None, u_rename = None, u_sync = None\<rparr>"

definition no_reports :: replace_reports where
  "no_reports = \<lparr>rr_oversize = False, rr_requested = None, rr_changed = None\<rparr>"

lemma db_values: "Itoa 5432 = ''5432''" "Itoa 60 = ''60''" "Join '','' (sort (map Addr_String [IPv4 [127, 0, 0, 1]])) = ''127.0.0.1''"
  by (simp_all add: Itoa_def Addr_String_def digits.simps hex_digit_def)

lemma db_attributes_plain:
  assumes "fmlookup (q_Attributes db_request) k = Some v"
  shows "TrimSpace k \<noteq> []" "\<not> ContainsAny (k @ v) crlf0"
proof -
  have "k |\<in>| connection_keys"
    using fmdomI [OF assms] by (simp add: db_request_def)
  then show "TrimSpace k \<noteq> []" "\<not> ContainsAny (k @ v) crlf0"
    using assms connection_words_trimmed db_values by (auto simp: db_request_def db_target_def ContainsAny_def crlf0_def)
qed

lemma db_rule_valid: "rule_check db_rule = None"
  using web_ok(2) db_attributes_plain connection_words_trimmed
  by (auto simp: rule_check_def db_rule_def connection_rule_def db_rule_spec_def validDecision_def db_fields
      fmex_iff web_source_def ContainsAny_def crlf0_def)

lemma db_policy_valid: "validatePolicy (deny_all\<lparr>Rules := [db_rule]\<rparr>) = None"
  using db_rule_valid by (simp add: validatePolicy_def deny_all_def validDecision_def)

lemma db_rule_added:
  "AddRule 0 0 no_faults no_faults (\<lambda>_. replicate 71 CHR ''a'') no_reports (Inr (so_Instance web_source)) (Inr db_target)
     db_rule_spec NoPolicy NoPolicy = (Policy (deny_all\<lparr>Rules := [db_rule]\<rparr>), Some db_rule, None)"
proof -
  have s: "\<lparr>so_Environment = rs_Environment db_rule_spec, so_Instance = so_Instance web_source\<rparr> = web_source"
    "sp_DurationSeconds (rs_Connection db_rule_spec) = 60" by (simp_all add: db_rule_spec_def web_source_def db_spec_def)
  have ok: "rule_spec_ok 0 0 db_rule_spec"
    using db_spec_valid web_ok(1) by (simp add: rule_spec_ok_def db_rule_spec_def second_def web_source_def)
  have snap: "Configuration_Snapshot no_faults (\<lambda>_. replicate 71 CHR ''a'') NoPolicy
      = Inr \<lparr>ps_Revision = replicate 71 CHR ''a'', ps_Policy = Some deny_all\<rparr>"
    by (simp add: Configuration_Snapshot_def no_faults_def load_def)
  have rep: "Configuration_Replace no_faults (\<lambda>_. replicate 71 CHR ''a'') no_reports \<lparr>ps_Revision = replicate 71 CHR ''a'',
        ps_Policy = Some (deny_all\<lparr>Rules := [db_rule]\<rparr>)\<rparr> NoPolicy
      = (Policy (deny_all\<lparr>Rules := [db_rule]\<rparr>), Inr \<lparr>ps_Revision = replicate 71 CHR ''a'', ps_Policy = Some (deny_all\<lparr>Rules := [db_rule]\<rparr>)\<rparr>)"
    by (simp add: Configuration_Replace_def updatePolicy_def replace_change_def no_faults_def no_reports_def db_policy_valid)
  have empty: "Rules deny_all = []" by (simp add: deny_all_def)
  show ?thesis
    unfolding AddRule_def by (simp add: ok snap s db_requestFor rep empty flip: db_rule_def)
qed

end
