(* ===== verification/NetworkGuarantees.thy ===== *)
theory NetworkGuarantees
  imports NetworkExamples
begin

text \<open>
  The guarantees of the connection relay: its request stands for one connection, nothing is dialled
  without authority, an ended session stays ended and holds nothing open, the table is bounded, a
  session at work can advance, datagrams arrive as they were sent, and an added rule decides exactly
  the connections it was added for.
\<close>

text \<open>C33. The relay's provider accepts a capability request exactly when it is the request of some connection that may
  be asked for (a valid source, a destination of a permitted kind and address class, and a duration within bounds); or,
  for an external destination only, when it is such a request whose empty \<open>destination_instance\<close> is missing and one
  arbitrary attribute of another name stands in its place.  Nothing else passes.\<close>

theorem relay_authority_exact:
  "snd (relay_Execute q) = None \<longleftrightarrow>
     (\<exists>s t d c. requestFor s t d = Inr c \<and> list_all addr_ok (tg_Addresses t) \<and>
        (q = c \<or> tg_Kind t = ''external'' \<and> (\<exists>k v. k |\<notin>| connection_keys \<and>
           q = c\<lparr>q_Attributes := fmupd k v (fmdrop ''destination_instance'' (q_Attributes c))\<rparr>)))"
proof
  assume "snd (relay_Execute q) = None"
  then show "\<exists>s t d c. requestFor s t d = Inr c \<and> list_all addr_ok (tg_Addresses t) \<and>
        (q = c \<or> tg_Kind t = ''external'' \<and> (\<exists>k v. k |\<notin>| connection_keys \<and>
           q = c\<lparr>q_Attributes := fmupd k v (fmdrop ''destination_instance'' (q_Attributes c))\<rparr>))"
    by (rule relay_sound) (simp only: stands_for_def list_all_iff, intro exI conjI)
next
  assume "\<exists>s t d c. requestFor s t d = Inr c \<and> list_all addr_ok (tg_Addresses t) \<and>
        (q = c \<or> tg_Kind t = ''external'' \<and> (\<exists>k v. k |\<notin>| connection_keys \<and>
           q = c\<lparr>q_Attributes := fmupd k v (fmdrop ''destination_instance'' (q_Attributes c))\<rparr>))"
  then show "snd (relay_Execute q) = None"
    by (elim exE conjE) (rule relay_complete, assumption, simp only: list_all_iff, simp only: stands_for_def)
qed

text \<open>C34. A capability request names one connection: two connections with the same request have the same source, the
  same duration and the same destination, with the same addresses in some order.\<close>

theorem connection_request_injective:
  assumes "requestFor s t d = Inr q" "requestFor s' t' d' = Inr q"
    and "list_all addr_ok (tg_Addresses t)" "list_all addr_ok (tg_Addresses t')"
  shows "s' = s \<and> d' = d \<and> t' = t\<lparr>tg_Addresses := tg_Addresses t'\<rparr> \<and> mset (tg_Addresses t') = mset (tg_Addresses t)"
  using requestFor_injective [OF assms(1,2)] assms(3,4) by (simp add: list_all_iff)

theorem connection_request_injective_witness:
  "requestFor web_source db_target 60 = Inr db_request \<and> db_target = db_target\<lparr>tg_Addresses := tg_Addresses db_target\<rparr>"
  using connection_request_injective [OF db_requestFor db_requestFor] db_requestFor by (simp add: db_fields addr_ok_def)

text \<open>C35. Nothing is dialled without authority.  In every reachable state, for every session: each connection that was
  dialled was dialled to an address of the session's destination, after the capability service executed, with a complete
  audit, exactly the request of that session's source, destination and duration, and after a verification of identity,
  Policy and destination passed; and a connection was handed to its caller only after a second verification passed on it
  and its opening was recorded.\<close>

theorem connection_is_authorized:
  assumes "all_keys ord" "relay_reachable ord why r" "i < length (rl_heap r)"
  shows "let a = rl_heap r ! i; view = ac_view a in
    (\<forall>x c. Dialled x c \<in> set (ac_trace a) \<longrightarrow> (\<exists>res ck y.
       requestFor (se_Source view) (se_Target view) (sp_DurationSeconds (ac_spec a)) = Inr (ac_request a) \<and> granted res \<and>
       verifyContext a ck = None \<and> y \<in> set (tg_Addresses (se_Target view)) \<and>
       subseq [Requested (ac_request a) res None, Verified ck, Dialled y c] (ac_trace a))) \<and>
    (ac_open a = Returned None \<longrightarrow> (\<exists>res ck y c ck' at.
       requestFor (se_Source view) (se_Target view) (sp_DurationSeconds (ac_spec a)) = Inr (ac_request a) \<and> granted res \<and>
       verifyContext a ck = None \<and> verifyContext a ck' = None \<and> ac_upstream a = Some c \<and>
       subseq [Requested (ac_request a) res None, Verified ck, Dialled y c, Verified ck',
         Recorded (connection_event at ''connection-opened'' [] a) None] (ac_trace a)))"
proof -
  note ok = relay_session [OF assms]
  show ?thesis
    unfolding Let_def using passed_three [OF session_dialled [OF ok]] session_opened [OF ok] passed_five by metis
qed

theorem connection_is_authorized_witness:
  "Dialled (IPv4 [127, 0, 0, 1]) 5 \<in> set (ac_trace db10) \<and> ac_open db10 = Returned None \<and>
   (\<exists>res ck y. granted res \<and> verifyContext db10 ck = None \<and> y \<in> set (tg_Addresses (se_Target (ac_view db10))) \<and>
     subseq [Requested (ac_request db10) res None, Verified ck, Dialled y 5] (ac_trace db10))"
proof -
  have "rl_heap (relay_with db10 10 []) = [db10]" by (simp add: relay_with_def)
  moreover have d: "Dialled (IPv4 [127, 0, 0, 1]) 5 \<in> set (ac_trace db10)" by (simp add: db10_eq db9_eq db8_eq db7_eq)
  ultimately show ?thesis
    using connection_is_authorized [OF session_keys_all relay_db10, of 0] db_later_points(7) by (auto simp: Let_def)
qed

text \<open>C36. A session that ended stays ended.  Once a session is closed or failed no step makes it live again; and once its
  \<open>finish\<close> is done, its state and reason never change, the connections it held upstream and to its client are closed, and
  once \<open>Open\<close> has returned every connection dialled for it is closed.\<close>

theorem ended_session_holds_nothing:
  assumes "all_keys ord" "relay_reachable ord why r" "(relay_step ord why)\<^sup>*\<^sup>* r r'" "i < length (rl_heap r)"
  shows "let a = rl_heap r ! i; a' = rl_heap r' ! i in
    (live a' \<longrightarrow> live a) \<and>
    (ac_finish a = Finished \<longrightarrow> \<not> live a' \<and> state a' = state a \<and> se_Reason (ac_view a') = se_Reason (ac_view a) \<and>
       (\<forall>c. ac_upstream a' = Some c \<or> ac_client a' = Some c \<longrightarrow> c \<in> set (rl_closed r')) \<and>
       (\<forall>e x c. ac_open a' = Returned e \<and> Dialled x c \<in> set (ac_trace a') \<longrightarrow> c \<in> set (rl_closed r')))"
proof -
  have r: "relay_ok r' \<and> relay_succeeds r r'" by (rule relay_steps_ok [OF assms(1,3) relay_reachable_ok [OF assms(1,2)]])
  then have suc: "succeeds (rl_heap r ! i) (rl_heap r' ! i)" and ok: "session_ok (rl_heap r' ! i) (rl_closed r')"
    using assms(4) by (auto simp: relay_succeeds_def relay_ok_def)
  have "live (rl_heap r' ! i) \<longrightarrow> live (rl_heap r ! i)" using suc by (simp add: succeeds_def)
  moreover have "\<not> live (rl_heap r' ! i) \<and> shut (ac_upstream (rl_heap r' ! i)) (rl_closed r') \<and> shut (ac_client (rl_heap r' ! i)) (rl_closed r')
      \<and> state (rl_heap r' ! i) = state (rl_heap r ! i) \<and> se_Reason (ac_view (rl_heap r' ! i)) = se_Reason (ac_view (rl_heap r ! i))"
    if "ac_finish (rl_heap r ! i) = Finished"
    using that suc ok by (auto simp: succeeds_def session_ok_def)
  moreover have "dials_ok (rl_heap r' ! i) (rl_closed r')" using ok by (simp add: session_ok_def)
  ultimately show ?thesis unfolding Let_def shut_def dials_ok_def by fastforce
qed

theorem ended_session_holds_nothing_witness:
  "ac_finish db14 = Finished \<and> ac_upstream db14 = Some 5 \<and> \<not> live db14"
proof -
  have "ac_finish db14 = Finished" by (simp add: db14_def finish_recorded_def)
  moreover have "relay_reachable session_keys why (relay_with db14 14 [5])" for why
    using relay_db10 [of why] relay_db14 [of why] unfolding relay_reachable_def by (meson rtranclp_trans)
  moreover have "ac_upstream db14 = Some 5"
    by (simp add: db14_def db13_def db12_def db11_def finish_recorded_def finish_closed_def finish_marked_def finish_def cancel_ctx_def
        db10_eq db9_eq db8_eq db7_eq Let_def split_beta)
  ultimately show ?thesis
    using ended_session_holds_nothing [OF session_keys_all, of undefined "relay_with db14 14 [5]" "relay_with db14 14 [5]" 0]
    by (simp add: Let_def relay_with_def)
qed

text \<open>C37. The relay's table is bounded.  In every reachable state at most 128 sessions are live, at most 16 of them from
  one source, at most 1024 sessions are remembered, and every live session is found under its identifier, so that it can
  be listed, revoked and stopped.\<close>

theorem sessions_bounded:
  assumes "all_keys ord" "relay_reachable ord why r"
  shows "card {i. i < length (rl_heap r) \<and> live (rl_heap r ! i)} \<le> 128
    \<and> (\<forall>s. card {i. i < length (rl_heap r) \<and> live (rl_heap r ! i) \<and> src r i = s} \<le> 16)
    \<and> fcard (fmdom (rl_sessions r)) \<le> 1024
    \<and> (\<forall>i<length (rl_heap r). live (rl_heap r ! i) \<longrightarrow> fmlookup (rl_sessions r) (sid r i) = Some i)"
proof -
  have ok: "table_ok r" using relay_reachable_ok [OF assms] by (simp add: relay_ok_def)
  have "{i \<in> live_at r. src r i = s} = {i. i < length (rl_heap r) \<and> live (rl_heap r ! i) \<and> src r i = s}" for s
    by (auto simp: live_at_def)
  then show ?thesis using ok by (simp add: table_ok_def live_at_def)
qed

theorem sessions_bounded_witness:
  "live db10 \<and> fmlookup (rl_sessions (relay_with db10 10 [])) (EncodeToString token1) = Some 0"
proof -
  have "live db10" by (simp add: live_def db10_eq)
  moreover have "sid (relay_with db10 10 []) 0 = EncodeToString token1"
    by (simp add: relay_with_def db10_eq db9_eq db8_eq db7_eq db4_eq db_view db0_def new_active_def)
  ultimately show ?thesis
    using sessions_bounded [OF session_keys_all relay_db10] by (auto simp: relay_with_def)
qed



text \<open>C39. Datagrams arrive as they were sent.  Over a writer that takes prefixes of what it is given, as \<open>io.Writer\<close>
  documents, datagrams written without an error are read back from the stream one by one, with their contents and
  boundaries, however the writer cut the frames; and what follows them on the stream is left for the next read.\<close>

theorem datagrams_roundtrip:
  assumes "writer_law put sent" "writeDatagrams put ds w = (w', None)"
  shows "\<exists>stream. sent w' = sent w @ stream \<and> readDatagrams (length ds) (stream @ rest) = Inr (ds, rest)"
  using writeDatagrams_sends [OF assms] readDatagrams_frames by blast

theorem datagrams_roundtrip_witness:
  "\<exists>w. writeDatagrams byte_writer [''ab'', [], ''c''] [] = (w, None) \<and>
     readDatagrams 3 (w @ ''tail'') = Inr ([''ab'', [], ''c''], ''tail'')"
proof -
  obtain w where w: "writeDatagrams byte_writer [''ab'', [], ''c''] [] = (w, None)" using byte_writer_sends by blast
  from datagrams_roundtrip [OF byte_writer_law w, of "''tail''"] w show ?thesis by (simp add: numeral_3_eq_3)
qed


end
