(* ===== verification/ServicePrograms.thy ===== *)
theory ServicePrograms
  imports Snapshots
begin

text \<open>
  Programs of the Environment service (\<^verbatim>\<open>src/internal/workspace\<close>).  The service works on the
  durable store and on components it knows only as interfaces: the runtime that owns the
  Environments, the provider of Workspaces, the manager of attached data.  A method is a
  program: a tree whose inner nodes are the calls it makes, one after the other, and whose
  leaves are its results.  A call of the store carries the store's own \<open>call\<close>; a call of an
  interface is a \<open>question\<close> with its answer open.  Between two nodes other processes may act,
  and the process may stop.

  A Go function that returns an \<^verbatim>\<open>error\<close> is a program with result \<open>goerr + unit\<close>, one that
  returns a value and an error a program with result \<open>goerr + 'a\<close>.
\<close>

section \<open>Data passed to the interfaces (\<^verbatim>\<open>core/workspace.go\<close>, \<^verbatim>\<open>environment_resource.go\<close>, \<^verbatim>\<open>client.go\<close>)\<close>

record EnvironmentSpec =
  es_DeferStart :: bool
  es_OwnedWorkspace :: bool
  es_Volume :: string
  es_DNSMode :: string
  es_EphemeralInstance :: string
  es_ExpectedWorkspace :: string
  es_TemporaryWorkspace :: "Workspace option"
  es_SkipDefaultResource :: bool
  es_PersistentResource :: string
  es_ExpectedResource :: PersistentResourceRef
  es_Name :: string
  es_WorkspacePath :: string
  es_AccessMode :: string
  es_Base :: string
  es_Resources :: ResourceBudget

record EnvironmentRuntimeAttachment =
  ra_Attachment :: EnvironmentAttachment
  ra_Resource :: PersistentResource

record EnvironmentRuntimeSpec =
  rs_DeferStart :: bool
  rs_DNSMode :: string
  rs_Attachments :: "EnvironmentRuntimeAttachment list"
  rs_InstanceID :: string
  rs_TemporaryWorkspace :: bool
  rs_ResourceMaintenance :: bool
  rs_PersistentResource :: PersistentResource
  rs_Name :: string
  rs_WorkspacePath :: string
  rs_ReadOnly :: bool
  rs_Base :: string
  rs_Resources :: ResourceBudget

record EnvironmentRuntime =
  er_Ref :: string
  er_Base :: "BaseRef option"
  er_Resources :: ResourceBudget

record EnvironmentRuntimeStatus =
  st_Absent :: bool
  st_State :: string

record ExecutionRequest =
  x_Stdin :: "string option" \<comment> \<open>\<^verbatim>\<open>nil\<close> is \<open>None\<close>\<close>
  x_WorkingDirectory :: string
  x_Argv :: "string list"

record ExecutionResult =
  xr_ExitCode :: int
  xr_Stdout :: string
  xr_Stderr :: string
  xr_StdoutTruncated :: bool
  xr_StderrTruncated :: bool
  xr_StdoutBytes :: int
  xr_StderrBytes :: int

definition MaxExecutionInputBytes :: nat where
  "MaxExecutionInputBytes = 2 ^ 20"

record EnvironmentResourceRequest =
  rq_EnvironmentID :: string
  rq_InstanceID :: string
  rq_Workspace :: Workspace
  rq_Base :: string
  rq_ReadOnly :: bool

record EnvironmentResourceSelection =
  sel_Key :: string
  sel_Target :: string
  sel_Origin :: ResourceGeneration

text \<open>The archive reader of an import is not part of what the service reads.\<close>

record EnvironmentResourceImport =
  imp_Key :: string
  imp_Target :: string
  imp_Kind :: string
  imp_Digest :: string

record EnvironmentResourceBinding =
  bd_InstanceID :: string
  bd_WorkspacePath :: string
  bd_ReadOnly :: bool
  bd_Attachments :: "EnvironmentRuntimeAttachment list"

record StreamTarget =
  stream_Environment :: string
  stream_Instance :: string
  stream_Workspace :: string
  stream_AccessMode :: string
  stream_Service :: string
  stream_Grant :: string

definition StreamTarget_Valid :: "StreamTarget \<Rightarrow> bool" where
  "StreamTarget_Valid t \<longleftrightarrow> stream_Environment t \<noteq> [] \<and> ValidEnvironmentInstanceID (stream_Instance t)
     \<and> stream_Workspace t \<noteq> [] \<and> (stream_AccessMode t = ''ro'' \<or> stream_AccessMode t = ''rw'')
     \<and> stream_Service t = ''ssh'' \<and> stream_Grant t \<noteq> []"

section \<open>Questions\<close>

text \<open>What a runtime is made from, and what it reports while it makes one: a receipt (its call
  of the service's \<^verbatim>\<open>record\<close>) or its return.\<close>

datatype creation_source = FromBase | FromSnapshot Snapshot | FromArchive string int

datatype creation_event = Receipt EnvironmentRuntime | Returned "goerr + EnvironmentRuntime"

text \<open>The receipts of a creation so far, each with the service's answer.\<close>

type_synonym receipts = "(EnvironmentRuntime \<times> (goerr + unit)) list"

datatype interface_call =
    DeleteEnvironment string
  | StopEnvironment string
  | StartEnvironment string
  | StartEnvironmentWithResources string EnvironmentResourceBinding
  | VerifyEnvironmentIdentity string string
  | DeleteEnvironmentResources WorkspaceLease
  | EmptyResource WorkspaceLease EnvironmentAttachment
  | DeleteWorkspace Workspace
  | DeleteWorkspaceResource string string
  | CheckSnapshotName string
  | CreateSnapshotComponent SnapshotSource SnapshotComponent
  | VerifySnapshotComponent SnapshotComponent
  | DeleteSnapshotComponent SnapshotComponent
  | DeleteRestoreComponent SnapshotComponent
  | AuthorizeAccess Environment string
  | UseAccess Environment string
  | RemoveRestored Workspace
  | ContextError \<comment> \<open>\<^verbatim>\<open>ctx.Err()\<close>\<close>

datatype 'k question =
    Call interface_call "goerr + unit \<Rightarrow> 'k"
  | CreateRuntime creation_source EnvironmentRuntimeSpec receipts "creation_event \<Rightarrow> 'k"
  | ConcludeRuntime creation_source EnvironmentRuntimeSpec receipts "goerr + EnvironmentRuntime \<Rightarrow> 'k"
  | InspectEnvironment string "goerr + EnvironmentRuntimeStatus \<Rightarrow> 'k"
  | ExecEnvironment string ExecutionRequest "goerr + ExecutionResult \<Rightarrow> 'k"
  | ExecEnvironmentStream string ProcessRequest "goerr + ExecutionResult \<Rightarrow> 'k"
  | ResolveWorkspace string "goerr + Workspace \<Rightarrow> 'k"
  | DefaultResource Workspace "goerr + PersistentResource \<Rightarrow> 'k"
  | SelectResources EnvironmentResourceRequest "goerr + EnvironmentResourceSelection list \<Rightarrow> 'k"
  | PlanEnvironmentResources EnvironmentResourceRequest "EnvironmentResourceSelection list"
      "goerr + EnvironmentResourcePlan list \<Rightarrow> 'k"
  | PlanImportedEnvironmentResources EnvironmentResourceRequest "EnvironmentResourceImport list"
      "goerr + EnvironmentResourcePlan list \<Rightarrow> 'k"
  | PlanSavedEnvironmentResources EnvironmentResourceRequest Snapshot "goerr + EnvironmentResourcePlan list \<Rightarrow> 'k"
  | MaterializeEnvironmentResources WorkspaceLease "goerr + EnvironmentRuntimeAttachment list \<Rightarrow> 'k"
  | ImportEnvironmentResources WorkspaceLease "EnvironmentResourceImport list"
      "goerr + EnvironmentRuntimeAttachment list \<Rightarrow> 'k"
  | PublishEnvironmentGeneration WorkspaceLease EnvironmentAttachment "goerr + ResourceGeneration \<Rightarrow> 'k"
  | PlanSnapshot SnapshotSource string "goerr + SnapshotComponent list \<Rightarrow> 'k"
  | SnapshotImage SnapshotComponent "goerr + BaseRef \<Rightarrow> 'k"
  | PublishImage Environment WorkspaceLease string "goerr + BaseRef \<Rightarrow> 'k"

section \<open>Programs\<close>

type_synonym lock_key = "string \<times> string"

datatype 'a prog =
    Done 'a
  | Lock lock_key "goerr + unit \<Rightarrow> 'a prog"
  | Unlock lock_key "'a prog"
  | Stored "error \<Rightarrow> 'a prog" "'a prog call"
  | Identity Environment "error + string \<Rightarrow> 'a prog"
  | Ask "'a prog question"

primrec bind :: "'a prog \<Rightarrow> ('a \<Rightarrow> 'b prog) \<Rightarrow> 'b prog" where
  "bind (Done x) f = f x"
| "bind (Lock x k) f = Lock x (\<lambda>r. bind (k r) f)"
| "bind (Unlock x p) f = Unlock x (bind p f)"
| "bind (Stored k c) f = Stored (\<lambda>e. bind (k e) f) (map_call (\<lambda>p. bind p f) c)"
| "bind (Identity env k) f = Identity env (\<lambda>r. bind (k r) f)"
| "bind (Ask q) f = Ask (map_question (\<lambda>p. bind p f) q)"

abbreviation ok :: "'a \<Rightarrow> (goerr + 'a) prog" where
  "ok x \<equiv> Done (Inr x)"

abbreviation raise :: "error \<Rightarrow> (goerr + 'a) prog" where
  "raise e \<equiv> Done (Inl (Sentinel e))"

text \<open>A call of the store, and the sequence with an early return on an error.\<close>

definition store :: "'a call \<Rightarrow> (goerr + 'a) prog" where
  "store c = Stored (\<lambda>e. Done (Inl (Sentinel e))) (map_call (\<lambda>x. Done (Inr x)) c)"

definition attempt :: "(goerr + 'a) prog \<Rightarrow> ('a \<Rightarrow> (goerr + 'b) prog) \<Rightarrow> (goerr + 'b) prog" where
  "attempt p f = bind p (\<lambda>r. case r of Inl e \<Rightarrow> Done (Inl e) | Inr x \<Rightarrow> f x)"

text \<open>\<^verbatim>\<open>LockLifecycle\<close> with \<^verbatim>\<open>defer unlock()\<close> around the rest of the function; \<open>w\<close> is what the
  caller makes of an error of the lock.\<close>

definition locked_or :: "(goerr \<Rightarrow> goerr) \<Rightarrow> lock_key \<Rightarrow> (goerr + 'a) prog \<Rightarrow> (goerr + 'a) prog" where
  "locked_or w x body = Lock x (\<lambda>r. case r of Inl e \<Rightarrow> Done (Inl (w e))
     | Inr _ \<Rightarrow> bind body (\<lambda>res. Unlock x (Done res)))"

abbreviation locked :: "lock_key \<Rightarrow> (goerr + 'a) prog \<Rightarrow> (goerr + 'a) prog" where
  "locked \<equiv> locked_or id"

abbreviation invoke :: "interface_call \<Rightarrow> (goerr + unit) prog" where
  "invoke q \<equiv> Ask (Call q Done)"

abbreviation returned :: "error + 'a \<Rightarrow> (goerr + 'a) prog" where
  "returned r \<equiv> Done (map_sum Sentinel id r)"

definition failed :: "goerr + 'a \<Rightarrow> goerr option" where
  "failed r = (case r of Inl e \<Rightarrow> Some e | Inr _ \<Rightarrow> None)"

text \<open>\<^verbatim>\<open>errors.Join\<close> of errors that may be nil, as the error of the function.\<close>

definition joined :: "goerr option list \<Rightarrow> goerr + unit" where
  "joined es = (case errors_Join es of None \<Rightarrow> Inr () | Some e \<Rightarrow> Inl e)"

definition isNotFound :: "goerr \<Rightarrow> bool" where
  "isNotFound e = errors_Is e ErrNotFound"

end
