(* ===== verification/EnvironmentService.thy ===== *)
theory EnvironmentService
  imports ServicePrograms
begin

text \<open>
  The Environment service (\<^verbatim>\<open>src/internal/workspace\<close>): creation, cleanup, deletion, start, stop
  and execution, each method one program over the store of this development.  Optional methods
  of the runtime, of the data manager and of the Workspace provider, which the code finds by a
  type assertion, are flags of the record \<open>Service\<close>; the store is the catalog store, which has
  every optional method.  Random bytes and clock readings are arguments.  Logging is omitted.
\<close>

record Service =
  sv_receipt :: bool
  sv_snapshotCreator :: bool
  sv_archiveCreator :: bool
  sv_inspect :: bool
  sv_stop :: bool
  sv_start :: bool
  sv_startWithResources :: bool
  sv_verify :: bool
  sv_stream :: bool
  sv_supportsEnvironmentResources :: bool
  sv_snapshotBackend :: bool
  sv_snapshotImage :: bool
  sv_publishBase :: bool
  sv_commitImage :: bool
  sv_restoreBackend :: bool
  sv_environmentResources :: bool
  sv_importer :: bool
  sv_savedPlanner :: bool
  sv_publisher :: bool
  sv_clearer :: bool
  sv_selectEnvironmentResources :: bool
  sv_defaultResource :: bool
  sv_deleteWorkspaceResource :: bool
  sv_checkSnapshotName :: bool
  sv_deleteWorkspace :: bool

abbreviation env_lock :: "string \<Rightarrow> lock_key" where
  "env_lock n \<equiv> (''environment'', n)"

abbreviation work_lock :: "string \<Rightarrow> lock_key" where
  "work_lock i \<equiv> (''workspace'', i)"

definition normalizeAccessMode :: "string \<Rightarrow> error + string" where
  "normalizeAccessMode mode =
     (if mode = [] then Inr ''rw''
      else if mode = ''ro'' \<or> mode = ''rw'' then Inr mode else Inl ErrInvalidArgument)"

section \<open>Cleanup (\<^verbatim>\<open>cleanup.go\<close>, \<^verbatim>\<open>environment_resources.go\<close>)\<close>

definition finalizeAbsentEnvironment :: "Service \<Rightarrow> string \<Rightarrow> (goerr + unit) prog" where
  "finalizeAbsentEnvironment s name =
     bind (store (GetWorkspaceLease name)) (\<lambda>r.
       if (case r of Inl e \<Rightarrow> \<not> errors_Is e ErrNotFound | Inr _ \<Rightarrow> False)
       then Done (map_sum id (\<lambda>_. ()) r)
       else let lease = (case r of Inl _ \<Rightarrow> no_lease | Inr l \<Rightarrow> l) in
       attempt
        (if l_Attachments lease = [] then ok ()
         else if \<not> sv_environmentResources s then raise ErrRecoveryRequired
         else bind (store (PrepareEnvironmentResourceDeletion lease)) (\<lambda>r. case r of
            Inl e \<Rightarrow> Done (Inl (Joined [e, Sentinel ErrRecoveryRequired]))
          | Inr absent \<Rightarrow> bind (invoke (DeleteEnvironmentResources absent)) (\<lambda>r. case r of
              Inl e \<Rightarrow> Done (Inl (Joined [e, Sentinel ErrRecoveryRequired]))
            | Inr _ \<Rightarrow> ok ())))
        (\<lambda>_. bind (store (FinalizeEnvironmentDelete name)) (\<lambda>r. case r of
            Inl e \<Rightarrow> Done (Inl (Joined [Sentinel ErrRecoveryRequired, e])) | Inr _ \<Rightarrow> ok ())))"

definition finalizeEnvironmentForCleanup :: "Service \<Rightarrow> string \<Rightarrow> (goerr + unit) prog" where
  "finalizeEnvironmentForCleanup s environmentID =
     bind (finalizeAbsentEnvironment s environmentID) (\<lambda>r. case r of
       Inl e \<Rightarrow> Done (Inl (Joined [e, Sentinel ErrRecoveryRequired])) | Inr _ \<Rightarrow> ok ())"

definition markEnvironmentRecovery :: "WorkspaceLease \<Rightarrow> (goerr + unit) prog" where
  "markEnvironmentRecovery lease = store (MarkEnvironmentRecoveryRequired lease)"

definition deleteRuntimeForCleanup :: "string \<Rightarrow> (goerr + unit) prog" where
  "deleteRuntimeForCleanup ref = bind (invoke (DeleteEnvironment ref)) (\<lambda>r.
     if EnvironmentDeletionComplete (failed r) then ok () else Done (Inl (Wrap (failed r))))"

definition failCreatedEnvironment :: "Service \<Rightarrow> WorkspaceLease \<Rightarrow> goerr \<Rightarrow> (goerr + 'a) prog" where
  "failCreatedEnvironment s lease cause =
     bind (deleteRuntimeForCleanup (l_RuntimeRef lease)) (\<lambda>r. case r of
       Inr _ \<Rightarrow> bind (finalizeEnvironmentForCleanup s (l_EnvironmentID lease)) (\<lambda>f.
         Done (Inl (Joined (cause # (case f of Inl e \<Rightarrow> [e] | Inr _ \<Rightarrow> [])))))
     | Inl cleanupErr \<Rightarrow> bind (markEnvironmentRecovery (lease\<lparr>l_State := ''cleanup-required''\<rparr>)) (\<lambda>m.
         Done (Inl (Joined ([cause, cleanupErr] @ (case m of Inl e \<Rightarrow> [e] | Inr _ \<Rightarrow> [])
                              @ [Sentinel ErrRecoveryRequired])))))"

text \<open>The branch of a failed deletion (lines 70--79).\<close>

definition failed_deletion :: "string \<Rightarrow> string \<Rightarrow> goerr option \<Rightarrow> (goerr + unit) prog" where
  "failed_deletion name ref err =
     bind (store (GetWorkspaceLease name)) (\<lambda>r. case r of
       Inl leaseErr \<Rightarrow> Done (Inl (Joined [Wrap err, leaseErr, Sentinel ErrRecoveryRequired]))
     | Inr lease \<Rightarrow>
         if l_RuntimeRef lease \<noteq> ref
         then Done (Inl (Joined [Wrap err, Sentinel ErrCapabilityStale, Sentinel ErrRecoveryRequired]))
         else bind (markEnvironmentRecovery (lease\<lparr>l_State := ''cleanup-required''\<rparr>)) (\<lambda>m.
           Done (Inl (Joined ([Wrap err] @ (case m of Inl e \<Rightarrow> [e] | Inr _ \<Rightarrow> [])
                                @ [Sentinel ErrRecoveryRequired])))))"

definition deleteAndFinalize :: "Service \<Rightarrow> string \<Rightarrow> string \<Rightarrow> (goerr + unit) prog" where
  "deleteAndFinalize s name ref =
     bind (store (GetWorkspaceLease name)) (\<lambda>r.
       if (case r of Inl e \<Rightarrow> \<not> errors_Is e ErrNotFound | Inr _ \<Rightarrow> False)
       then Done (map_sum id (\<lambda>_. ()) r)
       else let lease = (case r of Inl _ \<Rightarrow> no_lease | Inr l \<Rightarrow> l) in
       if l_RuntimeAbsent lease then
         (if l_RuntimeRef lease \<noteq> ref then raise ErrCapabilityStale
          else finalizeAbsentEnvironment s name)
       else bind (invoke (DeleteEnvironment ref)) (\<lambda>d.
         if \<not> EnvironmentDeletionComplete (failed d) then failed_deletion name ref (failed d)
         else bind (finalizeAbsentEnvironment s name) (\<lambda>f. case f of
           Inl e \<Rightarrow> Done (Inl (Joined [Wrap (Some e), Sentinel ErrRecoveryRequired])) | Inr _ \<Rightarrow> ok ())))"

section \<open>Attached data (\<^verbatim>\<open>environment_resources.go\<close>, \<^verbatim>\<open>imported_\<close>, \<^verbatim>\<open>saved_environment_resources.go\<close>)\<close>

definition resource_request :: "string \<Rightarrow> Workspace \<Rightarrow> WorkspaceLease \<Rightarrow> EnvironmentResourceRequest" where
  "resource_request base work lease = \<lparr>rq_EnvironmentID = l_EnvironmentID lease,
     rq_InstanceID = l_InstanceID lease, rq_Workspace = work, rq_Base = base,
     rq_ReadOnly = (l_AccessMode lease = ''ro'')\<rparr>"

definition planEnvironmentResources ::
  "Service \<Rightarrow> EnvironmentSpec \<Rightarrow> Workspace \<Rightarrow> WorkspaceLease \<Rightarrow> bool
     \<Rightarrow> (goerr + EnvironmentResourcePlan list) prog" where
  "planEnvironmentResources s spec work lease saved =
     (if \<not> sv_selectEnvironmentResources s \<or> es_TemporaryWorkspace spec \<noteq> None then ok []
      else let request = resource_request (es_Base spec) work lease in
      attempt (Ask (SelectResources request Done)) (\<lambda>selected.
        if selected = [] then ok []
        else if saved then raise ErrUnsupported
        else if \<not> sv_supportsEnvironmentResources s \<or> \<not> sv_environmentResources s then raise ErrUnsupported
        else Ask (PlanEnvironmentResources request selected Done)))"

definition planImportedEnvironmentResources ::
  "Service \<Rightarrow> Workspace \<Rightarrow> WorkspaceLease \<Rightarrow> EnvironmentResourceImport list
     \<Rightarrow> (goerr + EnvironmentResourcePlan list) prog" where
  "planImportedEnvironmentResources s work lease inputs =
     (if inputs = [] then ok []
      else if \<not> sv_importer s then raise ErrUnsupported
      else if \<not> sv_supportsEnvironmentResources s then raise ErrUnsupported
      else Ask (PlanImportedEnvironmentResources (resource_request [] work lease) inputs Done))"

definition planSavedEnvironmentResources ::
  "Service \<Rightarrow> EnvironmentSpec \<Rightarrow> Workspace \<Rightarrow> WorkspaceLease \<Rightarrow> Snapshot
     \<Rightarrow> (goerr + EnvironmentResourcePlan list) prog" where
  "planSavedEnvironmentResources s spec work lease saved =
     (if e_Attachments (src_Environment (s_Source saved)) = [] then ok []
      else if \<not> sv_savedPlanner s then raise ErrUnsupported
      else Ask (PlanSavedEnvironmentResources (resource_request (es_Base spec) work lease) saved Done))"

fun resolve_areas ::
  "WorkspaceLease \<Rightarrow> EnvironmentAttachment list \<Rightarrow> (goerr + EnvironmentRuntimeAttachment list) prog" where
  "resolve_areas lease [] = ok []"
| "resolve_areas lease (a # as) =
     bind (store (GetPersistentResource (ref_ID (a_Resource a)))) (\<lambda>r. case r of
       Inl e \<Rightarrow> Done (Inl (Joined [Sentinel ErrRecoveryRequired, e]))
     | Inr r \<Rightarrow>
         if Ref r \<noteq> a_Resource a \<or> pr_EnvironmentInstance r \<noteq> l_InstanceID lease
            \<or> pr_Kind r \<noteq> g_Kind (a_Origin a) \<or> pr_State r \<noteq> ''ready'' \<or> pr_SourceOnly r
            \<or> pr_CopySource r \<noteq> no_ref \<or> pr_CopyCompleted r then raise ErrRecoveryRequired
         else attempt (resolve_areas lease as) (\<lambda>areas.
           ok (\<lparr>ra_Attachment = a, ra_Resource = r\<rparr> # areas)))"

definition resolveEnvironmentRuntimeResources ::
  "WorkspaceLease \<Rightarrow> (goerr + EnvironmentRuntimeAttachment list) prog" where
  "resolveEnvironmentRuntimeResources lease = resolve_areas lease (l_Attachments lease)"

section \<open>Creation (\<^verbatim>\<open>create.go\<close>)\<close>

text \<open>The random bytes of the instance identity, the two readings of the clock, and how often
  the runtime may call \<^verbatim>\<open>record\<close>.\<close>

record creation =
  cr_nonce :: string
  cr_acquired :: GoTime
  cr_created :: GoTime
  cr_receipts :: nat

text \<open>The persistent resource the specification names (lines 60--77).\<close>

definition requested_resource :: "EnvironmentSpec \<Rightarrow> (goerr + PersistentResource) prog" where
  "requested_resource spec =
     attempt
      (if es_PersistentResource spec = [] then ok no_resource
       else attempt (store (GetPersistentResource (es_PersistentResource spec))) (\<lambda>persistent.
         if pr_State persistent \<noteq> ''ready'' \<or> \<not> ValidPersistentResourceRef (Ref persistent)
         then raise ErrRecoveryRequired else ok persistent))
      (\<lambda>persistent.
        if es_ExpectedResource spec \<noteq> no_ref \<and> Ref persistent \<noteq> es_ExpectedResource spec
        then raise ErrCapabilityStale else ok persistent)"

text \<open>The Workspace, temporary or resolved (lines 78--94).\<close>

definition requested_workspace ::
  "EnvironmentSpec \<Rightarrow> string \<Rightarrow> PersistentResource \<Rightarrow> (goerr + Workspace) prog" where
  "requested_workspace spec mode persistent =
     attempt
      (case es_TemporaryWorkspace spec of
         Some work \<Rightarrow>
           if es_WorkspacePath spec \<noteq> [] \<or> \<not> ValidTemporaryWorkspace work \<or> mode \<noteq> ''rw''
              \<or> (es_PersistentResource spec \<noteq> []
                 \<and> (es_ExpectedResource spec \<noteq> Ref persistent \<or> pr_SourceOnly persistent))
           then raise ErrInvalidArgument else ok work
       | None \<Rightarrow> Ask (ResolveWorkspace (es_WorkspacePath spec) Done))
      (\<lambda>workspace.
        if es_ExpectedWorkspace spec \<noteq> [] \<and> w_ID workspace \<noteq> es_ExpectedWorkspace spec
        then raise ErrCapabilityStale else ok workspace)"

text \<open>The checks under both locks and the default resource (lines 102--129).\<close>

definition admitted_resource ::
  "Service \<Rightarrow> EnvironmentSpec \<Rightarrow> Workspace \<Rightarrow> PersistentResource \<Rightarrow> (goerr + PersistentResource) prog" where
  "admitted_resource s spec workspace persistent =
     attempt
      (if es_TemporaryWorkspace spec \<noteq> None then ok ()
       else attempt (Ask (ResolveWorkspace (es_WorkspacePath spec) Done)) (\<lambda>current.
         if current \<noteq> workspace then raise ErrCapabilityStale else ok ()))
      (\<lambda>_. bind (store (GetEnvironment (es_Name spec))) (\<lambda>r. case r of
         Inr _ \<Rightarrow> Done (Inl (Wrap (Some (Sentinel ErrAlreadyExists))))
       | Inl e \<Rightarrow>
           if \<not> isNotFound e then Done (Inl e)
           else if es_PersistentResource spec = [] \<and> \<not> es_SkipDefaultResource spec \<and> sv_defaultResource s
           then attempt (Ask (DefaultResource workspace Done)) (\<lambda>persistent.
             if persistent \<noteq> no_resource \<and> (pr_WorkspaceID persistent \<noteq> w_ID workspace
                \<or> pr_State persistent \<noteq> ''ready'' \<or> \<not> ValidPersistentResourceRef (Ref persistent))
             then raise ErrRecoveryRequired else ok persistent)
           else ok persistent))"

definition new_lease ::
  "EnvironmentSpec \<Rightarrow> creation \<Rightarrow> string \<Rightarrow> Workspace \<Rightarrow> PersistentResource \<Rightarrow> WorkspaceLease" where
  "new_lease spec c mode workspace persistent = no_lease\<lparr>
     l_Ephemeral := (es_EphemeralInstance spec \<noteq> []),
     l_InstanceID := (if es_EphemeralInstance spec \<noteq> [] then es_EphemeralInstance spec
                      else NewEnvironmentInstanceID (cr_nonce c)),
     l_PersistentResource := Ref persistent, l_WorkspaceID := w_ID workspace,
     l_SourcePath := w_Path workspace, l_EnvironmentID := es_Name spec, l_AccessMode := mode,
     l_Owner := es_Name spec, l_State := ''acquiring'', l_AcquiredAt := cr_acquired c\<rparr>"

definition plan_resources ::
  "Service \<Rightarrow> EnvironmentSpec \<Rightarrow> Workspace \<Rightarrow> WorkspaceLease \<Rightarrow> Snapshot option
     \<Rightarrow> creation_source option \<Rightarrow> EnvironmentResourceImport list \<Rightarrow> (goerr + EnvironmentResourcePlan list) prog" where
  "plan_resources s spec workspace lease saved creator imports =
     (if creator \<noteq> None then planImportedEnvironmentResources s workspace lease imports
      else case saved of
        Some snapshot \<Rightarrow> planSavedEnvironmentResources s spec workspace lease snapshot
      | None \<Rightarrow> planEnvironmentResources s spec workspace lease False)"

text \<open>The reservation (lines 156--172): the lease with its attachments and snapshot source, and
  the store method that reserves it.\<close>

definition reserved_lease :: "WorkspaceLease \<Rightarrow> EnvironmentResourcePlan list \<Rightarrow> Snapshot option \<Rightarrow> WorkspaceLease" where
  "reserved_lease lease plans saved = lease\<lparr>
     l_Attachments := l_Attachments lease @ map plan_Attachment plans,
     l_SnapshotSource := (case saved of None \<Rightarrow> l_SnapshotSource lease | Some snapshot \<Rightarrow> s_ID snapshot)\<rparr>"

definition begin_create :: "WorkspaceLease \<Rightarrow> EnvironmentResourcePlan list \<Rightarrow> Snapshot option \<Rightarrow> unit call" where
  "begin_create lease plans saved =
     (if plans \<noteq> [] then
        (case saved of
           Some snapshot \<Rightarrow> BeginEnvironmentCreateFromSnapshotWithResources lease snapshot plans
         | None \<Rightarrow> BeginEnvironmentCreateWithResources lease plans)
      else case saved of
        Some snapshot \<Rightarrow> BeginEnvironmentCreateFromSnapshot lease snapshot
      | None \<Rightarrow> BeginEnvironmentCreate lease)"

definition attach_resources ::
  "Service \<Rightarrow> WorkspaceLease \<Rightarrow> EnvironmentResourcePlan list \<Rightarrow> EnvironmentResourceImport list
     \<Rightarrow> (goerr + EnvironmentRuntimeAttachment list) prog" where
  "attach_resources s lease plans imports =
     (if plans = [] then ok []
      else bind (if imports \<noteq> [] then Ask (ImportEnvironmentResources lease imports Done)
                 else Ask (MaterializeEnvironmentResources lease Done)) (\<lambda>r. case r of
        Inr attachments \<Rightarrow> ok attachments
      | Inl e \<Rightarrow> bind (finalizeEnvironmentForCleanup s (l_EnvironmentID lease)) (\<lambda>f.
          Done (Inl (Joined (e # (case f of Inl e' \<Rightarrow> [e'] | Inr _ \<Rightarrow> [])))))))"

definition runtime_spec ::
  "EnvironmentSpec \<Rightarrow> WorkspaceLease \<Rightarrow> PersistentResource \<Rightarrow> ResourceBudget
     \<Rightarrow> EnvironmentRuntimeAttachment list \<Rightarrow> EnvironmentRuntimeSpec" where
  "runtime_spec spec lease persistent resources attachments = \<lparr>
     rs_DeferStart = es_DeferStart spec, rs_DNSMode = es_DNSMode spec, rs_Attachments = attachments,
     rs_InstanceID = l_InstanceID lease,
     rs_TemporaryWorkspace = (es_TemporaryWorkspace spec \<noteq> None),
     rs_ResourceMaintenance = (es_TemporaryWorkspace spec \<noteq> None \<and> es_PersistentResource spec \<noteq> []),
     rs_PersistentResource = persistent, rs_Name = es_Name spec, rs_WorkspacePath = l_SourcePath lease,
     rs_ReadOnly = (l_AccessMode lease = ''ro''), rs_Base = es_Base spec, rs_Resources = resources\<rparr>"

text \<open>
  The closure \<^verbatim>\<open>record\<close> (lines 200--210) with the two variables it assigns, the lease and
  \<^verbatim>\<open>recorded\<close>, and the creation with its receipts: the runtime calls \<^verbatim>\<open>record\<close> at most \<open>n\<close> times
  before it returns.
\<close>

definition record_runtime ::
  "WorkspaceLease \<times> bool \<Rightarrow> EnvironmentRuntime \<Rightarrow> ((WorkspaceLease \<times> bool) \<times> (goerr + unit)) prog" where
  "record_runtime st created = (case st of (lease, recorded) \<Rightarrow>
     if recorded \<or> TrimSpace (er_Ref created) = [] then Done (st, Inl (Sentinel ErrIncompatibleState))
     else let lease' = lease\<lparr>l_RuntimeRef := er_Ref created\<rparr> in
     bind (store (RecordEnvironmentRuntime lease')) (\<lambda>r.
       Done ((lease', case r of Inl _ \<Rightarrow> recorded | Inr _ \<Rightarrow> True), r)))"

fun make_runtime ::
  "nat \<Rightarrow> creation_source \<Rightarrow> EnvironmentRuntimeSpec \<Rightarrow> WorkspaceLease \<times> bool \<Rightarrow> receipts
     \<Rightarrow> ((WorkspaceLease \<times> bool) \<times> (goerr + EnvironmentRuntime)) prog" where
  "make_runtime 0 src spec st past = Ask (ConcludeRuntime src spec past (\<lambda>r. Done (st, r)))"
| "make_runtime (Suc n) src spec st past = Ask (CreateRuntime src spec past (\<lambda>event. case event of
     Returned r \<Rightarrow> Done (st, r)
   | Receipt created \<Rightarrow> bind (record_runtime st created) (\<lambda>(st', r).
       make_runtime n src spec st' (past @ [(created, r)]))))"

text \<open>After the runtime has returned (lines 224--263).\<close>

definition no_budget :: ResourceBudget where
  "no_budget = \<lparr>rb_CPU = no_limit, rb_MemoryBytes = no_limit, rb_PIDs = no_limit, rb_RootBytes = no_limit\<rparr>"

definition recorded_runtime ::
  "Service \<Rightarrow> ResourceBudget \<Rightarrow> EnvironmentRuntime \<Rightarrow> (WorkspaceLease \<times> bool) \<times> (goerr + unit)
     \<Rightarrow> (goerr + WorkspaceLease \<times> EnvironmentRuntime) prog" where
  "recorded_runtime s resources created res = (case res of ((lease, recorded), r) \<Rightarrow> case r of
     Inl e \<Rightarrow> failCreatedEnvironment s lease (Wrap (Some e))
   | Inr _ \<Rightarrow>
       let created = (if er_Resources created = no_budget \<and> \<not> ResourceBudgetHasFinite resources
                      then created\<lparr>er_Resources := resources\<rparr> else created) in
       if er_Resources created \<noteq> resources
       then failCreatedEnvironment s lease (Wrap (Some (Sentinel ErrIncompatibleState)))
       else ok (lease, created))"

definition accept_runtime ::
  "Service \<Rightarrow> ResourceBudget \<Rightarrow> (WorkspaceLease \<times> bool) \<times> (goerr + EnvironmentRuntime)
     \<Rightarrow> (goerr + WorkspaceLease \<times> EnvironmentRuntime) prog" where
  "accept_runtime s resources res = (case res of
     ((lease, recorded), Inl err) \<Rightarrow>
       if l_RuntimeRef lease \<noteq> [] then failCreatedEnvironment s lease (Wrap (Some err))
       else if errors_Is err ErrRecoveryRequired then
         bind (markEnvironmentRecovery (lease\<lparr>l_State := ''cleanup-required''\<rparr>)) (\<lambda>m.
           Done (Inl (Joined ([Wrap (Some err)] @ (case m of Inl e \<Rightarrow> [e] | Inr _ \<Rightarrow> [])
                                @ [Sentinel ErrRecoveryRequired]))))
       else bind (finalizeEnvironmentForCleanup s (l_EnvironmentID lease)) (\<lambda>f.
         Done (Inl (Joined (Wrap (Some err) # (case f of Inl e \<Rightarrow> [e] | Inr _ \<Rightarrow> [])))))
   | ((lease, recorded), Inr created) \<Rightarrow>
       if TrimSpace (er_Ref created) = [] then
         bind (markEnvironmentRecovery (lease\<lparr>l_State := ''cleanup-required''\<rparr>)) (\<lambda>m.
           Done (Inl (Joined ([Wrap (Some (Sentinel ErrIncompatibleState))]
             @ (case m of Inl e \<Rightarrow> [e] | Inr _ \<Rightarrow> []) @ [Sentinel ErrRecoveryRequired]))))
       else if recorded \<and> l_RuntimeRef lease \<noteq> er_Ref created
       then failCreatedEnvironment s lease (Sentinel ErrCapabilityStale)
       else bind (if recorded then Done ((lease, recorded), Inr ())
                  else record_runtime (lease, recorded) created) (recorded_runtime s resources created))"

definition ready_environment ::
  "EnvironmentSpec \<Rightarrow> WorkspaceLease \<Rightarrow> PersistentResource \<Rightarrow> Workspace \<Rightarrow> ResourceBudget
     \<Rightarrow> EnvironmentRuntime \<Rightarrow> GoTime \<Rightarrow> Environment" where
  "ready_environment spec lease persistent workspace resources created at = \<lparr>
     e_OwnedWorkspace = es_OwnedWorkspace spec, e_Volume = es_Volume spec, e_DNSMode = es_DNSMode spec,
     e_Attachments = l_Attachments lease, e_PersistentResource = Ref persistent,
     e_Name = es_Name spec, e_Workspace = workspace, e_AccessMode = l_AccessMode lease,
     e_Base = er_Base created, e_Resources = resources, e_RuntimeRef = er_Ref created,
     e_CreatedAt = at\<rparr>"

text \<open>From the reservation to publication (lines 130--287), with both locks held.\<close>

definition create_reserved ::
  "Service \<Rightarrow> creation \<Rightarrow> EnvironmentSpec \<Rightarrow> Snapshot option \<Rightarrow> creation_source option
     \<Rightarrow> EnvironmentResourceImport list \<Rightarrow> string \<Rightarrow> ResourceBudget \<Rightarrow> Workspace \<Rightarrow> PersistentResource
     \<Rightarrow> (goerr + Environment) prog" where
  "create_reserved s c spec saved creator imports mode resources workspace persistent =
     attempt (plan_resources s spec workspace (new_lease spec c mode workspace persistent) saved creator imports)
      (\<lambda>plans. let lease = reserved_lease (new_lease spec c mode workspace persistent) plans saved in
      bind (store (begin_create lease plans saved)) (\<lambda>r. case r of
        Inl e \<Rightarrow> Done (Inl (Wrap (Some e)))
      | Inr _ \<Rightarrow>
        attempt (attach_resources s lease plans imports) (\<lambda>attachments.
        bind (make_runtime
               (if creator \<noteq> None \<or> saved \<noteq> None \<or> sv_receipt s then cr_receipts c else 0)
               (case creator of Some src \<Rightarrow> src | None \<Rightarrow>
                  (case saved of Some snapshot \<Rightarrow> FromSnapshot snapshot | None \<Rightarrow> FromBase))
               (runtime_spec spec lease persistent resources attachments) (lease, False) []) (\<lambda>res.
        attempt (accept_runtime s resources res) (\<lambda>(lease, created).
        let environment = ready_environment spec lease persistent workspace resources created (cr_created c);
            active = lease\<lparr>l_State := ''active''\<rparr> in
        bind (store (CommitEnvironmentCreate environment active)) (\<lambda>r. case r of
          Inl e \<Rightarrow> failCreatedEnvironment s active (Wrap (Some e))
        | Inr _ \<Rightarrow> ok environment))))))"

definition create ::
  "Service \<Rightarrow> creation \<Rightarrow> EnvironmentSpec \<Rightarrow> Snapshot option \<Rightarrow> creation_source option
     \<Rightarrow> EnvironmentResourceImport list \<Rightarrow> (goerr + Environment) prog" where
  "create s c spec saved creator imports =
     (if \<not> DNSMode_Valid (es_DNSMode spec) then raise ErrInvalidArgument
      else case ValidateEnvironmentName (es_Name spec) of Some e \<Rightarrow> raise e | None \<Rightarrow>
      if es_EphemeralInstance spec \<noteq> [] \<and> \<not> ValidEnvironmentInstanceID (es_EphemeralInstance spec)
      then raise ErrInvalidArgument
      else locked (env_lock (es_Name spec))
       (case normalizeAccessMode (es_AccessMode spec) of Inl e \<Rightarrow> raise e | Inr mode \<Rightarrow>
        case ResolveResourceBudget (es_Resources spec) of Inl e \<Rightarrow> raise e | Inr resources \<Rightarrow>
        if (es_SkipDefaultResource spec \<and> es_PersistentResource spec \<noteq> [])
           \<or> (es_ExpectedResource spec \<noteq> no_ref
              \<and> (\<not> ValidPersistentResourceRef (es_ExpectedResource spec)
                 \<or> ref_ID (es_ExpectedResource spec) \<noteq> es_PersistentResource spec))
        then raise ErrInvalidArgument
        else attempt (requested_resource spec) (\<lambda>persistent.
          attempt (requested_workspace spec mode persistent) (\<lambda>workspace.
          locked_or (\<lambda>e. Wrap (Some e)) (work_lock (w_ID workspace))
           (attempt (admitted_resource s spec workspace persistent) (\<lambda>persistent.
            create_reserved s c spec saved creator imports mode resources workspace persistent))))))"

definition Service_Create :: "Service \<Rightarrow> creation \<Rightarrow> EnvironmentSpec \<Rightarrow> (goerr + Environment) prog" where
  "Service_Create s c spec = create s c spec None None []"

text \<open>\<^verbatim>\<open>snapshot_creation.go\<close>, \<^verbatim>\<open>archive_creation.go\<close>; \<open>source\<close> is whether the archive reader is
  not nil.\<close>

definition CreateFromSnapshot ::
  "Service \<Rightarrow> creation \<Rightarrow> EnvironmentSpec \<Rightarrow> string \<Rightarrow> (goerr + Environment) prog" where
  "CreateFromSnapshot s c spec savedID =
     (if \<not> sv_snapshotCreator s then raise ErrUnsupported
      else if es_Base spec \<noteq> [] \<or> es_TemporaryWorkspace spec \<noteq> None then raise ErrInvalidArgument
      else attempt (store (GetSnapshot savedID)) (\<lambda>saved.
        if s_State saved \<noteq> ''ready'' then raise ErrIncompatibleState
        else if (ref_ID (e_PersistentResource (src_Environment (s_Source saved))) \<noteq> [])
             \<noteq> (es_PersistentResource spec \<noteq> []) then raise ErrInvalidArgument
        else if es_DNSMode spec \<noteq> []
             \<and> DNSMode_Effective (es_DNSMode spec)
                 \<noteq> DNSMode_Effective (e_DNSMode (src_Environment (s_Source saved)))
        then raise ErrInvalidArgument
        else create s c (spec\<lparr>es_DNSMode := e_DNSMode (src_Environment (s_Source saved)),
               es_SkipDefaultResource := (es_PersistentResource spec = [])\<rparr>) (Some saved) None []))"

definition CreateFromArchiveWithData ::
  "Service \<Rightarrow> creation \<Rightarrow> EnvironmentSpec \<Rightarrow> bool \<Rightarrow> string \<Rightarrow> int \<Rightarrow> EnvironmentResourceImport list
     \<Rightarrow> (goerr + Environment) prog" where
  "CreateFromArchiveWithData s c spec source privateRoot limit inputs =
     (if \<not> sv_archiveCreator s then raise ErrUnsupported
      else if \<not> source \<or> limit \<le> 0 \<or> es_Base spec \<noteq> [] then raise ErrInvalidArgument
      else create s c (spec\<lparr>es_SkipDefaultResource := (es_PersistentResource spec = [])\<rparr>) None
             (Some (FromArchive privateRoot limit)) inputs)"

section \<open>Deletion of Workspaces (\<^verbatim>\<open>managed_delete.go\<close>)\<close>

text \<open>\<open>uses_workspace\<close> and \<open>used_by_environment\<close> are the conditions of the two loops.\<close>

definition uses_workspace :: "Workspace \<Rightarrow> WorkspaceLease \<Rightarrow> bool" where
  "uses_workspace work l \<longleftrightarrow> l_WorkspaceID l = w_ID work \<or> l_SourcePath l = w_Path work"

definition used_by_environment :: "Workspace \<Rightarrow> Environment \<Rightarrow> bool" where
  "used_by_environment work e \<longleftrightarrow> w_ID (e_Workspace e) = w_ID work \<or> w_Path (e_Workspace e) = w_Path work"

definition DeleteManagedWorkspace :: "Service \<Rightarrow> Workspace \<Rightarrow> (goerr + unit) prog" where
  "DeleteManagedWorkspace s work =
     (if \<not> HasPrefix (w_Path work) ''managed:'' \<or> \<not> HasPrefix (w_ID work) ''workspace:managed:''
      then raise ErrInvalidArgument
      else if \<not> sv_deleteWorkspace s then raise ErrUnsupported
      else locked (work_lock (w_ID work))
       (attempt (store ListWorkspaceLeases) (\<lambda>leases.
        if list_ex (uses_workspace work) leases then raise ErrStorageBusy
        else attempt (store ListEnvironments) (\<lambda>envs.
        if list_ex (used_by_environment work) envs then raise ErrStorageBusy
        else invoke (DeleteWorkspace work)))))"

fun delete_resources :: "Service \<Rightarrow> Workspace \<Rightarrow> PersistentResource list \<Rightarrow> (goerr + unit) prog" where
  "delete_resources s work [] = ok ()"
| "delete_resources s work (resource # rest) =
     (if pr_WorkspaceID resource \<noteq> w_ID work then delete_resources s work rest
      else if \<not> sv_deleteWorkspaceResource s then raise ErrUnsupported
      else bind (invoke (DeleteWorkspaceResource (pr_ID resource) (w_ID work))) (\<lambda>r. case r of
        Inl e \<Rightarrow> Done (Inl (Wrap (Some e))) | Inr _ \<Rightarrow> delete_resources s work rest))"

definition DeleteOwnedWorkspace :: "Service \<Rightarrow> Workspace \<Rightarrow> (goerr + unit) prog" where
  "DeleteOwnedWorkspace s work =
     attempt (store ListPersistentResources) (\<lambda>all.
     attempt (delete_resources s work all) (\<lambda>_.
     bind (DeleteManagedWorkspace s work) (\<lambda>r. case r of
       Inl e \<Rightarrow> Done (Inl (Wrap (Some e))) | Inr _ \<Rightarrow> ok ())))"

section \<open>Deletion of Environments (\<^verbatim>\<open>delete.go\<close>, \<^verbatim>\<open>temporary.go\<close>)\<close>

definition checkLifecycleIdle :: "string \<Rightarrow> (goerr + unit) prog" where
  "checkLifecycleIdle name =
     attempt (store (CheckEnvironmentResourcesIdle name)) (\<lambda>_. store (CheckSnapshotIdle name))"

definition finishOwnedWorkspaceCleanup :: "Service \<Rightarrow> string \<Rightarrow> (goerr + unit) prog" where
  "finishOwnedWorkspaceCleanup s name =
     bind (store (GetOwnedWorkspaceCleanup name)) (\<lambda>r. case r of
       Inl e \<Rightarrow> if errors_Is e ErrNotFound then ok () else Done (Inl e)
     | Inr work \<Rightarrow> bind (DeleteOwnedWorkspace s work) (\<lambda>r. case r of
         Inl e \<Rightarrow> Done (Inl (Joined [e, Sentinel ErrRecoveryRequired]))
       | Inr _ \<Rightarrow> store (FinalizeOwnedWorkspaceCleanup name work)))"

text \<open>The check of an ephemeral run's identity (lines 53--64).\<close>

definition check_instance :: "string \<Rightarrow> string \<Rightarrow> (goerr + unit) prog" where
  "check_instance name inst =
     (if inst = [] then ok ()
      else bind (store (GetWorkspaceLease name)) (\<lambda>r. case r of
        Inr lease \<Rightarrow> if \<not> l_Ephemeral lease \<or> l_InstanceID lease \<noteq> inst then raise ErrCapabilityStale else ok ()
      | Inl leaseErr \<Rightarrow>
          if \<not> isNotFound leaseErr then Done (Inl leaseErr)
          else bind (store (GetEnvironment name)) (\<lambda>r. case r of
            Inl envErr \<Rightarrow> if isNotFound envErr then ok ()
                          else Done (Inl (Joined [Sentinel ErrRecoveryRequired, envErr]))
          | Inr _ \<Rightarrow> Done (Inl (Joined [Sentinel ErrRecoveryRequired])))))"

text \<open>The public policy: a running Environment is stopped first, and only by force (lines 70--92).\<close>

definition stop_for_user :: "Service \<Rightarrow> bool \<Rightarrow> string \<Rightarrow> (goerr + unit) prog" where
  "stop_for_user s force ref =
     (if \<not> (sv_inspect s \<and> sv_stop s) then raise ErrUnsupported
      else attempt (Ask (InspectEnvironment ref Done)) (\<lambda>status.
        if st_State status = ''running'' then
          (if \<not> force then Done (Inl (Wrap (Some (Sentinel ErrStorageBusy))))
           else invoke (StopEnvironment ref))
        else if st_State status \<noteq> ''stopped'' then raise ErrIncompatibleState
        else ok ()))"

definition deleteWithPolicy ::
  "Service \<Rightarrow> string \<Rightarrow> Workspace option \<Rightarrow> string \<Rightarrow> bool \<Rightarrow> bool \<Rightarrow> (goerr + unit) prog" where
  "deleteWithPolicy s name expected inst user force =
     (case ValidateEnvironmentName name of Some e \<Rightarrow> raise e | None \<Rightarrow>
      locked (env_lock name)
       (attempt (checkLifecycleIdle name) (\<lambda>_.
        attempt (check_instance name inst) (\<lambda>_.
        bind (store (GetEnvironment name)) (\<lambda>r. case r of
          Inr environment \<Rightarrow>
            if (case expected of None \<Rightarrow> False | Some work \<Rightarrow> e_Workspace environment \<noteq> work)
            then raise ErrIncompatibleState
            else attempt (if user then stop_for_user s force (e_RuntimeRef environment) else ok ()) (\<lambda>_.
              attempt (deleteAndFinalize s name (e_RuntimeRef environment)) (\<lambda>_.
              finishOwnedWorkspaceCleanup s name))
        | Inl e \<Rightarrow>
            if \<not> isNotFound e then Done (Inl e)
            else bind (store (GetWorkspaceLease name)) (\<lambda>r. case r of
              Inl leaseErr \<Rightarrow> if isNotFound leaseErr then finishOwnedWorkspaceCleanup s name
                              else Done (Inl leaseErr)
            | Inr lease \<Rightarrow>
                if (case expected of None \<Rightarrow> False
                    | Some work \<Rightarrow> l_WorkspaceID lease \<noteq> w_ID work \<or> l_SourcePath lease \<noteq> w_Path work)
                then raise ErrIncompatibleState
                else if l_RuntimeAbsent lease then finalizeAbsentEnvironment s name
                else if l_RuntimeRef lease = [] then Done (Inl (Wrap (Some (Sentinel ErrRecoveryRequired))))
                else deleteAndFinalize s name (l_RuntimeRef lease)))))))"

definition Service_Delete :: "Service \<Rightarrow> string \<Rightarrow> (goerr + unit) prog" where
  "Service_Delete s name = deleteWithPolicy s name None [] False False"

definition DeleteUser :: "Service \<Rightarrow> string \<Rightarrow> bool \<Rightarrow> (goerr + unit) prog" where
  "DeleteUser s name force = deleteWithPolicy s name None [] True force"

definition DeleteTemporary :: "Service \<Rightarrow> string \<Rightarrow> Workspace \<Rightarrow> (goerr + unit) prog" where
  "DeleteTemporary s name work =
     (if \<not> ValidTemporaryWorkspace work then raise ErrInvalidArgument
      else deleteWithPolicy s name (Some work) [] False False)"

definition DeleteRun :: "Service \<Rightarrow> string \<Rightarrow> string \<Rightarrow> (goerr + unit) prog" where
  "DeleteRun s name inst =
     (if \<not> ValidEnvironmentInstanceID inst then raise ErrInvalidArgument
      else deleteWithPolicy s name None inst False False)"

end
