(* ===== verification/EnvironmentUse.thy ===== *)
theory EnvironmentUse
  imports EnvironmentService
begin

text \<open>
  The methods of the Environment service that use an Environment without creating or deleting
  it: start and stop, execution, client access, collection and emptying of attached data,
  snapshots, image publication and the cleanup of restored data.
\<close>

section \<open>Start and stop (\<^verbatim>\<open>start.go\<close>, \<^verbatim>\<open>stop.go\<close>)\<close>

definition startRuntimeWithLease :: "Service \<Rightarrow> Environment \<Rightarrow> WorkspaceLease \<Rightarrow> (goerr + unit) prog" where
  "startRuntimeWithLease s environment lease =
     (if l_Attachments lease \<noteq> [] then
        (if \<not> sv_startWithResources s then raise ErrUnsupported
         else attempt (resolveEnvironmentRuntimeResources lease) (\<lambda>areas.
           invoke (StartEnvironmentWithResources (e_RuntimeRef environment)
             \<lparr>bd_InstanceID = l_InstanceID lease, bd_WorkspacePath = l_SourcePath lease,
              bd_ReadOnly = (l_AccessMode lease = ''ro''), bd_Attachments = areas\<rparr>)))
      else if \<not> sv_start s then Done (Inl (Wrap (Some (Sentinel ErrUnsupported))))
      else invoke (StartEnvironment (e_RuntimeRef environment)))"

definition start_environment :: "Service \<Rightarrow> string \<Rightarrow> string \<Rightarrow> (goerr + unit) prog" where
  "start_environment s name expected =
     (case ValidateEnvironmentName name of Some e \<Rightarrow> raise e | None \<Rightarrow>
      locked (env_lock name)
       (attempt (checkLifecycleIdle name) (\<lambda>_.
        attempt (store (GetEnvironment name)) (\<lambda>environment.
        if expected \<noteq> [] \<and> w_ID (e_Workspace environment) \<noteq> expected then raise ErrIncompatibleState
        else bind (store (GetWorkspaceLease name)) (\<lambda>r. case r of
          Inl _ \<Rightarrow> Done (Inl (Wrap (Some (Sentinel ErrRecoveryRequired))))
        | Inr lease \<Rightarrow>
            if l_EnvironmentID lease \<noteq> name \<or> \<not> MatchesEnvironment lease environment
            then Done (Inl (Wrap (Some (Sentinel ErrRecoveryRequired))))
            else startRuntimeWithLease s environment lease)))))"

definition Service_Start :: "Service \<Rightarrow> string \<Rightarrow> (goerr + unit) prog" where
  "Service_Start s name = start_environment s name []"

definition StartForWorkspace :: "Service \<Rightarrow> string \<Rightarrow> string \<Rightarrow> (goerr + unit) prog" where
  "StartForWorkspace s name expected =
     (if expected = [] then raise ErrInvalidArgument else start_environment s name expected)"

definition stopForWorkspace :: "Service \<Rightarrow> string \<Rightarrow> string \<Rightarrow> (goerr + unit) prog" where
  "stopForWorkspace s name work =
     (case ValidateEnvironmentName name of Some e \<Rightarrow> raise e | None \<Rightarrow>
      locked (env_lock name)
       (attempt (store (GetEnvironment name)) (\<lambda>environment.
        if work \<noteq> [] \<and> w_ID (e_Workspace environment) \<noteq> work then raise ErrCapabilityStale
        else if \<not> sv_stop s then Done (Inl (Wrap (Some (Sentinel ErrUnsupported))))
        else invoke (StopEnvironment (e_RuntimeRef environment)))))"

definition Service_Stop :: "Service \<Rightarrow> string \<Rightarrow> (goerr + unit) prog" where
  "Service_Stop s name = stopForWorkspace s name []"

definition Service_StopForWorkspace :: "Service \<Rightarrow> string \<Rightarrow> string \<Rightarrow> (goerr + unit) prog" where
  "Service_StopForWorkspace s name work =
     (if work = [] then raise ErrInvalidArgument else stopForWorkspace s name work)"

section \<open>Execution (\<^verbatim>\<open>execution.go\<close>, \<^verbatim>\<open>resource_execution.go\<close>, \<^verbatim>\<open>process.go\<close>)\<close>

definition locked_if :: "bool \<Rightarrow> lock_key \<Rightarrow> (goerr + 'a) prog \<Rightarrow> (goerr + 'a) prog" where
  "locked_if b x body = (if b then locked x body else body)"

definition stdin_length :: "ExecutionRequest \<Rightarrow> nat" where
  "stdin_length req = (case x_Stdin req of None \<Rightarrow> 0 | Some bytes \<Rightarrow> length bytes)"

definition exec_environment ::
  "string \<Rightarrow> ExecutionRequest \<Rightarrow> string \<Rightarrow> (goerr + ExecutionResult) prog" where
  "exec_environment name req workspace =
     (case ValidateEnvironmentName name of Some e \<Rightarrow> raise e | None \<Rightarrow>
      if x_Argv req = [] \<or> stdin_length req > MaxExecutionInputBytes then raise ErrInvalidArgument
      else locked_if (workspace \<noteq> []) (env_lock name)
       (attempt (store (GetEnvironment name)) (\<lambda>environment.
        if workspace \<noteq> [] \<and> w_ID (e_Workspace environment) \<noteq> workspace then raise ErrIncompatibleState
        else Ask (ExecEnvironment (e_RuntimeRef environment) req Done))))"

definition ExecForWorkspace ::
  "string \<Rightarrow> string \<Rightarrow> ExecutionRequest \<Rightarrow> (goerr + ExecutionResult) prog" where
  "ExecForWorkspace name workspace req =
     (if workspace = [] then raise ErrInvalidArgument else exec_environment name req workspace)"

definition ExecForResource ::
  "string \<Rightarrow> string \<Rightarrow> PersistentResourceRef \<Rightarrow> ExecutionRequest \<Rightarrow> (goerr + ExecutionResult) prog" where
  "ExecForResource name inst resource req =
     (case ValidateEnvironmentName name of Some e \<Rightarrow> raise e | None \<Rightarrow>
      if \<not> ValidEnvironmentInstanceID inst \<or> \<not> ValidPersistentResourceRef resource
      then raise ErrInvalidArgument
      else locked (env_lock name)
       (attempt (store (GetEnvironment name)) (\<lambda>env.
        attempt (Identity env (\<lambda>r. returned r)) (\<lambda>current.
        if current \<noteq> inst \<or> e_PersistentResource env \<noteq> resource then raise ErrCapabilityStale
        else exec_environment name req []))))"

text \<open>The three streams of a process are given: a nil stream is refused first.\<close>

definition ExecRunStream ::
  "Service \<Rightarrow> string \<Rightarrow> string \<Rightarrow> ProcessRequest \<Rightarrow> bool \<Rightarrow> (goerr + ExecutionResult) prog" where
  "ExecRunStream s name inst request streams =
     (if \<not> ValidEnvironmentInstanceID inst \<or> p_Argv request = [] \<or> \<not> streams then raise ErrInvalidArgument
      else case ValidateProcessRequest request of Some e \<Rightarrow> raise e | None \<Rightarrow>
      case ValidateEnvironmentName name of Some e \<Rightarrow> raise e | None \<Rightarrow>
      locked (env_lock name)
       (attempt (store (GetWorkspaceLease name)) (\<lambda>lease.
        if \<not> l_Ephemeral lease \<or> l_InstanceID lease \<noteq> inst \<or> l_State lease \<noteq> ''active''
        then raise ErrCapabilityStale
        else attempt (store (GetEnvironment name)) (\<lambda>env.
        if e_RuntimeRef env \<noteq> l_RuntimeRef lease then raise ErrIncompatibleState
        else if \<not> sv_stream s then raise ErrUnsupported
        else Ask (ExecEnvironmentStream (e_RuntimeRef env) request Done)))))"

definition runningEnvironment :: "Service \<Rightarrow> string \<Rightarrow> (goerr + Environment) prog" where
  "runningEnvironment s name =
     attempt (store (GetEnvironment name)) (\<lambda>env.
     attempt (store (GetWorkspaceLease name)) (\<lambda>lease.
     if l_Ephemeral lease \<or> \<not> ValidEnvironmentInstanceID (l_InstanceID lease) \<or> \<not> MatchesEnvironment lease env
     then raise ErrIncompatibleState
     else if \<not> sv_inspect s then raise ErrUnsupported
     else attempt (Ask (InspectEnvironment (e_RuntimeRef env) Done)) (\<lambda>status.
     if st_State status \<noteq> ''running'' then raise ErrIncompatibleState else ok env)))"

definition ExecStream ::
  "Service \<Rightarrow> string \<Rightarrow> ProcessRequest \<Rightarrow> bool \<Rightarrow> (goerr + ExecutionResult) prog" where
  "ExecStream s name request streams =
     (if \<not> streams then raise ErrInvalidArgument
      else case ValidateProcessRequest request of Some e \<Rightarrow> raise e | None \<Rightarrow>
      case ValidateEnvironmentName name of Some e \<Rightarrow> raise e | None \<Rightarrow>
      locked (env_lock name)
       (attempt (runningEnvironment s name) (\<lambda>env.
        if \<not> sv_stream s then raise ErrUnsupported
        else Ask (ExecEnvironmentStream (e_RuntimeRef env) request Done))))"

definition ExecUser :: "Service \<Rightarrow> string \<Rightarrow> ExecutionRequest \<Rightarrow> (goerr + ExecutionResult) prog" where
  "ExecUser s name request =
     (if ValidateEnvironmentName name \<noteq> None
         \<or> ValidateProcessRequest \<lparr>p_WorkingDirectory = [], p_Argv = x_Argv request, p_TTY = False\<rparr> \<noteq> None
         \<or> stdin_length request > MaxExecutionInputBytes then raise ErrInvalidArgument
      else locked (env_lock name)
       (attempt (runningEnvironment s name) (\<lambda>env.
        Ask (ExecEnvironment (e_RuntimeRef env) request Done))))"

section \<open>Client access (\<^verbatim>\<open>access.go\<close>)\<close>

text \<open>\<open>authorize\<close> is whether the caller passed an authorisation function.\<close>

definition access_ready :: "Environment \<Rightarrow> WorkspaceLease \<Rightarrow> bool" where
  "access_ready env lease \<longleftrightarrow> l_State lease = ''active'' \<and> MatchesEnvironment lease env
     \<and> l_Owner lease = e_Name env \<and> l_SnapshotSource lease = [] \<and> \<not> IsZero (l_AcquiredAt lease)
     \<and> \<not> IsZero (e_CreatedAt env) \<and> \<not> instant (e_CreatedAt env) < instant (l_AcquiredAt lease)
     \<and> ValidEnvironmentInstanceID (l_InstanceID lease)"

definition access_expected :: "StreamTarget option \<Rightarrow> Environment \<Rightarrow> WorkspaceLease \<Rightarrow> bool" where
  "access_expected expected env lease = (case expected of None \<Rightarrow> True | Some t \<Rightarrow>
     StreamTarget_Valid t \<and> stream_Environment t = e_Name env \<and> stream_Instance t = l_InstanceID lease
     \<and> stream_Workspace t = w_ID (e_Workspace env) \<and> stream_AccessMode t = e_AccessMode env)"

definition WithClientAccess ::
  "Service \<Rightarrow> string \<Rightarrow> StreamTarget option \<Rightarrow> bool \<Rightarrow> bool \<Rightarrow> (goerr + unit) prog" where
  "WithClientAccess s name expected resume authorize =
     (case ValidateEnvironmentName name of Some e \<Rightarrow> raise e | None \<Rightarrow>
      locked (env_lock name)
       (attempt (checkLifecycleIdle name) (\<lambda>_.
        attempt (store (GetEnvironment name)) (\<lambda>env.
        bind (store (GetWorkspaceLease name)) (\<lambda>r. case r of
          Inl _ \<Rightarrow> raise ErrRecoveryRequired
        | Inr lease \<Rightarrow>
            if \<not> access_ready env lease then raise ErrRecoveryRequired
            else if \<not> access_expected expected env lease then raise ErrCapabilityStale
            else if \<not> (sv_verify s \<and> sv_inspect s) then raise ErrUnsupported
            else attempt (invoke (VerifyEnvironmentIdentity (e_RuntimeRef env) (l_InstanceID lease))) (\<lambda>_.
              attempt (if authorize then invoke (AuthorizeAccess env (l_InstanceID lease)) else ok ()) (\<lambda>_.
              attempt (Ask (InspectEnvironment (e_RuntimeRef env) Done)) (\<lambda>status.
              if st_Absent status then raise ErrRecoveryRequired
              else attempt
                (if st_State status = ''stopped'' \<and> resume
                 then attempt (startRuntimeWithLease s env lease) (\<lambda>_.
                   Ask (InspectEnvironment (e_RuntimeRef env) Done))
                 else ok status) (\<lambda>status.
                if st_State status \<noteq> ''running'' then raise ErrIncompatibleState
                else invoke (UseAccess env (l_InstanceID lease))))))))))) "

end
