(* ===== verification/ServiceLogic.thy ===== *)
theory ServiceLogic
  imports Transitions EnvironmentUse
begin

text \<open>
  A logic for the programs of the Environment service under interference.  The state the
  service shares with others is a \<open>view\<close>: the catalog and the runtimes that exist.  A program
  holds lifecycle locks; while it holds the lock of an Environment name, nobody else changes
  what the catalog and the runtime hold under that name, and while it holds the lock of a
  Workspace, nobody else adds a user of it (\<open>rely\<close>).  In return each of its own steps changes
  only what its locks cover (\<open>guar\<close>) and keeps the system's invariant \<open>good\<close>.  \<open>wp\<close> is the weakest
  precondition of a program for this contract: it quantifies over every interference, every
  fault of the store and every answer of the interfaces.
\<close>

section \<open>Runtimes and the contract of the runtime provider\<close>

record runtime =
  rt_Name :: string
  rt_Instance :: string
  rt_Path :: string
  rt_ReadOnly :: bool
  rt_Ref :: string

definition made :: "EnvironmentRuntimeSpec \<Rightarrow> string \<Rightarrow> runtime" where
  "made spec ref = \<lparr>rt_Name = rs_Name spec, rt_Instance = rs_InstanceID spec,
     rt_Path = rs_WorkspacePath spec, rt_ReadOnly = rs_ReadOnly spec, rt_Ref = ref\<rparr>"

definition made_for :: "EnvironmentRuntimeSpec \<Rightarrow> runtime set" where
  "made_for spec = {x. rt_Name x = rs_Name spec \<and> rt_Instance x = rs_InstanceID spec}"

text \<open>
  The contract of a creation.  It makes at most one runtime, and every reference that is not
  blank, in a receipt or in the result, is that runtime's.  An error after such a receipt leaves
  the runtime or not.  An error before any leaves none, unless it is \<^verbatim>\<open>ErrRecoveryRequired\<close>,
  which says that the outcome is unknown; so does a result with a blank reference.  A runtime may
  also be removed by others at any time.
\<close>

definition offered :: "receipts \<Rightarrow> string set" where
  "offered past = {ref \<in> (\<lambda>(created, _). er_Ref created) ` set past. TrimSpace ref \<noteq> []}"

definition may_exist :: "EnvironmentRuntimeSpec \<Rightarrow> receipts \<Rightarrow> runtime set \<Rightarrow> string \<Rightarrow> runtime set \<Rightarrow> bool" where
  "may_exist spec past L ref L' \<longleftrightarrow> offered past \<subseteq> {ref} \<and> L \<inter> made_for spec \<subseteq> {made spec ref}
     \<and> L' \<in> {L, insert (made spec ref) L}"

definition reports :: "EnvironmentRuntimeSpec \<Rightarrow> receipts \<Rightarrow> runtime set \<Rightarrow> string \<Rightarrow> runtime set \<Rightarrow> bool" where
  "reports spec past L ref L' = (if TrimSpace ref = [] then L' = L else may_exist spec past L ref L')"

definition uncertain :: "EnvironmentRuntimeSpec \<Rightarrow> receipts \<Rightarrow> runtime set \<Rightarrow> runtime set \<Rightarrow> bool" where
  "uncertain spec past L L' \<longleftrightarrow> L' = L \<or> (\<exists>ref. may_exist spec past L ref L')"

definition concludes ::
  "EnvironmentRuntimeSpec \<Rightarrow> receipts \<Rightarrow> runtime set \<Rightarrow> goerr + EnvironmentRuntime \<Rightarrow> runtime set \<Rightarrow> bool" where
  "concludes spec past L r L' = (case r of
     Inl e \<Rightarrow> L' = L \<or> L' = L - made_for spec
       \<or> (errors_Is e ErrRecoveryRequired \<or> offered past \<noteq> {}) \<and> uncertain spec past L L'
   | Inr created \<Rightarrow>
       if TrimSpace (er_Ref created) = [] then uncertain spec past L L'
       else reports spec past L (er_Ref created) L')"

definition without :: "string \<Rightarrow> runtime set \<Rightarrow> runtime set" where
  "without ref L = {x \<in> L. rt_Ref x \<noteq> ref}"

text \<open>The answers of the interfaces and what they do to the runtimes.  A deletion that reports
  success or only absence leaves no runtime with the reference.\<close>

fun answered :: "'k question \<Rightarrow> runtime set \<Rightarrow> 'k \<Rightarrow> runtime set \<Rightarrow> bool" where
  "answered (Call (DeleteEnvironment ref) k) L p L' = (\<exists>r. p = k r \<and>
     (if EnvironmentDeletionComplete (failed r) then L' = without ref L else L' \<in> {L, without ref L}))"
| "answered (CreateRuntime src spec past k) L p L' =
     ((\<exists>created. p = k (Receipt created) \<and> reports spec past L (er_Ref created) L')
      \<or> (\<exists>r. p = k (Returned r) \<and> concludes spec past L r L'))"
| "answered (ConcludeRuntime src spec past k') L p L' = (\<exists>r. p = k' r \<and> concludes spec past L r L')"
| "answered q L p L' = (p \<in> set_question q \<and> L' = L)"

text \<open>What remains when the asking process stops before the answer.\<close>

fun abandoned :: "'k question \<Rightarrow> runtime set \<Rightarrow> runtime set \<Rightarrow> bool" where
  "abandoned (Call (DeleteEnvironment ref) k) L L' = (L' \<in> {L, without ref L})"
| "abandoned (CreateRuntime src spec past k) L L' = uncertain spec past L L'"
| "abandoned (ConcludeRuntime src spec past k') L L' = uncertain spec past L L'"
| "abandoned q L L' = (L' = L)"

lemma answered_map:
  "answered (map_question f q) L P L' \<longleftrightarrow> (\<exists>p. P = f p \<and> answered q L p L')"
proof (cases q)
  case (Call r k)
  then show ?thesis by (cases r) auto
qed auto

lemma answered_set: "answered q L p L' \<Longrightarrow> p \<in> set_question q"
proof (cases q)
  case (Call r k)
  then show "answered q L p L' \<Longrightarrow> ?thesis" by (cases r) (auto split: if_splits)
qed auto

lemma abandoned_map [simp]: "abandoned (map_question f q) L L' = abandoned q L L'"
proof (cases q)
  case (Call r k)
  then show ?thesis by (cases r) auto
qed auto

section \<open>Calls of the store\<close>

text \<open>A call of the store as its client sees it: an error leaves the catalog, and
  \<^verbatim>\<open>ErrNotFound\<close> is never the error of a fault.\<close>

definition performed ::
  "'k call \<Rightarrow> environmentFileState \<Rightarrow> error + 'k \<Rightarrow> environmentFileState \<Rightarrow> bool" where
  "performed c d r d' = (case r of
     Inl e \<Rightarrow> d' = d \<and> (e = ErrNotFound \<longrightarrow> effect c d = Inl ErrNotFound)
   | Inr k \<Rightarrow> \<exists>dirty d1. effect c d = Inr (dirty, d1, k) \<and> checked d \<and> d' = (if dirty then stamp d1 else d))"

lemma effect_map: "effect (map_call f c) d = map_sum id (map_prod id (map_prod id f)) (effect c d)"
  by (cases c) (simp_all add: sum.map_comp)

lemma effect_set: "effect c d = Inr (dirty, d1, k) \<Longrightarrow> k \<in> set_call c"
  by (cases c) (auto intro!: exI [of _ d] simp: sum_set_simps prod_set_simps)

lemma map_sum_Inl_E: "Inl e = map_sum id f r \<Longrightarrow> (r = Inl e \<Longrightarrow> P) \<Longrightarrow> P"
  by (cases r) simp_all

lemma map_sum_Inr_E: "Inr p = map_sum id f r \<Longrightarrow> (\<And>k. r = Inr k \<Longrightarrow> p = f k \<Longrightarrow> P) \<Longrightarrow> P"
  by (cases r) simp_all

lemma effect_map_Inl: "effect (map_call f c) d = Inl e \<longleftrightarrow> effect c d = Inl e"
  by (cases "effect c d") (simp_all add: effect_map)

lemma effect_map_Inr:
  "effect (map_call f c) d = Inr (dirty, d1, p) \<longleftrightarrow> (\<exists>k. p = f k \<and> effect c d = Inr (dirty, d1, k))"
  by (cases "effect c d") (auto simp: effect_map)

lemma performed_map:
  "performed (map_call f c) d r d' \<longleftrightarrow> (\<exists>r'. r = map_sum id f r' \<and> performed c d r' d')"
proof (cases r)
  case (Inl e)
  have "(\<exists>r'. r = map_sum id f r' \<and> performed c d r' d') \<longleftrightarrow> performed c d (Inl e) d'"
    unfolding Inl by (auto elim!: map_sum_Inl_E intro: exI [of _ "Inl e"])
  then show ?thesis by (simp add: Inl performed_def effect_map_Inl)
next
  case (Inr p)
  have "(\<exists>r'. r = map_sum id f r' \<and> performed c d r' d') \<longleftrightarrow> (\<exists>k. p = f k \<and> performed c d (Inr k) d')"
    unfolding Inr by (auto elim!: map_sum_Inr_E intro: exI [of _ "Inr _"])
  then show ?thesis by (auto simp: Inr performed_def effect_map_Inr)
qed

lemma forget_map [simp]: "forget (map_call f c) = forget c"
  by (cases c) (auto simp: forget_change_def fun_eq_iff split: sum.splits)

section \<open>Views, interference and the invariant\<close>

record view =
  v_cat :: environmentFileState
  v_live :: "runtime set"

abbreviation lease_of :: "view \<Rightarrow> string \<Rightarrow> WorkspaceLease option" where
  "lease_of v n \<equiv> fmlookup (Leases (v_cat v)) n"

abbreviation env_of :: "view \<Rightarrow> string \<Rightarrow> Environment option" where
  "env_of v n \<equiv> fmlookup (Environments (v_cat v)) n"

definition live_of :: "view \<Rightarrow> string \<Rightarrow> runtime set" where
  "live_of v n = {x \<in> v_live v. rt_Name x = n}"

text \<open>The names whose lease is on a Workspace.\<close>

definition users :: "view \<Rightarrow> string \<Rightarrow> string set" where
  "users v i = {n. \<exists>l. lease_of v n = Some l \<and> l_WorkspaceID l = i}"

text \<open>A lease that predates instance identities may get one at any time, and a runtime may go.\<close>

definition lease_kept :: "WorkspaceLease option \<Rightarrow> WorkspaceLease option \<Rightarrow> bool" where
  "lease_kept a b \<longleftrightarrow> b = a \<or> (\<exists>l i. a = Some l \<and> l_InstanceID l = [] \<and> b = Some (l\<lparr>l_InstanceID := i\<rparr>))"

definition kept :: "string \<Rightarrow> view \<Rightarrow> view \<Rightarrow> bool" where
  "kept n v v' \<longleftrightarrow> lease_kept (lease_of v n) (lease_of v' n) \<and> env_of v' n = env_of v n \<and> live_of v' n \<subseteq> live_of v n"

definition rely :: "lock_key set \<Rightarrow> view \<Rightarrow> view \<Rightarrow> bool" where
  "rely H v v' \<longleftrightarrow> (\<forall>n. env_lock n \<in> H \<longrightarrow> kept n v v') \<and> (\<forall>i. work_lock i \<in> H \<longrightarrow> users v' i \<subseteq> users v i)"

definition guar :: "lock_key set \<Rightarrow> view \<Rightarrow> view \<Rightarrow> bool" where
  "guar H v v' \<longleftrightarrow> (\<forall>n. env_lock n \<notin> H \<longrightarrow> kept n v v') \<and> (\<forall>i. work_lock i \<notin> H \<longrightarrow> users v' i \<subseteq> users v i)"

text \<open>
  A runtime is covered by the lease of its name: the lease stands for the same creation, the
  same Workspace path and mode, names no other runtime, and does not say that the runtime is
  absent.  The invariant: the ledger is in order, every runtime is covered, and a name has at
  most one.
\<close>

definition fits :: "runtime \<Rightarrow> WorkspaceLease \<Rightarrow> bool" where
  "fits x l \<longleftrightarrow> l_InstanceID l \<noteq> [] \<and> rt_Instance x = l_InstanceID l \<and> rt_Path x = l_SourcePath l
     \<and> rt_ReadOnly x = (l_AccessMode l = ''ro'') \<and> (l_RuntimeRef l \<noteq> [] \<longrightarrow> rt_Ref x = l_RuntimeRef l)
     \<and> \<not> l_RuntimeAbsent l"

definition covered :: "view \<Rightarrow> string \<Rightarrow> bool" where
  "covered v n \<longleftrightarrow> (\<forall>x\<in>live_of v n. (\<exists>l. lease_of v n = Some l \<and> fits x l) \<and> live_of v n = {x})"

definition good :: "view \<Rightarrow> bool" where
  "good v \<longleftrightarrow> ledger_ok (ledger_of (v_cat v)) \<and> (\<forall>n. covered v n)"

lemma kept_refl [simp]: "kept n v v"
  by (simp add: kept_def lease_kept_def)

lemma kept_trans: "kept n u v \<Longrightarrow> kept n v w \<Longrightarrow> kept n u w"
  by (auto simp: kept_def lease_kept_def) (metis WorkspaceLease.select_convs WorkspaceLease.surjective WorkspaceLease.update_convs)

lemma rely_refl [simp]: "rely H v v"
  by (simp add: rely_def)

lemma rely_trans: "rely H u v \<Longrightarrow> rely H v w \<Longrightarrow> rely H u w"
  unfolding rely_def by (meson kept_trans subset_trans)

lemma guar_refl [simp]: "guar H v v"
  by (simp add: guar_def)

lemma rely_mono: "rely H v v' \<Longrightarrow> H' \<subseteq> H \<Longrightarrow> rely H' v v'"
  by (auto simp: rely_def)

text \<open>What one process guarantees is what another one with other locks relies on.\<close>

lemma guar_rely: "guar H v v' \<Longrightarrow> H \<inter> H' = {} \<Longrightarrow> rely H' v v'"
  by (auto simp: rely_def guar_def)

lemma kept_covered: "kept n v v' \<Longrightarrow> covered v n \<Longrightarrow> covered v' n"
  by (auto simp: kept_def lease_kept_def covered_def fits_def)

section \<open>The weakest precondition\<close>

text \<open>\<^verbatim>\<open>EnvironmentInstance\<close>: at most it gives a lease its identity, which it returns.\<close>

definition identified :: "Environment \<Rightarrow> view \<Rightarrow> error + string \<Rightarrow> view \<Rightarrow> bool" where
  "identified env v r v' \<longleftrightarrow> rely UNIV v v' \<and> (\<forall>i. r = Inr i \<longrightarrow>
     env_of v' (e_Name env) = Some env
     \<and> (\<exists>l. lease_of v' (e_Name env) = Some l \<and> l_InstanceID l = i))"

text \<open>A discipline says which questions may be asked, holding which locks, in which state.\<close>

type_synonym discipline = "unit question \<Rightarrow> lock_key set \<Rightarrow> view \<Rightarrow> bool"

abbreviation anonymous :: "'k question \<Rightarrow> unit question" where
  "anonymous \<equiv> map_question (\<lambda>_. ())"

primrec wp :: "'a prog \<Rightarrow> discipline \<Rightarrow> ('a \<Rightarrow> lock_key set \<Rightarrow> view \<Rightarrow> bool) \<Rightarrow> lock_key set \<Rightarrow> view \<Rightarrow> bool" where
  "wp (Done x) P Q = (\<lambda>H v. Q x H v)"
| "wp (Lock x k) P Q = (\<lambda>H v. \<forall>v1. rely H v v1 \<and> good v1 \<longrightarrow>
     (\<forall>e. wp (k (Inl e)) P Q H v1) \<and> (x \<notin> H \<longrightarrow> wp (k (Inr ())) P Q (insert x H) v1))"
| "wp (Unlock x p) P Q = (\<lambda>H v. \<forall>v1. rely H v v1 \<and> good v1 \<longrightarrow> wp p P Q (H - {x}) v1)"
| "wp (Stored k c) P Q = (\<lambda>H v. store_op (forget c) \<and> (\<forall>v1. rely H v v1 \<and> good v1 \<longrightarrow>
     (\<forall>r d'. performed (map_call (\<lambda>p. wp p P Q) c) (v_cat v1) r d' \<longrightarrow>
        guar H v1 (v1\<lparr>v_cat := d'\<rparr>) \<and> good (v1\<lparr>v_cat := d'\<rparr>) \<and>
        (case r of Inl e \<Rightarrow> wp (k e) P Q H (v1\<lparr>v_cat := d'\<rparr>) | Inr R \<Rightarrow> R H (v1\<lparr>v_cat := d'\<rparr>)))))"
| "wp (Identity env k) P Q = (\<lambda>H v. \<forall>v1. rely H v v1 \<and> good v1 \<longrightarrow>
     (\<forall>r v2. identified env v1 r v2 \<and> good v2 \<longrightarrow> wp (k r) P Q H v2))"
| "wp (Ask q) P Q = (\<lambda>H v. \<forall>v1. rely H v v1 \<and> good v1 \<longrightarrow> P (anonymous q) H v1 \<and>
     (\<forall>L. abandoned q (v_live v1) L \<longrightarrow> guar H v1 (v1\<lparr>v_live := L\<rparr>) \<and> good (v1\<lparr>v_live := L\<rparr>)) \<and>
     (\<forall>R L. answered (map_question (\<lambda>p. wp p P Q) q) (v_live v1) R L \<longrightarrow>
        guar H v1 (v1\<lparr>v_live := L\<rparr>) \<and> good (v1\<lparr>v_live := L\<rparr>) \<and> R H (v1\<lparr>v_live := L\<rparr>)))"

lemma anonymous_map [simp]: "anonymous (map_question f q) = anonymous q"
  by (simp add: question.map_comp comp_def)

text \<open>The two nested cases without the maps.\<close>

lemma wp_Stored:
  "wp (Stored k c) P Q H v \<longleftrightarrow> store_op (forget c) \<and> (\<forall>v1 r d'. rely H v v1 \<longrightarrow> good v1 \<longrightarrow>
     performed c (v_cat v1) r d' \<longrightarrow> guar H v1 (v1\<lparr>v_cat := d'\<rparr>) \<and> good (v1\<lparr>v_cat := d'\<rparr>) \<and>
     (case r of Inl e \<Rightarrow> wp (k e) P Q H (v1\<lparr>v_cat := d'\<rparr>) | Inr p \<Rightarrow> wp p P Q H (v1\<lparr>v_cat := d'\<rparr>)))"
proof -
  have performed_all: "(\<forall>r d'. performed (map_call (\<lambda>p. wp p P Q) c) d r d' \<longrightarrow> B r d')
      \<longleftrightarrow> (\<forall>r d'. performed c d r d' \<longrightarrow> B (map_sum id (\<lambda>p. wp p P Q) r) d')" for d B
    unfolding performed_map by blast
  have case_map: "(case map_sum id (\<lambda>p. wp p P Q) r of Inl e \<Rightarrow> f e | Inr R \<Rightarrow> R H w)
      \<longleftrightarrow> (case r of Inl e \<Rightarrow> f e | Inr p \<Rightarrow> wp p P Q H w)" for r f w
    by (cases r) simp_all
  show ?thesis unfolding wp.simps performed_all case_map by blast
qed

lemma wp_Ask:
  "wp (Ask q) P Q H v \<longleftrightarrow> (\<forall>v1. rely H v v1 \<longrightarrow> good v1 \<longrightarrow> P (anonymous q) H v1 \<and>
     (\<forall>L. abandoned q (v_live v1) L \<longrightarrow> guar H v1 (v1\<lparr>v_live := L\<rparr>) \<and> good (v1\<lparr>v_live := L\<rparr>)) \<and>
     (\<forall>p L. answered q (v_live v1) p L \<longrightarrow> guar H v1 (v1\<lparr>v_live := L\<rparr>) \<and> good (v1\<lparr>v_live := L\<rparr>) \<and>
        wp p P Q H (v1\<lparr>v_live := L\<rparr>)))"
proof -
  have answered_all: "(\<forall>R L'. answered (map_question (\<lambda>p. wp p P Q) q) L R L' \<longrightarrow> B R L')
      \<longleftrightarrow> (\<forall>p L'. answered q L p L' \<longrightarrow> B (wp p P Q) L')" for L B
    unfolding answered_map by blast
  show ?thesis unfolding wp.simps answered_all by blast
qed

lemmas wp_simps = wp.simps(1-3,5) wp_Stored wp_Ask

declare wp.simps [simp del]
declare wp.simps(1) [simp]

lemma wp_mono:
  assumes "wp p P Q H v" and Q: "\<And>x H v. Q x H v \<Longrightarrow> Q' x H v"
  shows "wp p P Q' H v"
  using assms(1)
proof (induction p arbitrary: H v)
  case (Stored k c)
  have step: "case r of Inl e \<Rightarrow> wp (k e) P Q' H w | Inr p \<Rightarrow> wp p P Q' H w"
    if "case r of Inl e \<Rightarrow> wp (k e) P Q H w | Inr p \<Rightarrow> wp p P Q H w" "performed c d r d'" for r H w d d'
    using that Stored.IH by (auto simp: performed_def split: sum.splits dest: effect_set)
  from Stored.prems show ?case unfolding wp_Stored by (blast intro: step)
next
  case (Ask q)
  from Ask.prems show ?case unfolding wp_Ask by (blast intro: Ask.IH answered_set)
qed (auto simp: wp_simps Q)

lemma wp_bind: "wp (bind p f) P Q = wp p P (\<lambda>x. wp (f x) P Q)"
proof (induction p)
  case (Stored k c)
  let ?b = "\<lambda>r H w. case r of Inl e \<Rightarrow> wp (k e) P (\<lambda>x. wp (f x) P Q) H w | Inr p \<Rightarrow> wp p P (\<lambda>x. wp (f x) P Q) H w"
  have performed_all: "(\<forall>v1 r d'. A v1 \<longrightarrow> B v1 \<longrightarrow> performed (map_call (\<lambda>p. bind p f) c) (v_cat v1) r d' \<longrightarrow> F v1 r d')
      \<longleftrightarrow> (\<forall>v1 r d'. A v1 \<longrightarrow> B v1 \<longrightarrow> performed c (v_cat v1) r d' \<longrightarrow> F v1 (map_sum id (\<lambda>p. bind p f) r) d')" for A B F
    unfolding performed_map by blast
  have same: "(case map_sum id (\<lambda>p. bind p f) r of Inl e \<Rightarrow> wp (bind (k e) f) P Q H w | Inr p \<Rightarrow> wp p P Q H w)
      = ?b r H w" if "performed c d r d'" for r H w d d'
    using that Stored.IH by (cases r) (auto simp: performed_def dest!: effect_set)
  show ?case
    unfolding bind.simps fun_eq_iff wp_Stored performed_all forget_map using same by blast
next
  case (Ask q)
  have answered_all: "(\<forall>R L'. answered (map_question (\<lambda>p. bind p f) q) L R L' \<longrightarrow> F R L')
      \<longleftrightarrow> (\<forall>p L'. answered q L p L' \<longrightarrow> F (bind p f) L')" for L F
    unfolding answered_map by blast
  show ?case
    unfolding bind.simps fun_eq_iff wp_Ask answered_all anonymous_map abandoned_map
    using Ask.IH answered_set [of q] by (auto simp: fun_eq_iff)
qed (auto simp: wp_simps fun_eq_iff)

text \<open>Interference before a program that makes a call changes nothing.\<close>

lemma wp_rely:
  assumes "wp p P (\<lambda>_ _ _. True) H v" "rely H v v'"
  shows "wp p P (\<lambda>_ _ _. True) H v'"
  using assms by (cases p) (auto simp: wp_simps intro: rely_trans dest: rely_trans)

end
