(* ===== verification/Spec2Isabelle.thy ===== *)
theory Spec2Isabelle
  imports Guarantees EdgeGuarantees NetworkGuarantees ServiceLogic
begin

text \<open>
  Verification of Hacocoon, a controller that runs agents in isolated Environments.

  \<^bold>\<open>The program.\<close>  The controller keeps a catalog of Environments, Workspace leases, persistent
  resources, resource generations, snapshots and Base assets in one JSON file
  (\<^verbatim>\<open>src/internal/state\<close>, over the types of \<^verbatim>\<open>src/internal/core\<close>).  An Environment reaches anything outside
  itself only through the capability service (\<^verbatim>\<open>src/internal/policy\<close>): a request is evaluated against the
  administrator's Policy file, answered by a human where the Policy says so (through the queue of
  \<^verbatim>\<open>policy/approvals\<close> and the joined review of \<^verbatim>\<open>policy/review\<close>), rechecked, executed by a provider, and
  recorded in an audit log.  Two providers guard the network: egress through the proxy
  (\<^verbatim>\<open>src/internal/network/egress\<close>, with the parsers of \<^verbatim>\<open>src/internal/adapters/network/proxy\<close>), and single
  connections through the relay (\<^verbatim>\<open>src/internal/network\<close>), which keeps sessions of its own and reads the
  Policy through \<^verbatim>\<open>policy/configuration_linux.go\<close>.

  \<^bold>\<open>The library.\<close>  Each theory opens with what it holds.
  \<^item> Foundations: \<open>Prelude\<close> (errors, early returns, Go maps as finite maps, loops that stop at an error) and
    \<open>GoText\<close> (UTF-8, \<^verbatim>\<open>strings\<close>, hexadecimal); \<open>GoNet\<close> and \<open>GoAddr\<close> (\<^verbatim>\<open>strconv\<close>, \<^verbatim>\<open>net/netip\<close>: address classes, text
    of addresses and its parsing, and that printing and parsing are inverse).
  \<^item> The catalog: \<open>Core\<close> (\<^verbatim>\<open>core/*.go\<close>), \<open>Catalog\<close> (the state and its validators), \<open>Store\<close>
    (\<^verbatim>\<open>environment_jsonstore.go\<close>, \<^verbatim>\<open>catalog_transaction.go\<close>, \<^verbatim>\<open>environment_migration.go\<close>: a call reads, changes,
    validates and atomically replaces the file, and may fail at every step), \<open>Lifecycle\<close>, \<open>Resources\<close> and
    \<open>Snapshots\<close> (one definition per store method).  \<open>Reachable\<close> is the transition system of all calls under all
    faults.  \<open>Evolution\<close>, \<open>Ledger\<close>, \<open>Refinement\<close>, \<open>Invariants\<close> and \<open>Transitions\<close> prove the state machines of records,
    the abstract ledger of leases and that every call refines it, and the validity of what is stored.
    \<open>Examples\<close> has concrete catalogs; \<open>Guarantees\<close> states C1 to C12.
  \<^item> The capability boundary: \<open>PolicyRules\<close> (\<^verbatim>\<open>policy.go\<close>, \<^verbatim>\<open>saved_*.go\<close>, \<^verbatim>\<open>network_service.go\<close>), \<open>CapabilityService\<close>
    (\<^verbatim>\<open>service.go\<close>, \<^verbatim>\<open>decision.go\<close>, \<^verbatim>\<open>audit.go\<close>, \<^verbatim>\<open>local.go\<close>: a request over an arbitrary world, with the interfaces as
    records of functions and a trace of what they did), \<open>ApprovalQueue\<close>, \<open>Egress\<close>, \<open>ClientHello\<close>.
    \<open>CapabilityHost\<close> has the interface \<open>request_relation\<close>, a locale for relations every interface of a service
    respects, interpreted on the service the controller builds.  \<open>AuthorityExamples\<close>, \<open>AuthorityGuarantees\<close>
    (C13 to C26) and \<open>EdgeGuarantees\<close> (C27 to C32).
  \<^item> The relay: \<open>NetworkAuthority\<close> (\<^verbatim>\<open>model.go\<close>, \<^verbatim>\<open>authority.go\<close>), \<open>NetworkRelay\<close> (\<^verbatim>\<open>service.go\<close> as a transition system: the
    segments of \<^verbatim>\<open>Open\<close> and \<^verbatim>\<open>finish\<close> between two interface calls or two holdings of the mutex, interleaved with
    the monitor, the end of the context, revocation and the other sessions), \<open>NetworkSessions\<close> and
    \<open>NetworkInvariant\<close> (the invariants and the progress measure), \<open>PolicyConfiguration\<close> and \<open>NetworkTargets\<close>
    (\<^verbatim>\<open>configured.go\<close>, \<^verbatim>\<open>rules.go\<close>), \<open>Datagrams\<close> (the framing of \<^verbatim>\<open>http.go\<close>), \<open>NetworkExamples\<close> and
    \<open>NetworkGuarantees\<close> (C33 to C40).

  \<^bold>\<open>What is shown.\<close>  C1 to C12: Workspaces and persistent resources are never shared, leases and Environments
  agree, every call refines the ledger, failed calls change nothing, what is stored is valid and read back,
  and the life of resources, snapshots, generations and Base assets.  C13 to C26: nothing executes without
  evaluation, approval, recheck and audit; an administrator's deny is final; what a saved choice matches;
  the bounds and single answers of the queue.  C27 to C32: egress grants, canonical names, the parsers.
  C33 to C40: the relay, from the request of a connection to the end of its session.

  \<^bold>\<open>Bounds and fuel.\<close>  No definition has fuel.  Loops are structural recursion, \<open>forE\<close> over a slice, or a
  \<^theory_text>\<open>function\<close> with a measure (\<open>read_records\<close>, \<open>write_frame\<close>).  The numbers in the statements (128, 16 and 1024 sessions,
  32 addresses, 48 steps) are those of the code, or follow from them.

  \<^bold>\<open>Assumptions.\<close>  A JSON file is its decoded content; encoding and decoding are inverse on the types stored, and
  a catalog holds valid UTF-8.  Random identifiers are arguments; where the code relies on two of them
  differing the step says so.  The order in which Go ranges over a map is an argument that lists every key
  once.  The flock(2) around a store call and the mutex of a service make what they hold one step.  Hashes
  (\<^verbatim>\<open>policyRevision\<close>, the revision of a session) are arguments.  Nil and empty slices are identified.  Times are
  instants.

  \<^bold>\<open>Not modelled.\<close>  Drivers of external services and processes (\<^verbatim>\<open>adapters/aws\<close>, \<^verbatim>\<open>git\<close>, \<^verbatim>\<open>incus\<close>, \<^verbatim>\<open>oci\<close>, \<^verbatim>\<open>packer\<close>) and of
  sockets (\<^verbatim>\<open>adapters/network/dns\<close>, the HTTP endpoints, the copying of streams): their effects are outside the
  program.  The orchestration of Environments, Workspaces, storage, Base images and Git over the catalog
  and those drivers; the controller's wiring and API; command lines, clients, terminals and tools.  The
  catalog and the capability boundary are modelled for every caller, so the guarantees above do not depend
  on what these parts do.
\<close>

end
